(* ===== verification/RustStr.thy ===== *)
theory RustStr
  imports Prelude
begin

text \<open>
  The string operations of Rust's standard library that the program uses. A string is the list
  of its UTF-8 bytes, so \<open>length\<close> is \<open>str::len\<close>. White space is Unicode white space, read off
  its UTF-8 encodings; number parsing follows \<open>FromStr\<close> and \<open>from_str_radix\<close>, signs
  and overflow included.
\<close>

type_synonym str = string

section \<open>White space\<close>

text \<open>One character of the Unicode property \<open>White_Space\<close>, as \<open>char::is_whitespace\<close>.\<close>

definition is_ws :: "str \<Rightarrow> bool" where
  "is_ws c = (c \<in> set
    [[CHR 0x09], [CHR 0x0A], [CHR 0x0B], [CHR 0x0C], [CHR 0x0D], [CHR 0x20],
     [CHR 0xC2, CHR 0x85], [CHR 0xC2, CHR 0xA0], [CHR 0xE1, CHR 0x9A, CHR 0x80],
     [CHR 0xE2, CHR 0x80, CHR 0x80], [CHR 0xE2, CHR 0x80, CHR 0x81],
     [CHR 0xE2, CHR 0x80, CHR 0x82], [CHR 0xE2, CHR 0x80, CHR 0x83],
     [CHR 0xE2, CHR 0x80, CHR 0x84], [CHR 0xE2, CHR 0x80, CHR 0x85],
     [CHR 0xE2, CHR 0x80, CHR 0x86], [CHR 0xE2, CHR 0x80, CHR 0x87],
     [CHR 0xE2, CHR 0x80, CHR 0x88], [CHR 0xE2, CHR 0x80, CHR 0x89],
     [CHR 0xE2, CHR 0x80, CHR 0x8A], [CHR 0xE2, CHR 0x80, CHR 0xA8],
     [CHR 0xE2, CHR 0x80, CHR 0xA9], [CHR 0xE2, CHR 0x80, CHR 0xAF],
     [CHR 0xE2, CHR 0x81, CHR 0x9F], [CHR 0xE3, CHR 0x80, CHR 0x80]])"

text \<open>The length in bytes of the white space at the head (at the end, of the reversal); 0 if none.\<close>

definition ws_len :: "str \<Rightarrow> nat" where
  "ws_len s = (if is_ws (take 1 s) then 1 else if is_ws (take 2 s) then 2
               else if is_ws (take 3 s) then 3 else 0)"

definition ws_len_rev :: "str \<Rightarrow> nat" where
  "ws_len_rev r = (if is_ws (rev (take 1 r)) then 1 else if is_ws (rev (take 2 r)) then 2
                   else if is_ws (rev (take 3 r)) then 3 else 0)"

lemma is_ws_Nil [simp]: "\<not> is_ws []"
  by (simp add: is_ws_def)

lemma ws_len_Nil [simp]: "ws_len [] = 0" "ws_len_rev [] = 0"
  by (simp_all add: ws_len_def ws_len_rev_def)

function trim_start :: "str \<Rightarrow> str" where
  "trim_start s = (if ws_len s = 0 then s else trim_start (drop (ws_len s) s))"
  by pat_completeness auto
termination
proof (relation "measure length", simp)
  fix s :: str
  assume "ws_len s \<noteq> 0"
  then have "s \<noteq> []" and "0 < ws_len s" by auto
  then show "(drop (ws_len s) s, s) \<in> measure length"
    by (cases s) auto
qed

function trim_rev :: "str \<Rightarrow> str" where
  "trim_rev r = (if ws_len_rev r = 0 then r else trim_rev (drop (ws_len_rev r) r))"
  by pat_completeness auto
termination
proof (relation "measure length", simp)
  fix s :: str
  assume "ws_len_rev s \<noteq> 0"
  then have "s \<noteq> []" and "0 < ws_len_rev s" by auto
  then show "(drop (ws_len_rev s) s, s) \<in> measure length"
    by (cases s) auto
qed

declare trim_start.simps [simp del] trim_rev.simps [simp del]

definition trim_end :: "str \<Rightarrow> str" where
  "trim_end s = rev (trim_rev (rev s))"

definition trim :: "str \<Rightarrow> str" where
  "trim s = trim_end (trim_start s)"

lemma trim_rev_fixed: "ws_len_rev (trim_rev r) = 0"
proof (induction r rule: trim_rev.induct)
  case (1 r)
  then show ?case
    by (cases "ws_len_rev r = 0") (simp_all add: trim_rev.simps [of r])
qed

lemma trim_rev_idem: "trim_rev (trim_rev r) = trim_rev r"
  by (simp add: trim_rev.simps [of "trim_rev r"] trim_rev_fixed)

lemma trim_start_suffix: "\<exists>p. s = p @ trim_start s"
proof (induction s rule: trim_start.induct)
  case (1 s)
  show ?case
  proof (cases "ws_len s = 0")
    case True
    then show ?thesis by (simp add: trim_start.simps [of s])
  next
    case False
    with 1 obtain p where "drop (ws_len s) s = p @ trim_start (drop (ws_len s) s)" by blast
    with False have "s = (take (ws_len s) s @ p) @ trim_start s"
      by (metis append_assoc append_take_drop_id trim_start.simps)
    then show ?thesis by blast
  qed
qed

lemma trim_rev_suffix: "\<exists>p. r = p @ trim_rev r"
proof (induction r rule: trim_rev.induct)
  case (1 r)
  show ?case
  proof (cases "ws_len_rev r = 0")
    case True
    then show ?thesis by (simp add: trim_rev.simps [of r])
  next
    case False
    with 1 obtain p where "drop (ws_len_rev r) r = p @ trim_rev (drop (ws_len_rev r) r)" by blast
    with False have "r = (take (ws_len_rev r) r @ p) @ trim_rev r"
      by (metis append_assoc append_take_drop_id trim_rev.simps)
    then show ?thesis by blast
  qed
qed

lemma trim_end_prefix: "\<exists>p. s = trim_end s @ p"
proof -
  obtain p where "rev s = p @ trim_rev (rev s)" using trim_rev_suffix by blast
  then have "s = trim_end s @ rev p"
    by (metis rev_append rev_rev_ident trim_end_def)
  then show ?thesis by blast
qed

lemma trim_length: "length (trim s) \<le> length s"
proof -
  obtain p where p: "s = p @ trim_start s" using trim_start_suffix by blast
  obtain q where q: "trim_start s = trim s @ q" using trim_end_prefix unfolding trim_def by blast
  have "length s = length p + length (trim_start s)" using p by (metis length_append)
  moreover have "length (trim_start s) = length (trim s) + length q" using q by (metis length_append)
  ultimately show ?thesis by simp
qed

text \<open>\<open>split_whitespace\<close>: the maximal runs without white space.\<close>

function split_ws :: "str \<Rightarrow> str \<Rightarrow> str list" where
  "split_ws acc s =
     (if s = [] then (if acc = [] then [] else [rev acc])
      else if ws_len s = 0 then split_ws (hd s # acc) (tl s)
      else if acc = [] then split_ws [] (drop (ws_len s) s)
      else rev acc # split_ws [] (drop (ws_len s) s))"
  by pat_completeness auto
termination
  by (relation "measure (\<lambda>(acc, s). length s)") (auto simp: neq_Nil_conv)

declare split_ws.simps [simp del]

definition split_whitespace :: "str \<Rightarrow> str list" where
  "split_whitespace s = split_ws [] s"

lemma split_ws_nonempty: "w \<in> set (split_ws acc s) \<Longrightarrow> w \<noteq> []"
proof (induction acc s rule: split_ws.induct)
  case (1 acc s)
  then show ?case
    by (subst (asm) split_ws.simps [of acc s]) (auto split: if_splits)
qed

section \<open>Searching and splitting\<close>

definition strip_prefix :: "str \<Rightarrow> str \<Rightarrow> str option" where
  "strip_prefix p s = (if take (length p) s = p then Some (drop (length p) s) else None)"

definition starts_with :: "str \<Rightarrow> str \<Rightarrow> bool" where
  "starts_with s p \<longleftrightarrow> take (length p) s = p"

text \<open>\<open>s.contains(t)\<close>\<close>

fun contains :: "str \<Rightarrow> str \<Rightarrow> bool" where
  "contains [] t = (t = [])"
| "contains (c # s) t = (starts_with (c # s) t \<or> contains s t)"

text \<open>\<open>split_once\<close> and \<open>rsplit_once\<close> at an ASCII character.\<close>

fun split_once :: "char \<Rightarrow> str \<Rightarrow> (str \<times> str) option" where
  "split_once c [] = None"
| "split_once c (a # s) =
     (if a = c then Some ([], s) else map_option (\<lambda>(x, y). (a # x, y)) (split_once c s))"

definition rsplit_once :: "char \<Rightarrow> str \<Rightarrow> (str \<times> str) option" where
  "rsplit_once c s = map_option (\<lambda>(x, y). (rev y, rev x)) (split_once c (rev s))"

text \<open>\<open>s.split(c)\<close>: always at least one piece.\<close>

fun split_at :: "char \<Rightarrow> str \<Rightarrow> str list" where
  "split_at c [] = [[]]"
| "split_at c (a # s) =
     (if a = c then [] # split_at c s
      else (case split_at c s of [] \<Rightarrow> [[a]] | p # ps \<Rightarrow> (a # p) # ps))"

lemma split_at_nonempty [simp]: "split_at c s \<noteq> []"
  by (induction s) (auto split: list.splits)

lemma split_once_Some: "split_once c s = Some (x, y) \<longleftrightarrow> s = x @ c # y \<and> c \<notin> set x"
proof (induction s arbitrary: x)
  case Nil
  then show ?case by simp
next
  case (Cons a s)
  show ?case
  proof (cases x)
    case Nil
    then show ?thesis by (auto)
  next
    case (Cons b x')
    then show ?thesis using Cons.IH [of x'] by auto
  qed
qed

lemma split_once_None: "split_once c s = None \<longleftrightarrow> c \<notin> set s"
  by (induction s) auto

lemma contains_iff: "contains s t \<longleftrightarrow> (\<exists>p q. s = p @ t @ q)"
proof (induction s)
  case Nil
  then show ?case by simp
next
  case (Cons c s)
  have sw: "starts_with (c # s) t \<longleftrightarrow> (\<exists>q. c # s = t @ q)"
    unfolding starts_with_def
    by (metis append_eq_conv_conj append_take_drop_id)
  show ?case
  proof
    assume "contains (c # s) t"
    then show "\<exists>p q. c # s = p @ t @ q"
      using sw Cons.IH by (metis append_Cons append_Nil contains.simps(2))
  next
    assume "\<exists>p q. c # s = p @ t @ q"
    then obtain p q where pq: "c # s = p @ t @ q" by blast
    show "contains (c # s) t"
    proof (cases p)
      case Nil
      with pq sw have "starts_with (c # s) t" by (metis append_Nil)
      then show ?thesis by simp
    next
      case (Cons a p')
      with pq Cons.IH have "contains s t" by auto
      then show ?thesis by simp
    qed
  qed
qed

text \<open>ASCII case folding.\<close>

definition ascii_lower :: "char \<Rightarrow> char" where
  "ascii_lower c = (let n = of_char c :: nat in if 65 \<le> n \<and> n \<le> 90 then char_of (n + 32) else c)"

definition eq_ignore_ascii_case :: "str \<Rightarrow> str \<Rightarrow> bool" where
  "eq_ignore_ascii_case s t \<longleftrightarrow> map ascii_lower s = map ascii_lower t"

definition is_ascii_digit :: "char \<Rightarrow> bool" where
  "is_ascii_digit c = (let n = of_char c :: nat in 48 \<le> n \<and> n \<le> 57)"

definition is_ascii_alphanumeric :: "char \<Rightarrow> bool" where
  "is_ascii_alphanumeric c =
     (let n = of_char c :: nat
      in 48 \<le> n \<and> n \<le> 57 \<or> 65 \<le> n \<and> n \<le> 90 \<or> 97 \<le> n \<and> n \<le> 122)"

section \<open>Numbers\<close>

text \<open>\<open>char::to_digit\<close>\<close>

definition to_digit :: "nat \<Rightarrow> char \<Rightarrow> nat option" where
  "to_digit radix c =
     (let n = of_char c :: nat;
          d = (if 48 \<le> n \<and> n \<le> 57 then Some (n - 48)
               else if 97 \<le> n \<and> n \<le> 122 then Some (n - 87)
               else if 65 \<le> n \<and> n \<le> 90 then Some (n - 55) else None)
      in case d of None \<Rightarrow> None | Some k \<Rightarrow> if k < radix then Some k else None)"

fun parse_digits :: "nat \<Rightarrow> nat \<Rightarrow> str \<Rightarrow> nat option" where
  "parse_digits radix acc [] = Some acc"
| "parse_digits radix acc (c # s) =
     (case to_digit radix c of None \<Rightarrow> None | Some d \<Rightarrow> parse_digits radix (acc * radix + d) s)"

text \<open>
  \<open>from_str_radix\<close> of an unsigned type with greatest value \<open>m\<close>: one leading plus sign is allowed,
  an empty digit sequence and an overflow are errors. \<open>str::parse\<close> is radix 10.
\<close>

definition strip_plus :: "str \<Rightarrow> str" where
  "strip_plus s = (case s of [] \<Rightarrow> [] | c # r \<Rightarrow> if c = CHR ''+'' then r else s)"

definition parse_uint_radix :: "nat \<Rightarrow> nat \<Rightarrow> str \<Rightarrow> nat option" where
  "parse_uint_radix radix m s =
     (let t = strip_plus s in
      if t = [] then None
      else case parse_digits radix 0 t of
             None \<Rightarrow> None | Some n \<Rightarrow> if n \<le> m then Some n else None)"

definition parse_u64 :: "str \<Rightarrow> nat option" where
  "parse_u64 s = parse_uint_radix 10 u64_max s"

definition parse_u32 :: "str \<Rightarrow> nat option" where
  "parse_u32 s = parse_uint_radix 10 4294967295 s"

definition parse_u8 :: "str \<Rightarrow> nat option" where
  "parse_u8 s = parse_uint_radix 10 255 s"

definition parse_i32 :: "str \<Rightarrow> int option" where
  "parse_i32 s =
     (case s of
        [] \<Rightarrow> None
      | c # r \<Rightarrow>
          (if c = CHR ''-''
           then (if r = [] then None
                 else case parse_digits 10 0 r of
                        None \<Rightarrow> None
                      | Some n \<Rightarrow> if n \<le> 2147483648 then Some (- int n) else None)
           else map_option int (parse_uint_radix 10 2147483647 s)))"

definition parse_bool_str :: "str \<Rightarrow> bool option" where
  "parse_bool_str s = (if s = ''true'' then Some True else if s = ''false'' then Some False else None)"

lemma parse_uint_radix_le: "parse_uint_radix radix m s = Some n \<Longrightarrow> n \<le> m"
  by (auto simp: parse_uint_radix_def Let_def split: if_splits option.splits)

lemma parse_i32_range: "parse_i32 s = Some n \<Longrightarrow> is_i32 n"
  by (auto simp: parse_i32_def is_i32_def split: list.splits if_splits option.splits
      dest!: parse_uint_radix_le)

text \<open>\<open>Display\<close> of an integer.\<close>

definition digit_char :: "nat \<Rightarrow> char" where
  "digit_char d = char_of (48 + d)"

fun show_nat :: "nat \<Rightarrow> str" where
  "show_nat n = (if n < 10 then [digit_char n] else show_nat (n div 10) @ [digit_char (n mod 10)])"

declare show_nat.simps [simp del]

definition show_int :: "int \<Rightarrow> str" where
  "show_int i = (if i < 0 then CHR ''-'' # show_nat (nat (- i)) else show_nat (nat i))"

lemma of_char_digit: "d < 10 \<Longrightarrow> (of_char (digit_char d) :: nat) = 48 + d"
  by (simp add: digit_char_def)

lemma to_digit_digit_char: "d < 10 \<Longrightarrow> to_digit 10 (digit_char d) = Some d"
  by (simp add: to_digit_def of_char_digit)

lemma parse_digits_append:
  "parse_digits radix acc (s @ t) =
     (case parse_digits radix acc s of None \<Rightarrow> None | Some n \<Rightarrow> parse_digits radix n t)"
  by (induction s arbitrary: acc) (auto split: option.splits)

lemma parse_digits_show: "parse_digits 10 0 (show_nat n) = Some n"
proof (induction n rule: show_nat.induct)
  case (1 n)
  then show ?case
    by (subst show_nat.simps) (simp add: to_digit_digit_char parse_digits_append)
qed

lemma parse_digits_digits: "parse_digits radix a s = Some n \<Longrightarrow> \<forall>c \<in> set s. to_digit radix c \<noteq> None"
  by (induction s arbitrary: a) (auto split: option.splits)

lemma show_nat_digits: "c \<in> set (show_nat n) \<Longrightarrow> to_digit 10 c \<noteq> None"
  using parse_digits_digits [OF parse_digits_show] by blast

lemma show_nat_ne: "show_nat n \<noteq> []"
  by (subst show_nat.simps) simp

lemma hd_show_nat: "\<exists>d < 10. hd (show_nat n) = digit_char d"
proof (induction n rule: show_nat.induct)
  case (1 n)
  show ?case
  proof (cases "n < 10")
    case True
    then show ?thesis by (subst show_nat.simps) auto
  next
    case False
    with 1 show ?thesis by (subst show_nat.simps) (simp add: show_nat_ne)
  qed
qed

lemma digit_char_not_sign: "d < 10 \<Longrightarrow> digit_char d \<noteq> CHR ''+'' \<and> digit_char d \<noteq> CHR ''-''"
proof -
  assume d: "d < 10"
  have n: "(of_char (digit_char d) :: nat) = 48 + d" using d by (rule of_char_digit)
  have "digit_char d \<noteq> CHR ''+''"
  proof
    assume "digit_char d = CHR ''+''"
    with n show False by simp
  qed
  moreover have "digit_char d \<noteq> CHR ''-''"
  proof
    assume "digit_char d = CHR ''-''"
    with n show False by simp
  qed
  ultimately show ?thesis ..
qed

text \<open>Printing and parsing are inverse wherever the value fits the type.\<close>

lemma parse_show_uint: "n \<le> m \<Longrightarrow> parse_uint_radix 10 m (show_nat n) = Some n"
proof -
  assume n: "n \<le> m"
  obtain d r where s: "show_nat n = digit_char d # r" and d: "d < 10"
    using hd_show_nat [of n] show_nat_ne [of n] by (metis list.collapse)
  have "strip_plus (show_nat n) = show_nat n"
    using d digit_char_not_sign by (simp add: strip_plus_def s)
  then show ?thesis
    using n by (simp add: parse_uint_radix_def show_nat_ne parse_digits_show)
qed

section \<open>Strings that trimming leaves alone\<close>

lemma trim_start_fixed: "ws_len (trim_start s) = 0"
proof (induction s rule: trim_start.induct)
  case (1 s)
  then show ?case
    by (cases "ws_len s = 0") (simp_all add: trim_start.simps [of s])
qed

lemma trim_start_id: "ws_len s = 0 \<Longrightarrow> trim_start s = s"
  by (simp add: trim_start.simps [of s])

lemma trim_end_id: "ws_len_rev (rev s) = 0 \<Longrightarrow> trim_end s = s"
  by (simp add: trim_end_def trim_rev.simps [of "rev s"])

lemma ws_len_0_iff: "ws_len s = 0 \<longleftrightarrow> (\<forall>k \<le> 3. \<not> is_ws (take k s))"
proof -
  have "(\<forall>k \<le> 3. Q k) \<longleftrightarrow> Q 0 \<and> Q 1 \<and> Q 2 \<and> Q (3::nat)" for Q
    by (auto simp: le_Suc_eq numeral_eq_Suc)
  from this [of "\<lambda>k. \<not> is_ws (take k s)"] show ?thesis
    by (auto simp: ws_len_def)
qed

lemma ws_len_prefix: "ws_len (p @ q) = 0 \<Longrightarrow> ws_len p = 0"
proof -
  assume h: "ws_len (p @ q) = 0"
  have "\<not> is_ws (take k p)" if "k \<le> 3" for k
  proof -
    have "take k p = take (min k (length p)) (p @ q)" by (simp add: min_def)
    moreover have "min k (length p) \<le> 3" using that by simp
    ultimately show ?thesis using h by (metis ws_len_0_iff)
  qed
  then show ?thesis by (simp add: ws_len_0_iff)
qed

lemma trim_idem: "trim (trim s) = trim s"
proof -
  obtain q where "trim_start s = trim s @ q"
    using trim_end_prefix [of "trim_start s"] unfolding trim_def by blast
  then have "ws_len (trim s) = 0"
    using trim_start_fixed [of s] ws_len_prefix by metis
  then have "trim (trim s) = trim_end (trim s)"
    by (simp add: trim_def trim_start_id)
  also have "\<dots> = trim s"
    by (simp add: trim_def trim_end_def trim_rev_idem)
  finally show ?thesis .
qed

text \<open>Graphic ASCII characters do not occur in any encoding of white space.\<close>

definition ascii_graphic :: "char \<Rightarrow> bool" where
  "ascii_graphic c = (let n = of_char c :: nat in 33 \<le> n \<and> n < 127)"

lemma is_ws_not_graphic: "is_ws w \<Longrightarrow> w \<noteq> [] \<and> (\<forall>c \<in> set w. \<not> ascii_graphic c)"
  unfolding is_ws_def by (auto simp: ascii_graphic_def)

lemma ws_len_graphic: "list_all ascii_graphic s \<Longrightarrow> ws_len s = 0 \<and> ws_len_rev s = 0"
proof -
  assume g: "list_all ascii_graphic s"
  have "\<not> is_ws w" if "set w \<subseteq> set s" for w
    using is_ws_not_graphic [of w] g that by (cases w) (auto simp: list_all_iff)
  then show ?thesis
    by (simp add: ws_len_def ws_len_rev_def set_take_subset)
qed

lemma trim_graphic: "list_all ascii_graphic s \<Longrightarrow> trim s = s"
proof -
  assume g: "list_all ascii_graphic s"
  then have "list_all ascii_graphic (rev s)" by (simp add: list_all_iff)
  with g show ?thesis
    by (simp add: trim_def trim_start_id trim_end_id ws_len_graphic)
qed

lemma ws_len_graphic_hd: "ascii_graphic x \<Longrightarrow> ws_len (x # s) = 0"
proof -
  assume "ascii_graphic x"
  then have "\<not> is_ws (x # t)" for t using is_ws_not_graphic [of "x # t"] by auto
  then show ?thesis by (simp add: ws_len_def numeral_2_eq_2 numeral_3_eq_3)
qed

text \<open>A word of graphic characters that a blank ends.\<close>

lemma split_ws_word:
  "list_all ascii_graphic w \<Longrightarrow> rev acc @ w \<noteq> [] \<Longrightarrow>
   split_ws acc (w @ CHR '' '' # r) = (rev acc @ w) # split_ws [] r"
proof (induction w arbitrary: acc)
  case Nil
  have "ws_len (CHR '' '' # r) = 1" by (simp add: ws_len_def is_ws_def)
  with Nil show ?case by (subst split_ws.simps) simp
next
  case (Cons x w)
  then have "ws_len (x # w @ CHR '' '' # r) = 0" by (intro ws_len_graphic_hd) simp
  with Cons show ?case by (subst split_ws.simps) simp
qed

lemma split_ws_blank: "split_ws [] (CHR '' '' # r) = split_ws [] r"
proof -
  have "ws_len (CHR '' '' # r) = 1" by (simp add: ws_len_def is_ws_def)
  then show ?thesis by (subst split_ws.simps) simp
qed

lemma trim_Nil [simp]: "trim [] = []"
  by (rule trim_graphic) simp

lemma to_digit_graphic: "to_digit radix c = Some d \<Longrightarrow> ascii_graphic c"
  by (auto simp: to_digit_def ascii_graphic_def Let_def split: if_splits option.splits)

lemma parse_digits_graphic: "parse_digits radix a s = Some n \<Longrightarrow> list_all ascii_graphic s"
  by (induction s arbitrary: a) (auto simp: to_digit_graphic split: option.splits)

lemma parse_uint_graphic:
  "parse_uint_radix radix m s = Some n \<Longrightarrow> list_all ascii_graphic s"
proof -
  assume "parse_uint_radix radix m s = Some n"
  then have "list_all ascii_graphic (strip_plus s)"
    by (auto simp: parse_uint_radix_def Let_def split: if_splits option.splits
        dest: parse_digits_graphic)
  then show ?thesis
    by (auto simp: strip_plus_def ascii_graphic_def split: list.splits if_splits)
qed

lemma parse_u64_trim: "parse_u64 s = Some n \<Longrightarrow> trim s = s"
  unfolding parse_u64_def by (rule trim_graphic, rule parse_uint_graphic)

lemma parse_bool_trim: "parse_bool_str s = Some b \<Longrightarrow> trim s = s"
  by (auto simp: parse_bool_str_def split: if_splits intro!: trim_graphic)
     (simp_all add: ascii_graphic_def)

section \<open>Lines\<close>

text \<open>
  \<open>str::lines\<close>: the text between newlines, without a carriage return before the newline; a final
  newline starts no further line.
\<close>

definition strip_cr :: "str \<Rightarrow> str" where
  "strip_cr s = (if s \<noteq> [] \<and> last s = CHR 0x0D then butlast s else s)"

definition lines :: "str \<Rightarrow> str list" where
  "lines s =
     (let parts = split_at (CHR 0x0A) s
      in map strip_cr (butlast parts) @ (if last parts = [] then [] else [last parts]))"

section \<open>Errors of the operating system\<close>

text \<open>\<open>io::Error\<close>: the kind the program distinguishes, and the text of any other.\<close>

datatype io_error = NotFound | OtherIo str

end
