(* ===== verification/F64.thy ===== *)
theory F64
  imports Complex_Main RustStr
begin

text \<open>
  IEEE-754 binary floating point, as far as the program uses it. A value is a number, an
  infinity (\<open>Inf True\<close> is the negative one) or NaN; the two zeros are one value, which no
  operation below distinguishes. Arithmetic computes the exact rational result and rounds it
  once, to nearest with ties to even, in the format of the type (53 bits for \<open>f64\<close>).
\<close>

section \<open>Values and rounding\<close>

datatype f64 = NaN | Inf bool | Fin rat

type_synonym f32 = f64 \<comment> \<open>the \<open>f32\<close> values the program compares are a subset\<close>

definition pow2 :: "int \<Rightarrow> rat" where
  "pow2 e = (if 0 \<le> e then 2 ^ nat e else 1 / 2 ^ nat (- e))"

text \<open>The number of binary digits.\<close>

function nbits :: "int \<Rightarrow> int" where
  "nbits n = (if n \<le> 0 then 0 else 1 + nbits (n div 2))"
  by pat_completeness auto
termination
  by (relation "measure nat") auto

declare nbits.simps [simp del]

text \<open>The binary exponent of a positive rational.\<close>

definition ilog2 :: "rat \<Rightarrow> int" where
  "ilog2 q =
     (let (a, b) = quotient_of q; e = nbits a - nbits b
      in if pow2 e \<le> q then e else e - 1)"

definition round_half_even :: "rat \<Rightarrow> int" where
  "round_half_even r =
     (let f = \<lfloor>r\<rfloor>; d = r - of_int f
      in if d < 1 / 2 then f else if 1 / 2 < d then f + 1 else if even f then f else f + 1)"

text \<open>
  Rounding to a format of \<open>p\<close> bits with least exponent \<open>emin\<close> and values below \<open>2 ^ emax\<close>.
\<close>

definition rnd_to :: "int \<Rightarrow> int \<Rightarrow> int \<Rightarrow> rat \<Rightarrow> f64" where
  "rnd_to p emin emax q =
     (if q = 0 then Fin 0
      else let e = max (ilog2 \<bar>q\<bar>) emin;
               u = pow2 (e - (p - 1));
               v = of_int (round_half_even (q / u)) * u
           in if pow2 emax \<le> \<bar>v\<bar> then Inf (q < 0) else Fin v)"

definition rnd :: "rat \<Rightarrow> f64" where
  "rnd q = rnd_to 53 (- 1022) 1024 q"

definition rnd32 :: "rat \<Rightarrow> f32" where
  "rnd32 q = rnd_to 24 (- 126) 128 q"

section \<open>Operations\<close>

definition f64_of_int :: "int \<Rightarrow> f64" where
  "f64_of_int n = rnd (of_int n)"

fun f64_neg :: "f64 \<Rightarrow> f64" where
  "f64_neg NaN = NaN"
| "f64_neg (Inf b) = Inf (\<not> b)"
| "f64_neg (Fin q) = Fin (- q)"

fun f64_add :: "f64 \<Rightarrow> f64 \<Rightarrow> f64" where
  "f64_add NaN y = NaN"
| "f64_add x NaN = NaN"
| "f64_add (Inf a) (Inf b) = (if a = b then Inf a else NaN)"
| "f64_add (Inf a) (Fin y) = Inf a"
| "f64_add (Fin x) (Inf b) = Inf b"
| "f64_add (Fin x) (Fin y) = rnd (x + y)"

definition f64_sub :: "f64 \<Rightarrow> f64 \<Rightarrow> f64" where
  "f64_sub x y = f64_add x (f64_neg y)"

fun f64_mul :: "f64 \<Rightarrow> f64 \<Rightarrow> f64" where
  "f64_mul NaN y = NaN"
| "f64_mul x NaN = NaN"
| "f64_mul (Inf a) (Inf b) = Inf (a \<noteq> b)"
| "f64_mul (Inf a) (Fin y) = (if y = 0 then NaN else Inf (a \<noteq> (y < 0)))"
| "f64_mul (Fin x) (Inf b) = (if x = 0 then NaN else Inf (b \<noteq> (x < 0)))"
| "f64_mul (Fin x) (Fin y) = rnd (x * y)"

text \<open>Division; the sign of a zero divisor is positive wherever the program divides.\<close>

fun f64_div :: "f64 \<Rightarrow> f64 \<Rightarrow> f64" where
  "f64_div NaN y = NaN"
| "f64_div x NaN = NaN"
| "f64_div (Inf a) (Inf b) = NaN"
| "f64_div (Inf a) (Fin y) = Inf (a \<noteq> (y < 0))"
| "f64_div (Fin x) (Inf b) = Fin 0"
| "f64_div (Fin x) (Fin y) =
     (if y = 0 then (if x = 0 then NaN else Inf (x < 0)) else rnd (x / y))"

text \<open>\<open>x as f32\<close>\<close>

fun f64_to_f32 :: "f64 \<Rightarrow> f32" where
  "f64_to_f32 (Fin q) = rnd32 q"
| "f64_to_f32 x = x"

fun f64_le :: "f64 \<Rightarrow> f64 \<Rightarrow> bool" where
  "f64_le NaN y = False"
| "f64_le x NaN = False"
| "f64_le (Inf a) (Inf b) = (a \<or> \<not> b)"
| "f64_le (Inf a) (Fin y) = a"
| "f64_le (Fin x) (Inf b) = (\<not> b)"
| "f64_le (Fin x) (Fin y) = (x \<le> y)"

fun f64_lt :: "f64 \<Rightarrow> f64 \<Rightarrow> bool" where
  "f64_lt NaN y = False"
| "f64_lt x NaN = False"
| "f64_lt (Inf a) (Inf b) = (a \<and> \<not> b)"
| "f64_lt (Inf a) (Fin y) = a"
| "f64_lt (Fin x) (Inf b) = (\<not> b)"
| "f64_lt (Fin x) (Fin y) = (x < y)"

text \<open>\<open>f64::min\<close>, \<open>f64::max\<close>: the other operand when one is not a number.\<close>

definition f64_min :: "f64 \<Rightarrow> f64 \<Rightarrow> f64" where
  "f64_min x y = (if x = NaN then y else if y = NaN then x else if f64_lt y x then y else x)"

definition f64_max :: "f64 \<Rightarrow> f64 \<Rightarrow> f64" where
  "f64_max x y = (if x = NaN then y else if y = NaN then x else if f64_lt x y then y else x)"

text \<open>\<open>Duration::as_secs_f64\<close> of a number of nanoseconds.\<close>

definition as_secs_f64 :: "nat \<Rightarrow> f64" where
  "as_secs_f64 ns =
     f64_add (f64_of_int (int (ns div 1000000000)))
       (f64_div (f64_of_int (int (ns mod 1000000000))) (Fin 1000000000))"

fun is_finite :: "f64 \<Rightarrow> bool" where
  "is_finite (Fin q) = True"
| "is_finite _ = False"

text \<open>\<open>(lo..=hi).contains(&x)\<close> and \<open>f64::clamp\<close> (which lets a NaN through).\<close>

definition f64_between :: "f64 \<Rightarrow> f64 \<Rightarrow> f64 \<Rightarrow> bool" where
  "f64_between lo hi x \<longleftrightarrow> f64_le lo x \<and> f64_le x hi"

definition f64_clamp :: "f64 \<Rightarrow> f64 \<Rightarrow> f64 \<Rightarrow> f64" where
  "f64_clamp lo hi x = (if f64_lt x lo then lo else if f64_lt hi x then hi else x)"

text \<open>\<open>f64::round\<close>: to the nearest integer, halves away from zero.\<close>

definition round_away :: "rat \<Rightarrow> int" where
  "round_away q = (if 0 \<le> q then \<lfloor>q + 1 / 2\<rfloor> else - \<lfloor>- q + 1 / 2\<rfloor>)"

fun f64_round :: "f64 \<Rightarrow> f64" where
  "f64_round (Fin q) = Fin (of_int (round_away q))"
| "f64_round x = x"

text \<open>\<open>x as i32\<close>, \<open>x as i64\<close>: towards zero, saturating, NaN to 0.\<close>

definition trunc :: "rat \<Rightarrow> int" where
  "trunc q = (if 0 \<le> q then \<lfloor>q\<rfloor> else - \<lfloor>- q\<rfloor>)"

fun f64_to_int :: "int \<Rightarrow> int \<Rightarrow> f64 \<Rightarrow> int" where
  "f64_to_int lo hi NaN = 0"
| "f64_to_int lo hi (Inf b) = (if b then lo else hi)"
| "f64_to_int lo hi (Fin q) = clamp lo hi (trunc q)"

definition f64_to_i32 :: "f64 \<Rightarrow> int" where
  "f64_to_i32 x = f64_to_int (- 2147483648) 2147483647 x"

definition f64_to_i64 :: "f64 \<Rightarrow> int" where
  "f64_to_i64 x = f64_to_int (- 9223372036854775808) 9223372036854775807 x"

section \<open>\<open>str::parse::<f64>\<close>\<close>

definition pow10 :: "int \<Rightarrow> rat" where
  "pow10 e = (if 0 \<le> e then 10 ^ nat e else 1 / 10 ^ nat (- e))"

fun take_digits :: "str \<Rightarrow> str \<times> str" where
  "take_digits [] = ([], [])"
| "take_digits (c # s) =
     (if is_ascii_digit c then (let (d, r) = take_digits s in (c # d, r)) else ([], c # s))"

definition digits_val :: "str \<Rightarrow> nat" where
  "digits_val s = (case parse_digits 10 0 s of None \<Rightarrow> 0 | Some n \<Rightarrow> n)"

text \<open>The exponent part: \<open>e\<close> or \<open>E\<close>, an optional sign, at least one digit, then the end.\<close>

definition parse_exp :: "str \<Rightarrow> int option" where
  "parse_exp s =
     (case s of
        [] \<Rightarrow> Some 0
      | c # r \<Rightarrow>
          (if c = CHR ''e'' \<or> c = CHR ''E''
           then let (neg, t) = (case r of [] \<Rightarrow> (False, [])
                                | d # u \<Rightarrow> if d = CHR ''-'' then (True, u)
                                           else if d = CHR ''+'' then (False, u) else (False, r));
                    (ds, rest) = take_digits t
                in if ds = [] \<or> rest \<noteq> [] then None
                   else Some (if neg then - int (digits_val ds) else int (digits_val ds))
           else None))"

definition parse_decimal :: "str \<Rightarrow> rat option" where
  "parse_decimal s =
     (let (ip, r1) = take_digits s;
          (fp, r2) = (case r1 of [] \<Rightarrow> ([], [])
                      | c # t \<Rightarrow> if c = CHR ''.'' then take_digits t else ([], r1))
      in if ip = [] \<and> fp = [] then None
         else case parse_exp r2 of
                None \<Rightarrow> None
              | Some e \<Rightarrow> Some (of_nat (digits_val (ip @ fp)) * pow10 (e - int (length fp))))"

definition parse_f64 :: "str \<Rightarrow> f64 option" where
  "parse_f64 s =
     (let (neg, t) = (case s of [] \<Rightarrow> (False, [])
                      | c # r \<Rightarrow> if c = CHR ''-'' then (True, r)
                                 else if c = CHR ''+'' then (False, r) else (False, s));
          l = map ascii_lower t
      in if l = ''nan'' then Some NaN
         else if l = ''inf'' \<or> l = ''infinity'' then Some (Inf neg)
         else map_option (\<lambda>q. rnd (if neg then - q else q)) (parse_decimal t))"

section \<open>Facts\<close>

lemma f64_le_trans: "f64_le x y \<Longrightarrow> f64_le y z \<Longrightarrow> f64_le x z"
  by (cases x; cases y; cases z) auto

lemma f64_not_lt: "x \<noteq> NaN \<Longrightarrow> y \<noteq> NaN \<Longrightarrow> \<not> f64_lt x y \<Longrightarrow> f64_le y x"
  by (cases x; cases y) auto

lemma f64_le_refl: "x \<noteq> NaN \<Longrightarrow> f64_le x x"
  by (cases x) auto

lemma f64_clamp_between:
  assumes "f64_le lo hi" and "x \<noteq> NaN"
  shows "f64_between lo hi (f64_clamp lo hi x)"
proof -
  have "lo \<noteq> NaN" and "hi \<noteq> NaN" using assms(1) by (cases lo; cases hi; simp)+
  then show ?thesis
    using assms by (auto simp: f64_between_def f64_clamp_def intro: f64_le_refl f64_not_lt)
qed

lemma rnd_not_NaN: "rnd q \<noteq> NaN"
  by (simp add: rnd_def rnd_to_def Let_def)

lemma f64_add_finite_not_NaN: "is_finite x \<Longrightarrow> is_finite y \<Longrightarrow> f64_add x y \<noteq> NaN"
  by (cases x; cases y) (auto simp: rnd_not_NaN)

lemma f64_to_int_range: "lo \<le> 0 \<Longrightarrow> 0 \<le> hi \<Longrightarrow> lo \<le> f64_to_int lo hi x \<and> f64_to_int lo hi x \<le> hi"
  by (cases x) (auto simp: clamp_def)

lemma f64_to_i32_range: "is_i32 (f64_to_i32 x)"
  using f64_to_int_range [of "- 2147483648" 2147483647 x]
  by (simp add: is_i32_def f64_to_i32_def)

lemma f64_between_finite: "f64_between (Fin a) (Fin b) x \<Longrightarrow> \<exists>q. x = Fin q \<and> a \<le> q \<and> q \<le> b"
  by (cases x) (auto simp: f64_between_def)

text \<open>Rewriting a literal to the value the compiler stores for it.\<close>

lemma floor_numeral_frac: "\<lfloor>(numeral a :: rat) / numeral b\<rfloor> = numeral a div numeral b"
  using floor_divide_of_int_eq [of "numeral a" "numeral b", where 'a = rat] by simp

lemma quotient_literals:
  "quotient_of (1 / 2) = (1, 2)" "quotient_of (1 / 10) = (1, 10)" "quotient_of (9 / 10) = (9, 10)"
  "quotient_of (11 / 20) = (11, 20)" "quotient_of (3 / 10) = (3, 10)"
  "quotient_of (47 / 50) = (47, 50)"
  by code_simp+

lemmas rnd_eval =
  rnd_def rnd32_def rnd_to_def ilog2_def nbits.simps pow2_def round_half_even_def Let_def
  floor_numeral_frac quotient_literals

lemma rnd_tenths:
  "rnd (1 / 10) = Fin (3602879701896397 / 36028797018963968)"
  "rnd (9 / 10) = Fin (8106479329266893 / 9007199254740992)"
  "rnd (11 / 20) = Fin (4953959590107546 / 9007199254740992)"
  "rnd (1 / 2) = Fin (1 / 2)"
  by (simp_all add: rnd_eval)

end
