(* ===== verification/CoreLayout.thy ===== *)
theory CoreLayout
  imports F64 "HOL-Library.Product_Lexorder"
begin

text \<open>
  Layout mathematics of \<open>crates/core/src/lib.rs\<close>: rectangles, the geometry of a floating window,
  the master/stack tiling, and the choice of an advertised output mode. Coordinates are \<open>i32\<close>
  values; every arithmetic step wraps as the release build does, and the lemmas show that for
  areas of at most \<open>2 ^ 29\<close> pixels at most \<open>2 ^ 29\<close> away from the origin nothing wraps.
\<close>

section \<open>Rectangles\<close>

record rect =
  rx :: int
  ry :: int
  rw :: int
  rh :: int

definition rect_inside :: "rect \<Rightarrow> rect \<Rightarrow> bool" where
  "rect_inside a r \<longleftrightarrow>
     0 < rw r \<and> 0 < rh r \<and> rx a \<le> rx r \<and> ry a \<le> ry r
     \<and> rx r + rw r \<le> rx a + rw a \<and> ry r + rh r \<le> ry a + rh a"

definition rect_disjoint :: "rect \<Rightarrow> rect \<Rightarrow> bool" where
  "rect_disjoint p q \<longleftrightarrow>
     rx p + rw p \<le> rx q \<or> rx q + rw q \<le> rx p \<or> ry p + rh p \<le> ry q \<or> ry q + rh q \<le> ry p"

text \<open>An output area of realistic size: at most \<open>2 ^ 29\<close> pixels, at most that far out.\<close>

definition area_ok :: "rect \<Rightarrow> bool" where
  "area_ok a \<longleftrightarrow>
     \<bar>rx a\<bar> \<le> 536870912 \<and> \<bar>ry a\<bar> \<le> 536870912
     \<and> 1 \<le> rw a \<and> rw a \<le> 536870912 \<and> 1 \<le> rh a \<and> rh a \<le> 536870912"

section \<open>Floating windows\<close>

text \<open>\<open>Ord::clamp\<close> panics on an empty range.\<close>

definition clamp_checked :: "int \<Rightarrow> int \<Rightarrow> int \<Rightarrow> int option" where
  "clamp_checked lo hi x = (if lo \<le> hi then Some (clamp lo hi x) else None)"

definition floating_rect ::
  "rect \<Rightarrow> rect option \<Rightarrow> int option \<times> int option \<Rightarrow> rect option" where
  "floating_rect area saved requested =
     (let width = max (rw area) 1;
          height = max (rh area) 1;
          w = clamp 1 width
                (case saved of Some r \<Rightarrow> rw r
                 | None \<Rightarrow> (case fst requested of Some v \<Rightarrow> v | None \<Rightarrow> tdiv width 2));
          h = clamp 1 height
                (case saved of Some r \<Rightarrow> rh r
                 | None \<Rightarrow> (case snd requested of Some v \<Rightarrow> v | None \<Rightarrow> tdiv height 2));
          x = clamp_checked (rx area) (wrap32 (wrap32 (rx area + width) - w))
                (case saved of Some r \<Rightarrow> rx r
                 | None \<Rightarrow> wrap32 (rx area + tdiv (wrap32 (width - w)) 2));
          y = clamp_checked (ry area) (wrap32 (wrap32 (ry area + height) - h))
                (case saved of Some r \<Rightarrow> ry r
                 | None \<Rightarrow> wrap32 (ry area + tdiv (wrap32 (height - h)) 2))
      in case (x, y) of
           (Some x', Some y') \<Rightarrow> Some \<lparr>rx = x', ry = y', rw = w, rh = h\<rparr>
         | _ \<Rightarrow> None)"

section \<open>Tiling\<close>

text \<open>The outer gap, reduced before it can exhaust the stack.\<close>

definition tile_gap :: "rect \<Rightarrow> nat \<Rightarrow> int \<Rightarrow> bool \<Rightarrow> int" where
  "tile_gap area count gap monocle =
     (let g = min (max gap 0) (tdiv (max (wrap32 (min (rw area) (rh area) - 1)) 0) 2)
      in if 1 < count \<and> \<not> monocle \<and> int (count - 1) \<le> max (rh area) 0 \<and> 2 \<le> rw area
         then min (min g (tdiv (wrap32 (rh area - wrap32 (int (count - 1)))) 2))
                  (tdiv (wrap32 (rw area - 2)) 2)
         else g)"

definition tile_inner :: "rect \<Rightarrow> int \<Rightarrow> rect" where
  "tile_inner area g =
     \<lparr>rx = wrap32 (rx area + g), ry = wrap32 (ry area + g),
      rw = max (wrap32 (rw area - wrap32 (2 * g))) 1,
      rh = max (wrap32 (rh area - wrap32 (2 * g))) 1\<rparr>"

text \<open>The width of the master column, from the ratio in \<open>f64\<close>.\<close>

definition master_width :: "int \<Rightarrow> f64 \<Rightarrow> int" where
  "master_width available ratio =
     clamp 1 (wrap32 (available - 1))
       (f64_to_i32 (f64_round
          (f64_mul (f64_of_int available) (f64_clamp (rnd (1 / 10)) (rnd (9 / 10)) ratio))))"

text \<open>The loop over the stack cells: \<open>k\<close> cells are left, the next one has index \<open>i\<close> and top \<open>y\<close>.\<close>

fun stack_cells ::
  "int \<Rightarrow> int \<Rightarrow> int \<Rightarrow> int \<Rightarrow> int \<Rightarrow> nat \<Rightarrow> int \<Rightarrow> int \<Rightarrow> rect list" where
  "stack_cells x w sg usable n 0 i y = []"
| "stack_cells x w sg usable n (Suc k) i y =
     (let h = wrap32 (tdiv usable n + (if i < trem usable n then 1 else 0))
      in \<lparr>rx = x, ry = y, rw = w, rh = h\<rparr>
         # stack_cells x w sg usable n k (i + 1) (wrap32 (y + wrap32 (h + sg))))"

definition tile :: "rect \<Rightarrow> nat \<Rightarrow> int \<Rightarrow> f64 \<Rightarrow> bool \<Rightarrow> rect list" where
  "tile area count gap ratio monocle =
     (if count = 0 then []
      else
        (let g = tile_gap area count gap monocle;
             a = tile_inner area g
         in if count = 1 \<or> monocle \<or> rw a < 2 \<or> rh a < int (count - 1)
            then replicate count a
            else
              (let split_gap = min g (max (wrap32 (rw a - 2)) 0);
                   available = max (wrap32 (rw a - split_gap)) 2;
                   mw = master_width available ratio;
                   n = wrap32 (int (count - 1));
                   sg = min g (max (tdiv (wrap32 (rh a - n)) (max (wrap32 (n - 1)) 1)) 0);
                   usable = max (wrap32 (rh a - wrap32 (sg * wrap32 (n - 1)))) n
               in a\<lparr>rw := mw\<rparr>
                  # stack_cells (wrap32 (wrap32 (rx a + mw) + split_gap))
                      (max (wrap32 (wrap32 (rw a - mw) - split_gap)) 1)
                      sg usable n (nat n) 0 (ry a))))"

section \<open>Output modes\<close>

text \<open>An advertised mode: width, height, refresh rate in millihertz, preferred.\<close>

type_synonym mode = "int \<times> int \<times> int \<times> bool"

record output_config =
  oc_scale :: f64
  oc_transform :: str
  oc_x :: int
  oc_y :: int
  oc_width :: int
  oc_height :: int
  oc_hz :: f64
  oc_refresh :: int
  oc_vrr :: bool
  oc_hdr :: bool

definition output_config_default :: output_config where
  "output_config_default =
     \<lparr>oc_scale = Fin 1, oc_transform = ''normal'', oc_x = 0, oc_y = 0, oc_width = 0,
      oc_height = 0, oc_hz = Fin 0, oc_refresh = 0, oc_vrr = False, oc_hdr = False\<rparr>"

definition output_refresh_millihz :: "output_config \<Rightarrow> int" where
  "output_refresh_millihz config =
     (if f64_lt (Fin 0) (oc_hz config)
      then f64_to_i64 (f64_round (f64_mul (oc_hz config) (Fin 1000)))
      else oc_refresh config)"

text \<open>\<open>std::cmp::Reverse\<close>\<close>

datatype 'a reverse = Reverse (unreverse: 'a)

instantiation reverse :: (linorder) linorder
begin

definition less_eq_reverse :: "'a reverse \<Rightarrow> 'a reverse \<Rightarrow> bool" where
  "less_eq_reverse x y \<longleftrightarrow> unreverse y \<le> unreverse x"

definition less_reverse :: "'a reverse \<Rightarrow> 'a reverse \<Rightarrow> bool" where
  "less_reverse x y \<longleftrightarrow> unreverse y < unreverse x"

instance
  by standard (auto simp: less_eq_reverse_def less_reverse_def intro: reverse.expand)

end

definition mode_matches :: "output_config \<Rightarrow> mode \<Rightarrow> bool" where
  "mode_matches config m =
     (let requested = output_refresh_millihz config
      in case m of (w, h, refresh, _) \<Rightarrow>
           (oc_width config = 0 \<or> (w = oc_width config \<and> h = oc_height config))
           \<and> (requested = 0 \<or> wrap64 \<bar>wrap64 (refresh - requested)\<bar> \<le> 500))"

definition mode_key :: "output_config \<Rightarrow> nat \<times> mode \<Rightarrow> int \<times> bool \<times> int \<times> nat reverse" where
  "mode_key config im =
     (let requested = output_refresh_millihz config
      in case im of (index, (_, _, refresh, preferred)) \<Rightarrow>
           (if requested = 0 then 0 else wrap64 (- wrap64 \<bar>wrap64 (refresh - requested)\<bar>),
            preferred, refresh, Reverse index))"

definition select_output_mode :: "mode list \<Rightarrow> output_config \<Rightarrow> nat option" where
  "select_output_mode modes config =
     map_option fst
       (max_by_key (mode_key config)
         (filter (\<lambda>(_, m). mode_matches config m) (zip [0..<length modes] modes)))"

section \<open>The stack column in closed form\<close>

text \<open>Height and top of stack cell \<open>j\<close>, relative to the first cell.\<close>

definition cell_height :: "int \<Rightarrow> int \<Rightarrow> nat \<Rightarrow> int" where
  "cell_height usable n j = usable div n + (if int j < usable mod n then 1 else 0)"

definition cell_top :: "int \<Rightarrow> int \<Rightarrow> int \<Rightarrow> nat \<Rightarrow> int" where
  "cell_top usable n sg j = int j * (usable div n) + min (int j) (usable mod n) + int j * sg"

definition stack_cell :: "int \<Rightarrow> int \<Rightarrow> int \<Rightarrow> int \<Rightarrow> int \<Rightarrow> int \<Rightarrow> nat \<Rightarrow> rect" where
  "stack_cell x y w sg usable n j =
     \<lparr>rx = x, ry = y + cell_top usable n sg j, rw = w, rh = cell_height usable n j\<rparr>"

lemma cell_top_0 [simp]: "0 < n \<Longrightarrow> cell_top usable n sg 0 = 0"
  by (simp add: cell_top_def min_def)

lemma cell_top_Suc:
  "0 < n \<Longrightarrow> cell_top usable n sg (Suc j) = cell_top usable n sg j + cell_height usable n j + sg"
  by (simp add: cell_top_def cell_height_def algebra_simps min_def)

lemma cell_top_end:
  assumes "0 < n"
  shows "cell_top usable n sg (nat n) = usable + n * sg"
proof -
  have "n * (usable div n) + usable mod n = usable" by simp
  moreover have "min n (usable mod n) = usable mod n" using assms by (simp add: order_less_imp_le)
  ultimately show ?thesis using assms by (simp add: cell_top_def)
qed

lemma cell_height_pos: "0 < n \<Longrightarrow> n \<le> usable \<Longrightarrow> 1 \<le> cell_height usable n j"
  using pos_imp_zdiv_pos_iff [of n usable] by (simp add: cell_height_def)

lemma cell_top_mono:
  assumes "0 < n" "n \<le> usable" "0 \<le> sg" "j < k"
  shows "cell_top usable n sg j + cell_height usable n j + sg \<le> cell_top usable n sg k"
  using assms(4)
proof (induction rule: strict_inc_induct)
  case (base i)
  with assms show ?case by (simp add: cell_top_Suc)
next
  case (step i)
  with assms cell_height_pos [of n usable "Suc i"] show ?case
    by (simp add: cell_top_Suc)
qed

lemma cell_top_nonneg: "0 < n \<Longrightarrow> n \<le> usable \<Longrightarrow> 0 \<le> sg \<Longrightarrow> 0 \<le> cell_top usable n sg j"
  using pos_imp_zdiv_pos_iff [of n usable] by (simp add: cell_top_def)

lemma cell_bottom:
  assumes "0 < n" "n \<le> usable" "0 \<le> sg" "int j < n"
  shows "cell_top usable n sg j + cell_height usable n j + sg \<le> usable + n * sg"
  using cell_top_mono [OF assms(1-3), of j "nat n"] assms by (simp add: cell_top_end)

lemma stack_cells_closed:
  assumes "0 < n" "n \<le> usable" "0 \<le> sg"
    and "- 2147483648 \<le> y" "y + usable + n * sg < 2147483648" "usable + n * sg < 2147483648"
  shows "int j + int k = n \<Longrightarrow>
    stack_cells x w sg usable n k (int j) (y + cell_top usable n sg j)
    = map (stack_cell x y w sg usable n) [j..<j + k]"
proof (induction k arbitrary: j)
  case 0
  then show ?case by simp
next
  case (Suc k)
  define h where "h = cell_height usable n j"
  have j: "int j < n" using Suc.prems by simp
  have h: "1 \<le> h" using assms(1,2) by (simp add: h_def cell_height_pos)
  have top: "0 \<le> cell_top usable n sg j" using assms(1-3) by (rule cell_top_nonneg)
  have bottom: "cell_top usable n sg j + h + sg \<le> usable + n * sg"
    unfolding h_def using assms(1-3) j by (rule cell_bottom)
  have h_eq: "wrap32 (tdiv usable n + (if int j < trem usable n then 1 else 0)) = h"
  proof -
    have "h < 2147483648" using top bottom assms(3,6) by simp
    then show ?thesis using assms(1,2) h
      by (simp add: h_def cell_height_def range_simps split: if_splits)
  qed
  have y_eq: "wrap32 (y + cell_top usable n sg j + wrap32 (h + sg))
      = y + cell_top usable n sg (Suc j)"
    using top bottom h assms by (simp add: cell_top_Suc range_simps flip: h_def)
  have "stack_cells x w sg usable n k (int (Suc j)) (y + cell_top usable n sg (Suc j))
      = map (stack_cell x y w sg usable n) [Suc j..<Suc j + k]"
    by (rule Suc.IH) (use Suc.prems in simp)
  moreover have "[j..<j + Suc k] = j # [Suc j..<Suc j + k]"
    by (simp add: upt_conv_Cons del: upt_Suc)
  ultimately show ?case
    using h_eq y_eq
    by (simp add: Let_def stack_cell_def ac_simps flip: h_def del: upt_Suc)
qed

section \<open>The tiling, arm by arm\<close>

lemma div2_bounds: "0 \<le> (x :: int) \<Longrightarrow> 0 \<le> x div 2 \<and> 2 * (x div 2) \<le> x"
  by linarith

lemma tile_gap_eq:
  assumes "area_ok area"
  shows "tile_gap area count gap monocle =
     (let g = min (max gap 0) ((min (rw area) (rh area) - 1) div 2)
      in if 1 < count \<and> \<not> monocle \<and> int (count - 1) \<le> rh area \<and> 2 \<le> rw area
         then min (min g ((rh area - int (count - 1)) div 2)) ((rw area - 2) div 2)
         else g)"
proof -
  have "1 \<le> min (rw area) (rh area)" "min (rw area) (rh area) \<le> 536870912" "0 \<le> rh area"
      "rh area \<le> 536870912" "rw area \<le> 536870912"
    using assms by (simp_all add: area_ok_def min_le_iff_disj)
  moreover have "tdiv (wrap32 (rh area - wrap32 (int (count - 1)))) 2
      = (rh area - int (count - 1)) div 2" if "int (count - 1) \<le> rh area"
  proof -
    have "wrap32 (int (count - 1)) = int (count - 1)"
      using that \<open>rh area \<le> 536870912\<close> by (intro wrap32_id) simp_all
    then show ?thesis
      using that \<open>rh area \<le> 536870912\<close> by (simp add: range_simps del: of_nat_diff)
  qed
  ultimately show ?thesis
    unfolding tile_gap_def Let_def
    by (intro if_cong arg_cong2 [where f = min]) (simp_all add: range_simps del: of_nat_diff)
qed

lemma tile_gap_bounds:
  fixes area :: rect and count :: nat and gap :: int and monocle :: bool
  assumes "area_ok area"
  defines "g \<equiv> tile_gap area count gap monocle"
  shows "0 \<le> g"
    and "2 * g \<le> min (rw area) (rh area) - 1"
    and "1 < count \<and> \<not> monocle \<and> int (count - 1) \<le> rh area \<and> 2 \<le> rw area \<Longrightarrow>
      2 * g \<le> rw area - 2 \<and> 2 * g \<le> rh area - int (count - 1)"
proof -
  have pos: "1 \<le> rw area" "1 \<le> rh area" using assms(1) by (simp_all add: area_ok_def)
  then have "0 \<le> g \<and> g \<le> (min (rw area) (rh area) - 1) div 2"
    by (auto simp: g_def tile_gap_eq [OF assms(1)] Let_def min_le_iff_disj)
  then show "0 \<le> g" and "2 * g \<le> min (rw area) (rh area) - 1" by linarith+
  assume "1 < count \<and> \<not> monocle \<and> int (count - 1) \<le> rh area \<and> 2 \<le> rw area"
  then have "g \<le> (rh area - int (count - 1)) div 2" "g \<le> (rw area - 2) div 2"
    by (simp_all add: g_def tile_gap_eq [OF assms(1)] Let_def min_le_iff_disj
        del: of_nat_diff)
  then show "2 * g \<le> rw area - 2 \<and> 2 * g \<le> rh area - int (count - 1)" by linarith
qed

lemma tile_inner_eq:
  assumes "area_ok area" "0 \<le> g" "2 * g \<le> min (rw area) (rh area) - 1"
  shows "tile_inner area g =
    \<lparr>rx = rx area + g, ry = ry area + g, rw = rw area - 2 * g, rh = rh area - 2 * g\<rparr>"
proof -
  have "g \<le> 268435456" "\<bar>rx area\<bar> \<le> 536870912" "\<bar>ry area\<bar> \<le> 536870912"
      "rw area \<le> 536870912" "rh area \<le> 536870912"
    using assms by (auto simp: area_ok_def)
  then show ?thesis
    using assms(2,3) by (simp add: tile_inner_def abs_le_iff range_simps)
qed

lemma master_width_bounds:
  "2 \<le> available \<Longrightarrow> available < 2147483648 \<Longrightarrow>
   1 \<le> master_width available ratio \<and> master_width available ratio \<le> available - 1"
  using clamp_bounds [of 1 "available - 1"]
  by (simp add: master_width_def range_simps)

lemma tile_same:
  "0 < count \<Longrightarrow> count = 1 \<or> monocle \<Longrightarrow>
   tile area count gap ratio monocle
   = replicate count (tile_inner area (tile_gap area count gap monocle))"
  by (auto simp: tile_def Let_def)

lemma div_mult_le_int: "0 < b \<Longrightarrow> a div b * b \<le> (a :: int)"
  by (simp flip: minus_mod_eq_div_mult)

lemma rect_bounds_i32: "rh (tile_inner area g) \<le> 2147483647"
  using wrap32_range [of "rh area - wrap32 (2 * g)"] by (simp add: tile_inner_def is_i32_def)

text \<open>
  The master/stack arm of \<open>tile\<close> with every wrap-around removed: a master column of width \<open>mw\<close>,
  a gap of \<open>sp\<close> pixels, and \<open>n\<close> cells that are \<open>sg\<close> pixels apart and use the whole inner height.
\<close>

definition split_shape ::
  "rect \<Rightarrow> nat \<Rightarrow> int \<Rightarrow> int \<Rightarrow> int \<Rightarrow> int \<Rightarrow> rect list \<Rightarrow> bool" where
  "split_shape area n g sp mw sg rects \<longleftrightarrow>
     (let H = rh area - 2 * g; W = rw area - 2 * g; usable = H - sg * (int n - 1)
      in 0 < n \<and> 0 \<le> g \<and> 0 \<le> sp \<and> 1 \<le> mw \<and> mw + sp + 1 \<le> W \<and> 0 \<le> sg \<and> int n \<le> usable
         \<and> rects = \<lparr>rx = rx area + g, ry = ry area + g, rw = mw, rh = H\<rparr>
             # map (stack_cell (rx area + g + mw + sp) (ry area + g) (W - mw - sp) sg usable (int n))
                 [0..<n])"

lemma tile_split:
  assumes area: "area_ok area" and count: "2 \<le> count" and m: "\<not> monocle"
    and fits: "2 \<le> rw area" "int (count - 1) \<le> rh area"
  shows "\<exists>g sp mw sg. split_shape area (count - 1) g sp mw sg (tile area count gap ratio monocle)"
proof -
  define g where "g = tile_gap area count gap monocle"
  define n where "n = int (count - 1)"
  define W where "W = rw area - 2 * g"
  define H where "H = rh area - 2 * g"
  define sp where "sp = min g (W - 2)"
  define mw where "mw = master_width (W - sp) ratio"
  define sg where "sg = min g (max ((H - n) div max (n - 1) 1) 0)"
  define usable where "usable = H - sg * (n - 1)"
  have dims: "\<bar>rx area\<bar> \<le> 536870912" "\<bar>ry area\<bar> \<le> 536870912" "1 \<le> rw area"
      "rw area \<le> 536870912" "1 \<le> rh area" "rh area \<le> 536870912"
    using area by (simp_all add: area_ok_def)
  have n: "1 \<le> n" using count by (simp add: n_def)
  have g: "0 \<le> g" "2 * g \<le> min (rw area) (rh area) - 1" "2 * g \<le> rw area - 2"
      "2 * g \<le> rh area - n"
    using tile_gap_bounds [OF area, where count = count and gap = gap and monocle = monocle] count m fits
    by (simp_all add: g_def n_def)
  have W: "2 \<le> W" "W \<le> 536870912" and H: "n \<le> H" "H \<le> 536870912"
    using g dims by (simp_all add: W_def H_def)
  have sp: "0 \<le> sp" "sp \<le> W - 2" using g W by (simp_all add: sp_def)
  have mw: "1 \<le> mw" "mw \<le> W - sp - 1"
    using master_width_bounds [of "W - sp" ratio] sp W by (simp_all add: mw_def)
  have sg: "0 \<le> sg" "sg \<le> g" using g by (simp_all add: sg_def)
  have "sg * (n - 1) \<le> H - n"
  proof (cases "n = 1")
    case True
    then show ?thesis using H by simp
  next
    case False
    have "sg \<le> (H - n) div (n - 1)"
      using False n H by (simp add: sg_def pos_imp_zdiv_nonneg_iff)
    then have "sg * (n - 1) \<le> (H - n) div (n - 1) * (n - 1)"
      using n by (intro mult_right_mono) simp_all
    also have "\<dots> \<le> H - n"
      using n False by (intro div_mult_le_int) simp
    finally show ?thesis .
  qed
  then have usable: "n \<le> usable" "usable \<le> H" and sgn: "0 \<le> sg * (n - 1)" "sg * (n - 1) \<le> H"
    using sg n H by (simp_all add: usable_def)
  have n_wrap: "wrap32 n = n" using n H by (simp add: range_simps)
  have inner: "tile_inner area g = \<lparr>rx = rx area + g, ry = ry area + g, rw = W, rh = H\<rparr>"
    using tile_inner_eq [OF area g(1,2)] by (simp add: W_def H_def)
  have sp_eq: "min g (max (wrap32 (W - 2)) 0) = sp"
    using W by (simp add: sp_def range_simps)
  have avail: "max (wrap32 (W - sp)) 2 = W - sp"
    using W sp by (simp add: range_simps)
  have sg_eq: "min g (max (tdiv (wrap32 (H - n)) (max (wrap32 (n - 1)) 1)) 0) = sg"
    using n H by (simp add: sg_def range_simps)
  have usable_eq: "max (wrap32 (H - wrap32 (sg * wrap32 (n - 1)))) n = usable"
    using n H sgn usable by (simp add: usable_def range_simps)
  have width: "max (wrap32 (wrap32 (W - mw) - sp)) 1 = W - mw - sp"
    using W sp mw by (simp add: range_simps)
  have left: "wrap32 (wrap32 (rx area + g + mw) + sp) = rx area + g + mw + sp"
    using dims W sp mw g by (simp add: range_simps abs_le_iff)
  have cells: "stack_cells x w sg usable n (nat n) 0 (ry area + g)
      = map (stack_cell x (ry area + g) w sg usable n) [0..<count - 1]" for x w
  proof -
    have "n * sg = sg * (n - 1) + sg" by (simp add: algebra_simps)
    then have "usable + n * sg = H + sg" by (simp add: usable_def)
    moreover have "nat n = count - 1" by (simp add: n_def)
    ultimately show ?thesis
      using stack_cells_closed [of n usable sg "ry area + g" 0 "nat n" x w] n usable sg g dims
      by (simp add: H_def abs_le_iff)
  qed
  have "tile area count gap ratio monocle
      = \<lparr>rx = rx area + g, ry = ry area + g, rw = mw, rh = H\<rparr>
        # map (stack_cell (rx area + g + mw + sp) (ry area + g) (W - mw - sp) sg usable n)
            [0..<count - 1]"
    unfolding tile_def Let_def g_def [symmetric] inner n_def [symmetric]
    using count m W(1) H(1) n_wrap
    by (simp add: sp_eq avail sg_eq usable_eq width left cells mw_def [symmetric])
  then have "split_shape area (count - 1) g sp mw sg (tile area count gap ratio monocle)"
    using count g(1) sp mw sg usable(1)
    by (simp add: split_shape_def Let_def n_def usable_def W_def H_def)
  then show ?thesis by blast
qed

lemma stack_cells_length: "length (stack_cells x w sg usable n k i y) = k"
  by (induction x w sg usable n k i y rule: stack_cells.induct) (simp_all add: Let_def)

lemma pairwise_stack:
  assumes "0 < n" "int n \<le> usable" "0 \<le> sg"
  shows "sorted_wrt rect_disjoint (map (stack_cell x y w sg usable (int n)) [0..<k])"
proof -
  have "rect_disjoint (stack_cell x y w sg usable (int n) i) (stack_cell x y w sg usable (int n) j)"
    if "i < j" for i j
    using cell_top_mono [of "int n" usable sg i j] assms that
    by (simp add: rect_disjoint_def stack_cell_def)
  then show ?thesis by (simp add: sorted_wrt_iff_nth_less)
qed

lemma split_shape_inside:
  assumes "split_shape area n g sp mw sg rects" "r \<in> set rects"
  shows "rect_inside area r"
proof -
  define usable where "usable = rh area - 2 * g - sg * (int n - 1)"
  have s: "0 < n" "0 \<le> g" "0 \<le> sp" "1 \<le> mw" "mw + sp + 1 \<le> rw area - 2 * g" "0 \<le> sg"
      "int n \<le> usable"
    using assms(1) by (simp_all add: split_shape_def Let_def usable_def)
  have height: "usable \<le> rh area - 2 * g"
    using s by (simp add: usable_def)
  from assms consider
      "r = \<lparr>rx = rx area + g, ry = ry area + g, rw = mw, rh = rh area - 2 * g\<rparr>"
    | j where "j < n" "r = stack_cell (rx area + g + mw + sp) (ry area + g)
        (rw area - 2 * g - mw - sp) sg usable (int n) j"
    by (auto simp: split_shape_def Let_def usable_def)
  then show ?thesis
  proof cases
    case 1
    then show ?thesis using s height by (simp add: rect_inside_def)
  next
    case 2
    have "usable + int n * sg = rh area - 2 * g + sg" by (simp add: usable_def algebra_simps)
    then have "cell_top usable (int n) sg j + cell_height usable (int n) j \<le> rh area - 2 * g"
      using cell_bottom [of "int n" usable sg j] s 2 by simp
    then show ?thesis
      using 2 s cell_top_nonneg [of "int n" usable sg j] cell_height_pos [of "int n" usable j]
      by (simp add: rect_inside_def stack_cell_def)
  qed
qed

text \<open>
  \<open>tile\<close> returns one rectangle per window, in every arm and for every ratio and gap.
\<close>

lemma tile_count: "length (tile area count gap ratio monocle) = count"
proof -
  have "wrap32 (int (count - 1)) = int (count - 1)"
    if "int (count - 1) \<le> rh (tile_inner area g)" for g
    using that rect_bounds_i32 [of area g] by (intro wrap32_id) simp_all
  then show ?thesis
    by (auto simp: tile_def Let_def stack_cells_length not_less simp del: of_nat_diff)
qed

text \<open>
  Every rectangle of a tiling is nonempty and lies inside the output's usable area.
\<close>

lemma tile_inside:
  assumes "area_ok area" "r \<in> set (tile area count gap ratio monocle)"
  shows "rect_inside area r"
proof -
  have same: "rect_inside area (tile_inner area (tile_gap area count gap monocle))"
    using tile_gap_bounds [OF assms(1), where count = count and gap = gap and monocle = monocle]
    by (subst tile_inner_eq [OF assms(1)]) (simp_all add: rect_inside_def)
  show ?thesis
  proof (cases "count = 0 \<or> count = 1 \<or> monocle")
    case True
    then show ?thesis
      using assms(2) same by (cases "count = 0") (auto simp: tile_same tile_def)
  next
    case False
    show ?thesis
    proof (cases "2 \<le> rw area \<and> int (count - 1) \<le> rh area")
      case True
      then show ?thesis
        using tile_split [OF assms(1), of count monocle gap ratio] False assms(2)
          split_shape_inside by fastforce
    next
      case cramped: False
      let ?g = "tile_gap area count gap monocle"
      have "rw (tile_inner area ?g) < 2 \<or> rh (tile_inner area ?g) < int (count - 1)"
        using cramped tile_gap_bounds(1,2) [OF assms(1), where count = count and gap = gap
            and monocle = monocle]
        by (subst (1 2) tile_inner_eq [OF assms(1)]) (auto simp del: of_nat_diff)
      then have "tile area count gap ratio monocle = replicate count (tile_inner area ?g)"
        using False by (auto simp: tile_def Let_def)
      then show ?thesis using assms(2) same by auto
    qed
  qed
qed

text \<open>
  When the area has a pixel for every window, the tiles of a split layout never overlap.
\<close>

lemma tile_disjoint:
  assumes "area_ok area" "2 \<le> rw area" "int (count - 1) \<le> rh area"
  shows "sorted_wrt rect_disjoint (tile area count gap ratio False)"
proof (cases "count < 2")
  case True
  then have "count = 0 \<or> count = 1" by auto
  then show ?thesis by (auto simp: tile_def Let_def)
next
  case False
  then obtain g sp mw sg where
      s: "split_shape area (count - 1) g sp mw sg (tile area count gap ratio False)"
    using tile_split [OF assms(1) _ _ assms(2,3), of False gap ratio] by auto
  then have "rect_disjoint \<lparr>rx = rx area + g, ry = ry area + g, rw = mw, rh = H\<rparr>
      (stack_cell (rx area + g + mw + sp) y w sg' u n j)" for H y w sg' u n j
    by (simp add: rect_disjoint_def stack_cell_def split_shape_def Let_def)
  with s show ?thesis
    by (auto simp: split_shape_def Let_def simp del: of_nat_diff
        intro: pairwise_stack [of "count - 1", simplified])
qed

text \<open>
  C11: the partition is exact. In the split arm the master column and the stack share the inner
  width but for one gap, the stack cells and the gaps between them add up to the inner height,
  and two cells differ by at most one pixel, the taller ones first.
\<close>

lemma tile_exact:
  assumes "area_ok area" "2 \<le> count" "2 \<le> rw area" "int (count - 1) \<le> rh area"
  shows "\<exists>g sp sg m stack. tile area count gap ratio False = m # stack
    \<and> 0 \<le> g \<and> 0 \<le> sp \<and> 0 \<le> sg \<and> length stack = count - 1
    \<and> rh m = rh area - 2 * g
    \<and> (\<forall>c \<in> set stack. rw m + sp + rw c = rw area - 2 * g \<and> rx c = rx m + rw m + sp)
    \<and> sum_list (map rh stack) + sg * int (count - 2) = rh area - 2 * g
    \<and> sorted_wrt (\<lambda>c d. rh d \<le> rh c \<and> rh c \<le> rh d + 1) stack"
proof -
  obtain g sp mw sg where
      s: "split_shape area (count - 1) g sp mw sg (tile area count gap ratio False)"
    using tile_split [OF assms(1,2) _ assms(3,4), of False gap ratio] by auto
  define n where "n = count - 1"
  define usable where "usable = rh area - 2 * g - sg * (int n - 1)"
  define stack where "stack = map (stack_cell (rx area + g + mw + sp) (ry area + g)
      (rw area - 2 * g - mw - sp) sg usable (int n)) [0..<n]"
  have heights: "sum_list (map rh (map (stack_cell x y w sg usable (int n)) [0..<k]))
      = cell_top usable (int n) sg k - int k * sg" for x y w k
    using assms(2)
    by (induction k) (simp_all add: n_def cell_top_Suc stack_cell_def algebra_simps)
  have "sum_list (map rh stack) = usable"
    unfolding stack_def heights
    using cell_top_end [of "int n" usable sg] assms(2) by (simp add: n_def del: of_nat_diff)
  then have sum: "sum_list (map rh stack) + sg * int (count - 2) = rh area - 2 * g"
    using assms(2) by (simp add: usable_def n_def algebra_simps of_nat_diff)
  have "sorted_wrt (\<lambda>c d. rh d \<le> rh c \<and> rh c \<le> rh d + 1) stack"
    by (auto simp: stack_def sorted_wrt_iff_nth_less stack_cell_def cell_height_def)
  moreover have "tile area count gap ratio False
      = \<lparr>rx = rx area + g, ry = ry area + g, rw = mw, rh = rh area - 2 * g\<rparr> # stack"
    "0 \<le> g" "0 \<le> sp" "0 \<le> sg"
    using s by (simp_all add: split_shape_def Let_def stack_def usable_def n_def)
  moreover have "length stack = count - 1" by (simp add: stack_def n_def)
  moreover have "\<forall>c \<in> set stack. mw + sp + rw c = rw area - 2 * g \<and> rx c = rx area + g + mw + sp"
    by (auto simp: stack_def stack_cell_def)
  ultimately show ?thesis
    using sum
    by (intro exI [of _ g] exI [of _ sp] exI [of _ sg]
        exI [of _ "\<lparr>rx = rx area + g, ry = ry area + g, rw = mw, rh = rh area - 2 * g\<rparr>"]
        exI [of _ stack]) simp
qed

section \<open>Floating windows stay on their output\<close>

lemma floating_rect_eq:
  assumes "area_ok area"
  shows "floating_rect area saved requested =
    (let w = clamp 1 (rw area) (case saved of Some r \<Rightarrow> rw r
               | None \<Rightarrow> (case fst requested of Some v \<Rightarrow> v | None \<Rightarrow> rw area div 2));
         h = clamp 1 (rh area) (case saved of Some r \<Rightarrow> rh r
               | None \<Rightarrow> (case snd requested of Some v \<Rightarrow> v | None \<Rightarrow> rh area div 2))
     in Some \<lparr>rx = clamp (rx area) (rx area + rw area - w)
                   (case saved of Some r \<Rightarrow> rx r | None \<Rightarrow> rx area + (rw area - w) div 2),
              ry = clamp (ry area) (ry area + rh area - h)
                   (case saved of Some r \<Rightarrow> ry r | None \<Rightarrow> ry area + (rh area - h) div 2),
              rw = w, rh = h\<rparr>)"
proof -
  have dims: "- 536870912 \<le> rx area" "rx area \<le> 536870912" "- 536870912 \<le> ry area"
      "ry area \<le> 536870912" "1 \<le> rw area" "rw area \<le> 536870912" "1 \<le> rh area"
      "rh area \<le> 536870912"
    using assms by (auto simp: area_ok_def)
  have wx: "wrap32 (wrap32 (rx area + rw area) - w) = rx area + rw area - w"
      "wrap32 (rx area + tdiv (wrap32 (rw area - w)) 2) = rx area + (rw area - w) div 2"
    if "1 \<le> w" "w \<le> rw area" for w
    using that dims by (simp_all add: range_simps)
  have wy: "wrap32 (wrap32 (ry area + rh area) - h) = ry area + rh area - h"
      "wrap32 (ry area + tdiv (wrap32 (rh area - h)) 2) = ry area + (rh area - h) div 2"
    if "1 \<le> h" "h \<le> rh area" for h
    using that dims by (simp_all add: range_simps)
  have max: "max (rw area) 1 = rw area" "max (rh area) 1 = rh area" using dims by simp_all
  note w = clamp_bounds [OF dims(5)] and h = clamp_bounds [OF dims(7)]
  show ?thesis
    unfolding floating_rect_def Let_def max
    using w h dims
    by (simp add: wx wy clamp_checked_def tdiv_nonneg cong: option.case_cong)
qed

text \<open>
  A floating window always gets a nonempty rectangle inside the usable area, whatever geometry
  it had saved or asks for, and no clamp of the computation panics.
\<close>

lemma floating_inside:
  assumes "area_ok area"
  shows "\<exists>r. floating_rect area saved requested = Some r \<and> rect_inside area r"
proof -
  have "1 \<le> rw area" "1 \<le> rh area" using assms by (simp_all add: area_ok_def)
  then have w: "0 < clamp 1 (rw area) v \<and> clamp 1 (rw area) v \<le> rw area"
    and h: "0 < clamp 1 (rh area) v \<and> clamp 1 (rh area) v \<le> rh area" for v
    using clamp_bounds [of 1 "rw area" v] clamp_bounds [of 1 "rh area" v] by simp_all
  have "x0 \<le> clamp x0 (x0 + d - w) v \<and> clamp x0 (x0 + d - w) v + w \<le> x0 + d" if "w \<le> d"
    for x0 d w v :: int
    using clamp_bounds [of x0 "x0 + d - w" v] that by simp
  then show ?thesis
    using w h by (simp add: floating_rect_eq [OF assms] Let_def rect_inside_def add.commute)
qed

text \<open>
  A saved geometry that still fits its output is restored unchanged, so repeated layout
  passes never move a floating window.
\<close>

lemma floating_stable:
  assumes "area_ok area" "rect_inside area r"
  shows "floating_rect area (Some r) requested = Some r"
  using assms(2) by (simp add: floating_rect_eq [OF assms(1)] Let_def rect_inside_def clamp_id)

section \<open>The chosen output mode\<close>


section \<open>The properties on concrete outputs\<close>

abbreviation full_hd :: rect where
  "full_hd \<equiv> \<lparr>rx = 0, ry = 0, rw = 1920, rh = 1080\<rparr>"

lemma full_hd_ok [simp]: "area_ok full_hd"
  by (simp add: area_ok_def)

lemma tile_exact_witness:
  "\<exists>g sp sg m stack. tile full_hd 4 8 (Fin (1 / 2)) False = m # stack
    \<and> 0 \<le> g \<and> 0 \<le> sp \<and> 0 \<le> sg \<and> length stack = 4 - 1
    \<and> rh m = rh full_hd - 2 * g
    \<and> (\<forall>c \<in> set stack. rw m + sp + rw c = rw full_hd - 2 * g \<and> rx c = rx m + rw m + sp)
    \<and> sum_list (map rh stack) + sg * int (4 - 2) = rh full_hd - 2 * g
    \<and> sorted_wrt (\<lambda>c d. rh d \<le> rh c \<and> rh c \<le> rh d + 1) stack"
  by (rule tile_exact) simp_all


end
