(* ===== verification/BTreeMap.thy ===== *)
theory BTreeMap
  imports Prelude
begin

text \<open>
  \<open>std::collections::BTreeMap\<close> as a list of entries in strictly increasing key order, which is
  also its iteration order; strings are ordered by their bytes, as in Rust. The interface that
  the configuration and the desktop rely on is a locale, discharged here for these operations.
\<close>

section \<open>The operations\<close>

type_synonym ('k, 'v) btree = "('k \<times> 'v) list"

definition bt_wf :: "('k::linorder, 'v) btree \<Rightarrow> bool" where
  "bt_wf m \<longleftrightarrow> sorted_wrt (<) (map fst m)"

definition bt_get :: "('k, 'v) btree \<Rightarrow> 'k \<Rightarrow> 'v option" where
  "bt_get m k = map_of m k"

fun bt_insert :: "'k::linorder \<Rightarrow> 'v \<Rightarrow> ('k, 'v) btree \<Rightarrow> ('k, 'v) btree" where
  "bt_insert k v [] = [(k, v)]"
| "bt_insert k v ((a, b) # m) =
     (if k < a then (k, v) # (a, b) # m
      else if k = a then (k, v) # m
      else (a, b) # bt_insert k v m)"

definition bt_contains :: "('k, 'v) btree \<Rightarrow> 'k \<Rightarrow> bool" where
  "bt_contains m k \<longleftrightarrow> bt_get m k \<noteq> None"

text \<open>\<open>BTreeMap::from([...])\<close> and repeated \<open>insert\<close>.\<close>

definition bt_extend :: "('k::linorder \<times> 'v) list \<Rightarrow> ('k, 'v) btree \<Rightarrow> ('k, 'v) btree" where
  "bt_extend kvs m = foldl (\<lambda>m (k, v). bt_insert k v m) m kvs"

text \<open>\<open>retain\<close> and \<open>iter().find\<close>.\<close>

definition bt_retain :: "('k \<Rightarrow> 'v \<Rightarrow> bool) \<Rightarrow> ('k, 'v) btree \<Rightarrow> ('k, 'v) btree" where
  "bt_retain P m = filter (\<lambda>(k, v). P k v) m"

definition bt_find :: "('k \<Rightarrow> 'v \<Rightarrow> bool) \<Rightarrow> ('k, 'v) btree \<Rightarrow> 'k option" where
  "bt_find P m = map_option fst (List.find (\<lambda>(k, v). P k v) m)"

section \<open>The interface\<close>

definition inj_map :: "('k \<Rightarrow> 'v option) \<Rightarrow> bool" where
  "inj_map f \<longleftrightarrow> (\<forall>k1 k2 v. f k1 = Some v \<longrightarrow> f k2 = Some v \<longrightarrow> k1 = k2)"

lemma inj_mapD: "inj_map f \<Longrightarrow> f k1 = Some v \<Longrightarrow> f k2 = Some v \<Longrightarrow> k1 = k2"
  by (simp add: inj_map_def)

locale ordered_map =
  fixes get :: "'m \<Rightarrow> 'k \<Rightarrow> 'v option"
    and insert :: "'k \<Rightarrow> 'v \<Rightarrow> 'm \<Rightarrow> 'm"
    and wf :: "'m \<Rightarrow> bool"
  assumes get_insert: "wf m \<Longrightarrow> get (insert k v m) = (get m)(k := Some v)"
    and wf_insert: "wf m \<Longrightarrow> wf (insert k v m)"
begin

lemma get_insert_same: "wf m \<Longrightarrow> get (insert k v m) k = Some v"
  by (simp add: get_insert)

lemma get_insert_other: "wf m \<Longrightarrow> k' \<noteq> k \<Longrightarrow> get (insert k v m) k' = get m k'"
  by (simp add: get_insert)

lemma inj_insert_fresh:
  "wf m \<Longrightarrow> inj_map (get m) \<Longrightarrow> (\<And>k'. get m k' = Some v \<Longrightarrow> k' = k) \<Longrightarrow>
     inj_map (get (insert k v m))"
  unfolding inj_map_def get_insert by (metis fun_upd_apply option.inject)

lemma inj_swap:
  assumes wf: "wf m" and inj: "inj_map (get m)"
    and k1: "get m k1 = Some v1" and k2: "get m k2 = Some v2"
  shows "inj_map (get (insert k1 v2 (insert k2 v1 m)))"
proof -
  have *: "get (insert k1 v2 (insert k2 v1 m)) = (get m)(k2 := Some v1, k1 := Some v2)"
    by (simp add: get_insert wf_insert wf)
  show ?thesis
    unfolding * inj_map_def
    using k1 k2 by (auto dest: inj_mapD [OF inj] split: if_splits)
qed

end

locale retaining_map = ordered_map get insert wf
  for get :: "'m \<Rightarrow> 'k \<Rightarrow> 'v option" and insert :: "'k \<Rightarrow> 'v \<Rightarrow> 'm \<Rightarrow> 'm" and wf :: "'m \<Rightarrow> bool" +
  fixes retain :: "('k \<Rightarrow> 'v \<Rightarrow> bool) \<Rightarrow> 'm \<Rightarrow> 'm"
  assumes get_retain: "wf m \<Longrightarrow> get (retain P m) k =
      (case get m k of None \<Rightarrow> None | Some v \<Rightarrow> if P k v then Some v else None)"
    and wf_retain: "wf m \<Longrightarrow> wf (retain P m)"
begin

lemma get_retain_SomeD: "wf m \<Longrightarrow> get (retain P m) k = Some v \<Longrightarrow> get m k = Some v \<and> P k v"
  by (auto simp: get_retain split: option.splits if_splits)

lemma inj_retain: "wf m \<Longrightarrow> inj_map (get m) \<Longrightarrow> inj_map (get (retain P m))"
  unfolding inj_map_def using get_retain_SomeD by metis

end

section \<open>The laws hold\<close>

lemma bt_wf_simps:
  "bt_wf []"
  "bt_wf ((k, v) # m) \<longleftrightarrow> (\<forall>k' \<in> fst ` set m. k < k') \<and> bt_wf m"
  by (auto simp: bt_wf_def)

lemma bt_insert_keys: "fst ` set (bt_insert k v m) = insert k (fst ` set m)"
  by (induction k v m rule: bt_insert.induct) auto

lemma bt_get_insert: "bt_get (bt_insert k v m) = (bt_get m)(k := Some v)"
  by (induction k v m rule: bt_insert.induct) (auto simp: bt_get_def fun_eq_iff)

lemma bt_wf_insert: "bt_wf m \<Longrightarrow> bt_wf (bt_insert k v m)"
  by (induction k v m rule: bt_insert.induct) (auto simp: bt_wf_simps bt_insert_keys)

lemma bt_wf_distinct: "bt_wf m \<Longrightarrow> distinct (map fst m)"
  unfolding bt_wf_def by (metis strict_sorted_iff)

lemma bt_get_iff: "bt_wf m \<Longrightarrow> bt_get m k = Some v \<longleftrightarrow> (k, v) \<in> set m"
  by (simp add: bt_get_def map_of_eq_Some_iff bt_wf_distinct)

lemma bt_wf_retain: "bt_wf m \<Longrightarrow> bt_wf (bt_retain P m)"
  by (induction m) (auto simp: bt_wf_simps bt_retain_def)

lemma bt_get_retain:
  assumes "bt_wf m"
  shows "bt_get (bt_retain P m) k =
    (case bt_get m k of None \<Rightarrow> None | Some v \<Rightarrow> if P k v then Some v else None)"
proof (cases "bt_get (bt_retain P m) k")
  case None
  have "\<not> ((k, v) \<in> set m \<and> P k v)" for v
    using None bt_get_iff [OF bt_wf_retain [OF assms], of P k v] by (auto simp: bt_retain_def)
  then show ?thesis
    using None by (auto simp: bt_get_iff [OF assms] split: option.split)
next
  case (Some v)
  then have "(k, v) \<in> set m \<and> P k v"
    using bt_get_iff [OF bt_wf_retain [OF assms], of P k v] by (auto simp: bt_retain_def)
  then show ?thesis
    using Some bt_get_iff [OF assms, of k v] by simp
qed

interpretation bt: retaining_map bt_get bt_insert bt_wf bt_retain
  by unfold_locales (auto simp: bt_get_insert bt_wf_insert bt_get_retain bt_wf_retain)

lemma bt_wf_extend: "bt_wf m \<Longrightarrow> bt_wf (bt_extend kvs m)"
proof (induction kvs arbitrary: m)
  case Nil
  then show ?case by (simp add: bt_extend_def)
next
  case (Cons kv kvs)
  obtain k v where kv: "kv = (k, v)" by (cases kv)
  from Cons.IH [OF bt.wf_insert [OF Cons.prems]] show ?case
    by (simp add: bt_extend_def kv)
qed

lemma bt_find_Some:
  "bt_wf m \<Longrightarrow> bt_find P m = Some k \<Longrightarrow> \<exists>v. bt_get m k = Some v \<and> P k v"
  by (auto simp: bt_find_def bt_get_iff dest!: find_SomeD)

lemma bt_find_None:
  "bt_wf m \<Longrightarrow> bt_find P m = None \<Longrightarrow> bt_get m k = Some v \<Longrightarrow> \<not> P k v"
  by (auto simp: bt_find_def bt_get_iff find_None_iff)

end
