(* ===== verification/CoreRecorder.thy ===== *)
theory CoreRecorder
  imports RustStr
begin

text \<open>
  The recorder settings of \<open>crates/core/src/lib.rs\<close>: the record, its defaults, the runtime edit
  \<open>Recorder::apply\<close> with its two halves \<open>assign\<close> and \<open>validate_recorder\<close>, and the settings
  overlay file. The lemmas show that an edit either leaves the settings untouched or leaves
  valid ones, and that the value it reports is a fixed point of the same edit.
\<close>

section \<open>Data\<close>

record game_capture_profile =
  gp_name :: str
  gp_api :: str
  gp_command :: "str list"
  gp_fps :: u32
  gp_target_process_name :: str

definition game_capture_profile_default :: game_capture_profile where
  "game_capture_profile_default =
     \<lparr>gp_name = [], gp_api = ''opengl'', gp_command = [], gp_fps = 480,
      gp_target_process_name = []\<rparr>"

record recorder =
  rec_enabled :: bool
  rec_hdr :: bool
  rec_screen_fps :: u32
  rec_fps :: u32
  rec_codec :: str
  rec_quality :: u8
  rec_output_width :: u32
  rec_output_height :: u32
  rec_output_directory :: str
  rec_container :: str
  rec_cursor :: bool
  rec_desktop_audio :: str
  rec_microphone :: str
  rec_replay_seconds :: u32
  rec_replay_max_mib :: u32
  rec_capture_mode :: str
  rec_window_app_id :: str
  rec_window_title :: str
  rec_inject_process :: str
  rec_game_profile :: str
  rec_game_profiles :: "game_capture_profile list"

definition recorder_default :: recorder where
  "recorder_default =
     \<lparr>rec_enabled = True, rec_hdr = False, rec_screen_fps = 240, rec_fps = 480,
      rec_codec = ''h264'', rec_quality = 20, rec_output_width = 2560, rec_output_height = 1440,
      rec_output_directory = ''~/Videos/Luma'', rec_container = ''mp4'', rec_cursor = True,
      rec_desktop_audio = ''default_output'', rec_microphone = ''default_input'',
      rec_replay_seconds = 30, rec_replay_max_mib = 1024, rec_capture_mode = ''screen'',
      rec_window_app_id = [], rec_window_title = [], rec_inject_process = [],
      rec_game_profile = [], rec_game_profiles = []\<rparr>"

section \<open>Assigning one setting\<close>

definition parse_bool :: "str \<Rightarrow> (bool, str) result" where
  "parse_bool value =
     ok_or (''recorder boolean must be true or false, got '' @ [CHR 0x27] @ value @ [CHR 0x27])
       (parse_bool_str value)"

text \<open>The closure \<open>parse\<close> of \<open>assign\<close>: a number within an inclusive range.\<close>

definition parse_ranged :: "str \<Rightarrow> str \<Rightarrow> nat \<Rightarrow> nat \<Rightarrow> (nat, str) result" where
  "parse_ranged value name lo hi =
     (case parse_u64 value of
        None \<Rightarrow> Inl (''recorder '' @ name @ '' must be a number'')
      | Some n \<Rightarrow>
          if lo \<le> n \<and> n \<le> hi then Inr n
          else Inl (''recorder '' @ name @ '' must be '' @ show_nat lo @ ''..='' @ show_nat hi))"

definition capture_modes :: "str list" where
  "capture_modes = [''screen'', ''xwayland'', ''inject'', ''opengl'', ''vulkan'']"

text \<open>
  \<open>Recorder::assign\<close>: the new settings and the canonical value. Some arms return early with
  their own canonical value; the others fall through to \<open>Ok(value.trim().into())\<close>.
\<close>

definition assign :: "recorder \<Rightarrow> str \<Rightarrow> str \<Rightarrow> (recorder \<times> str, str) result" where
  "assign r key value =
     (let done = (\<lambda>r'. (r', trim value)) in
      if key = ''enabled'' then map_sum id (\<lambda>b. done (r\<lparr>rec_enabled := b\<rparr>)) (parse_bool value)
      else if key = ''hdr'' then map_sum id (\<lambda>b. done (r\<lparr>rec_hdr := b\<rparr>)) (parse_bool value)
      else if key = ''cursor'' then map_sum id (\<lambda>b. done (r\<lparr>rec_cursor := b\<rparr>)) (parse_bool value)
      else if key = ''screen_fps'' then
        map_sum id (\<lambda>n. done (r\<lparr>rec_screen_fps := of_nat n\<rparr>)) (parse_ranged value ''screen_fps'' 30 480)
      else if key = ''fps'' then
        map_sum id (\<lambda>n. done (r\<lparr>rec_fps := of_nat n\<rparr>)) (parse_ranged value ''fps'' 30 480)
      else if key = ''codec'' then
        (if value \<noteq> ''hevc'' \<and> value \<noteq> ''h264'' then Inl ''recorder codec must be h264 or hevc''
         else Inr (done (r\<lparr>rec_codec := value\<rparr>)))
      else if key = ''quality'' then
        map_sum id (\<lambda>n. done (r\<lparr>rec_quality := of_nat n\<rparr>)) (parse_ranged value ''quality'' 1 51)
      else if key = ''output_width'' then
        map_sum id (\<lambda>n. done (r\<lparr>rec_output_width := of_nat n\<rparr>))
          (parse_ranged value ''output_width'' 2 16384)
      else if key = ''output_height'' then
        map_sum id (\<lambda>n. done (r\<lparr>rec_output_height := of_nat n\<rparr>))
          (parse_ranged value ''output_height'' 2 16384)
      else if key = ''output_directory'' then
        (if trim value = [] then Inl ''recorder output_directory must not be empty''
         else Inr (done (r\<lparr>rec_output_directory := trim value\<rparr>)))
      else if key = ''container'' then
        (if value \<noteq> ''mp4'' then Inl ''recorder container must be mp4''
         else Inr (done (r\<lparr>rec_container := value\<rparr>)))
      else if key = ''desktop_audio'' \<or> key = ''microphone'' then
        (let source = trim value;
             put = (\<lambda>s. if key = ''desktop_audio'' then r\<lparr>rec_desktop_audio := s\<rparr>
                        else r\<lparr>rec_microphone := s\<rparr>)
         in if source = ''disabled'' \<or> source = [] then Inr (put ''disabled'', ''disabled'')
            else Inr (done (put source)))
      else if key = ''replay_seconds'' then
        map_sum id (\<lambda>n. done (r\<lparr>rec_replay_seconds := of_nat n\<rparr>))
          (parse_ranged value ''replay_seconds'' 2 3600)
      else if key = ''replay_max_mib'' then
        map_sum id (\<lambda>n. done (r\<lparr>rec_replay_max_mib := of_nat n\<rparr>))
          (parse_ranged value ''replay_max_mib'' 64 8192)
      else if key = ''capture_mode'' then
        (if value \<notin> set capture_modes
         then Inl ''recorder capture_mode must be screen, xwayland, inject, opengl, or vulkan''
         else Inr (done (r\<lparr>rec_capture_mode := value\<rparr>)))
      else if key = ''window_match'' \<or> key = ''window_app_id'' then
        (let identity = trim value
         in if identity = ''none'' \<or> identity = []
            then Inr (r\<lparr>rec_window_app_id := [], rec_window_title := []\<rparr>, ''none'')
            else Inr (done (r\<lparr>rec_window_app_id := identity\<rparr>)))
      else if key = ''window_title'' then
        (let identity = trim value
         in if identity = ''none'' \<or> identity = []
            then Inr (r\<lparr>rec_window_title := []\<rparr>, ''none'')
            else Inr (done (r\<lparr>rec_window_title := identity\<rparr>)))
      else if key = ''inject_process'' then
        (let process = trim value
         in if process = ''none'' \<or> process = [] then Inr (r\<lparr>rec_inject_process := []\<rparr>, ''none'')
            else if 128 < length process
            then Inl ''recorder inject_process must be at most 128 characters''
            else Inr (done (r\<lparr>rec_inject_process := process\<rparr>)))
      else if key = ''game_profile'' then
        (let profile = trim value
         in if profile = ''none'' \<or> profile = [] then Inr (r\<lparr>rec_game_profile := []\<rparr>, ''none'')
            else if \<not> list_ex (\<lambda>c. gp_name c = profile) (rec_game_profiles r)
            then Inl (''recorder game profile '' @ [CHR 0x27] @ profile @ [CHR 0x27] @ '' does not exist'')
            else Inr (done (r\<lparr>rec_game_profile := profile\<rparr>)))
      else Inl (''unknown recorder setting '' @ [CHR 0x27] @ key @ [CHR 0x27]))"

section \<open>Validation\<close>

text \<open>The condition under which \<open>validate_recorder\<close> rejects the scalar settings.\<close>

definition recorder_limits_broken :: "recorder \<Rightarrow> bool" where
  "recorder_limits_broken r \<longleftrightarrow>
     \<not> (30 \<le> rec_fps r \<and> rec_fps r \<le> 480)
     \<or> \<not> (30 \<le> rec_screen_fps r \<and> rec_screen_fps r \<le> 480)
     \<or> rec_codec r \<notin> {''hevc'', ''h264''}
     \<or> \<not> (1 \<le> rec_quality r \<and> rec_quality r \<le> 51)
     \<or> rec_output_width r = 0
     \<or> rec_output_height r = 0
     \<or> rec_output_width r > 16384
     \<or> rec_output_height r > 16384
     \<or> unat (rec_output_width r) mod 2 \<noteq> 0
     \<or> unat (rec_output_height r) mod 2 \<noteq> 0
     \<or> rec_output_directory r = []
     \<or> rec_container r \<noteq> ''mp4''
     \<or> (rec_hdr r \<and> rec_codec r \<noteq> ''hevc'')
     \<or> rec_capture_mode r \<notin> set capture_modes
     \<or> length (rec_window_app_id r) > 256
     \<or> length (rec_window_title r) > 256
     \<or> length (rec_inject_process r) > 128
     \<or> (rec_game_profile r \<noteq> [] \<and>
         \<not> list_ex (\<lambda>p. gp_name p = rec_game_profile r) (rec_game_profiles r))
     \<or> \<not> (2 \<le> rec_replay_seconds r \<and> rec_replay_seconds r \<le> 3600)
     \<or> \<not> (64 \<le> rec_replay_max_mib r \<and> rec_replay_max_mib r \<le> 8192)"

definition process_name_byte :: "char \<Rightarrow> bool" where
  "process_name_byte c \<longleftrightarrow>
     is_ascii_alphanumeric c \<or> c = CHR ''_'' \<or> c = CHR ''-'' \<or> c = CHR ''.''"

text \<open>The loop over the game profiles, with the names already seen.\<close>

fun game_profiles_ok :: "str list \<Rightarrow> game_capture_profile list \<Rightarrow> bool" where
  "game_profiles_ok seen [] = True"
| "game_profiles_ok seen (p # ps) =
     (if trim (gp_name p) = []
         \<or> gp_name p \<in> set seen
         \<or> gp_api p \<notin> {''opengl'', ''vulkan''}
         \<or> gp_command p = []
         \<or> list_ex (\<lambda>a. a = []) (gp_command p)
         \<or> \<not> (30 \<le> gp_fps p \<and> gp_fps p \<le> 480)
         \<or> (gp_target_process_name p \<noteq> []
             \<and> (gp_api p \<noteq> ''opengl''
                 \<or> length (gp_target_process_name p) > 15
                 \<or> \<not> list_all process_name_byte (gp_target_process_name p)))
      then False else game_profiles_ok (gp_name p # seen) ps)"

definition validate_recorder :: "recorder \<Rightarrow> (unit, str) result" where
  "validate_recorder r =
     (if recorder_limits_broken r
      then Inl ''invalid fps, codec, quality, dimensions, HDR codec, capture mode, remembered source, output, or replay limits''
      else if \<not> game_profiles_ok [] (rec_game_profiles r)
      then Inl ''invalid game profile name, API, command, fps limit, or target process name''
      else Inr ())"

section \<open>The runtime edit\<close>

text \<open>\<open>Recorder::apply\<close>: the edit is made on a clone that replaces \<open>self\<close> only when it validates.\<close>

definition apply_setting :: "recorder \<Rightarrow> str \<Rightarrow> str \<Rightarrow> (str, str) result \<times> recorder" where
  "apply_setting self key value =
     (case assign self key value of
        Inl e \<Rightarrow> (Inl e, self)
      | Inr (candidate, canonical) \<Rightarrow>
          (case validate_recorder candidate of
             Inl e \<Rightarrow> (Inl (''recorder '' @ key @ ''='' @ [CHR 0x27] @ value @ [CHR 0x27] @
                              '' rejected: '' @ e), self)
           | Inr _ \<Rightarrow> (Inr canonical, candidate)))"

section \<open>The settings overlay file\<close>

text \<open>
  \<open>PathBuf::join\<close> and \<open>with_extension\<close>; \<open>env\<close> is the process environment.
\<close>

definition path_join :: "str \<Rightarrow> str \<Rightarrow> str" where
  "path_join base p =
     (if starts_with p ''/'' \<or> base = [] then p
      else if last base = CHR ''/'' then base @ p else base @ ''/'' @ p)"

definition recorder_settings_path :: "(str \<Rightarrow> str option) \<Rightarrow> str" where
  "recorder_settings_path env =
     (case env ''XDG_CONFIG_HOME'' of
        Some dir \<Rightarrow>
          if dir \<noteq> [] then path_join (path_join dir ''wm'') ''recorder-settings.toml''
          else (case env ''HOME'' of
                  Some home \<Rightarrow>
                    if home \<noteq> []
                    then path_join (path_join (path_join home ''.config'') ''wm'') ''recorder-settings.toml''
                    else ''recorder-settings.toml''
                | None \<Rightarrow> ''recorder-settings.toml'')
      | None \<Rightarrow>
          (case env ''HOME'' of
             Some home \<Rightarrow>
               if home \<noteq> []
               then path_join (path_join (path_join home ''.config'') ''wm'') ''recorder-settings.toml''
               else ''recorder-settings.toml''
           | None \<Rightarrow> ''recorder-settings.toml''))"

text \<open>
  The files of the machine, and the step at which a write may fail, with the text of the
  operating system's error: the directory, the creation of the temporary, its contents (of which
  a prefix may have reached the disk), the rename.
\<close>

type_synonym files = "str \<Rightarrow> str option"

datatype write_fault =
  NoFault | MkdirFails str | CreateFails str | WriteFails str nat | RenameFails str

definition parent_dir :: "str \<Rightarrow> str" where
  "parent_dir path =
     (case rsplit_once (CHR ''/'') path of
        None \<Rightarrow> [] | Some (a, _) \<Rightarrow> if a = [] then ''/'' else a)"

text \<open>\<open>path.with_extension("toml.tmp")\<close>\<close>

definition settings_temporary :: "str \<Rightarrow> str" where
  "settings_temporary path =
     (case rsplit_once (CHR ''.'') path of
        None \<Rightarrow> path @ ''.toml.tmp'' | Some (a, _) \<Rightarrow> a @ ''.toml.tmp'')"

text \<open>
  \<open>write_recorder_settings\<close>; \<open>to_toml\<close> is the serializer of the \<open>toml\<close> crate.
\<close>

definition write_recorder_settings ::
  "(recorder \<Rightarrow> (str, str) result) \<Rightarrow> write_fault \<Rightarrow> str \<Rightarrow> recorder \<Rightarrow> files
     \<Rightarrow> (unit, str) result \<times> files" where
  "write_recorder_settings to_toml fault path r fs =
     (case fault of
        MkdirFails e \<Rightarrow> (Inl (''failed to create '' @ parent_dir path @ '': '' @ e), fs)
      | _ \<Rightarrow>
        (case to_toml r of
           Inl e \<Rightarrow> (Inl (''failed to serialize recorder settings: '' @ e), fs)
         | Inr body \<Rightarrow>
             (let temporary = settings_temporary path in
              case fault of
                CreateFails e \<Rightarrow> (Inl (''failed to write '' @ temporary @ '': '' @ e), fs)
              | WriteFails e n \<Rightarrow>
                  (Inl (''failed to write '' @ temporary @ '': '' @ e), fs(temporary \<mapsto> take n body))
              | RenameFails e \<Rightarrow>
                  (Inl (''failed to persist recorder settings: '' @ e), fs(temporary \<mapsto> body))
              | _ \<Rightarrow> (Inr (), (fs(temporary := None))(path \<mapsto> body)))))"

text \<open>\<open>clear_recorder_settings\<close>; \<open>denied\<close> is the error when the file cannot be removed.\<close>

definition clear_recorder_settings :: "str option \<Rightarrow> str \<Rightarrow> files \<Rightarrow> (bool, str) result \<times> files" where
  "clear_recorder_settings denied path fs =
     (case fs path of
        None \<Rightarrow> (Inr False, fs)
      | Some _ \<Rightarrow>
          (case denied of
             Some e \<Rightarrow> (Inl (''failed to remove '' @ path @ '': '' @ e), fs)
           | None \<Rightarrow> (Inr True, fs(path := None))))"

section \<open>Lemmas\<close>

lemma parse_ranged_Inr:
  "parse_ranged value name lo hi = Inr n \<longleftrightarrow> parse_u64 value = Some n \<and> lo \<le> n \<and> n \<le> hi"
  by (auto simp: parse_ranged_def split: option.splits)

lemma apply_setting_cases:
  obtains (rejected) e where "apply_setting r key value = (Inl e, r)"
  | (accepted) r' c where "apply_setting r key value = (Inr c, r')" "assign r key value = Inr (r', c)"
      "validate_recorder r' = Inr ()"
proof (cases "assign r key value")
  case (Inl e)
  then show thesis by (intro rejected) (simp add: apply_setting_def)
next
  case (Inr rc)
  obtain r' c where rc: "rc = (r', c)" by (cases rc)
  show thesis
  proof (cases "validate_recorder r'")
    case (Inl e)
    with Inr rc show thesis by (intro rejected) (simp add: apply_setting_def)
  next
    case (Inr u)
    with \<open>assign r key value = Inr rc\<close> rc show thesis
      by (intro accepted [of c r']) (simp_all add: apply_setting_def)
  qed
qed

lemma apply_setting_Inr:
  "apply_setting r key value = (Inr c, r') \<longleftrightarrow>
     assign r key value = Inr (r', c) \<and> validate_recorder r' = Inr ()"
  by (auto simp: apply_setting_def split: sum.splits)

lemma validate_recorder_Inr:
  "validate_recorder r = Inr () \<longleftrightarrow>
     \<not> recorder_limits_broken r \<and> game_profiles_ok [] (rec_game_profiles r)"
  by (simp add: validate_recorder_def)

lemma validate_default: "validate_recorder recorder_default = Inr ()"
  by (simp add: validate_recorder_Inr recorder_limits_broken_def recorder_default_def capture_modes_def)

lemma assign_keeps_profiles:
  "assign r key value = Inr (r', c) \<Longrightarrow> rec_game_profiles r' = rec_game_profiles r"
  unfolding assign_def Let_def
  by (elim if_eqE; clarsimp)

lemma apply_setting_valid:
  "validate_recorder r = Inr () \<Longrightarrow> validate_recorder (snd (apply_setting r key value)) = Inr ()"
  by (cases rule: apply_setting_cases [of r key "value"]) auto

interpretation settings: invariant_machine
  "\<lambda>r (key, value). snd (apply_setting r key value)" "\<lambda>r. validate_recorder r = Inr ()"
  by unfold_locales (auto intro: apply_setting_valid)

text \<open>The value an edit reports is a fixed point of the same edit.\<close>

lemma parse_ranged_trim: "parse_ranged v name lo hi = Inr n \<Longrightarrow> trim v = v"
  by (auto simp: parse_ranged_Inr intro: parse_u64_trim)

lemma parse_bool_Inr_trim: "parse_bool v = Inr b \<Longrightarrow> trim v = v"
  by (auto simp: parse_bool_def intro: parse_bool_trim)

lemma parse_ranged_of_trim:
  "parse_ranged v name lo hi = Inr n \<Longrightarrow> parse_ranged (trim v) name lo hi = parse_ranged v name lo hi"
  by (simp add: parse_ranged_trim)

lemma parse_bool_of_trim: "parse_bool v = Inr b \<Longrightarrow> parse_bool (trim v) = parse_bool v"
  by (simp add: parse_bool_Inr_trim)

lemma capture_mode_trim: "v \<in> set capture_modes \<Longrightarrow> trim v = v"
  by (rule trim_graphic) (auto simp: capture_modes_def ascii_graphic_def)

lemma literal_trims:
  "trim ''hevc'' = ''hevc''" "trim ''h264'' = ''h264''" "trim ''mp4'' = ''mp4''"
  "trim ''disabled'' = ''disabled''" "trim ''none'' = ''none''"
  by (rule trim_graphic, simp add: ascii_graphic_def)+

text \<open>The arms of \<open>assign\<close> as rewrite rules.\<close>

lemma assign_simps:
  "assign r ''enabled'' v = map_sum id (\<lambda>b. (r\<lparr>rec_enabled := b\<rparr>, trim v)) (parse_bool v)"
  "assign r ''hdr'' v = map_sum id (\<lambda>b. (r\<lparr>rec_hdr := b\<rparr>, trim v)) (parse_bool v)"
  "assign r ''cursor'' v = map_sum id (\<lambda>b. (r\<lparr>rec_cursor := b\<rparr>, trim v)) (parse_bool v)"
  "assign r ''screen_fps'' v = map_sum id (\<lambda>n. (r\<lparr>rec_screen_fps := of_nat n\<rparr>, trim v)) (parse_ranged v ''screen_fps'' 30 480)"
  "assign r ''fps'' v = map_sum id (\<lambda>n. (r\<lparr>rec_fps := of_nat n\<rparr>, trim v)) (parse_ranged v ''fps'' 30 480)"
  "assign r ''quality'' v = map_sum id (\<lambda>n. (r\<lparr>rec_quality := of_nat n\<rparr>, trim v)) (parse_ranged v ''quality'' 1 51)"
  "assign r ''output_width'' v = map_sum id (\<lambda>n. (r\<lparr>rec_output_width := of_nat n\<rparr>, trim v)) (parse_ranged v ''output_width'' 2 16384)"
  "assign r ''output_height'' v = map_sum id (\<lambda>n. (r\<lparr>rec_output_height := of_nat n\<rparr>, trim v)) (parse_ranged v ''output_height'' 2 16384)"
  "assign r ''replay_seconds'' v = map_sum id (\<lambda>n. (r\<lparr>rec_replay_seconds := of_nat n\<rparr>, trim v)) (parse_ranged v ''replay_seconds'' 2 3600)"
  "assign r ''replay_max_mib'' v = map_sum id (\<lambda>n. (r\<lparr>rec_replay_max_mib := of_nat n\<rparr>, trim v)) (parse_ranged v ''replay_max_mib'' 64 8192)"
  "assign r ''codec'' v =
     (if v \<noteq> ''hevc'' \<and> v \<noteq> ''h264'' then Inl ''recorder codec must be h264 or hevc''
      else Inr (r\<lparr>rec_codec := v\<rparr>, trim v))"
  "assign r ''output_directory'' v =
     (if trim v = [] then Inl ''recorder output_directory must not be empty''
      else Inr (r\<lparr>rec_output_directory := trim v\<rparr>, trim v))"
  "assign r ''container'' v =
     (if v \<noteq> ''mp4'' then Inl ''recorder container must be mp4''
      else Inr (r\<lparr>rec_container := v\<rparr>, trim v))"
  "assign r ''desktop_audio'' v =
     (if trim v = ''disabled'' \<or> trim v = [] then Inr (r\<lparr>rec_desktop_audio := ''disabled''\<rparr>, ''disabled'')
      else Inr (r\<lparr>rec_desktop_audio := trim v\<rparr>, trim v))"
  "assign r ''microphone'' v =
     (if trim v = ''disabled'' \<or> trim v = [] then Inr (r\<lparr>rec_microphone := ''disabled''\<rparr>, ''disabled'')
      else Inr (r\<lparr>rec_microphone := trim v\<rparr>, trim v))"
  "assign r ''capture_mode'' v =
     (if v \<notin> set capture_modes
      then Inl ''recorder capture_mode must be screen, xwayland, inject, opengl, or vulkan''
      else Inr (r\<lparr>rec_capture_mode := v\<rparr>, trim v))"
  "assign r ''window_match'' v =
     (if trim v = ''none'' \<or> trim v = []
      then Inr (r\<lparr>rec_window_app_id := [], rec_window_title := []\<rparr>, ''none'')
      else Inr (r\<lparr>rec_window_app_id := trim v\<rparr>, trim v))"
  "assign r ''window_app_id'' v =
     (if trim v = ''none'' \<or> trim v = []
      then Inr (r\<lparr>rec_window_app_id := [], rec_window_title := []\<rparr>, ''none'')
      else Inr (r\<lparr>rec_window_app_id := trim v\<rparr>, trim v))"
  "assign r ''window_title'' v =
     (if trim v = ''none'' \<or> trim v = [] then Inr (r\<lparr>rec_window_title := []\<rparr>, ''none'')
      else Inr (r\<lparr>rec_window_title := trim v\<rparr>, trim v))"
  "assign r ''inject_process'' v =
     (if trim v = ''none'' \<or> trim v = [] then Inr (r\<lparr>rec_inject_process := []\<rparr>, ''none'')
      else if 128 < length (trim v) then Inl ''recorder inject_process must be at most 128 characters''
      else Inr (r\<lparr>rec_inject_process := trim v\<rparr>, trim v))"
  "assign r ''game_profile'' v =
     (if trim v = ''none'' \<or> trim v = [] then Inr (r\<lparr>rec_game_profile := []\<rparr>, ''none'')
      else if \<not> list_ex (\<lambda>c. gp_name c = trim v) (rec_game_profiles r)
      then Inl (''recorder game profile '' @ [CHR 0x27] @ trim v @ [CHR 0x27] @ '' does not exist'')
      else Inr (r\<lparr>rec_game_profile := trim v\<rparr>, trim v))"
  by (simp_all add: assign_def Let_def)

definition setting_keys :: "str list" where
  "setting_keys =
     [''enabled'', ''hdr'', ''cursor'', ''screen_fps'', ''fps'', ''codec'', ''quality'', ''output_width'',
      ''output_height'', ''output_directory'', ''container'', ''desktop_audio'', ''microphone'',
      ''replay_seconds'', ''replay_max_mib'', ''capture_mode'', ''window_match'', ''window_app_id'',
      ''window_title'', ''inject_process'', ''game_profile'']"

lemma assign_known_key: "assign r key val = Inr x \<Longrightarrow> key \<in> set setting_keys"
  by (rule ccontr) (simp add: assign_def Let_def setting_keys_def)

lemma codec_trim: "v = ''hevc'' \<or> v = ''h264'' \<Longrightarrow> trim v = v"
  by (auto simp: literal_trims)

lemma assign_idem_choice:
  "assign r ''codec'' val = Inr (r', c) \<Longrightarrow> assign r' ''codec'' c = Inr (r', c)"
  "assign r ''capture_mode'' val = Inr (r', c) \<Longrightarrow> assign r' ''capture_mode'' c = Inr (r', c)"
proof -
  assume "assign r ''codec'' val = Inr (r', c)"
  then have "val = ''hevc'' \<or> val = ''h264''" "r' = r\<lparr>rec_codec := val\<rparr>" "c = trim val"
    unfolding assign_simps by (auto split: if_splits)
  then show "assign r' ''codec'' c = Inr (r', c)"
    unfolding assign_simps by (simp add: codec_trim)
next
  assume "assign r ''capture_mode'' val = Inr (r', c)"
  then have v: "val \<in> set capture_modes" and r: "r' = r\<lparr>rec_capture_mode := val\<rparr>" "c = trim val"
    unfolding assign_simps by (auto split: if_splits)
  have "c = val" using capture_mode_trim [OF v] r by simp
  then show "assign r' ''capture_mode'' c = Inr (r', c)"
    unfolding assign_simps using v r capture_mode_trim [OF v] by simp
qed

lemma assign_idem_each:
  "assign r ''enabled'' val = Inr (r', c) \<Longrightarrow> assign r' ''enabled'' c = Inr (r', c)"
  "assign r ''hdr'' val = Inr (r', c) \<Longrightarrow> assign r' ''hdr'' c = Inr (r', c)"
  "assign r ''cursor'' val = Inr (r', c) \<Longrightarrow> assign r' ''cursor'' c = Inr (r', c)"
  "assign r ''screen_fps'' val = Inr (r', c) \<Longrightarrow> assign r' ''screen_fps'' c = Inr (r', c)"
  "assign r ''fps'' val = Inr (r', c) \<Longrightarrow> assign r' ''fps'' c = Inr (r', c)"
  "assign r ''quality'' val = Inr (r', c) \<Longrightarrow> assign r' ''quality'' c = Inr (r', c)"
  "assign r ''output_width'' val = Inr (r', c) \<Longrightarrow> assign r' ''output_width'' c = Inr (r', c)"
  "assign r ''output_height'' val = Inr (r', c) \<Longrightarrow> assign r' ''output_height'' c = Inr (r', c)"
  "assign r ''output_directory'' val = Inr (r', c) \<Longrightarrow> assign r' ''output_directory'' c = Inr (r', c)"
  "assign r ''container'' val = Inr (r', c) \<Longrightarrow> assign r' ''container'' c = Inr (r', c)"
  "assign r ''desktop_audio'' val = Inr (r', c) \<Longrightarrow> assign r' ''desktop_audio'' c = Inr (r', c)"
  "assign r ''microphone'' val = Inr (r', c) \<Longrightarrow> assign r' ''microphone'' c = Inr (r', c)"
  "assign r ''replay_seconds'' val = Inr (r', c) \<Longrightarrow> assign r' ''replay_seconds'' c = Inr (r', c)"
  "assign r ''replay_max_mib'' val = Inr (r', c) \<Longrightarrow> assign r' ''replay_max_mib'' c = Inr (r', c)"
  "assign r ''window_match'' val = Inr (r', c) \<Longrightarrow> assign r' ''window_match'' c = Inr (r', c)"
  "assign r ''window_app_id'' val = Inr (r', c) \<Longrightarrow> assign r' ''window_app_id'' c = Inr (r', c)"
  "assign r ''window_title'' val = Inr (r', c) \<Longrightarrow> assign r' ''window_title'' c = Inr (r', c)"
  "assign r ''inject_process'' val = Inr (r', c) \<Longrightarrow> assign r' ''inject_process'' c = Inr (r', c)"
  "assign r ''game_profile'' val = Inr (r', c) \<Longrightarrow> assign r' ''game_profile'' c = Inr (r', c)"
  by (simp only: assign_simps;
      clarsimp simp: trim_idem literal_trims parse_ranged_of_trim parse_bool_of_trim
        split: if_split_asm)+

lemma assign_idem:
  assumes "assign r key val = Inr (r', c)"
  shows "assign r' key c = Inr (r', c)"
proof -
  have "key \<in> set setting_keys" using assms by (rule assign_known_key)
  then show ?thesis
    using assms unfolding setting_keys_def set_simps insert_iff empty_iff
    by (elim disjE FalseE) (hypsubst, erule assign_idem_each assign_idem_choice)+
qed

lemma game_profiles_ok_distinct:
  "game_profiles_ok seen ps \<Longrightarrow>
     distinct (map gp_name ps) \<and> set (map gp_name ps) \<inter> set seen = {}"
  by (induction seen ps rule: game_profiles_ok.induct) (auto split: if_splits)

lemma settings_temporary_ne: "settings_temporary path \<noteq> path"
proof (cases "rsplit_once (CHR ''.'') path")
  case None
  then show ?thesis by (simp add: settings_temporary_def)
next
  case (Some ab)
  obtain a b where ab: "ab = (a, b)" by (cases ab)
  from Some ab have "split_once (CHR ''.'') (rev path) = Some (rev b, rev a)"
    by (auto simp: rsplit_once_def)
  then have "rev path = rev b @ CHR ''.'' # rev a" and b: "CHR ''.'' \<notin> set b"
    by (auto simp: split_once_Some)
  then have path: "path = a @ CHR ''.'' # b"
    by (metis append.assoc append_Cons append_Nil rev.simps(2) rev_append rev_rev_ident)
  show ?thesis
  proof
    assume "settings_temporary path = path"
    with Some ab path have "a @ ''.toml.tmp'' = a @ CHR ''.'' # b"
      by (simp add: settings_temporary_def)
    with b show False by auto
  qed
qed

lemma game_profiles_ok_each:
  "game_profiles_ok seen ps \<Longrightarrow> p \<in> set ps \<Longrightarrow>
     gp_api p \<in> {''opengl'', ''vulkan''} \<and> gp_command p \<noteq> [] \<and> [] \<notin> set (gp_command p)
     \<and> 30 \<le> gp_fps p \<and> gp_fps p \<le> 480"
  by (induction seen ps rule: game_profiles_ok.induct)
    (auto simp: list_ex_iff split: if_split_asm)

section \<open>Properties\<close>

text \<open>
  C13: a rejected edit leaves the settings untouched, and however many edits arrive, valid
  settings stay valid.
\<close>

theorem edits_keep_settings_valid:
  assumes "validate_recorder r = Inr ()"
  shows "validate_recorder (foldl (\<lambda>r (key, value). snd (apply_setting r key value)) r edits) = Inr ()
    \<and> (\<forall>key value e. fst (apply_setting r key value) = Inl e \<longrightarrow> snd (apply_setting r key value) = r)"
proof
  show "validate_recorder (foldl (\<lambda>r (key, value). snd (apply_setting r key value)) r edits) = Inr ()"
    using assms by (rule settings.run_inv)
  show "\<forall>key value e. fst (apply_setting r key value) = Inl e \<longrightarrow> snd (apply_setting r key value) = r"
  proof (intro allI impI)
    fix key val e
    assume "fst (apply_setting r key val) = Inl e"
    then show "snd (apply_setting r key val) = r" by (cases rule: apply_setting_cases [of r key val]) auto
  qed
qed

text \<open>
  The canonical value an accepted edit reports, the one that is shown and stored, describes
  the settings it produced: entering it again changes nothing and reports itself.
\<close>

lemma accepted_edit_is_fixed_point:
  assumes "apply_setting r key val = (Inr c, r')"
  shows "apply_setting r' key c = (Inr c, r')"
  using assms unfolding apply_setting_Inr by (blast intro: assign_idem)

text \<open>
  Settings that validate and remember a game profile name exactly one profile by it, with a
  graphics interface the launcher knows and a command to run.
\<close>

lemma remembered_profile_exists:
  assumes "validate_recorder r = Inr ()" and "rec_game_profile r \<noteq> []"
  shows "\<exists>!p. p \<in> set (rec_game_profiles r) \<and> gp_name p = rec_game_profile r
    \<and> gp_api p \<in> {''opengl'', ''vulkan''} \<and> gp_command p \<noteq> []"
proof -
  have ok: "game_profiles_ok [] (rec_game_profiles r)" and lim: "\<not> recorder_limits_broken r"
    using assms(1) by (simp_all add: validate_recorder_Inr)
  have "inj_on gp_name (set (rec_game_profiles r))"
    using game_profiles_ok_distinct [OF ok] by (simp add: distinct_map)
  moreover obtain p where "p \<in> set (rec_game_profiles r)" "gp_name p = rec_game_profile r"
    using lim assms(2) by (auto simp: recorder_limits_broken_def list_ex_iff)
  ultimately show ?thesis
    using game_profiles_ok_each [OF ok] by (intro ex1I [of _ p]) (metis, metis inj_onD)
qed

lemma edits_keep_settings_valid_witness:
  "validate_recorder (foldl (\<lambda>r (key, value). snd (apply_setting r key value)) recorder_default
     [(''codec'', ''hevc''), (''hdr'', ''true''), (''codec'', ''h264'')]) = Inr ()"
  using edits_keep_settings_valid [OF validate_default] by blast

abbreviation sample_settings :: recorder where
  "sample_settings \<equiv> recorder_default
     \<lparr>rec_game_profile := ''g'',
      rec_game_profiles := [game_capture_profile_default\<lparr>gp_name := ''g'', gp_command := [''x'']\<rparr>]\<rparr>"

end
