(* ===== verification/CoreConfig.thy ===== *)
theory CoreConfig
  imports BTreeMap CoreRecorder CoreLayout
begin

text \<open>
  The configuration of \<open>crates/core/src/lib.rs\<close>: the sections of \<open>config.toml\<close> with their defaults
  (key bindings included), colours, \<open>Config::validate\<close>, and the loading of the base file with the
  recorder settings laid over it. The TOML reader is a parameter. The lemmas show that what is
  loaded is valid, that the overlay replaces exactly the recorder section, and that settings
  which were persisted are the ones the next load sees.
\<close>

section \<open>Data\<close>

record theme =
  th_background :: str
  th_foreground :: str
  th_accent :: str
  th_muted :: str
  th_font :: str
  th_font_size :: u32
  th_gap :: int
  th_border :: int
  th_shadow_size :: int
  th_shadow_opacity :: f32
  th_radius :: f32
  th_opacity :: f32
  th_blur :: bool
  th_blur_passes :: u32
  th_animation_ms :: u32
  th_reduced_motion :: bool

definition theme_default :: theme where
  "theme_default =
     \<lparr>th_background = ''#1b1b14'', th_foreground = ''#fff3d1'', th_accent = ''#e7bd58'',
      th_muted = ''#aeb286'', th_font = ''Noto Sans'', th_font_size = 14, th_gap = 8, th_border = 1,
      th_shadow_size = 10, th_shadow_opacity = rnd32 (3 / 10), th_radius = Fin 14,
      th_opacity = rnd32 (94 / 100), th_blur = False, th_blur_passes = 2, th_animation_ms = 140,
      th_reduced_motion = False\<rparr>"

record layout =
  ly_mode :: str
  ly_master_ratio :: f64
  ly_workspaces :: u8

definition layout_default :: layout where
  "layout_default =
     \<lparr>ly_mode = ''master'', ly_master_ratio = rnd (55 / 100), ly_workspaces = 9\<rparr>"

record input =
  in_layout :: str
  in_variant :: str
  in_options :: str
  in_repeat_delay :: int
  in_repeat_rate :: int
  in_natural_scroll :: bool
  in_tap_to_click :: bool
  in_pointer_accel :: f64
  in_mouse_modifier :: str
  in_follow_mouse :: bool

definition input_default :: input where
  "input_default =
     \<lparr>in_layout = ''us'', in_variant = [], in_options = [], in_repeat_delay = 200,
      in_repeat_rate = 25, in_natural_scroll = False, in_tap_to_click = True,
      in_pointer_accel = Fin 0, in_mouse_modifier = ''Super'', in_follow_mouse = True\<rparr>"

record shell =
  sh_enabled :: bool
  sh_backend :: str
  sh_position :: str
  sh_height :: int
  sh_modules :: "str list"
  sh_do_not_disturb :: bool

definition shell_default :: shell where
  "shell_default =
     \<lparr>sh_enabled = True, sh_backend = ''sctk'', sh_position = ''top'', sh_height = 42,
      sh_modules = [''workspaces'', ''title'', ''audio'', ''network'', ''bluetooth'', ''media'', ''tray'',
        ''battery'', ''notifications'', ''clock'', ''power''],
      sh_do_not_disturb = False\<rparr>"

record wallpaper =
  wp_path :: str
  wp_kind :: str
  wp_fit :: str
  wp_fps :: u32
  wp_pause_on_battery :: bool
  wp_outputs :: "(str, str) btree"

definition wallpaper_default :: wallpaper where
  "wallpaper_default =
     \<lparr>wp_path = [], wp_kind = ''static'', wp_fit = ''fill'', wp_fps = 30,
      wp_pause_on_battery = True, wp_outputs = []\<rparr>"

record performance =
  pf_profile :: str
  pf_fullscreen_vrr :: bool

definition performance_default :: performance where
  "performance_default = \<lparr>pf_profile = ''auto'', pf_fullscreen_vrr = True\<rparr>"

record window_rule =
  wr_app_id :: "str option"
  wr_title :: "str option"
  wr_workspace :: "u8 option"
  wr_output :: "str option"
  wr_floating :: "bool option"
  wr_width :: "int option"
  wr_height :: "int option"
  wr_opacity :: "f32 option"
  wr_blur :: "bool option"

record config =
  cf_theme :: theme
  cf_layout :: layout
  cf_input :: input
  cf_terminal :: "str list"
  cf_bindings :: "(str, str) btree"
  cf_startup :: "str list list"
  cf_wallpaper :: wallpaper
  cf_outputs :: "(str, output_config) btree"
  cf_rules :: "window_rule list"
  cf_shell :: shell
  cf_recorder :: recorder
  cf_performance :: performance

definition named_bindings :: "(str \<times> str) list" where
  "named_bindings =
     [(''Super+Return'', ''terminal''), (''Super+space'', ''launcher''), (''Super+Shift+Q'', ''close''),
      (''Super+q'', ''close''), (''Super+f'', ''fullscreen''), (''Super+Shift+space'', ''floating''),
      (''Super+m'', ''layout monocle''), (''Super+t'', ''layout master''),
      (''Super+Shift+R'', ''reload''), (''Super+minus'', ''ratio -0.05''),
      (''Super+equal'', ''ratio 0.05''), (''Super+grave'', ''scratchpad show''),
      (''Super+Shift+asciitilde'', ''scratchpad send''), (''Super+Escape'', ''lock''),
      (''Super+Shift+E'', ''quit''), (''Super+Alt+R'', ''recorder''),
      (''Super+F8'', ''recorder replay-save''), (''Super+F9'', ''recorder toggle''),
      (''Super+F10'', ''recorder pause'')]"

definition direction_bindings :: "(str \<times> str) list" where
  "direction_bindings =
     concat (map (\<lambda>(key, dir). [(''Super+'' @ key, ''focus '' @ dir), (''Super+Shift+'' @ key, ''move '' @ dir)])
       [(''Left'', ''left''), (''Right'', ''right''), (''Up'', ''up''), (''Down'', ''down'')])"

definition config_default :: config where
  "config_default =
     \<lparr>cf_theme = theme_default, cf_layout = layout_default, cf_input = input_default,
      cf_terminal = [''kitty''],
      cf_bindings =
        bt_extend (map (\<lambda>n. (''Super+Shift+'' @ show_nat n, ''send '' @ show_nat n)) [1..<10])
          (bt_extend (map (\<lambda>n. (''Super+'' @ show_nat n, ''workspace '' @ show_nat n)) [1..<10])
            (bt_extend direction_bindings (bt_extend named_bindings []))),
      cf_startup = [], cf_wallpaper = wallpaper_default, cf_outputs = [], cf_rules = [],
      cf_shell = shell_default, cf_recorder = recorder_default,
      cf_performance = performance_default\<rparr>"

section \<open>Colours\<close>

text \<open>A channel is the byte divided by 255 in \<open>f32\<close>.\<close>

definition channel :: "nat \<Rightarrow> f32" where
  "channel b = rnd32 (of_nat b / 255)"

definition color :: "str \<Rightarrow> (f32 \<times> f32 \<times> f32 \<times> f32) option" where
  "color s =
     (case strip_prefix ''#'' s of
        None \<Rightarrow> None
      | Some h \<Rightarrow>
          if length h \<noteq> 6 then None
          else (case parse_uint_radix 16 4294967295 h of
                  None \<Rightarrow> None
                | Some v \<Rightarrow>
                    Some (channel (v div 65536 mod 256), channel (v div 256 mod 256),
                          channel (v mod 256), Fin 1)))"

section \<open>Validation\<close>

definition theme_limits_broken :: "theme \<Rightarrow> bool" where
  "theme_limits_broken t \<longleftrightarrow>
     \<not> (0 \<le> th_gap t \<and> th_gap t \<le> 100)
     \<or> \<not> (0 \<le> th_border t \<and> th_border t \<le> 20)
     \<or> \<not> (0 \<le> th_shadow_size t \<and> th_shadow_size t \<le> 80)
     \<or> \<not> f64_between (Fin 0) (Fin 1) (th_shadow_opacity t)
     \<or> \<not> f64_between (Fin 0) (Fin 100) (th_radius t)
     \<or> \<not> f64_between (Fin 0) (Fin 1) (th_opacity t)
     \<or> th_blur_passes t > 8
     \<or> th_animation_ms t > 2000
     \<or> \<not> (6 \<le> th_font_size t \<and> th_font_size t \<le> 72)"

definition output_transforms :: "str list" where
  "output_transforms =
     [''normal'', ''90'', ''180'', ''270'', ''flipped'', ''flipped-90'', ''flipped-180'', ''flipped-270'']"

definition output_broken :: "output_config \<Rightarrow> bool" where
  "output_broken c \<longleftrightarrow>
     \<not> f64_between (rnd (1 / 2)) (Fin 4) (oc_scale c)
     \<or> oc_transform c \<notin> set output_transforms
     \<or> oc_width c < 0 \<or> oc_height c < 0
     \<or> \<not> is_finite (oc_hz c)
     \<or> \<not> f64_between (Fin 0) (Fin 1000) (oc_hz c)
     \<or> oc_refresh c < 0
     \<or> (f64_lt (Fin 0) (oc_hz c) \<and> oc_refresh c > 0)
     \<or> (oc_width c = 0) \<noteq> (oc_height c = 0)"

definition binding_ok :: "str \<Rightarrow> bool" where
  "binding_ok binding =
     (let parts = split_at (CHR ''+'') binding
      in last parts \<noteq> []
         \<and> \<not> list_ex (\<lambda>m. m \<notin> {''Super'', ''Ctrl'', ''Alt'', ''Shift''}) (butlast parts))"

definition rule_broken :: "u8 \<Rightarrow> window_rule \<Rightarrow> bool" where
  "rule_broken workspaces r \<longleftrightarrow>
     (case wr_workspace r of None \<Rightarrow> False | Some w \<Rightarrow> w < 1 \<or> w > workspaces)
     \<or> (case wr_width r of None \<Rightarrow> False | Some w \<Rightarrow> w < 1)
     \<or> (case wr_height r of None \<Rightarrow> False | Some h \<Rightarrow> h < 1)
     \<or> (case wr_opacity r of None \<Rightarrow> False | Some v \<Rightarrow> \<not> f64_between (Fin 0) (Fin 1) v)"

definition config_validate :: "config \<Rightarrow> (unit, str) result" where
  "config_validate c =
     (let theme = cf_theme c; layout = cf_layout c; input = cf_input c;
          wallpaper = cf_wallpaper c; shell = cf_shell c in
      if pf_profile (cf_performance c) \<notin> {''auto'', ''desktop'', ''gaming''}
      then Inl ''performance profile must be auto, desktop, or gaming''
      else if \<not> f64_between (rnd (1 / 10)) (rnd (9 / 10)) (ly_master_ratio layout)
              \<or> \<not> (1 \<le> ly_workspaces layout \<and> ly_workspaces layout \<le> 9)
      then Inl ''master_ratio must be 0.1..0.9; workspaces 1..9''
      else if ly_mode layout \<notin> {''master'', ''monocle''}
      then Inl ''layout mode must be master or monocle''
      else if theme_limits_broken theme
      then Inl ''invalid theme dimensions/effect limits''
      else
      (case List.find (\<lambda>s. color s = None)
              [th_background theme, th_foreground theme, th_accent theme, th_muted theme] of
         Some s \<Rightarrow> Inl (''invalid RGB color: '' @ s)
       | None \<Rightarrow>
      if cf_terminal c = [] \<or> list_ex (\<lambda>command. command = []) (cf_startup c)
      then Inl ''commands must contain an executable''
      else if \<not> (1 \<le> wp_fps wallpaper \<and> wp_fps wallpaper \<le> 240)
              \<or> wp_kind wallpaper \<notin> {''static'', ''video''}
              \<or> wp_fit wallpaper \<notin> {''fit'', ''fill''}
      then Inl ''invalid wallpaper kind, fit, or fps''
      else if sh_backend shell \<notin> {''gtk'', ''sctk''}
              \<or> sh_position shell \<notin> {''top'', ''bottom''}
              \<or> \<not> (20 \<le> sh_height shell \<and> sh_height shell \<le> 100)
      then Inl ''invalid shell backend, bar position, or height''
      else if \<not> is_ok (validate_recorder (cf_recorder c))
      then Inl ''invalid recorder fps, codec, quality, dimensions, HDR codec, capture mode, remembered source, output, or replay limits''
      else if \<not> game_profiles_ok [] (rec_game_profiles (cf_recorder c))
      then Inl ''invalid recorder game profile name, API, command, fps limit, or target process name''
      else if list_ex (\<lambda>(_, o'). output_broken o') (cf_outputs c)
      then Inl ''invalid output settings''
      else if \<not> (0 \<le> in_repeat_rate input \<and> in_repeat_rate input \<le> 100)
              \<or> \<not> (0 \<le> in_repeat_delay input \<and> in_repeat_delay input \<le> 5000)
              \<or> \<not> f64_between (Fin (-1)) (Fin 1) (in_pointer_accel input)
              \<or> in_mouse_modifier input \<notin> {''Super'', ''Alt'', ''Control'', ''disabled''}
      then Inl ''invalid input settings''
      else
      (case List.find (\<lambda>(binding, _). \<not> binding_ok binding) (cf_bindings c) of
         Some (binding, _) \<Rightarrow> Inl (''invalid binding: '' @ binding)
       | None \<Rightarrow>
      if list_ex (rule_broken (ly_workspaces layout)) (cf_rules c)
      then Inl ''invalid window rule''
      else Inr ())))"

section \<open>Loading\<close>

definition config_path :: "(str \<Rightarrow> str option) \<Rightarrow> str" where
  "config_path env =
     (case env ''WM_CONFIG'' of
        Some p \<Rightarrow> p
      | None \<Rightarrow>
          path_join
            (case env ''XDG_CONFIG_HOME'' of
               Some dir \<Rightarrow> dir
             | None \<Rightarrow> path_join (case env ''HOME'' of Some home \<Rightarrow> home | None \<Rightarrow> []) ''.config'')
            ''wm/config.toml'')"

definition socket_path :: "(str \<Rightarrow> str option) \<Rightarrow> (str, str) result" where
  "socket_path env =
     (case env ''WM_SOCKET'' of
        Some p \<Rightarrow> Inr p
      | None \<Rightarrow>
          (case env ''XDG_RUNTIME_DIR'' of
             None \<Rightarrow> Inl ''XDG_RUNTIME_DIR is missing''
           | Some dir \<Rightarrow> Inr (path_join dir ''wm.sock'')))"

text \<open>
  \<open>toml::from_str\<close> at its two types is a parameter; its error is already the text of
  \<open>to_string\<close>.
\<close>

record toml =
  toml_config :: "str \<Rightarrow> (config, str) result"
  toml_recorder :: "str \<Rightarrow> (recorder, str) result"

definition parse_with_settings :: "toml \<Rightarrow> str \<Rightarrow> str option \<Rightarrow> (config, str) result" where
  "parse_with_settings tm base settings =
     bindR (if trim base = [] then Inr config_default else toml_config tm (trim base)) (\<lambda>c.
     bindR (case settings of
              None \<Rightarrow> Inr c
            | Some s \<Rightarrow>
                map_sum id (\<lambda>r. c\<lparr>cf_recorder := r\<rparr>)
                  (map_err (\<lambda>e. ''recorder settings: '' @ e) (toml_recorder tm s))) (\<lambda>c'.
     bindR (config_validate c') (\<lambda>_. Inr c')))"

definition config_parse :: "toml \<Rightarrow> str \<Rightarrow> (config, str) result" where
  "config_parse tm s = parse_with_settings tm s None"

text \<open>\<open>Config::load\<close>; \<open>read\<close> is \<open>std::fs::read_to_string\<close>.\<close>

definition config_load ::
  "toml \<Rightarrow> (str \<Rightarrow> str option) \<Rightarrow> (str \<Rightarrow> (str, io_error) result) \<Rightarrow> (config, str) result" where
  "config_load tm env read =
     (let p = config_path env
      in bindR (case read p of
                  Inr s \<Rightarrow> Inr s
                | Inl NotFound \<Rightarrow> Inr []
                | Inl (OtherIo e) \<Rightarrow> Inl (p @ '': '' @ e)) (\<lambda>base.
         parse_with_settings tm base
           (case read (recorder_settings_path env) of Inr s \<Rightarrow> Some s | Inl _ \<Rightarrow> None)))"

text \<open>Reading the files of the machine.\<close>

definition read_files :: "files \<Rightarrow> str \<Rightarrow> (str, io_error) result" where
  "read_files fs p = (case fs p of Some s \<Rightarrow> Inr s | None \<Rightarrow> Inl NotFound)"

section \<open>What a valid configuration guarantees\<close>

text \<open>A chain of guards succeeds when every guard lets it through.\<close>

lemma guard_Inr:
  "((if b then Inl e else x) = Inr u) \<longleftrightarrow> \<not> b \<and> x = Inr u"
  "((case oo of Some y \<Rightarrow> Inl (f y) | None \<Rightarrow> x) = Inr u) \<longleftrightarrow> oo = None \<and> x = Inr u"
  by (auto split: option.splits)

lemma find_binding_None:
  "List.find (\<lambda>(binding, _). \<not> binding_ok binding) bs = None
     \<longleftrightarrow> (\<forall>p \<in> set bs. binding_ok (fst p))"
  by (auto simp: find_None_iff)

lemma find_color_None:
  "List.find (\<lambda>s. color s = None) [a, b, c, d] = None
     \<longleftrightarrow> color a \<noteq> None \<and> color b \<noteq> None \<and> color c \<noteq> None \<and> color d \<noteq> None"
  by simp

lemma outputs_ok_iff:
  "\<not> list_ex (\<lambda>(_, o'). output_broken o') os \<longleftrightarrow> (\<forall>p \<in> set os. \<not> output_broken (snd p))"
  by (induction os) auto

lemma list_ex_not: "\<not> list_ex P xs \<longleftrightarrow> (\<forall>x \<in> set xs. \<not> P x)"
  by (induction xs) auto

lemma recorder_ok_iff:
  "is_ok (validate_recorder r) \<and> game_profiles_ok [] (rec_game_profiles r)
     \<longleftrightarrow> validate_recorder r = Inr ()"
  by (auto simp: validate_recorder_def)

lemma binding_case_Inr:
  "((case x of Some (binding, _) \<Rightarrow> Inl (f binding) | None \<Rightarrow> y) = Inr u) \<longleftrightarrow> x = None \<and> y = Inr u"
  by (auto split: option.splits)

lemma config_validate_Inr:
  "config_validate c = Inr () \<longleftrightarrow>
     pf_profile (cf_performance c) \<in> {''auto'', ''desktop'', ''gaming''}
     \<and> f64_between (rnd (1 / 10)) (rnd (9 / 10)) (ly_master_ratio (cf_layout c))
     \<and> 1 \<le> ly_workspaces (cf_layout c) \<and> ly_workspaces (cf_layout c) \<le> 9
     \<and> ly_mode (cf_layout c) \<in> {''master'', ''monocle''}
     \<and> \<not> theme_limits_broken (cf_theme c)
     \<and> color (th_background (cf_theme c)) \<noteq> None \<and> color (th_foreground (cf_theme c)) \<noteq> None
     \<and> color (th_accent (cf_theme c)) \<noteq> None \<and> color (th_muted (cf_theme c)) \<noteq> None
     \<and> cf_terminal c \<noteq> [] \<and> (\<forall>command \<in> set (cf_startup c). command \<noteq> [])
     \<and> 1 \<le> wp_fps (cf_wallpaper c) \<and> wp_fps (cf_wallpaper c) \<le> 240
     \<and> wp_kind (cf_wallpaper c) \<in> {''static'', ''video''}
     \<and> wp_fit (cf_wallpaper c) \<in> {''fit'', ''fill''}
     \<and> sh_backend (cf_shell c) \<in> {''gtk'', ''sctk''} \<and> sh_position (cf_shell c) \<in> {''top'', ''bottom''}
     \<and> 20 \<le> sh_height (cf_shell c) \<and> sh_height (cf_shell c) \<le> 100
     \<and> validate_recorder (cf_recorder c) = Inr ()
     \<and> (\<forall>p \<in> set (cf_outputs c). \<not> output_broken (snd p))
     \<and> 0 \<le> in_repeat_rate (cf_input c) \<and> in_repeat_rate (cf_input c) \<le> 100
     \<and> 0 \<le> in_repeat_delay (cf_input c) \<and> in_repeat_delay (cf_input c) \<le> 5000
     \<and> f64_between (Fin (-1)) (Fin 1) (in_pointer_accel (cf_input c))
     \<and> in_mouse_modifier (cf_input c) \<in> {''Super'', ''Alt'', ''Control'', ''disabled''}
     \<and> (\<forall>p \<in> set (cf_bindings c). binding_ok (fst p))
     \<and> (\<forall>r \<in> set (cf_rules c). \<not> rule_broken (ly_workspaces (cf_layout c)) r)"
  unfolding config_validate_def Let_def guard_Inr binding_case_Inr find_binding_None find_color_None
    outputs_ok_iff recorder_ok_iff [symmetric]
  by (simp only: de_Morgan_disj not_not conj_assoc simp_thms list_ex_not outputs_ok_iff)

lemma foldl_insert_keys:
  "fst ` set (foldl (\<lambda>m (k, v). bt_insert k v m) m kvs) = fst ` set kvs \<union> fst ` set m"
proof (induction kvs arbitrary: m)
  case Nil
  then show ?case by simp
next
  case (Cons kv kvs)
  show ?case by (cases kv) (simp add: Cons.IH bt_insert_keys)
qed

lemma bt_extend_keys: "fst ` set (bt_extend kvs m) = fst ` set kvs \<union> fst ` set m"
  by (simp only: bt_extend_def foldl_insert_keys)

lemma digit_names: "map show_nat [1..<10] = [''1'', ''2'', ''3'', ''4'', ''5'', ''6'', ''7'', ''8'', ''9'']"
  by code_simp

lemma digit_names_set: "show_nat ` {1..<10} = {''1'', ''2'', ''3'', ''4'', ''5'', ''6'', ''7'', ''8'', ''9''}"
proof -
  have "show_nat ` {1..<10} = set (map show_nat [1..<10])" by simp
  then show ?thesis unfolding digit_names by simp
qed

lemma default_bindings_ok: "\<forall>p \<in> set (cf_bindings config_default). binding_ok (fst p)"
proof -
  have named: "\<forall>k \<in> fst ` set named_bindings. binding_ok k"
    by (simp add: named_bindings_def binding_ok_def)
  have direction: "\<forall>k \<in> fst ` set direction_bindings. binding_ok k"
    by (simp add: direction_bindings_def binding_ok_def)
  have digits: "\<forall>k \<in> show_nat ` {1..<10}. binding_ok (''Super+'' @ k) \<and> binding_ok (''Super+Shift+'' @ k)"
    unfolding digit_names_set by (simp add: binding_ok_def)
  have keys: "fst ` set (cf_bindings config_default) =
      (\<lambda>n. ''Super+Shift+'' @ show_nat n) ` {1..<10} \<union> (\<lambda>n. ''Super+'' @ show_nat n) ` {1..<10}
      \<union> fst ` set direction_bindings \<union> fst ` set named_bindings"
    by (simp add: config_default_def bt_extend_keys image_image Un_assoc del: append.simps)
  have "\<forall>k \<in> fst ` set (cf_bindings config_default). binding_ok k"
    unfolding keys using named direction digits by (simp add: ball_Un del: append.simps)
  then show ?thesis by simp
qed

lemma default_colors:
  "color ''#1b1b14'' \<noteq> None" "color ''#fff3d1'' \<noteq> None" "color ''#e7bd58'' \<noteq> None"
  "color ''#aeb286'' \<noteq> None"
  by (simp_all add: color_def strip_prefix_def parse_uint_radix_def strip_plus_def to_digit_def Let_def)

lemma default_floats:
  "f64_between (rnd (1 / 10)) (rnd (9 / 10)) (rnd (11 / 20))"
  "f64_between (Fin 0) (Fin 1) (rnd32 (3 / 10))"
  "f64_between (Fin 0) (Fin 1) (rnd32 (47 / 50))"
  by (simp_all add: rnd_eval f64_between_def)

lemma default_config_valid: "config_validate config_default = Inr ()"
  unfolding config_validate_Inr
  using default_bindings_ok default_colors default_floats validate_default
  by (simp add: config_default_def theme_default_def layout_default_def input_default_def
      shell_default_def wallpaper_default_def performance_default_def theme_limits_broken_def
      f64_between_def)

section \<open>Loading a configuration\<close>


lemma config_load_Inr:
  "config_load tm env (read_files fs) = Inr c \<longleftrightarrow>
     (\<exists>c0. (case fs (config_path env) of None \<Rightarrow> c0 = config_default
            | Some s \<Rightarrow> if trim s = [] then c0 = config_default else toml_config tm (trim s) = Inr c0)
       \<and> (case fs (recorder_settings_path env) of None \<Rightarrow> c = c0
          | Some s \<Rightarrow> \<exists>r. toml_recorder tm s = Inr r \<and> c = c0\<lparr>cf_recorder := r\<rparr>)
       \<and> config_validate c = Inr ())"
  by (auto simp: config_load_def read_files_def parse_with_settings_def split: option.splits)

text \<open>
  On a machine without any configuration file the program starts with its defaults, and they
  are valid.
\<close>

lemma first_start_loads: "config_load tm env (read_files (\<lambda>_. None)) = Inr config_default"
  by (simp add: config_load_Inr default_config_valid)

lemma config_with_recorder:
  fixes c :: config
  shows "cf_theme (c\<lparr>cf_recorder := r\<rparr>) = cf_theme c" "cf_layout (c\<lparr>cf_recorder := r\<rparr>) = cf_layout c"
    "cf_input (c\<lparr>cf_recorder := r\<rparr>) = cf_input c" "cf_terminal (c\<lparr>cf_recorder := r\<rparr>) = cf_terminal c"
    "cf_bindings (c\<lparr>cf_recorder := r\<rparr>) = cf_bindings c" "cf_startup (c\<lparr>cf_recorder := r\<rparr>) = cf_startup c"
    "cf_wallpaper (c\<lparr>cf_recorder := r\<rparr>) = cf_wallpaper c" "cf_outputs (c\<lparr>cf_recorder := r\<rparr>) = cf_outputs c"
    "cf_rules (c\<lparr>cf_recorder := r\<rparr>) = cf_rules c" "cf_shell (c\<lparr>cf_recorder := r\<rparr>) = cf_shell c"
    "cf_performance (c\<lparr>cf_recorder := r\<rparr>) = cf_performance c"
    "cf_recorder (c\<lparr>cf_recorder := r\<rparr>) = r"
  by simp_all

lemma config_validate_recorder:
  fixes c :: config
  shows "config_validate c = Inr () \<Longrightarrow> validate_recorder r = Inr () \<Longrightarrow>
   config_validate (c\<lparr>cf_recorder := r\<rparr>) = Inr ()"
  unfolding config_validate_Inr config_with_recorder by (elim conjE, intro conjI; assumption)

lemma write_recorder_settings_Inr:
  "write_recorder_settings to_toml fault path r fs = (Inr (), fs') \<Longrightarrow>
     fault = NoFault \<and> (\<exists>body. to_toml r = Inr body
       \<and> fs' = (fs(settings_temporary path := None))(path \<mapsto> body))"
  by (auto simp: write_recorder_settings_def Let_def split: write_fault.splits sum.splits)

lemma write_recorder_settings_Inl:
  "write_recorder_settings to_toml fault path r fs = (Inl e, fs') \<Longrightarrow>
     q \<noteq> settings_temporary path \<Longrightarrow> fs' q = fs q"
  by (auto simp: write_recorder_settings_def Let_def split: write_fault.splits sum.splits)

text \<open>
  C15: recorder settings that were accepted and persisted are the ones the next start uses, with
  the rest of the configuration unchanged, provided the TOML crate reads back what it wrote.
\<close>

theorem persisted_settings_load:
  assumes "write_recorder_settings to_toml fault (recorder_settings_path env) r fs = (Inr (), fs')"
    and "config_path env \<noteq> recorder_settings_path env"
    and "config_path env \<noteq> settings_temporary (recorder_settings_path env)"
    and toml: "\<And>body. to_toml r = Inr body \<Longrightarrow> toml_recorder tm body = Inr r"
    and before: "config_load tm env (read_files fs) = Inr c"
    and "validate_recorder r = Inr ()"
  shows "config_load tm env (read_files fs') = Inr (c\<lparr>cf_recorder := r\<rparr>)"
proof -
  obtain body where body: "to_toml r = Inr body"
    and fs': "fs' = (fs(settings_temporary (recorder_settings_path env) := None))
        (recorder_settings_path env \<mapsto> body)"
    using write_recorder_settings_Inr [OF assms(1)] by blast
  have "config_validate c = Inr ()" using before by (auto simp: config_load_Inr)
  then have "config_validate (c\<lparr>cf_recorder := r\<rparr>) = Inr ()"
    using assms(6) by (rule config_validate_recorder)
  moreover obtain c0 where
      base: "case fs (config_path env) of None \<Rightarrow> c0 = config_default
        | Some s \<Rightarrow> if trim s = [] then c0 = config_default else toml_config tm (trim s) = Inr c0"
    and "case fs (recorder_settings_path env) of None \<Rightarrow> c = c0
        | Some s \<Rightarrow> \<exists>r. toml_recorder tm s = Inr r \<and> c = c0\<lparr>cf_recorder := r\<rparr>"
    using before unfolding config_load_Inr by blast
  then have "c\<lparr>cf_recorder := r\<rparr> = c0\<lparr>cf_recorder := r\<rparr>"
    by (auto split: option.splits)
  moreover have "fs' (config_path env) = fs (config_path env)"
      "fs' (recorder_settings_path env) = Some body"
    using assms(2,3) by (simp_all add: fs')
  ultimately show ?thesis
    unfolding config_load_Inr using base toml [OF body] by (intro exI [of _ c0]) simp
qed

text \<open>
  A settings write that fails at any step, a partial write of the temporary included, leaves
  the next start exactly as it was.
\<close>

lemma failed_settings_write_harmless:
  assumes "write_recorder_settings to_toml fault (recorder_settings_path env) r fs = (Inl e, fs')"
    and "config_path env \<noteq> settings_temporary (recorder_settings_path env)"
  shows "config_load tm env (read_files fs') = config_load tm env (read_files fs)"
proof -
  have "fs' (config_path env) = fs (config_path env)"
    using assms by (blast dest: write_recorder_settings_Inl)
  moreover have "fs' (recorder_settings_path env) = fs (recorder_settings_path env)"
    using assms(1) by (rule write_recorder_settings_Inl) (metis settings_temporary_ne)
  ultimately show ?thesis by (simp add: config_load_def read_files_def)
qed

text \<open>
  A settings file that exists but cannot be read is treated as if it did not exist.
\<close>

lemma unreadable_settings_ignored:
  assumes "read (recorder_settings_path env) = Inl (OtherIo e)"
    and "config_path env \<noteq> recorder_settings_path env"
  shows "config_load tm env read
    = config_load tm env (read(recorder_settings_path env := Inl NotFound))"
  using assms by (simp add: config_load_def)

section \<open>The properties on a concrete machine\<close>

abbreviation home_env :: "str \<Rightarrow> str option" where
  "home_env \<equiv> (\<lambda>_. None)(''HOME'' \<mapsto> ''/h'')"

text \<open>A reader and a writer that only know the default settings.\<close>

abbreviation toy_toml :: toml where
  "toy_toml \<equiv>
     \<lparr>toml_config = \<lambda>_. Inl ''unreadable'',
      toml_recorder = \<lambda>s. if s = ''r'' then Inr recorder_default else Inl ''unreadable''\<rparr>"

lemma home_paths:
  "config_path home_env = ''/h/.config/wm/config.toml''"
  "recorder_settings_path home_env = ''/h/.config/wm/recorder-settings.toml''"
  "settings_temporary ''/h/.config/wm/recorder-settings.toml'' = ''/h/.config/wm/recorder-settings.toml.tmp''"
  by (simp_all add: config_path_def recorder_settings_path_def path_join_def starts_with_def
      strip_prefix_def settings_temporary_def rsplit_once_def)


lemma persisted_settings_load_witness:
  "config_load toy_toml home_env
     (read_files (\<lambda>p. if p = recorder_settings_path home_env then Some ''r'' else None))
   = Inr (config_default\<lparr>cf_recorder := recorder_default\<rparr>)"
proof (rule persisted_settings_load [where to_toml = "\<lambda>_. Inr ''r''" and fs = "\<lambda>_. None" and fault = NoFault])
  show "config_load toy_toml home_env (read_files (\<lambda>_. None)) = Inr config_default"
    by (rule first_start_loads)
qed (auto simp: write_recorder_settings_def home_paths validate_default fun_eq_iff)

text \<open>
  A colour whose six characters after \<open>#\<close> start with a plus sign is accepted, although it
  is not an RGB colour: the sign is part of what \<open>from_str_radix\<close> reads.
\<close>

lemma color_accepts_sign:
  "color ''#+12345'' = Some (channel 1, channel 35, channel 69, Fin 1)"
  by (simp add: color_def strip_prefix_def parse_uint_radix_def strip_plus_def to_digit_def Let_def)

end
