(* ===== verification/Protocol.thy ===== *)
theory Protocol
  imports RustStr
begin

text \<open>
  The wire protocol of \<open>crates/game-capture-protocol/src/lib.rs\<close>: messages, their big-endian
  encoding, the cursor the decoder reads with, the framed channel with its sequence numbers, and
  the two sides of the authentication. The socket is its bytes: what the peer has written and is
  not yet read, what this side has written, and how many more bytes can be written before the
  connection breaks.
\<close>

section \<open>Data\<close>

definition PROTOCOL_VERSION :: u16 where "PROTOCOL_VERSION = 1"
definition TOKEN_LEN :: nat where "TOKEN_LEN = 32"
definition MAX_CONTROL_BYTES :: nat where "MAX_CONTROL_BYTES = 65536"
definition MAX_ACCESS_UNIT_BYTES :: nat where "MAX_ACCESS_UNIT_BYTES = 67108864"
definition MAGIC :: u32 where "MAGIC = 0x4c474350"
definition HEADER_LEN :: nat where "HEADER_LEN = 16"

type_synonym bytes = "u8 list"
type_synonym session_token = bytes \<comment> \<open>of length \<open>TOKEN_LEN\<close>\<close>

datatype codec = H264

record video_config =
  vc_codec :: codec
  vc_width :: u32
  vc_height :: u32
  vc_fps_num :: u32
  vc_fps_den :: u32

record frame_stats =
  fs_submitted :: u64
  fs_encoded :: u64
  fs_dropped_before_encode :: u64
  fs_dropped_send_backpressure :: u64
  fs_encode_latency_us :: u64

record access_unit =
  au_pts_ns :: u64
  au_dts_ns :: u64
  au_duration_ns :: u64
  au_flags :: u32
  au_data :: bytes

datatype message =
    ClientHello session_token u32 u32
  | ServerHello u64
  | Start video_config
  | AccessUnit access_unit
  | Stats frame_stats
  | Stop
  | ErrorMsg u32 str

datatype protocol_error =
    Io str
  | UnsupportedVersion u16
  | BadMagic
  | UnknownMessage u16
  | Oversized str nat nat
  | Sequence u32 u32
  | AuthenticationFailed
  | ServerRejected u32 str
  | InvalidPayload str

text \<open>\<open>AccessUnitFlags::from_bits\<close> and \<open>contains\<close>\<close>

definition flags_from_bits :: "u32 \<Rightarrow> (u32, protocol_error) result" where
  "flags_from_bits bits =
     (if and bits (not 3) \<noteq> 0 then Inl (InvalidPayload ''unknown access-unit flags'') else Inr bits)"

definition flags_contains :: "u32 \<Rightarrow> u32 \<Rightarrow> bool" where
  "flags_contains self other \<longleftrightarrow> and self other = other"

section \<open>Big-endian integers\<close>

text \<open>\<open>to_be_bytes\<close> and \<open>from_be_bytes\<close> for a width in bytes.\<close>

fun to_be :: "nat \<Rightarrow> nat \<Rightarrow> bytes" where
  "to_be 0 v = []"
| "to_be (Suc n) v = to_be n (v div 256) @ [word_of_nat (v mod 256)]"

definition from_be :: "bytes \<Rightarrow> nat" where
  "from_be bs = foldl (\<lambda>a b. a * 256 + unat b) 0 bs"

definition put_u16 :: "u16 \<Rightarrow> bytes" where "put_u16 w = to_be 2 (unat w)"
definition push_u32 :: "u32 \<Rightarrow> bytes" where "push_u32 w = to_be 4 (unat w)"
definition push_u64 :: "u64 \<Rightarrow> bytes" where "push_u64 w = to_be 8 (unat w)"
definition read_u16 :: "bytes \<Rightarrow> u16" where "read_u16 bs = word_of_nat (from_be bs)"
definition read_u32 :: "bytes \<Rightarrow> u32" where "read_u32 bs = word_of_nat (from_be bs)"
definition read_u64 :: "bytes \<Rightarrow> u64" where "read_u64 bs = word_of_nat (from_be bs)"

section \<open>UTF-8\<close>

text \<open>The number of bytes of the valid scalar value a byte string starts with.\<close>

definition in_range :: "nat \<Rightarrow> nat \<Rightarrow> u8 \<Rightarrow> bool" where
  "in_range lo hi b \<longleftrightarrow> lo \<le> unat b \<and> unat b \<le> hi"

definition utf8_step :: "bytes \<Rightarrow> nat option" where
  "utf8_step bs =
     (case bs of
        [] \<Rightarrow> None
      | a # r \<Rightarrow>
          if in_range 0 0x7F a then Some 1
          else if in_range 0xC2 0xDF a then
            (case r of b # _ \<Rightarrow> if in_range 0x80 0xBF b then Some 2 else None | _ \<Rightarrow> None)
          else if in_range 0xE0 0xEF a then
            (case r of b # c # _ \<Rightarrow>
               if in_range (if a = 0xE0 then 0xA0 else 0x80) (if a = 0xED then 0x9F else 0xBF) b
                  \<and> in_range 0x80 0xBF c then Some 3 else None
             | _ \<Rightarrow> None)
          else if in_range 0xF0 0xF4 a then
            (case r of b # c # d # _ \<Rightarrow>
               if in_range (if a = 0xF0 then 0x90 else 0x80) (if a = 0xF4 then 0x8F else 0xBF) b
                  \<and> in_range 0x80 0xBF c \<and> in_range 0x80 0xBF d then Some 4 else None
             | _ \<Rightarrow> None)
          else None)"

lemma utf8_step_pos: "utf8_step bs = Some n \<Longrightarrow> 0 < n \<and> bs \<noteq> []"
  by (auto simp: utf8_step_def split: list.splits if_splits)

function valid_utf8 :: "bytes \<Rightarrow> bool" where
  "valid_utf8 bs =
     (bs = [] \<or> (case utf8_step bs of None \<Rightarrow> False | Some n \<Rightarrow> valid_utf8 (drop n bs)))"
  by pat_completeness auto
termination
  by (relation "measure length") (auto dest: utf8_step_pos)

declare valid_utf8.simps [simp del]

definition as_bytes :: "str \<Rightarrow> bytes" where
  "as_bytes s = map (\<lambda>c. word_of_nat (of_char c)) s"

definition from_utf8 :: "bytes \<Rightarrow> str option" where
  "from_utf8 bs = (if valid_utf8 bs then Some (map (\<lambda>b. char_of (unat b)) bs) else None)"

section \<open>Messages as bytes\<close>

definition CLIENT_HELLO :: u16 where "CLIENT_HELLO = 1"
definition SERVER_HELLO :: u16 where "SERVER_HELLO = 2"
definition START :: u16 where "START = 3"
definition ACCESS_UNIT :: u16 where "ACCESS_UNIT = 4"
definition STATS :: u16 where "STATS = 5"
definition STOP :: u16 where "STOP = 6"
definition ERROR :: u16 where "ERROR = 7"

lemmas kind_defs =
  CLIENT_HELLO_def SERVER_HELLO_def START_def ACCESS_UNIT_def STATS_def STOP_def ERROR_def

definition maximum_for :: "u16 \<Rightarrow> nat" where
  "maximum_for kind = (if kind = ACCESS_UNIT then MAX_ACCESS_UNIT_BYTES else MAX_CONTROL_BYTES)"

definition encode_message :: "message \<Rightarrow> (u16 \<times> bytes, protocol_error) result" where
  "encode_message m =
     (case m of
        ClientHello token pid capabilities \<Rightarrow>
          Inr (CLIENT_HELLO, token @ push_u32 pid @ push_u32 capabilities)
      | ServerHello session_id \<Rightarrow> Inr (SERVER_HELLO, push_u64 session_id)
      | Start config \<Rightarrow>
          Inr (START, (case vc_codec config of H264 \<Rightarrow> 1)
             # push_u32 (vc_width config) @ push_u32 (vc_height config)
               @ push_u32 (vc_fps_num config) @ push_u32 (vc_fps_den config))
      | AccessUnit au \<Rightarrow>
          Inr (ACCESS_UNIT, push_u64 (au_pts_ns au) @ push_u64 (au_dts_ns au)
             @ push_u64 (au_duration_ns au) @ push_u32 (au_flags au) @ au_data au)
      | Stats s \<Rightarrow>
          Inr (STATS, concat (map push_u64
             [fs_submitted s, fs_encoded s, fs_dropped_before_encode s,
              fs_dropped_send_backpressure s, fs_encode_latency_us s]))
      | Stop \<Rightarrow> Inr (STOP, [])
      | ErrorMsg code msg \<Rightarrow>
          (let bs = as_bytes msg
           in if MAX_CONTROL_BYTES - 4 < length bs
              then Inl (Oversized ''error'' (length bs) (MAX_CONTROL_BYTES - 4))
              else Inr (ERROR, push_u32 code @ bs)))"

text \<open>
  The cursor: the payload and an offset into it. (\<open>checked_add\<close> cannot overflow: the offset is at
  most the length of the payload and the counts are at most 32.)
\<close>

type_synonym cursor = "bytes \<times> nat"

definition cur_take :: "nat \<Rightarrow> cursor \<Rightarrow> (bytes \<times> cursor, protocol_error) result" where
  "cur_take count c =
     (case c of (bs, offset) \<Rightarrow>
        if offset + count \<le> length bs
        then Inr (take count (drop offset bs), (bs, offset + count))
        else Inl (InvalidPayload ''truncated payload''))"

definition cur_byte :: "cursor \<Rightarrow> (u8 \<times> cursor, protocol_error) result" where
  "cur_byte c = bindR (cur_take 1 c) (\<lambda>(p, c'). Inr (hd p, c'))"

definition cur_u32 :: "cursor \<Rightarrow> (u32 \<times> cursor, protocol_error) result" where
  "cur_u32 c = bindR (cur_take 4 c) (\<lambda>(p, c'). Inr (read_u32 p, c'))"

definition cur_u64 :: "cursor \<Rightarrow> (u64 \<times> cursor, protocol_error) result" where
  "cur_u64 c = bindR (cur_take 8 c) (\<lambda>(p, c'). Inr (read_u64 p, c'))"

definition cur_rest :: "cursor \<Rightarrow> bytes" where
  "cur_rest c = (case c of (bs, offset) \<Rightarrow> drop offset bs)"

definition cur_is_empty :: "cursor \<Rightarrow> bool" where
  "cur_is_empty c \<longleftrightarrow> (case c of (bs, offset) \<Rightarrow> offset = length bs)"

text \<open>The arms of \<open>decode_message\<close> that read several fields.\<close>

definition decode_client_hello :: "cursor \<Rightarrow> (message \<times> cursor, protocol_error) result" where
  "decode_client_hello c =
     bindR (cur_take TOKEN_LEN c) (\<lambda>(token, c).
     bindR (cur_u32 c) (\<lambda>(pid, c).
     bindR (cur_u32 c) (\<lambda>(capabilities, c). Inr (ClientHello token pid capabilities, c))))"

definition decode_start :: "cursor \<Rightarrow> (message \<times> cursor, protocol_error) result" where
  "decode_start c =
     bindR (cur_byte c) (\<lambda>(b, c).
     bindR (if b = 1 then Inr H264 else Inl (InvalidPayload ''unknown codec'')) (\<lambda>codec.
     bindR (cur_u32 c) (\<lambda>(width, c).
     bindR (cur_u32 c) (\<lambda>(height, c).
     bindR (cur_u32 c) (\<lambda>(fps_num, c).
     bindR (cur_u32 c) (\<lambda>(fps_den, c).
       if width = 0 \<or> height = 0 \<or> fps_num = 0 \<or> fps_den = 0
       then Inl (InvalidPayload ''zero video dimension or rate'')
       else Inr (Start \<lparr>vc_codec = codec, vc_width = width, vc_height = height,
                        vc_fps_num = fps_num, vc_fps_den = fps_den\<rparr>, c)))))))"

definition decode_access_unit :: "cursor \<Rightarrow> (message \<times> cursor, protocol_error) result" where
  "decode_access_unit c =
     bindR (cur_u64 c) (\<lambda>(pts, c).
     bindR (cur_u64 c) (\<lambda>(dts, c).
     bindR (cur_u64 c) (\<lambda>(duration, c).
     bindR (cur_u32 c) (\<lambda>(bits, c).
     bindR (flags_from_bits bits) (\<lambda>flags.
       if cur_rest c = [] then Inl (InvalidPayload ''empty access unit'')
       else Inr (AccessUnit \<lparr>au_pts_ns = pts, au_dts_ns = dts, au_duration_ns = duration,
                              au_flags = flags, au_data = cur_rest c\<rparr>, c))))))"

definition decode_stats :: "cursor \<Rightarrow> (message \<times> cursor, protocol_error) result" where
  "decode_stats c =
     bindR (cur_u64 c) (\<lambda>(submitted, c).
     bindR (cur_u64 c) (\<lambda>(encoded, c).
     bindR (cur_u64 c) (\<lambda>(before, c).
     bindR (cur_u64 c) (\<lambda>(backpressure, c).
     bindR (cur_u64 c) (\<lambda>(latency, c).
       Inr (Stats \<lparr>fs_submitted = submitted, fs_encoded = encoded, fs_dropped_before_encode = before,
                    fs_dropped_send_backpressure = backpressure, fs_encode_latency_us = latency\<rparr>, c))))))"

definition decode_error :: "cursor \<Rightarrow> (message \<times> cursor, protocol_error) result" where
  "decode_error c =
     bindR (cur_u32 c) (\<lambda>(code, c).
     bindR (ok_or (InvalidPayload ''non-UTF8 error'') (from_utf8 (cur_rest c))) (\<lambda>msg.
       Inr (ErrorMsg code msg, c)))"

definition decode_message :: "u16 \<Rightarrow> bytes \<Rightarrow> (message, protocol_error) result" where
  "decode_message kind payload =
     (let cursor = (payload, 0) in
      bindR
        (if kind = CLIENT_HELLO then decode_client_hello cursor
         else if kind = SERVER_HELLO then
           bindR (cur_u64 cursor) (\<lambda>(session_id, c). Inr (ServerHello session_id, c))
         else if kind = START then decode_start cursor
         else if kind = ACCESS_UNIT then decode_access_unit cursor
         else if kind = STATS then decode_stats cursor
         else if kind = STOP then Inr (Stop, cursor)
         else if kind = ERROR then decode_error cursor
         else Inl (UnknownMessage kind))
        (\<lambda>(msg, c).
           if \<not> cur_is_empty c \<and> kind \<noteq> ACCESS_UNIT \<and> kind \<noteq> ERROR
           then Inl (InvalidPayload ''trailing bytes'')
           else Inr msg))"

section \<open>The channel\<close>

text \<open>
  \<open>ch_in\<close> holds the bytes of the peer that are not yet read, \<open>ch_out\<close> those this side has written;
  \<open>ch_room\<close> is how many more the connection takes before it breaks (\<open>None\<close>: it never does).
  \<open>ch_stall\<close> is the error a read reports when the peer's bytes run out: the end of the stream, or
  the read timeout.
\<close>

record channel =
  ch_in :: bytes
  ch_out :: bytes
  ch_room :: "nat option"
  ch_stall :: str
  ch_next_send :: u32
  ch_next_receive :: u32

definition channel_new :: "bytes \<Rightarrow> nat option \<Rightarrow> str \<Rightarrow> channel" where
  "channel_new incoming room stall =
     \<lparr>ch_in = incoming, ch_out = [], ch_room = room, ch_stall = stall, ch_next_send = 0,
      ch_next_receive = 0\<rparr>"

text \<open>\<open>write_all\<close> and \<open>read_exact\<close> of the standard library.\<close>

definition write_all :: "bytes \<Rightarrow> channel \<Rightarrow> (unit, protocol_error) result \<times> channel" where
  "write_all bs ch =
     (case ch_room ch of
        None \<Rightarrow> (Inr (), ch\<lparr>ch_out := ch_out ch @ bs\<rparr>)
      | Some room \<Rightarrow>
          if length bs \<le> room
          then (Inr (), ch\<lparr>ch_out := ch_out ch @ bs, ch_room := Some (room - length bs)\<rparr>)
          else (Inl (Io ''Broken pipe''),
                ch\<lparr>ch_out := ch_out ch @ take room bs, ch_room := Some 0\<rparr>))"

definition read_exact :: "nat \<Rightarrow> channel \<Rightarrow> (bytes, protocol_error) result \<times> channel" where
  "read_exact n ch =
     (if n \<le> length (ch_in ch)
      then (Inr (take n (ch_in ch)), ch\<lparr>ch_in := drop n (ch_in ch)\<rparr>)
      else (Inl (Io (ch_stall ch)), ch\<lparr>ch_in := []\<rparr>))"

definition header :: "u16 \<Rightarrow> nat \<Rightarrow> u32 \<Rightarrow> bytes" where
  "header kind len sequence =
     push_u32 MAGIC @ put_u16 PROTOCOL_VERSION @ put_u16 kind @ push_u32 (word_of_nat len)
     @ push_u32 sequence"

definition send :: "message \<Rightarrow> channel \<Rightarrow> (unit, protocol_error) result \<times> channel" where
  "send m ch =
     (case encode_message m of
        Inl e \<Rightarrow> (Inl e, ch)
      | Inr (kind, payload) \<Rightarrow>
          if maximum_for kind < length payload
          then (Inl (Oversized ''game-capture'' (length payload) (maximum_for kind)), ch)
          else (case write_all (header kind (length payload) (ch_next_send ch)) ch of
                  (Inl e, ch1) \<Rightarrow> (Inl e, ch1)
                | (Inr _, ch1) \<Rightarrow>
                    (case write_all payload ch1 of
                       (Inl e, ch2) \<Rightarrow> (Inl e, ch2)
                     | (Inr _, ch2) \<Rightarrow> (Inr (), ch2\<lparr>ch_next_send := ch_next_send ch2 + 1\<rparr>))))"

definition recv :: "channel \<Rightarrow> (message, protocol_error) result \<times> channel" where
  "recv ch =
     (case read_exact HEADER_LEN ch of
        (Inl e, ch1) \<Rightarrow> (Inl e, ch1)
      | (Inr hdr, ch1) \<Rightarrow>
          (let version = read_u16 (take 2 (drop 4 hdr));
               kind = read_u16 (take 2 (drop 6 hdr));
               len = unat (read_u32 (take 4 (drop 8 hdr)));
               sequence = read_u32 (take 4 (drop 12 hdr))
           in if read_u32 (take 4 hdr) \<noteq> MAGIC then (Inl BadMagic, ch1)
              else if version \<noteq> PROTOCOL_VERSION then (Inl (UnsupportedVersion version), ch1)
              else if sequence \<noteq> ch_next_receive ch1
              then (Inl (Sequence (ch_next_receive ch1) sequence), ch1)
              else if maximum_for kind < len
              then (Inl (Oversized ''game-capture'' len (maximum_for kind)), ch1)
              else (case read_exact len ch1 of
                      (Inl e, ch2) \<Rightarrow> (Inl e, ch2)
                    | (Inr payload, ch2) \<Rightarrow>
                        (decode_message kind payload,
                         ch2\<lparr>ch_next_receive := ch_next_receive ch2 + 1\<rparr>))))"

section \<open>Authentication\<close>

definition constant_time_token_eq :: "session_token \<Rightarrow> session_token \<Rightarrow> bool" where
  "constant_time_token_eq left right \<longleftrightarrow>
     foldl (\<lambda>difference (a, b). or difference (xor a b)) 0 (zip left right) = 0"

text \<open>
  The client writes its greeting and waits; \<open>client_finish\<close> is the part after the reply has
  arrived.
\<close>

definition client_finish :: "channel \<Rightarrow> (u64, protocol_error) result \<times> channel" where
  "client_finish ch =
     (case recv ch of
        (Inl e, ch1) \<Rightarrow> (Inl e, ch1)
      | (Inr (ServerHello session_id), ch1) \<Rightarrow> (Inr session_id, ch1)
      | (Inr (ErrorMsg code msg), ch1) \<Rightarrow> (Inl (ServerRejected code msg), ch1)
      | (Inr _, ch1) \<Rightarrow> (Inl (InvalidPayload ''expected server hello''), ch1))"

definition client_handshake ::
  "session_token \<Rightarrow> u32 \<Rightarrow> u32 \<Rightarrow> channel \<Rightarrow> (u64, protocol_error) result \<times> channel" where
  "client_handshake token pid capabilities ch =
     (case send (ClientHello token pid capabilities) ch of
        (Inl e, ch1) \<Rightarrow> (Inl e, ch1)
      | (Inr _, ch1) \<Rightarrow> client_finish ch1)"

definition server_handshake ::
  "session_token \<Rightarrow> u64 \<Rightarrow> channel \<Rightarrow> (u32 \<times> u32, protocol_error) result \<times> channel" where
  "server_handshake expected session_id ch =
     (case recv ch of
        (Inl e, ch1) \<Rightarrow> (Inl e, ch1)
      | (Inr (ClientHello token pid capabilities), ch1) \<Rightarrow>
          if constant_time_token_eq expected token
          then (case send (ServerHello session_id) ch1 of
                  (Inl e, ch2) \<Rightarrow> (Inl e, ch2)
                | (Inr _, ch2) \<Rightarrow> (Inr (pid, capabilities), ch2))
          else (Inl AuthenticationFailed, ch1)
      | (Inr _, ch1) \<Rightarrow> (Inl (InvalidPayload ''expected client hello''), ch1))"

section \<open>The interface of a fixed-width field\<close>

locale fixed_codec =
  fixes enc :: "'a \<Rightarrow> 'b list"
    and dec :: "'b list \<Rightarrow> 'a"
    and width :: nat
  assumes enc_length: "length (enc x) = width"
    and dec_enc: "dec (enc x) = x"
    and enc_dec: "length bs = width \<Longrightarrow> enc (dec bs) = bs"
begin

lemma enc_inject: "enc x = enc y \<longleftrightarrow> x = y"
  by (metis dec_enc)

lemma field_read: "dec (take width (enc x @ r)) = x \<and> drop width (enc x @ r) = r"
  by (simp add: enc_length dec_enc)

lemma field_split:
  "width \<le> length bs \<Longrightarrow> bs = enc (dec (take width bs)) @ drop width bs"
  by (simp add: enc_dec)

end

lemma length_to_be [simp]: "length (to_be n v) = n"
  by (induction n arbitrary: v) simp_all

lemma from_be_snoc: "from_be (bs @ [b]) = from_be bs * 256 + unat b"
  by (simp add: from_be_def)

lemma from_to_be: "from_be (to_be n v) = v mod 256 ^ n"
proof (induction n arbitrary: v)
  case 0
  then show ?case by (simp add: from_be_def)
next
  case (Suc n)
  have "unat (word_of_nat (v mod 256) :: u8) = v mod 256"
    by (simp add: unat_of_nat)
  then show ?case
    by (simp add: from_be_snoc Suc.IH mod_mult2_eq)
qed

lemma to_from_be: "to_be (length bs) (from_be bs) = bs"
proof (induction bs rule: rev_induct)
  case Nil
  then show ?case by simp
next
  case (snoc b bs)
  have "unat b < 256" using unat_bound [of b] by simp
  with snoc show ?case by (simp add: from_be_snoc)
qed

lemma from_be_less: "from_be bs < 256 ^ length bs"
  by (metis from_to_be to_from_be mod_less_divisor zero_less_numeral zero_less_power)

lemma read_push [simp]:
  "read_u16 (put_u16 a) = a" "read_u32 (push_u32 b) = b" "read_u64 (push_u64 c) = c"
  using unat_bound [of a] unat_bound [of b] unat_bound [of c]
  by (simp_all add: read_u16_def put_u16_def read_u32_def push_u32_def read_u64_def push_u64_def
      from_to_be)

lemma push_read:
  "length bs = 2 \<Longrightarrow> put_u16 (read_u16 bs) = bs"
  "length bs = 4 \<Longrightarrow> push_u32 (read_u32 bs) = bs"
  "length bs = 8 \<Longrightarrow> push_u64 (read_u64 bs) = bs"
  using from_be_less [of bs] to_from_be [of bs]
  by (simp_all add: read_u16_def put_u16_def read_u32_def push_u32_def read_u64_def push_u64_def
      unat_of_nat)

lemma push_length [simp]:
  "length (put_u16 a) = 2" "length (push_u32 b) = 4" "length (push_u64 c) = 8"
  by (simp_all add: put_u16_def push_u32_def push_u64_def)

interpretation u16: fixed_codec put_u16 read_u16 2
  by unfold_locales (simp_all add: push_read)

interpretation u32: fixed_codec push_u32 read_u32 4
  by unfold_locales (simp_all add: push_read)

interpretation u64: fixed_codec push_u64 read_u64 8
  by unfold_locales (simp_all add: push_read)

lemma of_as_bytes: "map (\<lambda>b. char_of (unat b)) (as_bytes s) = s"
proof -
  have "char_of (unat (word_of_nat (of_char c) :: u8)) = c" for c
    by (simp add: unat_of_nat)
  then show ?thesis by (simp add: as_bytes_def comp_def)
qed

lemma as_bytes_of: "as_bytes (map (\<lambda>b. char_of (unat b)) bs) = bs"
proof -
  have "word_of_nat (of_char (char_of (unat b) :: char)) = b" for b :: u8
    using unat_bound [of b] by simp
  then show ?thesis by (simp add: as_bytes_def comp_def)
qed

section \<open>Encoding and decoding\<close>

text \<open>
  What a \<open>Message\<close> of the program can be: a token has its length and a \<open>String\<close> is UTF-8 (both by
  type), flags are two bits (the constructors give no others); and the fields the decoder insists
  on, which the encoder does not check.
\<close>

definition message_ok :: "message \<Rightarrow> bool" where
  "message_ok m =
     (case m of
        ClientHello token _ _ \<Rightarrow> length token = TOKEN_LEN
      | Start c \<Rightarrow> vc_width c \<noteq> 0 \<and> vc_height c \<noteq> 0 \<and> vc_fps_num c \<noteq> 0 \<and> vc_fps_den c \<noteq> 0
      | AccessUnit au \<Rightarrow> and (au_flags au) (not 3) = 0 \<and> au_data au \<noteq> []
      | ErrorMsg _ msg \<Rightarrow> valid_utf8 (as_bytes msg)
      | _ \<Rightarrow> True)"

lemmas cursor_defs = cur_take_def cur_byte_def cur_u32_def cur_u64_def cur_rest_def cur_is_empty_def

lemmas decode_defs =
  decode_message_def decode_client_hello_def decode_start_def decode_access_unit_def
  decode_stats_def decode_error_def

lemma decode_encode:
  assumes "message_ok m" "encode_message m = Inr (kind, payload)"
  shows "decode_message kind payload = Inr m"
proof (cases m)
  case (ClientHello t p c)
  then show ?thesis using assms
    by (auto simp: message_ok_def encode_message_def decode_defs cursor_defs kind_defs TOKEN_LEN_def)
next
  case (ServerHello s)
  then show ?thesis using assms
    by (auto simp: message_ok_def encode_message_def decode_defs cursor_defs kind_defs)
next
  case (Start c)
  then show ?thesis using assms
    by (auto simp: message_ok_def encode_message_def decode_defs cursor_defs kind_defs
        split: codec.splits)
next
  case (AccessUnit au)
  then show ?thesis using assms
    by (auto simp: message_ok_def encode_message_def decode_defs cursor_defs kind_defs
        flags_from_bits_def)
next
  case (Stats s)
  then show ?thesis using assms
    by (auto simp: message_ok_def encode_message_def decode_defs cursor_defs kind_defs)
next
  case Stop
  then show ?thesis using assms
    by (auto simp: message_ok_def encode_message_def decode_defs cursor_defs kind_defs)
next
  case (ErrorMsg code msg)
  with assms(2) have "kind = ERROR" "payload = push_u32 code @ as_bytes msg"
    by (simp_all add: encode_message_def Let_def split: if_split_asm)
  with ErrorMsg assms(1) show ?thesis
    by (simp add: message_ok_def decode_defs cursor_defs kind_defs from_utf8_def of_as_bytes)
qed

text \<open>Reading a field splits the unread bytes.\<close>

lemma cur_take_Inr:
  "cur_take n (bs, i) = Inr (xs, c) \<longleftrightarrow>
     c = (bs, i + n) \<and> i + n \<le> length bs \<and> length xs = n \<and> drop i bs = xs @ drop (i + n) bs"
proof -
  have "drop i bs = take n (drop i bs) @ drop (i + n) bs"
    by (metis append_take_drop_id drop_drop add.commute)
  then show ?thesis
    by (auto simp: cur_take_def min_def)
qed

lemma cur_field_Inr:
  "cur_byte (bs, i) = Inr (a, c) \<longleftrightarrow>
     c = (bs, i + 1) \<and> i + 1 \<le> length bs \<and> drop i bs = a # drop (i + 1) bs"
  "cur_u32 (bs, i) = Inr (v, c) \<longleftrightarrow>
     c = (bs, i + 4) \<and> i + 4 \<le> length bs \<and> drop i bs = push_u32 v @ drop (i + 4) bs"
  "cur_u64 (bs, i) = Inr (w, c) \<longleftrightarrow>
     c = (bs, i + 8) \<and> i + 8 \<le> length bs \<and> drop i bs = push_u64 w @ drop (i + 8) bs"
proof -
  show "cur_byte (bs, i) = Inr (a, c) \<longleftrightarrow>
     c = (bs, i + 1) \<and> i + 1 \<le> length bs \<and> drop i bs = a # drop (i + 1) bs"
  proof
    assume "cur_byte (bs, i) = Inr (a, c)"
    then show "c = (bs, i + 1) \<and> i + 1 \<le> length bs \<and> drop i bs = a # drop (i + 1) bs"
      by (auto simp: cur_byte_def cur_take_Inr length_Suc_conv)
  next
    assume "c = (bs, i + 1) \<and> i + 1 \<le> length bs \<and> drop i bs = a # drop (i + 1) bs"
    then show "cur_byte (bs, i) = Inr (a, c)"
      unfolding cur_byte_def bindR_eq_Inr
      by (intro exI [of _ "([a], (bs, i + 1))"]) (simp add: cur_take_Inr)
  qed
  show "cur_u32 (bs, i) = Inr (v, c) \<longleftrightarrow>
     c = (bs, i + 4) \<and> i + 4 \<le> length bs \<and> drop i bs = push_u32 v @ drop (i + 4) bs"
  proof
    assume "cur_u32 (bs, i) = Inr (v, c)"
    then show "c = (bs, i + 4) \<and> i + 4 \<le> length bs \<and> drop i bs = push_u32 v @ drop (i + 4) bs"
      by (auto simp: cur_u32_def cur_take_Inr push_read)
  next
    assume "c = (bs, i + 4) \<and> i + 4 \<le> length bs \<and> drop i bs = push_u32 v @ drop (i + 4) bs"
    then show "cur_u32 (bs, i) = Inr (v, c)"
      unfolding cur_u32_def bindR_eq_Inr
      by (intro exI [of _ "(push_u32 v, (bs, i + 4))"]) (simp add: cur_take_Inr)
  qed
  show "cur_u64 (bs, i) = Inr (w, c) \<longleftrightarrow>
     c = (bs, i + 8) \<and> i + 8 \<le> length bs \<and> drop i bs = push_u64 w @ drop (i + 8) bs"
  proof
    assume "cur_u64 (bs, i) = Inr (w, c)"
    then show "c = (bs, i + 8) \<and> i + 8 \<le> length bs \<and> drop i bs = push_u64 w @ drop (i + 8) bs"
      by (auto simp: cur_u64_def cur_take_Inr push_read)
  next
    assume "c = (bs, i + 8) \<and> i + 8 \<le> length bs \<and> drop i bs = push_u64 w @ drop (i + 8) bs"
    then show "cur_u64 (bs, i) = Inr (w, c)"
      unfolding cur_u64_def bindR_eq_Inr
      by (intro exI [of _ "(push_u64 w, (bs, i + 8))"]) (simp add: cur_take_Inr)
  qed
qed

lemma decode_client_hello_Inr:
  assumes "decode_client_hello (bs, 0) = Inr (m, c)"
  shows "\<exists>t p q. m = ClientHello t p q \<and> length t = TOKEN_LEN \<and> fst c = bs
    \<and> bs = t @ push_u32 p @ push_u32 q @ drop (snd c) bs"
  using assms
  by (fastforce simp: decode_client_hello_def cur_take_Inr cur_field_Inr TOKEN_LEN_def)

lemma decode_start_Inr:
  assumes "decode_start (bs, 0) = Inr (m, c)"
  shows "\<exists>w h n d. m = Start \<lparr>vc_codec = H264, vc_width = w, vc_height = h, vc_fps_num = n, vc_fps_den = d\<rparr>
    \<and> w \<noteq> 0 \<and> h \<noteq> 0 \<and> n \<noteq> 0 \<and> d \<noteq> 0 \<and> fst c = bs
    \<and> bs = 1 # push_u32 w @ push_u32 h @ push_u32 n @ push_u32 d @ drop (snd c) bs"
  using assms
  by (fastforce simp: decode_start_def cur_field_Inr split: if_split_asm)

lemma decode_access_unit_Inr:
  assumes "decode_access_unit (bs, 0) = Inr (m, c)"
  shows "\<exists>p d u f. m = AccessUnit \<lparr>au_pts_ns = p, au_dts_ns = d, au_duration_ns = u, au_flags = f,
      au_data = drop (snd c) bs\<rparr>
    \<and> and f (not 3) = 0 \<and> drop (snd c) bs \<noteq> [] \<and> fst c = bs
    \<and> bs = push_u64 p @ push_u64 d @ push_u64 u @ push_u32 f @ drop (snd c) bs"
  using assms
  by (fastforce simp: decode_access_unit_def cur_field_Inr cur_rest_def flags_from_bits_def
      split: if_split_asm)

lemma decode_stats_Inr:
  assumes "decode_stats (bs, 0) = Inr (m, c)"
  shows "\<exists>a b d e f. m = Stats \<lparr>fs_submitted = a, fs_encoded = b, fs_dropped_before_encode = d,
      fs_dropped_send_backpressure = e, fs_encode_latency_us = f\<rparr> \<and> fst c = bs
    \<and> bs = push_u64 a @ push_u64 b @ push_u64 d @ push_u64 e @ push_u64 f @ drop (snd c) bs"
  using assms
  by (fastforce simp: decode_stats_def cur_field_Inr)

lemma decode_error_Inr:
  assumes "decode_error (bs, 0) = Inr (m, c)"
  shows "\<exists>code msg. m = ErrorMsg code msg \<and> valid_utf8 (as_bytes msg)
    \<and> bs = push_u32 code @ as_bytes msg"
  using assms
  by (fastforce simp: decode_error_def cur_field_Inr cur_rest_def from_utf8_def as_bytes_of
      split: if_split_asm)

lemma encode_decode:
  assumes "decode_message kind payload = Inr m" "length payload \<le> maximum_for kind"
  shows "encode_message m = Inr (kind, payload) \<and> message_ok m"
proof -
  have tail: "cur_is_empty c \<Longrightarrow> fst c = payload \<Longrightarrow> drop (snd c) payload = []" for c
    by (cases c) (simp add: cur_is_empty_def)
  from assms(1) consider
      (hello) c where "kind = CLIENT_HELLO" "decode_client_hello (payload, 0) = Inr (m, c)" "cur_is_empty c"
    | (server) s c where "kind = SERVER_HELLO" "cur_u64 (payload, 0) = Inr (s, c)" "m = ServerHello s"
        "cur_is_empty c"
    | (start) c where "kind = START" "decode_start (payload, 0) = Inr (m, c)" "cur_is_empty c"
    | (unit) c where "kind = ACCESS_UNIT" "decode_access_unit (payload, 0) = Inr (m, c)"
    | (stats) c where "kind = STATS" "decode_stats (payload, 0) = Inr (m, c)" "cur_is_empty c"
    | (stop) "kind = STOP" "m = Stop" "payload = []"
    | (error) c where "kind = ERROR" "decode_error (payload, 0) = Inr (m, c)"
    unfolding decode_message_def Let_def
    by (auto simp: kind_defs cur_is_empty_def split: if_split_asm)
  then show ?thesis
  proof cases
    case hello
    from decode_client_hello_Inr [OF hello(2)] tail [OF hello(3)] show ?thesis
      by (auto simp: hello(1) encode_message_def message_ok_def)
  next
    case server
    then have "payload = push_u64 s"
      using tail [of c] by (auto simp: cur_field_Inr)
    with server show ?thesis by (simp add: encode_message_def message_ok_def)
  next
    case start
    from decode_start_Inr [OF start(2)] tail [OF start(3)] show ?thesis
      by (auto simp: start(1) encode_message_def message_ok_def)
  next
    case unit
    from decode_access_unit_Inr [OF unit(2)] show ?thesis
      by (auto simp: unit(1) encode_message_def message_ok_def)
  next
    case stats
    from decode_stats_Inr [OF stats(2)] tail [OF stats(3)] show ?thesis
      by (auto simp: stats(1) encode_message_def message_ok_def)
  next
    case stop
    then show ?thesis by (simp add: encode_message_def message_ok_def)
  next
    case error
    from decode_error_Inr [OF error(2)] obtain code msg where
        m: "m = ErrorMsg code msg" "valid_utf8 (as_bytes msg)" "payload = push_u32 code @ as_bytes msg"
      by blast
    then have "length (as_bytes msg) \<le> MAX_CONTROL_BYTES - 4"
      using assms(2) error(1) by (simp add: maximum_for_def kind_defs MAX_CONTROL_BYTES_def)
    with m error(1) show ?thesis
      by (simp add: encode_message_def message_ok_def Let_def)
  qed
qed

section \<open>Frames\<close>

definition frame :: "u32 \<Rightarrow> message \<Rightarrow> bytes" where
  "frame sequence m =
     (case encode_message m of
        Inl _ \<Rightarrow> []
      | Inr (kind, payload) \<Rightarrow> header kind (length payload) sequence @ payload)"

definition sendable :: "message \<Rightarrow> bool" where
  "sendable m \<longleftrightarrow> message_ok m
     \<and> (\<exists>kind payload. encode_message m = Inr (kind, payload) \<and> length payload \<le> maximum_for kind)"

lemma maximum_for_bound: "maximum_for kind < 4294967296"
  by (simp add: maximum_for_def MAX_ACCESS_UNIT_BYTES_def MAX_CONTROL_BYTES_def)

lemma header_fields:
  "length (header kind n s) = HEADER_LEN"
  "take 4 (header kind n s) = push_u32 MAGIC"
  "take 2 (drop 4 (header kind n s)) = put_u16 PROTOCOL_VERSION"
  "take 2 (drop 6 (header kind n s)) = put_u16 kind"
  "take 4 (drop 8 (header kind n s)) = push_u32 (word_of_nat n)"
  "take 4 (drop 12 (header kind n s)) = push_u32 s"
  by (simp_all add: header_def HEADER_LEN_def)

lemma header_split:
  assumes "length hdr = HEADER_LEN"
  shows "hdr = push_u32 (read_u32 (take 4 hdr)) @ put_u16 (read_u16 (take 2 (drop 4 hdr)))
    @ put_u16 (read_u16 (take 2 (drop 6 hdr))) @ push_u32 (read_u32 (take 4 (drop 8 hdr)))
    @ push_u32 (read_u32 (take 4 (drop 12 hdr)))"
proof -
  have l: "length hdr = 16" using assms by (simp add: HEADER_LEN_def)
  have cut: "drop i hdr = take n (drop i hdr) @ drop (i + n) hdr" for i n
    by (metis append_take_drop_id drop_drop add.commute)
  have "hdr = take 4 hdr @ take 2 (drop 4 hdr) @ take 2 (drop 6 hdr) @ take 4 (drop 8 hdr)
      @ take 4 (drop 12 hdr)"
    using cut [of 0 4] cut [of 4 2] cut [of 6 2] cut [of 8 4] cut [of 12 4] l by simp
  then show ?thesis using l by (simp add: push_read)
qed

lemma recv_frame:
  assumes "sendable m" "ch_in ch = frame (ch_next_receive ch) m @ rest"
  shows "recv ch = (Inr m, ch\<lparr>ch_in := rest, ch_next_receive := ch_next_receive ch + 1\<rparr>)"
proof -
  obtain kind payload where e: "encode_message m = Inr (kind, payload)"
      "length payload \<le> maximum_for kind" "message_ok m"
    using assms(1) by (auto simp: sendable_def)
  define hdr where "hdr = header kind (length payload) (ch_next_receive ch)"
  have incoming: "ch_in ch = hdr @ payload @ rest"
    using assms(2) by (simp add: frame_def e(1) hdr_def)
  have len: "length hdr = HEADER_LEN" by (simp add: hdr_def header_fields)
  have size: "unat (word_of_nat (length payload) :: u32) = length payload"
    using e(2) maximum_for_bound [of kind] by (simp add: unat_of_nat)
  have "decode_message kind payload = Inr m" using e(3,1) by (rule decode_encode)
  moreover have "read_exact HEADER_LEN ch = (Inr hdr, ch\<lparr>ch_in := payload @ rest\<rparr>)"
    by (simp add: read_exact_def incoming len)
  moreover have "read_exact (length payload) (ch\<lparr>ch_in := payload @ rest\<rparr>)
      = (Inr payload, ch\<lparr>ch_in := rest\<rparr>)"
    by (simp add: read_exact_def)
  ultimately show ?thesis
    using e(2) by (simp add: recv_def Let_def hdr_def header_fields size)
qed

lemma recv_Inr:
  assumes "recv ch = (Inr m, ch')"
  shows "sendable m \<and> ch_in ch = frame (ch_next_receive ch) m @ ch_in ch'
    \<and> ch' = ch\<lparr>ch_in := ch_in ch', ch_next_receive := ch_next_receive ch + 1\<rparr>"
proof -
  define hdr where "hdr = take HEADER_LEN (ch_in ch)"
  define body where "body = drop HEADER_LEN (ch_in ch)"
  define kind where "kind = read_u16 (take 2 (drop 6 hdr))"
  define len where "len = unat (read_u32 (take 4 (drop 8 hdr)))"
  have h: "HEADER_LEN \<le> length (ch_in ch)" "read_u32 (take 4 hdr) = MAGIC"
      "read_u16 (take 2 (drop 4 hdr)) = PROTOCOL_VERSION"
      "read_u32 (take 4 (drop 12 hdr)) = ch_next_receive ch" "len \<le> maximum_for kind"
      "len \<le> length body" "decode_message kind (take len body) = Inr m"
      "ch' = ch\<lparr>ch_in := drop len body, ch_next_receive := ch_next_receive ch + 1\<rparr>"
    using assms
    by (auto simp: recv_def read_exact_def Let_def hdr_def body_def kind_def len_def not_less
        split: if_split_asm)
  have "encode_message m = Inr (kind, take len body) \<and> message_ok m"
    using h(5,6,7) by (intro encode_decode) simp_all
  moreover have "header kind len (ch_next_receive ch) = hdr"
    using header_split [of hdr] h(1-4)
    by (simp add: header_def hdr_def kind_def len_def)
  moreover have "ch_in ch = hdr @ take len body @ drop len body"
    by (simp only: hdr_def body_def append_take_drop_id)
  ultimately show ?thesis
    using h(5,6,8) by (simp add: sendable_def frame_def)
qed

lemma send_ok:
  assumes "sendable m" "ch_room ch = None"
  shows "send m ch = (Inr (), ch\<lparr>ch_out := ch_out ch @ frame (ch_next_send ch) m,
    ch_next_send := ch_next_send ch + 1\<rparr>)"
  using assms by (auto simp: send_def sendable_def write_all_def frame_def)

section \<open>Conversations\<close>

text \<open>Receiving until a number of messages has arrived, or the first error.\<close>

primrec recv_many :: "('c \<Rightarrow> ('m, 'e) result \<times> 'c) \<Rightarrow> nat \<Rightarrow> 'c \<Rightarrow> ('m list, 'e) result \<times> 'c" where
  "recv_many step 0 ch = (Inr [], ch)"
| "recv_many step (Suc n) ch =
     (case step ch of
        (Inl e, ch1) \<Rightarrow> (Inl e, ch1)
      | (Inr m, ch1) \<Rightarrow>
          (case recv_many step n ch1 of
             (Inl e, ch2) \<Rightarrow> (Inl e, ch2)
           | (Inr ms, ch2) \<Rightarrow> (Inr (m # ms), ch2)))"

primrec stream_of :: "('s \<Rightarrow> 'm \<Rightarrow> 'b list) \<Rightarrow> ('s \<Rightarrow> 's) \<Rightarrow> 's \<Rightarrow> 'm list \<Rightarrow> 'b list" where
  "stream_of put nxt s [] = []"
| "stream_of put nxt s (m # ms) = put s m @ stream_of put nxt (nxt s) ms"

text \<open>
  What a receiver owes to its user: a framed message of the expected sequence number is delivered
  and consumed, and nothing else is ever delivered.
\<close>

locale framed_receiver =
  fixes step :: "'c \<Rightarrow> ('m, 'e) result \<times> 'c"
    and incoming :: "'c \<Rightarrow> 'b list"
    and expected :: "'c \<Rightarrow> 's"
    and put :: "'s \<Rightarrow> 'm \<Rightarrow> 'b list"
    and nxt :: "'s \<Rightarrow> 's"
    and ok :: "'m \<Rightarrow> bool"
  assumes deliver: "ok m \<Longrightarrow> incoming c = put (expected c) m @ rest \<Longrightarrow>
      \<exists>c'. step c = (Inr m, c') \<and> incoming c' = rest \<and> expected c' = nxt (expected c)"
    and delivered: "step c = (Inr m, c') \<Longrightarrow>
      ok m \<and> incoming c = put (expected c) m @ incoming c' \<and> expected c' = nxt (expected c)"
begin

lemma conversation:
  "list_all ok ms \<Longrightarrow> incoming c = stream_of put nxt (expected c) ms @ rest \<Longrightarrow>
     \<exists>c'. recv_many step (length ms) c = (Inr ms, c') \<and> incoming c' = rest"
proof (induction ms arbitrary: c)
  case Nil
  then show ?case by simp
next
  case (Cons m ms)
  then obtain c1 where c1: "step c = (Inr m, c1)" "expected c1 = nxt (expected c)"
      "incoming c1 = stream_of put nxt (expected c1) ms @ rest"
    using deliver [of m c "stream_of put nxt (nxt (expected c)) ms @ rest"] by auto
  moreover from Cons.prems have "list_all ok ms" by simp
  ultimately obtain c2 where "recv_many step (length ms) c1 = (Inr ms, c2)" "incoming c2 = rest"
    using Cons.IH [of c1] by blast
  with c1 show ?case by simp
qed

lemma only_conversation:
  "recv_many step n c = (Inr ms, c') \<Longrightarrow>
     length ms = n \<and> list_all ok ms
     \<and> incoming c = stream_of put nxt (expected c) ms @ incoming c'"
proof (induction n arbitrary: c ms)
  case 0
  then show ?case by simp
next
  case (Suc n)
  then obtain m c1 ms' where "step c = (Inr m, c1)" "recv_many step n c1 = (Inr ms', c')"
      "ms = m # ms'"
    by (auto split: prod.splits sum.splits)
  with Suc.IH [of c1 ms'] delivered [of c m c1] show ?case by auto
qed

end

interpretation channel: framed_receiver recv ch_in ch_next_receive frame "\<lambda>s. s + 1" sendable
proof unfold_locales
  show "\<exists>c'. recv c = (Inr m, c') \<and> ch_in c' = rest \<and> ch_next_receive c' = ch_next_receive c + 1"
    if "sendable m" "ch_in c = frame (ch_next_receive c) m @ rest" for m c rest
    using recv_frame [OF that] by simp
  show "sendable m \<and> ch_in c = frame (ch_next_receive c) m @ ch_in c'
      \<and> ch_next_receive c' = ch_next_receive c + 1"
    if "recv c = (Inr m, c')" for c m c'
    using recv_Inr [OF that] by (metis channel.select_convs(6) channel.surjective
        channel.update_convs(1,6))
qed

definition send_all :: "message list \<Rightarrow> channel \<Rightarrow> channel" where
  "send_all ms ch = foldl (\<lambda>ch m. snd (send m ch)) ch ms"

lemma send_all_out:
  "list_all sendable ms \<Longrightarrow> ch_room ch = None \<Longrightarrow>
     ch_out (send_all ms ch) = ch_out ch @ stream_of frame (\<lambda>s. s + 1) (ch_next_send ch) ms"
proof (induction ms arbitrary: ch)
  case Nil
  then show ?case by (simp add: send_all_def)
next
  case (Cons m ms)
  then show ?case
    using Cons.IH [of "snd (send m ch)"] send_ok [of m ch] by (simp add: send_all_def)
qed

lemma token_eq_fold:
  "length l = length r \<Longrightarrow>
   foldl (\<lambda>d (a, b). or d (xor a b)) d0 (zip l r) = (0 :: u8) \<longleftrightarrow> d0 = 0 \<and> l = r"
proof (induction l r arbitrary: d0 rule: list_induct2)
  case Nil
  then show ?case by simp
next
  case (Cons a l b r)
  have "or d0 (xor a b) = 0 \<longleftrightarrow> d0 = 0 \<and> a = b"
  proof
    assume z: "or d0 (xor a b) = 0"
    then have "\<not> bit d0 i \<and> bit a i = bit b i" for i
      by (metis bit_or_iff bit_xor_iff bit_0_eq bot_apply bot_bool_def)
    then show "d0 = 0 \<and> a = b" by (auto intro: bit_eqI)
  qed simp
  with Cons show ?case by simp
qed

lemma token_eq_iff:
  "length l = length r \<Longrightarrow> constant_time_token_eq l r \<longleftrightarrow> l = r"
  by (simp add: constant_time_token_eq_def token_eq_fold)

section \<open>Properties\<close>

text \<open>
  C1: decoding inverts encoding for every message the program can build and the decoder does
  not refuse, and every payload that decodes is the one encoding of its message: no second byte
  string stands for the same message.
\<close>

theorem message_roundtrip:
  assumes "length payload \<le> maximum_for kind"
  shows "decode_message kind payload = Inr m
    \<longleftrightarrow> message_ok m \<and> encode_message m = Inr (kind, payload)"
  using assms decode_encode encode_decode by blast

text \<open>
  C2: messages sent over a connection arrive complete, unchanged and in order, whatever bytes
  follow them, and across the wrap-around of the 32-bit sequence number.
\<close>

theorem conversation_delivered:
  assumes "list_all sendable ms" "ch_room a = None" "ch_out a = []"
    and "ch_next_receive b = ch_next_send a" "ch_in b = ch_out (send_all ms a) @ rest"
  shows "\<exists>b'. recv_many recv (length ms) b = (Inr ms, b') \<and> ch_in b' = rest"
  using assms by (intro channel.conversation) (simp_all add: send_all_out)

text \<open>
  C3: what is received was sent: if any number of messages is delivered, the bytes of the
  connection begin with exactly the frames of these messages, numbered consecutively, so bytes
  that were dropped, duplicated, reordered or forged within the stream are never delivered as
  messages.
\<close>

theorem delivered_was_sent:
  assumes "recv_many recv n ch = (Inr ms, ch')"
  shows "length ms = n \<and> list_all sendable ms
    \<and> ch_in ch = stream_of frame (\<lambda>s. s + 1) (ch_next_receive ch) ms @ ch_in ch'"
  using assms by (rule channel.only_conversation)

text \<open>
  C4: the server accepts a client exactly when its first frame is a greeting with the expected
  token (and the acknowledgement can be written); the comparison without early exit is equality.
\<close>

theorem server_accepts_iff_token:
  assumes "length expected = TOKEN_LEN" "ch_room ch = None"
  shows "fst (server_handshake expected session ch) = Inr (pid, capabilities)
    \<longleftrightarrow> (\<exists>rest. ch_in ch = frame (ch_next_receive ch) (ClientHello expected pid capabilities) @ rest)"
proof
  assume "fst (server_handshake expected session ch) = Inr (pid, capabilities)"
  then obtain token ch1 where r: "recv ch = (Inr (ClientHello token pid capabilities), ch1)"
    and eq: "constant_time_token_eq expected token"
    by (auto simp: server_handshake_def split: prod.splits sum.splits message.splits if_splits)
  have "length token = TOKEN_LEN" using recv_Inr [OF r] by (auto simp: sendable_def message_ok_def)
  then have "token = expected"
    using eq assms(1) by (simp add: constant_time_token_eq_def token_eq_fold)
  then show "\<exists>rest. ch_in ch = frame (ch_next_receive ch) (ClientHello expected pid capabilities) @ rest"
    using recv_Inr [OF r] by blast
next
  assume "\<exists>rest. ch_in ch = frame (ch_next_receive ch) (ClientHello expected pid capabilities) @ rest"
  then obtain rest where
      rest: "ch_in ch = frame (ch_next_receive ch) (ClientHello expected pid capabilities) @ rest" by blast
  have "sendable (ClientHello expected pid capabilities)"
    using assms(1) by (simp add: sendable_def message_ok_def encode_message_def maximum_for_def
        kind_defs MAX_CONTROL_BYTES_def TOKEN_LEN_def)
  from recv_frame [OF this rest] assms show
      "fst (server_handshake expected session ch) = Inr (pid, capabilities)"
    by (simp add: server_handshake_def constant_time_token_eq_def token_eq_fold send_ok sendable_def
        message_ok_def encode_message_def maximum_for_def kind_defs MAX_CONTROL_BYTES_def)
qed

abbreviation sample_token :: session_token where
  "sample_token \<equiv> replicate TOKEN_LEN 0x5A"

abbreviation sample_unit :: message where
  "sample_unit \<equiv> AccessUnit \<lparr>au_pts_ns = 7, au_dts_ns = 7, au_duration_ns = 1, au_flags = 1,
     au_data = [0, 0, 0, 1]\<rparr>"

lemma sample_sendable: "sendable Stop" "sendable (ServerHello n)" "sendable sample_unit"
  by (simp_all add: sendable_def message_ok_def encode_message_def maximum_for_def kind_defs
      MAX_CONTROL_BYTES_def MAX_ACCESS_UNIT_BYTES_def)

lemma message_roundtrip_witness:
  "decode_message SERVER_HELLO (push_u64 99) = Inr (ServerHello 99)"
  by (rule iffD2 [OF message_roundtrip])
    (simp_all add: message_ok_def encode_message_def maximum_for_def kind_defs MAX_CONTROL_BYTES_def)

lemma conversation_delivered_witness:
  "\<exists>b'. recv_many recv (length [sample_unit, Stop])
     ((channel_new (ch_out (send_all [sample_unit, Stop]
         ((channel_new [] None [])\<lparr>ch_next_send := 0xFFFFFFFF\<rparr>)) @ [1, 2]) None [])
       \<lparr>ch_next_receive := 0xFFFFFFFF\<rparr>) = (Inr [sample_unit, Stop], b') \<and> ch_in b' = [1, 2]"
  by (rule conversation_delivered) (simp_all add: sample_sendable channel_new_def)

lemma delivered_was_sent_witness:
  "list_all sendable [ServerHello 9]"
proof -
  have "recv (channel_new (frame 0 (ServerHello 9)) None [])
      = (Inr (ServerHello 9), (channel_new (frame 0 (ServerHello 9)) None [])\<lparr>ch_in := [],
           ch_next_receive := 1\<rparr>)"
    using recv_frame [OF sample_sendable(2) [of 9], of "channel_new (frame 0 (ServerHello 9)) None []" "[]"]
    by (simp add: channel_new_def)
  then have "recv_many recv 1 (channel_new (frame 0 (ServerHello 9)) None [])
      = (Inr [ServerHello 9], (channel_new (frame 0 (ServerHello 9)) None [])\<lparr>ch_in := [],
           ch_next_receive := 1\<rparr>)"
    by simp
  from delivered_was_sent [OF this] show ?thesis by blast
qed

lemma server_accepts_iff_token_witness:
  "fst (server_handshake sample_token 1
     (channel_new (frame 0 (ClientHello sample_token 42 7)) None [])) = Inr (42, 7)"
  by (subst server_accepts_iff_token) (simp_all add: channel_new_def)

end
