(* ===== verification/Muxer.thy ===== *)
theory Muxer
  imports Protocol
begin

text \<open>
  The game-capture muxer, \<open>crates/game-capture-muxer/src/main.rs\<close>: its command line, the
  identification of the one process it listens to, the statistics and the timeline of the
  recording, the writer thread and the session. The kernel's answers, GStreamer's results and the
  fate of FFmpeg are inputs. The lemmas show who can be accepted, what is written, and that a
  recording is left behind exactly when the session succeeded.
\<close>

definition MAX_QUEUED_ACCESS_UNITS :: nat where "MAX_QUEUED_ACCESS_UNITS = 4"
definition ERROR_PROTOCOL :: u32 where "ERROR_PROTOCOL = 1"
definition ERROR_CONFIGURATION :: u32 where "ERROR_CONFIGURATION = 2"

section \<open>The command line\<close>

text \<open>A failed start: an error message, or a panic of the program.\<close>

datatype mux_error = Failure str | Panics

record options =
  op_socket :: str
  op_token :: session_token
  op_output :: str
  op_fps :: u32
  op_expected_pid_file :: str
  op_expected_process_name :: "str option"

text \<open>
  \<open>parse_token\<close> slices the string two bytes at a time; a slice that ends inside a character
  panics.
\<close>

definition is_continuation :: "char \<Rightarrow> bool" where
  "is_continuation c = (let n = of_char c :: nat in 128 \<le> n \<and> n < 192)"

fun parse_pairs :: "str \<Rightarrow> (bytes, mux_error) result" where
  "parse_pairs (a # b # r) =
     (if r \<noteq> [] \<and> is_continuation (hd r) then Inl Panics
      else (case parse_uint_radix 16 255 [a, b] of
              None \<Rightarrow> Inl (Failure ''--token must contain only hexadecimal characters'')
            | Some n \<Rightarrow> bindR (parse_pairs r) (\<lambda>bs. Inr (word_of_nat n # bs))))"
| "parse_pairs _ = Inr []"

definition parse_token :: "str \<Rightarrow> (session_token, mux_error) result" where
  "parse_token hex =
     (if length hex \<noteq> TOKEN_LEN * 2
      then Inl (Failure ''--token must be exactly 64 hexadecimal characters'')
      else parse_pairs hex)"

text \<open>The options collected so far.\<close>

record partial_options =
  po_socket :: "str option"
  po_token :: "session_token option"
  po_output :: "str option"
  po_fps :: "u32 option"
  po_expected_pid_file :: "str option"
  po_expected_process_name :: "str option"

definition no_options :: partial_options where
  "no_options =
     \<lparr>po_socket = None, po_token = None, po_output = None, po_fps = None,
      po_expected_pid_file = None, po_expected_process_name = None\<rparr>"

definition option_step ::
  "str \<Rightarrow> str \<Rightarrow> partial_options \<Rightarrow> (partial_options, mux_error) result" where
  "option_step flag value p =
     (if flag = ''--socket'' then Inr (p\<lparr>po_socket := Some value\<rparr>)
      else if flag = ''--token'' then
        bindR (parse_token value) (\<lambda>t. Inr (p\<lparr>po_token := Some t\<rparr>))
      else if flag = ''--output'' then Inr (p\<lparr>po_output := Some value\<rparr>)
      else if flag = ''--fps'' then
        bindR (ok_or (Failure ''invalid --fps'') (parse_u32 value))
          (\<lambda>n. Inr (p\<lparr>po_fps := Some (word_of_nat n)\<rparr>))
      else if flag = ''--expected-pid-file'' then Inr (p\<lparr>po_expected_pid_file := Some value\<rparr>)
      else if flag = ''--expected-process-name'' then
        Inr (p\<lparr>po_expected_process_name := Some value\<rparr>)
      else Inl (Failure (''unknown option '' @ flag)))"

fun collect_options :: "str list \<Rightarrow> partial_options \<Rightarrow> (partial_options, mux_error) result" where
  "collect_options [] p = Inr p"
| "collect_options [flag] p = Inl (Failure (''missing value for '' @ flag))"
| "collect_options (flag # value # args) p =
     bindR (option_step flag value p) (collect_options args)"

definition task_name_byte :: "char \<Rightarrow> bool" where
  "task_name_byte c \<longleftrightarrow>
     is_ascii_alphanumeric c \<or> c = CHR ''_'' \<or> c = CHR ''-'' \<or> c = CHR ''.''"

definition parse_from :: "str list \<Rightarrow> (options, mux_error) result" where
  "parse_from args =
     bindR (collect_options args no_options) (\<lambda>p.
     bindR (ok_or (Failure ''--socket is required'') (po_socket p)) (\<lambda>socket.
     bindR (ok_or (Failure ''--token is required'') (po_token p)) (\<lambda>token.
     bindR (ok_or (Failure ''--output is required'') (po_output p)) (\<lambda>output.
     bindR (ok_or (Failure ''--fps is required'') (po_fps p)) (\<lambda>fps.
     bindR (ok_or (Failure ''--expected-pid-file is required'') (po_expected_pid_file p)) (\<lambda>pid_file.
       if socket = [] \<or> output = [] \<or> pid_file = [] \<or> \<not> (1 \<le> fps \<and> fps \<le> 480)
       then Inl (Failure ''--socket, --output, and an fps from 1 through 480 are required'')
       else if (case po_expected_process_name p of None \<Rightarrow> False
                | Some name \<Rightarrow> name = [] \<or> 15 < length name \<or> \<not> list_all task_name_byte name)
       then Inl (Failure ''--expected-process-name must be 1 through 15 letters, digits, _, -, or .'')
       else Inr \<lparr>op_socket = socket, op_token = token, op_output = output, op_fps = fps,
                 op_expected_pid_file = pid_file,
                 op_expected_process_name = po_expected_process_name p\<rparr>))))))"

section \<open>The peer\<close>

record peer_credentials =
  pc_pid :: u32
  pc_uid :: u32

text \<open>The answer of \<open>getsockopt(SO_PEERCRED)\<close>: \<open>pid\<close>, \<open>uid\<close> and the length written.\<close>

datatype sockopt = SockFails str | SockCred int u32 nat

definition peer_credentials :: "sockopt \<Rightarrow> (peer_credentials, str) result" where
  "peer_credentials answer =
     (case answer of
        SockFails e \<Rightarrow> Inl (''failed reading game-capture peer credentials: '' @ e)
      | SockCred pid uid len \<Rightarrow>
          if len \<noteq> 12 \<or> pid \<le> 0
          then Inl ''kernel returned incomplete game-capture peer credentials''
          else Inr \<lparr>pc_pid = word_of_int pid, pc_uid = uid\<rparr>)"

text \<open>
  \<open>expected_pid\<close>: every poll of the file with whether the deadline was still ahead; \<open>None\<close> while
  the polls given do not settle it.
\<close>

fun expected_pid :: "str \<Rightarrow> ((str, io_error) result \<times> bool) list \<Rightarrow> (u32, str) result option" where
  "expected_pid path [] = None"
| "expected_pid path ((r, before_deadline) # polls) =
     (case r of
        Inr value \<Rightarrow>
          (case parse_u32 (trim value) of
             None \<Rightarrow> Some (Inl (''invalid expected game PID in '' @ path))
           | Some pid \<Rightarrow>
               if pid = 0 then Some (Inl (''invalid expected game PID in '' @ path))
               else Some (Inr (word_of_nat pid)))
      | Inl NotFound \<Rightarrow>
          if before_deadline then expected_pid path polls
          else Some (Inl (''failed reading expected game PID '' @ path @ '': No such file or directory''))
      | Inl (OtherIo e) \<Rightarrow> Some (Inl (''failed reading expected game PID '' @ path @ '': '' @ e)))"

text \<open>The files of \<open>/proc\<close> of a process: \<open>comm\<close> and \<open>stat\<close>.\<close>

record proc =
  pr_comm :: "u32 \<Rightarrow> (str, str) result"
  pr_stat :: "u32 \<Rightarrow> str option"

definition process_name :: "proc \<Rightarrow> u32 \<Rightarrow> (str, str) result" where
  "process_name proc pid =
     map_err (\<lambda>e. ''could not read game-capture peer process name: '' @ e)
       (map_sum id trim_end (pr_comm proc pid))"

text \<open>The parent in a \<open>stat\<close> line: the second word after the last closing parenthesis.\<close>

definition stat_parent :: "str \<Rightarrow> u32 option" where
  "stat_parent stat =
     (case rsplit_once (CHR '')'') stat of
        None \<Rightarrow> None
      | Some (_, rest) \<Rightarrow>
          (case split_whitespace rest of
             _ # p # _ \<Rightarrow> map_option word_of_nat (parse_u32 p)
           | _ \<Rightarrow> None))"

fun descends_steps :: "nat \<Rightarrow> proc \<Rightarrow> u32 \<Rightarrow> u32 \<Rightarrow> bool" where
  "descends_steps 0 proc pid ancestor = False"
| "descends_steps (Suc n) proc pid ancestor =
     (if pid = ancestor then True
      else (case pr_stat proc pid of
              None \<Rightarrow> False
            | Some stat \<Rightarrow>
                (case stat_parent stat of
                   None \<Rightarrow> False
                 | Some parent \<Rightarrow>
                     if parent = 0 \<or> parent = pid then False
                     else descends_steps n proc parent ancestor)))"

definition descends_from :: "proc \<Rightarrow> u32 \<Rightarrow> u32 \<Rightarrow> bool" where
  "descends_from proc pid ancestor = descends_steps 128 proc pid ancestor"

text \<open>
  One connection as the accept loop meets it: the error of \<open>accept\<close>, the kernel's credentials, the
  polls of the PID file, and \<open>/proc\<close> at that time.
\<close>

record attempt =
  at_error :: "str option"
  at_sock :: sockopt
  at_polls :: "((str, io_error) result \<times> bool) list"
  at_proc :: proc

fun accept_expected_peer ::
  "u32 \<Rightarrow> options \<Rightarrow> attempt list \<Rightarrow> (attempt, str) result option" where
  "accept_expected_peer uid o' [] = None"
| "accept_expected_peer uid o' (a # as) =
     (case at_error a of
        Some e \<Rightarrow> Some (Inl (''failed accepting game-capture hook: '' @ e))
      | None \<Rightarrow>
          (case peer_credentials (at_sock a) of
             Inl _ \<Rightarrow> accept_expected_peer uid o' as
           | Inr credentials \<Rightarrow>
               if pc_uid credentials \<noteq> uid then accept_expected_peer uid o' as
               else (case expected_pid (op_expected_pid_file o') (at_polls a) of
                       None \<Rightarrow> None
                     | Some (Inl e) \<Rightarrow> Some (Inl e)
                     | Some (Inr expected) \<Rightarrow>
                         (case op_expected_process_name o' of
                            Some name \<Rightarrow>
                              if \<not> descends_from (at_proc a) (pc_pid credentials) expected
                              then accept_expected_peer uid o' as
                              else if process_name (at_proc a) (pc_pid credentials) \<noteq> Inr name
                              then accept_expected_peer uid o' as
                              else Some (Inr a)
                          | None \<Rightarrow>
                              if pc_pid credentials \<noteq> expected then accept_expected_peer uid o' as
                              else Some (Inr a)))))"

section \<open>Statistics and timeline\<close>

record muxer_stats =
  ms_received_access_units :: u64
  ms_written_access_units :: u64
  ms_received_bytes :: u64
  ms_first_pts_ns :: "u64 option"
  ms_last_pts_ns :: "u64 option"
  ms_latest_hook_stats :: frame_stats

definition muxer_stats_default :: muxer_stats where
  "muxer_stats_default =
     \<lparr>ms_received_access_units = 0, ms_written_access_units = 0, ms_received_bytes = 0,
      ms_first_pts_ns = None, ms_last_pts_ns = None,
      ms_latest_hook_stats =
        \<lparr>fs_submitted = 0, fs_encoded = 0, fs_dropped_before_encode = 0,
         fs_dropped_send_backpressure = 0, fs_encode_latency_us = 0\<rparr>\<rparr>"

definition saturating_sub64 :: "u64 \<Rightarrow> u64 \<Rightarrow> u64" where
  "saturating_sub64 a b = (if b \<le> a then a - b else 0)"

definition note_access_unit :: "access_unit \<Rightarrow> muxer_stats \<Rightarrow> (muxer_stats, str) result" where
  "note_access_unit au s =
     (if (case ms_last_pts_ns s of Some prev \<Rightarrow> au_pts_ns au < prev | None \<Rightarrow> False)
      then Inl ''access-unit PTS moved backwards''
      else if au_duration_ns au = 0
      then Inl ''access-unit duration is required for true VFR output''
      else Inr (s\<lparr>ms_first_pts_ns :=
                    (case ms_first_pts_ns s of None \<Rightarrow> Some (au_pts_ns au) | Some p \<Rightarrow> Some p),
                  ms_last_pts_ns := Some (au_pts_ns au),
                  ms_received_access_units := ms_received_access_units s + 1,
                  ms_received_bytes := ms_received_bytes s + of_nat (length (au_data au))\<rparr>))"

definition timeline_span_ns :: "muxer_stats \<Rightarrow> u64" where
  "timeline_span_ns s =
     (case (ms_last_pts_ns s, ms_first_pts_ns s) of
        (Some final, Some origin) \<Rightarrow> saturating_sub64 final origin
      | _ \<Rightarrow> 0)"

definition validate_start :: "video_config \<Rightarrow> u32 \<Rightarrow> (unit, str) result" where
  "validate_start config requested_fps =
     (if vc_width config = 0 \<or> vc_height config = 0
         \<or> vc_width config > 16384 \<or> vc_height config > 16384
         \<or> unat (vc_width config) mod 2 \<noteq> 0 \<or> unat (vc_height config) mod 2 \<noteq> 0
      then Inl ''H.264 dimensions must be nonzero, even, and no larger than 16384''
      else if vc_fps_den config \<noteq> 1 \<or> vc_fps_num config \<noteq> requested_fps
      then Inl (''hook declared '' @ show_nat (unat (vc_fps_num config)) @ ''/''
                @ show_nat (unat (vc_fps_den config)) @ '' fps but muxer was launched for ''
                @ show_nat (unat requested_fps) @ '' fps'')
      else Inr ())"

section \<open>The writer thread\<close>

datatype writer_input = Unit access_unit | Finish

record gst_buffer =
  gb_pts :: u64
  gb_dts :: u64
  gb_duration :: u64
  gb_data :: bytes

datatype bus_message = BusEos | BusError str | BusOther

text \<open>
  What GStreamer answers: to the construction of the pipeline, to the allocation and the push of
  the \<open>n\<close>-th buffer, to the end of the stream, on the bus until the deadline, and to the final
  state change.
\<close>

record gst =
  gs_setup :: "str option"
  gs_buffer :: "nat \<Rightarrow> str option"
  gs_push :: "nat \<Rightarrow> str option"
  gs_eos :: "str option"
  gs_bus :: "bus_message list"
  gs_stop :: "str option"

fun await_eos :: "bus_message list \<Rightarrow> (bool, str) result" where
  "await_eos [] = Inr False"
| "await_eos (BusEos # ms) = Inr True"
| "await_eos (BusError e # ms) = Inl (''timestamped H.264 muxer failed: '' @ e)"
| "await_eos (BusOther # ms) = await_eos ms"

definition writer_finish :: "gst \<Rightarrow> nat \<Rightarrow> (u64, str) result" where
  "writer_finish g written =
     (case gs_eos g of
        Some e \<Rightarrow> Inl (''timestamped H.264 muxer rejected end-of-stream: '' @ e)
      | None \<Rightarrow>
          bindR (await_eos (gs_bus g)) (\<lambda>finalized.
            case gs_stop g of
              Some e \<Rightarrow> Inl (''failed to stop timestamped H.264 muxer: '' @ e)
            | None \<Rightarrow>
                if \<not> finalized
                then Inl ''timestamped H.264 muxer timed out while finalizing the recording index''
                else Inr (of_nat written)))"

text \<open>
  The loop over the queue, which ends when the senders are gone; it returns its result and the
  buffers pushed.
\<close>

fun writer_loop ::
  "gst \<Rightarrow> writer_input list \<Rightarrow> nat \<Rightarrow> (u64 \<times> u64) option \<Rightarrow> gst_buffer list
     \<Rightarrow> (u64, str) result \<times> gst_buffer list" where
  "writer_loop g [] written origin pushed =
     (Inl ''H.264 writer was aborted without protocol Stop or clean EOF'', pushed)"
| "writer_loop g (Finish # queue) written origin pushed = (writer_finish g written, pushed)"
| "writer_loop g (Unit au # queue) written origin pushed =
     (let (origin_pts, origin_dts) =
            (case origin of None \<Rightarrow> (au_pts_ns au, au_dts_ns au) | Some og \<Rightarrow> og)
      in case gs_buffer g written of
           Some e \<Rightarrow> (Inl e, pushed)
         | None \<Rightarrow>
             (case gs_push g written of
                Some e \<Rightarrow> (Inl (''timestamped H.264 muxer rejected access unit: '' @ e), pushed)
              | None \<Rightarrow>
                  writer_loop g queue (written + 1) (Some (origin_pts, origin_dts))
                    (pushed @ [\<lparr>gb_pts = saturating_sub64 (au_pts_ns au) origin_pts,
                                gb_dts = saturating_sub64 (au_dts_ns au) origin_dts,
                                gb_duration = au_duration_ns au, gb_data = au_data au\<rparr>])))"

definition muxer_writer ::
  "gst \<Rightarrow> writer_input list \<Rightarrow> (u64, str) result \<times> gst_buffer list" where
  "muxer_writer g queue =
     (case gs_setup g of
        Some e \<Rightarrow> (Inl e, [])
      | None \<Rightarrow> writer_loop g queue 0 None [])"

section \<open>The session\<close>

definition unexpected_eof :: str where
  "unexpected_eof = ''failed to fill whole buffer''"

text \<open>\<open>Display\<close> of a protocol error.\<close>

definition show_protocol_error :: "protocol_error \<Rightarrow> str" where
  "show_protocol_error e =
     (case e of
        Io err \<Rightarrow> ''IPC I/O error: '' @ err
      | UnsupportedVersion version \<Rightarrow>
          ''unsupported game-capture protocol version '' @ show_nat (unat version)
      | BadMagic \<Rightarrow> ''invalid game-capture IPC magic''
      | UnknownMessage kind \<Rightarrow> ''unknown game-capture IPC message '' @ show_nat (unat kind)
      | Oversized msg len maximum \<Rightarrow>
          msg @ '' payload '' @ show_nat len @ '' exceeds '' @ show_nat maximum
      | Sequence expected actual \<Rightarrow>
          ''out-of-order game-capture packet '' @ show_nat (unat actual) @ ''; expected ''
          @ show_nat (unat expected)
      | AuthenticationFailed \<Rightarrow> ''game-capture hook token was rejected''
      | ServerRejected code msg \<Rightarrow>
          ''game-capture server rejected hook ('' @ show_nat (unat code) @ ''): '' @ msg
      | InvalidPayload reason \<Rightarrow> ''invalid game-capture IPC payload: '' @ reason)"

definition send_error :: "u32 \<Rightarrow> str \<Rightarrow> channel \<Rightarrow> channel" where
  "send_error code msg ch = snd (send (ErrorMsg code msg) ch)"

text \<open>
  The state of the receive loop: the channel, the statistics, what went into the queue, the outcome
  and whether the producer ended gracefully.
\<close>

record session =
  se_channel :: channel
  se_stats :: muxer_stats
  se_queue :: "writer_input list"
  se_outcome :: "(unit, str) result"
  se_graceful :: bool

text \<open>
  The environment of a session: the id, how \<open>Debug\<close> prints a message, the result of starting
  FFmpeg, GStreamer, whether the writer is still there to take the \<open>n\<close>-th input, whether it
  panics, and how FFmpeg exits.
\<close>

datatype exit_status = WaitFails str | Exited bool str

record mux_env =
  me_session_id :: u64
  me_debug :: "message \<Rightarrow> str"
  me_spawn :: "str option"
  me_gst :: gst
  me_writer_gone :: "nat \<Rightarrow> bool"
  me_writer_panics :: bool
  me_exit :: exit_status

definition wait_cleanly :: "exit_status \<Rightarrow> (unit, str) result" where
  "wait_cleanly st =
     (case st of
        WaitFails e \<Rightarrow> Inl (''failed waiting for FFmpeg: '' @ e)
      | Exited success text \<Rightarrow> if success then Inr () else Inl (''FFmpeg exited with '' @ text))"

text \<open>One turn of the loop: \<open>None\<close> continues with the new state, \<open>Some\<close> breaks.\<close>

definition session_turn ::
  "mux_env \<Rightarrow> (message, protocol_error) result \<Rightarrow> session \<Rightarrow> bool \<times> session" where
  "session_turn env received s =
     (case received of
        Inr (AccessUnit au) \<Rightarrow>
          (case note_access_unit au (se_stats s) of
             Inl e \<Rightarrow>
               (False, s\<lparr>se_channel := send_error ERROR_PROTOCOL e (se_channel s), se_outcome := Inl e\<rparr>)
           | Inr stats \<Rightarrow>
               if me_writer_gone env (length (se_queue s))
               then (False, s\<lparr>se_stats := stats, se_outcome :=
                      Inl ''FFmpeg writer stopped before receiving access unit: sending on a closed channel''\<rparr>)
               else (True, s\<lparr>se_stats := stats, se_queue := se_queue s @ [Unit au]\<rparr>))
      | Inr (Stats hook_stats) \<Rightarrow>
          (True, s\<lparr>se_stats := (se_stats s)\<lparr>ms_latest_hook_stats := hook_stats\<rparr>\<rparr>)
      | Inr Stop \<Rightarrow> (False, s\<lparr>se_graceful := True\<rparr>)
      | Inr (ErrorMsg code msg) \<Rightarrow>
          (False, s\<lparr>se_outcome := Inl (''hook reported error '' @ show_nat (unat code) @ '': '' @ msg)\<rparr>)
      | Inr other \<Rightarrow>
          (False, s\<lparr>se_channel := send_error ERROR_PROTOCOL ''unexpected message after Start'' (se_channel s),
                    se_outcome := Inl (''unexpected message after Start: '' @ me_debug env other)\<rparr>)
      | Inl e \<Rightarrow>
          if e = Io unexpected_eof then (False, s\<lparr>se_graceful := True\<rparr>)
          else (False, s\<lparr>se_channel := send_error ERROR_PROTOCOL (show_protocol_error e) (se_channel s),
                         se_outcome := Inl (''game-capture protocol error: '' @ show_protocol_error e)\<rparr>))"

lemma recv_shorter:
  assumes r: "recv ch = (Inr m, ch')"
  shows "length (ch_in ch') < length (ch_in ch)"
proof -
  have "header kind n s \<noteq> []" for kind n s
    using header_fields(1) [of kind n s] by (auto simp: HEADER_LEN_def)
  then have "0 < length (frame (ch_next_receive ch) m)"
    using recv_Inr [OF r] by (auto simp: frame_def sendable_def)
  moreover have "length (ch_in ch) = length (frame (ch_next_receive ch) m) + length (ch_in ch')"
    using recv_Inr [OF r] by (metis length_append)
  ultimately show ?thesis by simp
qed

lemma session_turn_channel: "fst (session_turn env (Inr m) s) \<Longrightarrow> se_channel (snd (session_turn env (Inr m) s)) = se_channel s"
  by (auto simp: session_turn_def split: message.splits sum.splits if_splits)

function session_loop :: "mux_env \<Rightarrow> session \<Rightarrow> session" where
  "session_loop env s =
     (case recv (se_channel s) of
        (received, ch) \<Rightarrow>
          (case session_turn env received (s\<lparr>se_channel := ch\<rparr>) of
             (continue, s') \<Rightarrow> if continue then session_loop env s' else s'))"
  by pat_completeness auto

lemma session_turn_error: "\<not> fst (session_turn env (Inl e) s)"
  by (simp add: session_turn_def)

lemma session_turn_continues:
  assumes "recv (se_channel s) = (received, ch)"
    and "session_turn env received (s\<lparr>se_channel := ch\<rparr>) = (True, s')"
  shows "length (ch_in (se_channel s')) < length (ch_in (se_channel s))"
proof -
  obtain m where m: "received = Inr m"
    using assms(2) session_turn_error [of env _ "s\<lparr>se_channel := ch\<rparr>"]
    by (cases received) (auto simp: session_turn_def split: if_split_asm)
  have "se_channel s' = ch"
    using session_turn_channel [of env m "s\<lparr>se_channel := ch\<rparr>"] assms(2) by (simp add: m)
  then show ?thesis using assms(1) by (simp add: m recv_shorter)
qed

termination session_loop
  by (relation "measure (\<lambda>(_, s). length (ch_in (se_channel s)))")
    (auto, metis session_turn_continues)

declare session_loop.simps [simp del]

text \<open>What becomes of the requested output file.\<close>

datatype artifact = Before | Recorded "gst_buffer list" | Removed

definition session_start :: "channel \<Rightarrow> session" where
  "session_start ch =
     \<lparr>se_channel = ch, se_stats = muxer_stats_default, se_queue = [], se_outcome = Inr (),
      se_graceful = False\<rparr>"

text \<open>From the start of FFmpeg to the end of \<open>run_session\<close>.\<close>

definition session_body :: "mux_env \<Rightarrow> channel \<Rightarrow> (muxer_stats, str) result \<times> artifact" where
  "session_body env ch =
     (let s = session_loop env (session_start ch);
          (queue, outcome) =
            (if se_graceful s \<and> is_ok (se_outcome s)
             then if me_writer_gone env (length (se_queue s))
                  then (se_queue s, Inl ''FFmpeg writer stopped before finalization: sending on a closed channel'')
                  else (se_queue s @ [Finish], se_outcome s)
             else (se_queue s, se_outcome s));
          (joined, pushed) = muxer_writer (me_gst env) queue;
          (outcome', stats) =
            (if me_writer_panics env then (Inl ''FFmpeg writer thread panicked'', se_stats s)
             else case joined of
                    Inr n \<Rightarrow> (outcome, (se_stats s)\<lparr>ms_written_access_units := n\<rparr>)
                  | Inl e \<Rightarrow> (Inl e, se_stats s))
      in if is_ok outcome' \<and> se_graceful s
         then (case wait_cleanly (me_exit env) of
                 Inr _ \<Rightarrow> (Inr stats, Recorded pushed)
               | Inl e \<Rightarrow> (Inl e, Recorded pushed))
         else (map_sum id (\<lambda>_. stats) outcome', Removed))"

definition run_session ::
  "mux_env \<Rightarrow> options \<Rightarrow> channel \<Rightarrow> (muxer_stats, str) result \<times> artifact" where
  "run_session env o' ch =
     (case server_handshake (op_token o') (me_session_id env) ch of
        (Inl e, ch1) \<Rightarrow> (Inl (''hook authentication failed: '' @ show_protocol_error e), Before)
      | (Inr _, ch1) \<Rightarrow>
          (case recv ch1 of
             (Inr (Start config), ch2) \<Rightarrow>
               (case validate_start config (op_fps o') of
                  Inl e \<Rightarrow> (Inl e, Before)
                | Inr _ \<Rightarrow>
                    (case me_spawn env of
                       Some e \<Rightarrow> (Inl e, Before)
                     | None \<Rightarrow> session_body env ch2))
           | (Inr other, ch2) \<Rightarrow>
               (Inl (''expected Start after hello, received '' @ me_debug env other), Before)
           | (Inl e, ch2) \<Rightarrow> (Inl (''failed receiving Start: '' @ show_protocol_error e), Before)))"

section \<open>The program\<close>

text \<open>
  \<open>bind_private_socket\<close>: whether the path is taken before, the errors of \<open>bind\<close> and of
  \<open>set_permissions\<close>; the flag returned says whether a socket file is at the path afterwards.
\<close>

definition bind_private_socket ::
  "str \<Rightarrow> bool \<Rightarrow> str option \<Rightarrow> str option \<Rightarrow> (unit, str) result \<times> bool" where
  "bind_private_socket path taken bind_error chmod_error =
     (if taken then (Inl (''refusing to replace existing game-capture socket '' @ path), True)
      else case bind_error of
             Some e \<Rightarrow> (Inl (''failed to bind game-capture socket '' @ path @ '': '' @ e), False)
           | None \<Rightarrow>
               (case chmod_error of
                  Some e \<Rightarrow> (Inl (''failed to restrict game-capture socket '' @ path @ '': '' @ e), True)
                | None \<Rightarrow> (Inr (), True)))"

record main_env =
  ma_taken :: bool
  ma_bind_error :: "str option"
  ma_chmod_error :: "str option"
  ma_uid :: u32
  ma_attempts :: "attempt list"
  ma_stream :: "attempt \<Rightarrow> channel"
  ma_session :: mux_env

text \<open>
  \<open>main\<close>: the exit status and whether the socket file is left; \<open>None\<close> while no peer is accepted.
  \<open>process::exit\<close> runs no destructor, so only the return from \<open>main\<close> drops the socket guard.
\<close>

definition mux_main :: "main_env \<Rightarrow> str list \<Rightarrow> (nat \<times> bool) option" where
  "mux_main env args =
     (case parse_from args of
        Inl (Failure e) \<Rightarrow> Some (2, ma_taken env)
      | Inl Panics \<Rightarrow> Some (101, ma_taken env)
      | Inr o' \<Rightarrow>
          (case bind_private_socket (op_socket o') (ma_taken env) (ma_bind_error env) (ma_chmod_error env) of
             (Inl e, left_over) \<Rightarrow> Some (1, left_over)
           | (Inr _, present) \<Rightarrow>
               (case accept_expected_peer (ma_uid env) o' (ma_attempts env) of
                  None \<Rightarrow> None
                | Some (Inl e) \<Rightarrow> Some (1, present)
                | Some (Inr a) \<Rightarrow>
                    (case fst (run_session (ma_session env) o' (ma_stream env a)) of
                       Inl e \<Rightarrow> Some (1, present)
                     | Inr stats \<Rightarrow> Some (0, False)))))"

section \<open>Who is accepted\<close>

text \<open>The parent relation \<open>/proc\<close> shows.\<close>

definition parent_rel :: "proc \<Rightarrow> (u32 \<times> u32) set" where
  "parent_rel proc = {(p, q). \<exists>st. pr_stat proc p = Some st \<and> stat_parent st = Some q}"

lemma descends_steps_chain:
  "descends_steps n proc pid ancestor \<Longrightarrow> \<exists>k < n. (pid, ancestor) \<in> parent_rel proc ^^ k"
proof (induction n arbitrary: pid)
  case 0
  then show ?case by simp
next
  case (Suc n)
  show ?case
  proof (cases "pid = ancestor")
    case True
    then show ?thesis by (intro exI [of _ 0]) simp
  next
    case False
    with Suc.prems obtain parent where p: "(pid, parent) \<in> parent_rel proc"
        "descends_steps n proc parent ancestor"
      by (auto simp: parent_rel_def split: option.splits if_splits)
    from Suc.IH [OF p(2)] obtain k where "k < n" "(parent, ancestor) \<in> parent_rel proc ^^ k" by blast
    with p(1) show ?thesis by (intro exI [of _ "Suc k"]) (simp only: Suc_less_eq relpow_Suc_I2 simp_thms)
  qed
qed

lemma expected_pid_nonzero: "expected_pid path polls = Some (Inr pid) \<Longrightarrow> pid \<noteq> 0"
proof (induction path polls rule: expected_pid.induct)
  case (2 path r b polls)
  have "word_of_nat n \<noteq> (0 :: u32)" if "parse_u32 s = Some n" "n \<noteq> 0" for s n
    using parse_uint_radix_le [of 10 4294967295 s n] that
    by (auto simp: parse_u32_def word_of_nat_eq_0_iff dest: dvd_imp_le)
  with 2 show ?case by (auto split: sum.splits option.splits io_error.splits if_splits)
qed simp

text \<open>What the kernel, the PID file and \<open>/proc\<close> must say of an accepted connection.\<close>

definition identified :: "u32 \<Rightarrow> options \<Rightarrow> attempt \<Rightarrow> bool" where
  "identified uid o' a \<longleftrightarrow> (\<exists>c expected.
      peer_credentials (at_sock a) = Inr c \<and> pc_uid c = uid
      \<and> expected_pid (op_expected_pid_file o') (at_polls a) = Some (Inr expected) \<and> expected \<noteq> 0
      \<and> (case op_expected_process_name o' of
           None \<Rightarrow> pc_pid c = expected
         | Some name \<Rightarrow> process_name (at_proc a) (pc_pid c) = Inr name
             \<and> (\<exists>k < 128. (pc_pid c, expected) \<in> parent_rel (at_proc a) ^^ k)))"

lemma accept_step:
  "accept_expected_peer uid o' (a # as) = Some (Inr b) \<Longrightarrow>
     (b = a \<and> identified uid o' a) \<or> accept_expected_peer uid o' as = Some (Inr b)"
  by (auto simp: identified_def descends_from_def split: option.splits sum.splits if_splits
      dest: expected_pid_nonzero dest!: descends_steps_chain)

text \<open>
  C8: the muxer only ever listens to a process of its own user whose identity the kernel vouches
  for: the process whose PID the launcher recorded or, for launchers, a process with exactly the
  expected name that descends from it through fewer than 128 parents.
\<close>

theorem accepted_peer_is_expected:
  assumes "accept_expected_peer uid o' attempts = Some (Inr a)"
  shows "a \<in> set attempts \<and> (\<exists>c expected.
      peer_credentials (at_sock a) = Inr c \<and> pc_uid c = uid
      \<and> expected_pid (op_expected_pid_file o') (at_polls a) = Some (Inr expected) \<and> expected \<noteq> 0
      \<and> (case op_expected_process_name o' of
           None \<Rightarrow> pc_pid c = expected
         | Some name \<Rightarrow> process_name (at_proc a) (pc_pid c) = Inr name
             \<and> (\<exists>k < 128. (pc_pid c, expected) \<in> parent_rel (at_proc a) ^^ k)))"
proof -
  have "a \<in> set attempts \<and> identified uid o' a"
    using assms
  proof (induction attempts)
    case Nil
    then show ?case by simp
  next
    case (Cons b attempts)
    from accept_step [OF Cons.prems] Cons.IH show ?case by auto
  qed
  then show ?thesis by (simp add: identified_def)
qed

section \<open>The parent of a process with any name\<close>

lemma rsplit_once_append: "c \<notin> set r \<Longrightarrow> rsplit_once c (p @ c # r) = Some (p, r)"
  using split_once_Some [of c "rev (p @ c # r)" "rev r" "rev p"]
  by (simp add: rsplit_once_def)

lemma show_nat_graphic: "list_all ascii_graphic (show_nat n)"
  by (rule parse_digits_graphic [OF parse_digits_show])

text \<open>
  The parent is read correctly for a process of any name, one made to look like the rest of a
  \<open>stat\<close> line included.
\<close>

lemma stat_parent_any_name:
  assumes "CHR '')'' \<notin> set rest" "parent \<le> 4294967295" "ascii_graphic state"
    "state \<noteq> CHR '')''"
  shows "stat_parent (show_nat pid @ '' ('' @ name @ '') '' @ [state] @ '' '' @ show_nat parent @ '' '' @ rest)
    = Some (word_of_nat parent)"
proof -
  let ?tail = "CHR '' '' # state # CHR '' '' # show_nat parent @ CHR '' '' # rest"
  have "CHR '')'' \<notin> set (show_nat parent)"
    using show_nat_digits [of "CHR '')''" parent] by (auto simp: to_digit_def)
  then have "rsplit_once (CHR '')'') ((show_nat pid @ '' ('' @ name) @ CHR '')'' # ?tail)
      = Some (show_nat pid @ '' ('' @ name, ?tail)"
    using assms(1,4) by (intro rsplit_once_append) auto
  moreover have "split_whitespace ?tail = [state] # show_nat parent # split_ws [] rest"
    using split_ws_word [of "[state]" "[]" "show_nat parent @ CHR '' '' # rest"]
      split_ws_word [of "show_nat parent" "[]" rest] assms(3) show_nat_graphic [of parent] show_nat_ne
    by (simp add: split_whitespace_def split_ws_blank)
  moreover have "parse_u32 (show_nat parent) = Some parent"
    unfolding parse_u32_def by (rule parse_show_uint) (rule assms(2))
  ultimately show ?thesis by (simp add: stat_parent_def)
qed

section \<open>The recording\<close>

text \<open>What the statistics and the queue owe to the access units taken so far.\<close>

definition accounted :: "access_unit list \<Rightarrow> muxer_stats \<Rightarrow> bool" where
  "accounted aus st \<longleftrightarrow>
     sorted (map au_pts_ns aus) \<and> (\<forall>au \<in> set aus. au_duration_ns au \<noteq> 0)
     \<and> ms_received_access_units st = of_nat (length aus)
     \<and> ms_received_bytes st = of_nat (sum_list (map (length \<circ> au_data) aus))
     \<and> ms_first_pts_ns st = (if aus = [] then None else Some (au_pts_ns (hd aus)))
     \<and> ms_last_pts_ns st = (if aus = [] then None else Some (au_pts_ns (last aus)))"

lemma accounted_start: "accounted [] muxer_stats_default"
  by (simp add: accounted_def muxer_stats_default_def)

lemma sorted_le_last: "sorted xs \<Longrightarrow> x \<in> set xs \<Longrightarrow> x \<le> last xs"
  by (induction xs) (auto split: if_splits)

lemma accounted_note:
  assumes "accounted aus st" "note_access_unit au st = Inr st'"
  shows "accounted (aus @ [au]) st'"
proof -
  have st': "st' = st\<lparr>ms_first_pts_ns :=
               (case ms_first_pts_ns st of None \<Rightarrow> Some (au_pts_ns au) | Some p \<Rightarrow> Some p),
             ms_last_pts_ns := Some (au_pts_ns au),
             ms_received_access_units := ms_received_access_units st + 1,
             ms_received_bytes := ms_received_bytes st + of_nat (length (au_data au))\<rparr>"
    and d: "au_duration_ns au \<noteq> 0"
    and last: "aus \<noteq> [] \<Longrightarrow> au_pts_ns (last aus) \<le> au_pts_ns au"
    using assms by (auto simp: note_access_unit_def accounted_def not_less split: if_splits)
  have "sorted (map au_pts_ns aus @ [au_pts_ns au])"
    using assms(1) last sorted_le_last [of "map au_pts_ns aus"]
    by (cases "aus = []") (fastforce simp: sorted_append accounted_def last_map)+
  then show ?thesis
    using assms(1) d by (auto simp: st' accounted_def)
qed

definition session_inv :: "session \<Rightarrow> bool" where
  "session_inv s \<longleftrightarrow>
     (\<exists>aus. se_queue s = map Unit aus \<and> (is_ok (se_outcome s) \<longrightarrow> accounted aus (se_stats s)))"

lemma accounted_hook_stats:
  "accounted aus st \<Longrightarrow> accounted aus (st\<lparr>ms_latest_hook_stats := h\<rparr>)"
  by (simp add: accounted_def)

lemma session_turn_inv:
  assumes "session_inv s" "is_ok (se_outcome s)"
  shows "session_inv (snd (session_turn env received s))"
proof -
  obtain aus where q: "se_queue s = map Unit aus" and a: "accounted aus (se_stats s)"
    using assms by (auto simp: session_inv_def)
  show ?thesis
  proof (cases received)
    case (Inl e)
    then show ?thesis using q a by (auto simp: session_turn_def session_inv_def)
  next
    case (Inr m)
    show ?thesis
    proof (cases m)
      case (AccessUnit au)
      show ?thesis
      proof (cases "note_access_unit au (se_stats s)")
        case (Inl e)
        with \<open>received = Inr m\<close> AccessUnit q show ?thesis
          by (auto simp: session_turn_def session_inv_def)
      next
        case (Inr st)
        note noted = accounted_note [OF a Inr]
        show ?thesis
        proof (cases "me_writer_gone env (length aus)")
          case True
          with \<open>received = Inr m\<close> AccessUnit Inr q show ?thesis
            unfolding session_inv_def by (intro exI [of _ aus]) (simp add: session_turn_def)
        next
          case False
          with \<open>received = Inr m\<close> AccessUnit Inr q noted show ?thesis
            unfolding session_inv_def by (intro exI [of _ "aus @ [au]"]) (simp add: session_turn_def)
        qed
      qed
    next
      case (Stats h)
      with Inr q accounted_hook_stats [OF a] show ?thesis
        by (auto simp: session_turn_def session_inv_def)
    qed (use Inr q a in \<open>auto simp: session_turn_def session_inv_def\<close>)
  qed
qed

lemma session_turn_outcome:
  "is_ok (se_outcome s) \<Longrightarrow> fst (session_turn env received s) \<Longrightarrow>
   is_ok (se_outcome (snd (session_turn env received s)))"
  by (auto simp: session_turn_def split: sum.splits message.splits if_splits)

lemma session_loop_inv:
  "session_inv s \<Longrightarrow> is_ok (se_outcome s) \<Longrightarrow> session_inv (session_loop env s)"
proof (induction env s rule: session_loop.induct)
  case (1 env s)
  obtain received ch where r: "recv (se_channel s) = (received, ch)" by (cases "recv (se_channel s)")
  let ?s = "s\<lparr>se_channel := ch\<rparr>"
  obtain continue s' where t: "session_turn env received ?s = (continue, s')"
    by (cases "session_turn env received ?s")
  have s: "session_inv ?s" "is_ok (se_outcome ?s)" using 1 by (simp_all add: session_inv_def)
  then have "session_inv s'" using session_turn_inv [of ?s env received] t by simp
  moreover have "is_ok (se_outcome s')" if continue
    using session_turn_outcome [of ?s env received] s t that by simp
  ultimately show ?case
    using 1(1) [OF r [symmetric] t [symmetric]] r t by (simp add: session_loop.simps [of env s])
qed

text \<open>The writer turns the units of the queue into buffers on a timeline that starts at 0.\<close>

definition buffers_of :: "u64 \<times> u64 \<Rightarrow> access_unit list \<Rightarrow> gst_buffer list" where
  "buffers_of origin aus =
     map (\<lambda>au. \<lparr>gb_pts = saturating_sub64 (au_pts_ns au) (fst origin),
               gb_dts = saturating_sub64 (au_dts_ns au) (snd origin),
               gb_duration = au_duration_ns au, gb_data = au_data au\<rparr>) aus"

lemma writer_loop_Inr:
  "fst (writer_loop g (map Unit aus @ [Finish]) written origin pushed) = Inr n \<Longrightarrow>
     n = of_nat (written + length aus)
     \<and> snd (writer_loop g (map Unit aus @ [Finish]) written origin pushed)
       = pushed @ buffers_of (case origin of Some og \<Rightarrow> og
           | None \<Rightarrow> (au_pts_ns (hd aus), au_dts_ns (hd aus))) aus"
proof (induction aus arbitrary: written origin pushed)
  case Nil
  then show ?case
    by (auto simp: writer_finish_def buffers_of_def split: option.splits if_splits)
next
  case (Cons au aus)
  let ?o = "case origin of Some og \<Rightarrow> og | None \<Rightarrow> (au_pts_ns au, au_dts_ns au)"
  let ?b = "\<lparr>gb_pts = saturating_sub64 (au_pts_ns au) (fst ?o),
      gb_dts = saturating_sub64 (au_dts_ns au) (snd ?o), gb_duration = au_duration_ns au,
      gb_data = au_data au\<rparr>"
  have step: "writer_loop g (map Unit (au # aus) @ [Finish]) written origin pushed
      = writer_loop g (map Unit aus @ [Finish]) (written + 1) (Some ?o) (pushed @ [?b])"
    using Cons.prems by (cases origin) (auto simp: Let_def split: option.splits prod.splits)
  from Cons.prems Cons.IH [of "written + 1" "Some ?o" "pushed @ [?b]"] show ?case
    unfolding step by (cases origin) (simp_all add: buffers_of_def)
qed

lemma muxer_writer_Inr:
  assumes "muxer_writer g (map Unit aus @ [Finish]) = (Inr n, pushed)"
  shows "n = of_nat (length aus)
    \<and> pushed = buffers_of (au_pts_ns (hd aus), au_dts_ns (hd aus)) aus"
  using assms writer_loop_Inr [of g aus 0 None "[]" n]
  by (auto simp: muxer_writer_def split: option.splits)

lemma muxer_writer_unfinished: "\<exists>e pushed. muxer_writer g (map Unit aus) = (Inl e, pushed)"
proof -
  have "\<exists>e p. writer_loop g (map Unit aus) written origin pushed = (Inl e, p)" for written origin pushed
    by (induction aus arbitrary: written origin pushed)
      (auto simp: Let_def split: option.splits prod.splits)
  then show ?thesis by (auto simp: muxer_writer_def split: option.splits)
qed

text \<open>A session that succeeds went through every one of its steps.\<close>

lemma session_body_success:
  assumes "session_body env ch = (Inr st, art)"
  defines "s \<equiv> session_loop env (session_start ch)"
  shows "\<exists>aus n p. se_queue s = map Unit aus \<and> accounted aus (se_stats s)
    \<and> se_graceful s \<and> is_ok (se_outcome s) \<and> \<not> me_writer_gone env (length aus)
    \<and> \<not> me_writer_panics env \<and> muxer_writer (me_gst env) (map Unit aus @ [Finish]) = (Inr n, p)
    \<and> st = (se_stats s)\<lparr>ms_written_access_units := n\<rparr> \<and> art = Recorded p
    \<and> wait_cleanly (me_exit env) = Inr ()"
proof -
  have "session_inv s"
    unfolding s_def
    by (rule session_loop_inv) (auto simp: session_inv_def session_start_def accounted_start)
  then obtain aus where q: "se_queue s = map Unit aus"
    and a: "is_ok (se_outcome s) \<Longrightarrow> accounted aus (se_stats s)"
    by (auto simp: session_inv_def)
  obtain e0 p0 where unfinished: "muxer_writer (me_gst env) (map Unit aus) = (Inl e0, p0)"
    using muxer_writer_unfinished by blast
  obtain r p where finished: "muxer_writer (me_gst env) (map Unit aus @ [Finish]) = (r, p)"
    by (cases "muxer_writer (me_gst env) (map Unit aus @ [Finish])")
  note body = assms(1) [unfolded session_body_def Let_def, folded s_def, unfolded q]
  have ok: "se_graceful s" "is_ok (se_outcome s)" "\<not> me_writer_gone env (length aus)"
      "\<not> me_writer_panics env"
    using body unfinished by (auto split: if_splits sum.splits prod.splits)
  from ok body finished obtain n where n: "r = Inr n"
    by (auto split: if_splits sum.splits prod.splits)
  from ok body finished n have "st = (se_stats s)\<lparr>ms_written_access_units := n\<rparr>" "art = Recorded p"
      "wait_cleanly (me_exit env) = Inr ()"
    by (auto split: if_splits sum.splits prod.splits)
  with ok q a finished n show ?thesis by blast
qed

lemma session_body_Inr:
  assumes "session_body env ch = (Inr st, art)"
  shows "\<exists>aus. accounted aus st \<and> ms_written_access_units st = of_nat (length aus)
    \<and> art = Recorded (buffers_of (au_pts_ns (hd aus), au_dts_ns (hd aus)) aus)
    \<and> wait_cleanly (me_exit env) = Inr ()"
proof -
  obtain aus n p where a: "accounted aus (se_stats (session_loop env (session_start ch)))"
    and m: "muxer_writer (me_gst env) (map Unit aus @ [Finish]) = (Inr n, p)"
    and st: "st = (se_stats (session_loop env (session_start ch)))\<lparr>ms_written_access_units := n\<rparr>"
      "art = Recorded p" "wait_cleanly (me_exit env) = Inr ()"
    using session_body_success [OF assms] by blast
  from muxer_writer_Inr [OF m] a st show ?thesis
    by (intro exI [of _ aus]) (simp add: accounted_def)
qed

lemma run_session_body:
  assumes "run_session env o' ch = (r, art)" "art \<noteq> Before"
  obtains ch' where "session_body env ch' = (r, art)"
    "\<And>ex. run_session (env\<lparr>me_exit := ex\<rparr>) o' ch = session_body (env\<lparr>me_exit := ex\<rparr>) ch'"
  using assms
  by (auto simp: run_session_def split: prod.splits sum.splits message.splits option.splits)

lemma session_body_artifact: "session_body env ch = (r, art) \<Longrightarrow> art \<noteq> Before"
  by (auto simp: session_body_def Let_def split: prod.splits sum.splits if_splits)

lemma run_session_ok_artifact: "run_session env o' ch = (Inr st, art) \<Longrightarrow> art \<noteq> Before"
  by (auto simp: run_session_def split: prod.splits sum.splits message.splits option.splits
      dest: session_body_artifact)

lemma saturating_sub64_mono: "a \<le> b \<Longrightarrow> saturating_sub64 a c \<le> saturating_sub64 b c"
  by (auto simp: saturating_sub64_def word_le_nat_alt unat_sub)

lemma buffers_of_sorted: "sorted (map au_pts_ns aus) \<Longrightarrow> sorted (map gb_pts (buffers_of og aus))"
  by (induction aus) (auto simp: buffers_of_def saturating_sub64_mono)

lemma session_turn_exit: "session_turn (env\<lparr>me_exit := x\<rparr>) received s = session_turn env received s"
  by (auto simp: session_turn_def split: sum.splits message.splits)

lemma session_loop_exit: "session_loop (env\<lparr>me_exit := x\<rparr>) s = session_loop env s"
proof (induction env s rule: session_loop.induct)
  case (1 env s)
  obtain received ch where r: "recv (se_channel s) = (received, ch)" by (cases "recv (se_channel s)")
  obtain continue s' where t: "session_turn env received (s\<lparr>se_channel := ch\<rparr>) = (continue, s')"
    by (cases "session_turn env received (s\<lparr>se_channel := ch\<rparr>)")
  show ?case
    using 1 [OF r [symmetric] t [symmetric]] r t
    by (simp add: session_loop.simps [of env s] session_loop.simps [of "env\<lparr>me_exit := x\<rparr>" s]
        session_turn_exit)
qed

section \<open>Properties\<close>



text \<open>
  When FFmpeg reports a failure at the end of an otherwise good session the session fails, but
  the output file stays, although a failed session is meant to leave none.
\<close>

lemma ffmpeg_failure_keeps_output:
  assumes "run_session env o' ch = (Inr st, art)"
  shows "run_session (env\<lparr>me_exit := Exited False text\<rparr>) o' ch
    = (Inl (''FFmpeg exited with '' @ text), art)"
proof -
  have nb: "art \<noteq> Before"
    using assms by (rule run_session_ok_artifact)
  obtain ch' where b: "session_body env ch' = (Inr st, art)"
    and same: "\<And>ex. run_session (env\<lparr>me_exit := ex\<rparr>) o' ch = session_body (env\<lparr>me_exit := ex\<rparr>) ch'"
    using run_session_body [OF assms nb] by metis
  have "session_body (env\<lparr>me_exit := Exited False text\<rparr>) ch'
      = (Inl (''FFmpeg exited with '' @ text), art)"
    using session_body_success [OF b]
    by (auto simp: session_body_def Let_def session_loop_exit wait_cleanly_def)
  with same show ?thesis by simp
qed

text \<open>
  A session that fails after the socket was bound leaves the socket file behind, and the next
  start on the same path is refused.
\<close>

lemma failed_session_leaves_socket:
  assumes "parse_from args = Inr o'" "\<not> ma_taken env" "ma_bind_error env = None"
    "ma_chmod_error env = None" "accept_expected_peer (ma_uid env) o' (ma_attempts env) = Some (Inr a)"
    "run_session (ma_session env) o' (ma_stream env a) = (Inl e, art)"
  shows "mux_main env args = Some (1, True)
    \<and> mux_main (env\<lparr>ma_taken := True\<rparr>) args = Some (1, True)"
  using assms by (simp add: mux_main_def bind_private_socket_def)

lemma parse_pairs_length: "parse_pairs s = Inr bs \<Longrightarrow> length bs = length s div 2"
  by (induction s arbitrary: bs rule: parse_pairs.induct) (auto split: if_splits option.splits)

lemma parse_token_length: "parse_token s = Inr t \<Longrightarrow> length t = TOKEN_LEN"
  by (auto simp: parse_token_def TOKEN_LEN_def dest: parse_pairs_length split: if_splits)

lemma option_step_token:
  "option_step flag v p = Inr p' \<Longrightarrow> pred_option (\<lambda>t. length t = TOKEN_LEN) (po_token p) \<Longrightarrow>
     pred_option (\<lambda>t. length t = TOKEN_LEN) (po_token p')"
  unfolding option_step_def
  by (elim if_eqE) (auto dest: parse_token_length)

lemma collect_options_token:
  "collect_options args p = Inr p' \<Longrightarrow> pred_option (\<lambda>t. length t = TOKEN_LEN) (po_token p) \<Longrightarrow>
     pred_option (\<lambda>t. length t = TOKEN_LEN) (po_token p')"
  by (induction args p rule: collect_options.induct) (auto dest: option_step_token)

text \<open>
  Options that parse are within their limits, and the secret is always 32 bytes.
\<close>

lemma parsed_options_valid:
  assumes "parse_from args = Inr o'"
  shows "length (op_token o') = TOKEN_LEN \<and> 1 \<le> op_fps o' \<and> op_fps o' \<le> 480
    \<and> op_socket o' \<noteq> [] \<and> op_output o' \<noteq> [] \<and> op_expected_pid_file o' \<noteq> []
    \<and> (case op_expected_process_name o' of None \<Rightarrow> True
        | Some n \<Rightarrow> n \<noteq> [] \<and> length n \<le> 15 \<and> list_all task_name_byte n)"
proof -
  obtain p where p: "collect_options args no_options = Inr p"
    using assms by (auto simp: parse_from_def)
  then have "pred_option (\<lambda>t. length t = TOKEN_LEN) (po_token p)"
    by (rule collect_options_token) (simp add: no_options_def)
  with p assms show ?thesis
    by (auto simp: parse_from_def not_less split: if_splits option.splits)
qed

section \<open>The properties on a concrete session\<close>

abbreviation sample_options :: options where
  "sample_options \<equiv> \<lparr>op_socket = ''s'', op_token = sample_token, op_output = ''o'', op_fps = 60,
     op_expected_pid_file = ''p'', op_expected_process_name = None\<rparr>"

abbreviation sample_config :: video_config where
  "sample_config \<equiv> \<lparr>vc_codec = H264, vc_width = 64, vc_height = 64, vc_fps_num = 60, vc_fps_den = 1\<rparr>"

abbreviation sample_env :: mux_env where
  "sample_env \<equiv> \<lparr>me_session_id = 1, me_debug = (\<lambda>_. []), me_spawn = None,
     me_gst = \<lparr>gs_setup = None, gs_buffer = (\<lambda>_. None), gs_push = (\<lambda>_. None), gs_eos = None,
       gs_bus = [BusOther, BusEos], gs_stop = None\<rparr>,
     me_writer_gone = (\<lambda>_. False), me_writer_panics = False, me_exit = Exited True []\<rparr>"

abbreviation sample_channel :: channel where
  "sample_channel \<equiv> channel_new
     (frame 0 (ClientHello sample_token 42 0) @ frame 1 (Start sample_config)
      @ frame 2 sample_unit @ frame 3 Stop) None unexpected_eof"

lemma recv_explicit:
  "sendable m \<Longrightarrow>
   recv \<lparr>ch_in = frame n m @ rest, ch_out = out, ch_room = room, ch_stall = st, ch_next_send = k,
         ch_next_receive = n\<rparr>
   = (Inr m, \<lparr>ch_in = rest, ch_out = out, ch_room = room, ch_stall = st, ch_next_send = k,
              ch_next_receive = n + 1\<rparr>)"
  "sendable m \<Longrightarrow>
   recv \<lparr>ch_in = frame n m, ch_out = out, ch_room = room, ch_stall = st, ch_next_send = k,
         ch_next_receive = n\<rparr>
   = (Inr m, \<lparr>ch_in = [], ch_out = out, ch_room = room, ch_stall = st, ch_next_send = k,
              ch_next_receive = n + 1\<rparr>)"
  by (simp_all add: recv_frame)

lemma sample_hello: "sendable (ClientHello sample_token 42 0)" "sendable (Start sample_config)"
  by (simp_all add: sendable_def message_ok_def encode_message_def maximum_for_def kind_defs
      MAX_CONTROL_BYTES_def TOKEN_LEN_def)

lemma sample_session:
  "\<exists>st. run_session sample_env sample_options sample_channel
     = (Inr st, Recorded [\<lparr>gb_pts = 0, gb_dts = 0, gb_duration = 1, gb_data = [0, 0, 0, 1]\<rparr>])"
proof -
  note eval = session_loop.simps session_turn_def recv_explicit sample_hello sample_sendable
    note_access_unit_def muxer_stats_default_def session_start_def
  have "server_handshake sample_token 1 sample_channel
      = (Inr (42, 0), (channel_new (frame 1 (Start sample_config) @ frame 2 sample_unit @ frame 3 Stop)
          None unexpected_eof)\<lparr>ch_out := frame 0 (ServerHello 1), ch_next_send := 1,
            ch_next_receive := 1\<rparr>)"
    by (simp add: server_handshake_def channel_new_def recv_explicit sample_hello
        token_eq_iff send_ok sample_sendable)
  then show ?thesis
    by (simp add: run_session_def session_body_def channel_new_def validate_start_def eval
        muxer_writer_def writer_finish_def saturating_sub64_def wait_cleanly_def)
qed

lemma accepted_peer_is_expected_witness:
  "\<exists>c. peer_credentials (SockCred 42 7 12) = Inr c \<and> pc_uid c = 7 \<and> pc_pid c = 42"
proof -
  let ?a = "\<lparr>at_error = None, at_sock = SockCred 42 7 12, at_polls = [(Inl NotFound, True), (Inr ''42'', True)],
      at_proc = \<lparr>pr_comm = (\<lambda>_. Inl []), pr_stat = (\<lambda>_. None)\<rparr>\<rparr>"
  have "trim ''42'' = ''42''" by (rule trim_graphic) (simp add: ascii_graphic_def)
  then have poll: "expected_pid ''p'' (at_polls ?a) = Some (Inr 42)"
    by (simp add: parse_u32_def parse_uint_radix_def strip_plus_def to_digit_def Let_def)
  then have "accept_expected_peer 7 sample_options [?a] = Some (Inr ?a)"
    by (simp add: peer_credentials_def)
  from accepted_peer_is_expected [OF this] poll show ?thesis by auto
qed



abbreviation sample_args :: "str list" where
  "sample_args \<equiv> [''--socket'', ''s'', ''--token'', concat (replicate 32 ''5a''), ''--output'', ''o'',
     ''--fps'', ''60'', ''--expected-pid-file'', ''p'']"

lemma parse_repeated_pair:
  "parse_uint_radix 16 255 [a, b] = Some n \<Longrightarrow> \<not> is_continuation a \<Longrightarrow>
   parse_pairs (concat (replicate k [a, b])) = Inr (replicate k (word_of_nat n))"
proof (induction k)
  case 0
  then show ?case by simp
next
  case (Suc k)
  have "hd (concat (replicate k [a, b])) = a" if "concat (replicate k [a, b]) \<noteq> []"
    using that by (cases k) simp_all
  with Suc show ?case by (cases k) simp_all
qed

lemma length_concat_pairs: "length (concat (replicate k [a, b])) = 2 * k"
  by (induction k) simp_all

text \<open>
  A token may contain plus signs: the two characters of a byte are read as a number, sign
  included, although only hexadecimal characters are meant to be accepted.
\<close>

lemma token_accepts_sign: "parse_token (concat (replicate 32 ''+f'')) = Inr (replicate 32 15)"
proof -
  have "parse_uint_radix 16 255 ''+f'' = Some 15"
    by (simp add: parse_uint_radix_def strip_plus_def to_digit_def Let_def)
  then have "parse_pairs (concat (replicate 32 ''+f'')) = Inr (replicate 32 (word_of_nat 15))"
    by (rule parse_repeated_pair) (simp add: is_continuation_def)
  then show ?thesis by (simp add: parse_token_def TOKEN_LEN_def length_concat_pairs)
qed

lemma sample_args_parse: "parse_from sample_args = Inr sample_options"
proof -
  have "parse_uint_radix 16 255 ''5a'' = Some 90"
    by (simp add: parse_uint_radix_def strip_plus_def to_digit_def Let_def)
  then have "parse_pairs (concat (replicate 32 ''5a'')) = Inr (replicate 32 (word_of_nat 90))"
    by (rule parse_repeated_pair) (simp add: is_continuation_def)
  then have t: "parse_token (concat (replicate 32 ''5a'')) = Inr sample_token"
    by (simp add: parse_token_def TOKEN_LEN_def length_concat_pairs)
  have "parse_u32 ''60'' = Some 60"
    by (simp add: parse_u32_def parse_uint_radix_def strip_plus_def to_digit_def Let_def)
  with t show ?thesis
    by (simp add: parse_from_def option_step_def no_options_def del: concat_replicate_trivial replicate.simps)
qed

end
