(* ===== verification/RecController.thy ===== *)
theory RecController
  imports Protocol CoreRecorder F64
begin

text \<open>
  The recorder supervision of \<open>crates/compositor/src/recorder.rs\<close>: the controller of the compositor
  that starts, pauses, polls and stops the capture process, for the native engine and for the
  game capture wrappers. The operating system (files, environment, processes, clock) is an input
  of every operation; what an operation does to processes is its list of effects.
\<close>

section \<open>Data\<close>

datatype recorder_state = Idle | Starting | Recording | Paused | Replay | Error

record recorder_status =
  st_state :: recorder_state
  st_source :: "str option"
  st_requested_fps :: u32
  st_source_fps :: f32
  st_encoded_fps :: f32
  st_dropped_frames :: u64
  st_elapsed_ms :: u64
  st_replay_seconds :: f32
  st_replay_bytes :: u64
  st_output_path :: "str option"
  st_error :: "str option"

definition recorder_status_default :: recorder_status where
  "recorder_status_default =
     \<lparr>st_state = Idle, st_source = None, st_requested_fps = 0, st_source_fps = Fin 0,
      st_encoded_fps = Fin 0, st_dropped_frames = 0, st_elapsed_ms = 0, st_replay_seconds = Fin 0,
      st_replay_bytes = 0, st_output_path = None, st_error = None\<rparr>"

type_synonym pid = u32
type_synonym instant = nat \<comment> \<open>nanoseconds of the monotonic clock\<close>

record controller =
  rc_child :: "pid option"
  rc_stdin :: "pid option" \<comment> \<open>the process whose control pipe is held\<close>
  rc_game_launcher :: "pid option"
  rc_log_path :: "str option"
  rc_started :: "instant option"
  rc_sample_started :: "instant option"
  rc_sample_frames :: u64
  rc_replay_max_mib :: "u32 option"
  rc_status :: recorder_status

definition controller_default :: controller where
  "controller_default =
     \<lparr>rc_child = None, rc_stdin = None, rc_game_launcher = None, rc_log_path = None,
      rc_started = None, rc_sample_started = None, rc_sample_frames = 0, rc_replay_max_mib = None,
      rc_status = recorder_status_default\<rparr>"

text \<open>What an operation does to processes. Dropping a handle neither kills nor reaps.\<close>

datatype effect =
    Spawn str "str list" "(str \<times> str option) list" pid
  | Control pid str
  | Kill pid
  | Reap pid
  | ReapLater pid
  | Terminate pid
  | DropHandle pid

definition is_running :: "controller \<Rightarrow> bool" where
  "is_running c \<longleftrightarrow> rc_child c \<noteq> None \<or> rc_game_launcher c \<noteq> None"

definition is_game_capture :: "controller \<Rightarrow> bool" where
  "is_game_capture c \<longleftrightarrow> rc_game_launcher c \<noteq> None"

text \<open>
  The operating system as a start operation meets it: environment variables, the results of
  creating the output directory, resolving it and creating the log, the time of day, the running
  executable, the files and their modes, readable files, the spawn, and the clock.
\<close>

record machine =
  mc_env :: "str \<Rightarrow> str option"
  mc_create_dir :: "str \<Rightarrow> str option"
  mc_canonicalize :: "str \<Rightarrow> (str, str) result"
  mc_create_log :: "str option"
  mc_epoch :: "(nat, str) result"
  mc_current_exe :: "(str, str) result"
  mc_manifest_dir :: str
  mc_mode :: "str \<Rightarrow> u32 option" \<comment> \<open>the mode of a regular file\<close>
  mc_read :: "str \<Rightarrow> (str, str) result"
  mc_spawn :: "(pid, str) result"
  mc_now :: instant

section \<open>Paths and files\<close>

function trim_start_matches :: "str \<Rightarrow> str \<Rightarrow> str" where
  "trim_start_matches p s =
     (if p \<noteq> [] \<and> starts_with s p then trim_start_matches p (drop (length p) s) else s)"
  by pat_completeness auto
termination
proof (relation "measure (\<lambda>(p, s). length s)")
  fix p s :: str
  assume "p \<noteq> [] \<and> starts_with s p"
  then have "p \<noteq> []" "s \<noteq> []" by (auto simp: starts_with_def)
  then show "((p, drop (length p) s), (p, s)) \<in> measure (\<lambda>(p, s). length s)"
    by (simp add: diff_less)
qed simp

declare trim_start_matches.simps [simp del]

definition expand_home :: "(str \<Rightarrow> str option) \<Rightarrow> str \<Rightarrow> (str, str) result" where
  "expand_home env value =
     (if value = ''~'' \<or> starts_with value ''~/''
      then (case env ''HOME'' of
              None \<Rightarrow> Inl ''HOME is missing''
            | Some home \<Rightarrow> Inr (path_join home (trim_start_matches ''~/'' value)))
      else Inr value)"

definition with_file_name :: "str \<Rightarrow> str \<Rightarrow> str" where
  "with_file_name path name = path_join (parent_dir path) name"

definition executable_file :: "machine \<Rightarrow> str \<Rightarrow> bool" where
  "executable_file m path =
     (case mc_mode m path of None \<Rightarrow> False | Some mode \<Rightarrow> and mode 0x49 \<noteq> 0)"

definition game_capture_launcher :: "machine \<Rightarrow> str \<Rightarrow> (str, str) result" where
  "game_capture_launcher m api =
     (case (if api = ''opengl'' then
              Some (''LUMA_GAME_CAPTURE_GL_LAUNCHER'', ''luma-game-record-gl'',
                    ''native/game-capture-gl/luma-game-record-gl'')
            else if api = ''vulkan'' then
              Some (''LUMA_GAME_CAPTURE_VULKAN_LAUNCHER'', ''luma-game-record-vulkan'',
                    ''native/vulkan-external-capture-prototype/luma-game-record-vulkan'')
            else None) of
        None \<Rightarrow> Inl (''unsupported graphics API '' @ api)
      | Some (environment, executable, development) \<Rightarrow>
          (case mc_env m environment of
             Some path \<Rightarrow>
               if executable_file m path then Inr path
               else Inl (environment @ '' is not an executable file: '' @ path)
           | None \<Rightarrow>
               bindR (mc_current_exe m) (\<lambda>current.
                 let sibling = with_file_name current executable;
                     dev = path_join (path_join (mc_manifest_dir m) ''../..'') development
                 in if executable_file m sibling then Inr sibling
                    else if executable_file m dev then Inr dev
                    else Inl (''Luma '' @ api @ '' capture launcher is missing; install '' @ executable
                              @ '' beside wm or set '' @ environment))))"

definition game_capture_attacher :: "machine \<Rightarrow> (str, str) result" where
  "game_capture_attacher m =
     (case mc_env m ''LUMA_GAME_CAPTURE_ATTACHER'' of
        Some path \<Rightarrow>
          if executable_file m path then Inr path
          else Inl (''LUMA_GAME_CAPTURE_ATTACHER is not an executable file: '' @ path)
      | None \<Rightarrow>
          bindR (mc_current_exe m) (\<lambda>current.
            let sibling = with_file_name current ''luma-game-attach'';
                dev = path_join (path_join (mc_manifest_dir m) ''../..'')
                        ''native/game-capture-gl/luma-game-attach''
            in if executable_file m sibling then Inr sibling
               else if executable_file m dev then Inr dev
               else Inl ''Luma generic attach helper is missing; install luma-game-attach beside wm or set LUMA_GAME_CAPTURE_ATTACHER''))"

text \<open>The number after a label in a \<open>/proc\<close> status file, as the closures of the source read it.\<close>

definition status_field :: "str \<Rightarrow> str \<Rightarrow> str option" where
  "status_field label status =
     (case List.map_filter (strip_prefix label) (lines status) of
        [] \<Rightarrow> None
      | rest # _ \<Rightarrow> (case split_whitespace rest of [] \<Rightarrow> None | w # _ \<Rightarrow> Some w))"

definition status_uid :: "str \<Rightarrow> nat option" where
  "status_uid status = Option.bind (status_field ''Uid:'' status) parse_u32"

definition gl_line :: "str \<Rightarrow> bool" where
  "gl_line line \<longleftrightarrow>
     contains line ''/libGL.so'' \<or> contains line ''/libGLX.so''
     \<or> contains line ''/libOpenGL.so'' \<or> contains line ''/libEGL.so''"

definition validate_attach_target :: "machine \<Rightarrow> pid \<Rightarrow> (unit, str) result" where
  "validate_attach_target m pid =
     (let p = show_nat (unat pid); dir = path_join ''/proc'' p in
      bindR (map_err (\<lambda>_. ''attach target PID '' @ p @ '' does not exist or is inaccessible'')
               (mc_read m (path_join dir ''status''))) (\<lambda>status.
      bindR (ok_or (''could not determine owner of PID '' @ p) (status_uid status)) (\<lambda>uid.
      bindR (map_err (\<lambda>e. ''could not determine recorder process owner: '' @ e)
               (mc_read m ''/proc/self/status'')) (\<lambda>own_status.
      bindR (ok_or ''could not determine recorder process owner'' (status_uid own_status)) (\<lambda>own_uid.
        if uid \<noteq> own_uid
        then Inl ''Luma only injects into a process owned by the current user''
        else bindR (map_err (\<lambda>e. ''cannot inspect attach target PID '' @ p @ '': '' @ e)
               (mc_read m (path_join dir ''maps''))) (\<lambda>maps.
             if \<not> list_ex gl_line (lines maps)
             then Inl (''PID '' @ p @ '' has no loaded OpenGL GLX/EGL runtime'')
             else Inr ()))))))"

definition process_rss_mib :: "str option \<Rightarrow> nat option" where
  "process_rss_mib status =
     Option.bind status (\<lambda>s. Option.bind (status_field ''VmRSS:'' s) (\<lambda>w.
       map_option (\<lambda>kib. (kib + 1023) div 1024) (parse_u64 w)))"

text \<open>
  \<open>String::from_utf8_lossy\<close>: the length of the bytes that one replacement character stands for,
  and the conversion.
\<close>

definition utf8_bad :: "bytes \<Rightarrow> nat" where
  "utf8_bad bs =
     (case bs of
        a # b # r \<Rightarrow>
          if in_range 0xE0 0xEF a
             \<and> in_range (if a = 0xE0 then 0xA0 else 0x80) (if a = 0xED then 0x9F else 0xBF) b then 2
          else if in_range 0xF0 0xF4 a
             \<and> in_range (if a = 0xF0 then 0x90 else 0x80) (if a = 0xF4 then 0x8F else 0xBF) b
          then (case r of c # _ \<Rightarrow> if in_range 0x80 0xBF c then 3 else 2 | [] \<Rightarrow> 2)
          else 1
      | _ \<Rightarrow> 1)"

lemma utf8_bad_pos: "0 < utf8_bad bs"
  by (auto simp: utf8_bad_def split: list.splits)

function utf8_lossy :: "bytes \<Rightarrow> bytes" where
  "utf8_lossy bs =
     (if bs = [] then []
      else case utf8_step bs of
             Some n \<Rightarrow> take n bs @ utf8_lossy (drop n bs)
           | None \<Rightarrow> [0xEF, 0xBF, 0xBD] @ utf8_lossy (drop (utf8_bad bs) bs))"
  by pat_completeness auto
termination
  by (relation "measure length") (auto dest: utf8_step_pos simp: utf8_bad_pos)

declare utf8_lossy.simps [simp del]

text \<open>\<open>chars().take(n)\<close>\<close>

fun take_chars :: "nat \<Rightarrow> bytes \<Rightarrow> bytes" where
  "take_chars 0 bs = []"
| "take_chars (Suc n) bs =
     (case utf8_step bs of None \<Rightarrow> [] | Some k \<Rightarrow> take k bs @ take_chars n (drop k bs))"

definition from_bytes :: "bytes \<Rightarrow> str" where
  "from_bytes bs = map (\<lambda>b. char_of (unat b)) bs"

definition read_log_tail :: "bytes option \<Rightarrow> str option" where
  "read_log_tail file =
     (case file of
        None \<Rightarrow> None
      | Some bs \<Rightarrow>
          map_option (\<lambda>line. from_bytes (take_chars 400 (as_bytes (trim line))))
            (List.find (\<lambda>line. trim line \<noteq> [])
              (rev (lines (from_bytes (utf8_lossy (drop (length bs - 4096) bs)))))))"

text \<open>\<open>drain_log\<close>: the results of \<open>read\<close>, and whether the \<open>n\<close>-th write succeeds.\<close>

definition MAX_RECORDER_LOG_BYTES :: nat where "MAX_RECORDER_LOG_BYTES = 1048576"

fun drain_log :: "(nat \<Rightarrow> bool) \<Rightarrow> bytes option list \<Rightarrow> nat \<Rightarrow> nat \<Rightarrow> bytes \<Rightarrow> bytes" where
  "drain_log write_ok [] n written out = out"
| "drain_log write_ok (None # reads) n written out = out"
| "drain_log write_ok (Some chunk # reads) n written out =
     (if chunk = [] then out
      else let allowed = min (length chunk) (MAX_RECORDER_LOG_BYTES - written)
           in if 0 < allowed \<and> write_ok n
              then drain_log write_ok reads (n + 1) (written + allowed) (out @ take allowed chunk)
              else drain_log write_ok reads (if 0 < allowed then n + 1 else n) written out)"

section \<open>Starting a capture\<close>

definition show_u32 :: "u32 \<Rightarrow> str" where
  "show_u32 w = show_nat (unat w)"

definition bool_str :: "bool \<Rightarrow> str" where
  "bool_str b = (if b then ''true'' else ''false'')"

text \<open>
  The common beginning of the three starts: the output directory, resolved when \<open>canonical\<close>, the
  runtime directory with the log, and the time of day.
\<close>

definition prepare_output ::
  "machine \<Rightarrow> recorder \<Rightarrow> bool \<Rightarrow> str \<Rightarrow> str \<Rightarrow> (str \<times> str \<times> nat, str) result" where
  "prepare_output m config canonical log_name log_kind =
     bindR (expand_home (mc_env m) (rec_output_directory config)) (\<lambda>dir0.
     bindR (case mc_create_dir m dir0 of
              Some e \<Rightarrow> Inl (''failed to create recorder directory '' @ dir0 @ '': '' @ e)
            | None \<Rightarrow> Inr ()) (\<lambda>_.
     bindR (if canonical
            then map_err (\<lambda>e. ''failed to resolve game capture directory '' @ dir0 @ '': '' @ e)
                   (mc_canonicalize m dir0)
            else Inr dir0) (\<lambda>dir.
     bindR (ok_or ''XDG_RUNTIME_DIR is missing'' (mc_env m ''XDG_RUNTIME_DIR'')) (\<lambda>runtime.
     bindR (case mc_create_log m of
              Some e \<Rightarrow> Inl (''failed to create '' @ log_kind @ '' log: '' @ e)
            | None \<Rightarrow> Inr ()) (\<lambda>_.
     bindR (mc_epoch m) (\<lambda>epoch. Inr (dir, path_join runtime log_name, epoch)))))))"

definition engine_args :: "recorder \<Rightarrow> str \<Rightarrow> str \<Rightarrow> bool \<Rightarrow> bool \<Rightarrow> str list" where
  "engine_args config output_path capture_output commit_paced replay =
     [''--output'', output_path, ''--fps'', show_u32 (rec_screen_fps config),
      ''--codec'', rec_codec config, ''--hdr'', bool_str (rec_hdr config),
      ''--quality'', show_nat (unat (rec_quality config)),
      ''--width'', show_u32 (rec_output_width config), ''--height'', show_u32 (rec_output_height config),
      ''--output-name'', capture_output,
      ''--pacing'', (if commit_paced then ''commit'' else ''clock''),
      ''--desktop-audio'', rec_desktop_audio config, ''--microphone'', rec_microphone config]
     @ (if replay then [''--replay-seconds'', show_u32 (rec_replay_seconds config)] else [])"

definition engine_env :: "str option \<Rightarrow> (str \<times> str option) list" where
  "engine_env wayland_display =
     [(''DISPLAY'', None), (''WAYLAND_SOCKET'', None), (''XDG_SESSION_TYPE'', Some ''wayland''),
      (''GST_GL_PLATFORM'', Some ''egl''), (''GST_GL_WINDOW'', Some ''surfaceless'')]
     @ (case wayland_display of None \<Rightarrow> [] | Some d \<Rightarrow> [(''WAYLAND_DISPLAY'', Some d)])"

type_synonym 'a outcome = "('a, str) result \<times> controller \<times> effect list"

definition start ::
  "machine \<Rightarrow> controller \<Rightarrow> recorder \<Rightarrow> bool \<Rightarrow> str option \<Rightarrow> str \<Rightarrow> bool \<Rightarrow> u32 outcome" where
  "start m self config replay wayland_display capture_output commit_paced =
     (if is_running self then (Inl ''recorder is already running'', self, [])
      else if replay
      then (Inl ''instant replay is not implemented by the native recorder yet'', self, [])
      else if \<not> rec_enabled config
      then (Inl ''recorder is disabled in configuration'', self, [])
      else (case prepare_output m config False ''luma-recorder.log'' ''recorder'' of
              Inl e \<Rightarrow> (Inl e, self, [])
            | Inr (dir, log_path, epoch) \<Rightarrow>
                (case mc_current_exe m of
                   Inl e \<Rightarrow> (Inl e, self, [])
                 | Inr exe \<Rightarrow>
                     (let output_path = path_join dir (''luma-'' @ show_nat epoch @ ''.mp4'');
                          engine = with_file_name exe ''luma-recorder-engine''
                      in if mc_mode m engine = None
                         then (Inl (''native recorder engine is missing: '' @ engine), self, [])
                         else (case mc_spawn m of
                                 Inl e \<Rightarrow> (Inl (''failed to start native recorder: '' @ e), self, [])
                               | Inr child \<Rightarrow>
                                   (Inr (rec_screen_fps config),
                                    self\<lparr>rc_status := recorder_status_default
                                            \<lparr>st_state := (if replay then Replay else Starting),
                                             st_source := Some ''native-dmabuf'',
                                             st_requested_fps := rec_screen_fps config,
                                             st_output_path := (if \<not> replay then Some output_path else None)\<rparr>,
                                          rc_started := Some (mc_now m),
                                          rc_sample_started := Some (mc_now m),
                                          rc_sample_frames := 0,
                                          rc_replay_max_mib :=
                                            (if replay then Some (rec_replay_max_mib config) else None),
                                          rc_stdin := Some child,
                                          rc_log_path := Some log_path,
                                          rc_child := Some child\<rparr>,
                                    [Spawn engine
                                       (engine_args config output_path capture_output commit_paced replay)
                                       (engine_env wayland_display) child]))))))"

text \<open>The state after a game capture wrapper has been spawned.\<close>

definition game_started :: "machine \<Rightarrow> controller \<Rightarrow> str \<Rightarrow> u32 \<Rightarrow> str \<Rightarrow> str \<Rightarrow> pid \<Rightarrow> controller" where
  "game_started m self source fps output_path log_path launcher =
     self\<lparr>rc_status := recorder_status_default
             \<lparr>st_state := Starting, st_source := Some source, st_requested_fps := fps,
              st_output_path := Some output_path\<rparr>,
           rc_started := Some (mc_now m), rc_sample_started := None, rc_sample_frames := 0,
           rc_replay_max_mib := None, rc_log_path := Some log_path,
           rc_game_launcher := Some launcher\<rparr>"

definition start_game ::
  "machine \<Rightarrow> controller \<Rightarrow> recorder \<Rightarrow> game_capture_profile \<Rightarrow> u32 outcome" where
  "start_game m self config profile =
     (if is_running self then (Inl ''recorder is already running'', self, [])
      else if \<not> rec_enabled config
      then (Inl ''recorder is disabled in configuration'', self, [])
      else if gp_api profile \<notin> {''opengl'', ''vulkan''}
      then (Inl (''game capture profile '' @ [CHR 0x27] @ gp_name profile @ [CHR 0x27]
                 @ '' uses unsupported API '' @ gp_api profile), self, [])
      else (case bindR (prepare_output m config True ''luma-game-capture.log'' ''game capture'')
                   (\<lambda>p. bindR (game_capture_launcher m (gp_api profile)) (\<lambda>l. Inr (p, l))) of
              Inl e \<Rightarrow> (Inl e, self, [])
            | Inr ((dir, log_path, epoch), launcher) \<Rightarrow>
                (let output_path = path_join dir (''luma-game-'' @ show_nat epoch @ ''.mp4'')
                 in if gp_target_process_name profile \<noteq> [] \<and> gp_api profile \<noteq> ''opengl''
                    then (Inl ''only OpenGL game profiles may target a launcher child process'', self, [])
                    else (case mc_spawn m of
                            Inl e \<Rightarrow> (Inl (''failed to launch '' @ gp_api profile @ '' capture wrapper ''
                                           @ launcher @ '': '' @ e), self, [])
                          | Inr child \<Rightarrow>
                              (Inr (gp_fps profile),
                               game_started m self (''game-'' @ gp_api profile @ '':'' @ gp_name profile)
                                 (gp_fps profile) output_path log_path child,
                               [Spawn launcher
                                  ([''--output'', output_path, ''--fps'', show_u32 (gp_fps profile),
                                    ''--quality'', show_nat (unat (rec_quality config))]
                                   @ (if gp_target_process_name profile \<noteq> []
                                      then [''--target-process-name'', gp_target_process_name profile] else [])
                                   @ ''--'' # gp_command profile) [] child])))))"

definition start_game_attach :: "machine \<Rightarrow> controller \<Rightarrow> recorder \<Rightarrow> pid \<Rightarrow> u32 outcome" where
  "start_game_attach m self config target =
     (if is_running self then (Inl ''recorder is already running'', self, [])
      else if \<not> rec_enabled config
      then (Inl ''recorder is disabled in configuration'', self, [])
      else (case bindR (validate_attach_target m target) (\<lambda>_.
                 bindR (prepare_output m config True ''luma-game-capture.log'' ''game capture'')
                   (\<lambda>p. bindR (game_capture_attacher m) (\<lambda>a. Inr (p, a)))) of
              Inl e \<Rightarrow> (Inl e, self, [])
            | Inr ((dir, log_path, epoch), attacher) \<Rightarrow>
                (let output_path = path_join dir (''luma-game-'' @ show_nat epoch @ ''.mp4'')
                 in case mc_spawn m of
                      Inl e \<Rightarrow> (Inl (''failed to start OpenGL attach helper '' @ attacher @ '': '' @ e), self, [])
                    | Inr child \<Rightarrow>
                        (Inr (rec_fps config),
                         game_started m self (''game-opengl-inject:'' @ show_u32 target) (rec_fps config)
                           output_path log_path child,
                         [Spawn attacher
                            [''--pid'', show_u32 target, ''--output'', output_path,
                             ''--fps'', show_u32 (rec_fps config),
                             ''--quality'', show_nat (unat (rec_quality config))] [] child]))))"

text \<open>\<open>{window:#x}\<close>\<close>

fun hex_digits :: "nat \<Rightarrow> str" where
  "hex_digits n =
     (let d = (\<lambda>k. char_of (if k < 10 then 48 + k else 87 + k :: nat))
      in if n < 16 then [d n] else hex_digits (n div 16) @ [d (n mod 16)])"

declare hex_digits.simps [simp del]

definition start_game_xwayland ::
  "machine \<Rightarrow> controller \<Rightarrow> recorder \<Rightarrow> str option \<Rightarrow> str \<Rightarrow> u32 \<Rightarrow> u32 outcome" where
  "start_game_xwayland m self config wayland_display capture_output window =
     (if window = 0 then (Inl ''Xwayland capture requires a nonzero X11 window ID'', self, [])
      else (case start m self (config\<lparr>rec_screen_fps := rec_fps config\<rparr>) False wayland_display
                   capture_output True of
              (Inl e, self', effects) \<Rightarrow> (Inl e, self', effects)
            | (Inr fps, self', effects) \<Rightarrow>
                (Inr fps,
                 self'\<lparr>rc_status := (rc_status self')
                   \<lparr>st_source := Some (''game-xwayland-commit:0x'' @ hex_digits (unat window))\<rparr>\<rparr>,
                 effects)))"

section \<open>Stopping, pausing, aborting\<close>

definition reset :: "controller \<Rightarrow> controller" where
  "reset self =
     self\<lparr>rc_child := None, rc_stdin := None, rc_game_launcher := None, rc_log_path := None,
           rc_started := None, rc_sample_started := None, rc_sample_frames := 0,
           rc_replay_max_mib := None, rc_status := recorder_status_default\<rparr>"

text \<open>
  \<open>terminate_game_launcher\<close>: the result of running \<open>kill\<close>, which may fail to start or fail.
\<close>

datatype kill_result = KillFails str | KillExit bool str

definition terminate_game_launcher ::
  "kill_result \<Rightarrow> pid \<Rightarrow> (unit, str) result \<times> effect list" where
  "terminate_game_launcher kr launcher =
     (case kr of
        KillFails e \<Rightarrow> (Inl (''failed to terminate game capture launcher: '' @ e), [DropHandle launcher])
      | KillExit success text \<Rightarrow>
          if success then (Inr (), [Terminate launcher, ReapLater launcher])
          else (Inl (''failed to terminate game capture launcher '' @ show_u32 launcher @ '': '' @ text),
                [DropHandle launcher]))"

text \<open>\<open>write\<close> is the error of writing to the control pipe, if it fails.\<close>

definition stop :: "str option \<Rightarrow> kill_result \<Rightarrow> controller \<Rightarrow> unit outcome" where
  "stop write kr self =
     (case rc_child self of
        Some child \<Rightarrow>
          (case rc_stdin self of
             None \<Rightarrow> (Inl ''recorder control pipe is missing'', self\<lparr>rc_child := None\<rparr>, [DropHandle child])
           | Some p \<Rightarrow>
               (case write of
                  Some e \<Rightarrow> (Inl (''failed to stop recorder: '' @ e),
                             self\<lparr>rc_child := None, rc_stdin := None\<rparr>, [DropHandle child])
                | None \<Rightarrow> (Inr (), reset self, [Control p ''stop'', ReapLater child])))
      | None \<Rightarrow>
          (case rc_game_launcher self of
             Some launcher \<Rightarrow>
               (case terminate_game_launcher kr launcher of
                  (Inl e, effects) \<Rightarrow> (Inl e, self\<lparr>rc_game_launcher := None\<rparr>, effects)
                | (Inr _, effects) \<Rightarrow> (Inr (), reset self, effects))
           | None \<Rightarrow> (Inl ''recorder is not running'', self, [])))"

definition send_control :: "str option \<Rightarrow> controller \<Rightarrow> str \<Rightarrow> (unit, str) result \<times> effect list" where
  "send_control write self action =
     (case rc_stdin self of
        None \<Rightarrow> (Inl ''recorder is not running'', [])
      | Some p \<Rightarrow>
          (case write of
             Some e \<Rightarrow> (Inl (''recorder control failed: '' @ e), [])
           | None \<Rightarrow> (Inr (), [Control p action])))"

definition toggle_pause :: "str option \<Rightarrow> controller \<Rightarrow> unit outcome" where
  "toggle_pause write self =
     (if st_state (rc_status self) = Replay
      then (Inl ''replay buffering cannot be paused'', self, [])
      else (case send_control write self ''pause'' of
              (Inl e, effects) \<Rightarrow> (Inl e, self, effects)
            | (Inr _, effects) \<Rightarrow>
                (Inr (),
                 self\<lparr>rc_status := (rc_status self)
                   \<lparr>st_state := (if st_state (rc_status self) = Paused then Recording else Paused)\<rparr>\<rparr>,
                 effects)))"

definition save_replay :: "str option \<Rightarrow> controller \<Rightarrow> unit outcome" where
  "save_replay write self =
     (if st_state (rc_status self) \<noteq> Replay then (Inl ''replay buffer is not running'', self, [])
      else (case send_control write self ''save-replay'' of (r, effects) \<Rightarrow> (r, self, effects)))"

definition abort :: "kill_result \<Rightarrow> str \<Rightarrow> controller \<Rightarrow> unit outcome" where
  "abort kr reason self =
     (Inr (),
      self\<lparr>rc_child := None, rc_game_launcher := None, rc_stdin := None, rc_log_path := None,
            rc_started := None, rc_sample_started := None, rc_sample_frames := 0,
            rc_replay_max_mib := None,
            rc_status := (rc_status self)\<lparr>st_state := Error, st_error := Some reason\<rparr>\<rparr>,
      (case rc_child self of None \<Rightarrow> [] | Some child \<Rightarrow> [Kill child, Reap child])
      @ (case rc_game_launcher self of None \<Rightarrow> []
         | Some launcher \<Rightarrow> snd (terminate_game_launcher kr launcher)))"

text \<open>\<open>Drop\<close>\<close>

definition drop_controller :: "kill_result \<Rightarrow> controller \<Rightarrow> effect list" where
  "drop_controller kr self =
     (case rc_child self of None \<Rightarrow> [] | Some child \<Rightarrow> [Kill child, Reap child])
     @ (case rc_game_launcher self of None \<Rightarrow> []
        | Some launcher \<Rightarrow> snd (terminate_game_launcher kr launcher))"

section \<open>Polling\<close>

text \<open>
  The result of \<open>try_wait\<close> and what else a poll looks at: the log file, the status file of the
  child, and the clock.
\<close>

datatype try_wait = Exit bool str | StillRunning | WaitError str

record poll_env =
  pe_wait :: try_wait
  pe_log :: "bytes option"
  pe_status :: "str option"
  pe_now :: instant

definition log_detail :: "poll_env \<Rightarrow> controller \<Rightarrow> str" where
  "log_detail env self =
     (case (case rc_log_path self of None \<Rightarrow> None | Some _ \<Rightarrow> read_log_tail (pe_log env)) of
        None \<Rightarrow> []
      | Some detail \<Rightarrow> if detail = [] then [] else '': '' @ detail)"

definition elapsed_millis :: "instant \<Rightarrow> instant \<Rightarrow> nat" where
  "elapsed_millis now started = (now - started) div 1000000"

text \<open>The arms of both polls while the process runs.\<close>

definition poll_running :: "poll_env \<Rightarrow> controller \<Rightarrow> bool \<times> controller" where
  "poll_running env self =
     (if st_state (rc_status self) = Starting
         \<and> (case rc_started self of None \<Rightarrow> False | Some t \<Rightarrow> 500 \<le> elapsed_millis (pe_now env) t)
      then (True, self\<lparr>rc_status := (rc_status self)\<lparr>st_state := Recording\<rparr>\<rparr>)
      else (False,
            (case rc_started self of
               None \<Rightarrow> self
             | Some t \<Rightarrow> self\<lparr>rc_status := (rc_status self)
                 \<lparr>st_elapsed_ms := of_nat (elapsed_millis (pe_now env) t)\<rparr>\<rparr>)))"

definition poll_native :: "poll_env \<Rightarrow> controller \<Rightarrow> bool \<times> controller" where
  "poll_native env self =
     (case pe_wait env of
        Exit success text \<Rightarrow>
          (True, self\<lparr>rc_child := None,
             rc_status := (rc_status self)\<lparr>st_state := Error,
               st_error := Some (''recorder exited with '' @ text @ log_detail env self)\<rparr>,
             rc_stdin := None, rc_log_path := None, rc_started := None\<rparr>)
      | StillRunning \<Rightarrow> poll_running env self
      | WaitError e \<Rightarrow>
          (True, self\<lparr>rc_status := (rc_status self)\<lparr>st_state := Error,
             st_error := Some (''failed to inspect recorder: '' @ e)\<rparr>\<rparr>))"

definition poll_game_launcher :: "poll_env \<Rightarrow> controller \<Rightarrow> bool \<times> controller" where
  "poll_game_launcher env self =
     (case pe_wait env of
        Exit success text \<Rightarrow>
          (True, self\<lparr>rc_game_launcher := None, rc_stdin := None, rc_started := None,
             rc_sample_started := None, rc_sample_frames := 0, rc_replay_max_mib := None,
             rc_status :=
               (if success then (rc_status self)\<lparr>st_state := Idle, st_error := None\<rparr>
                else (rc_status self)\<lparr>st_state := Error,
                  st_error := Some (''game capture launcher exited with '' @ text @ log_detail env self)\<rparr>),
             rc_log_path := None\<rparr>)
      | StillRunning \<Rightarrow> poll_running env self
      | WaitError e \<Rightarrow>
          (True, self\<lparr>rc_status := (rc_status self)\<lparr>st_state := Error,
             st_error := Some (''failed to inspect game capture launcher: '' @ e)\<rparr>\<rparr>))"

definition poll :: "poll_env \<Rightarrow> controller \<Rightarrow> bool \<times> controller \<times> effect list" where
  "poll env self =
     (case (rc_child self, rc_replay_max_mib self) of
        (Some child, Some limit) \<Rightarrow>
          (if (case process_rss_mib (pe_status env) of None \<Rightarrow> False | Some rss \<Rightarrow> unat limit < rss)
           then (True, self\<lparr>rc_child := None,
                   rc_status := (rc_status self)\<lparr>st_state := Error,
                     st_error := Some (''replay memory safety limit exceeded ('' @ show_u32 limit @ '' MiB)'')\<rparr>,
                   rc_replay_max_mib := None\<rparr>, [Kill child, Reap child])
           else (case poll_native env self of (changed, self') \<Rightarrow> (changed, self', [])))
      | (Some child, None) \<Rightarrow> (case poll_native env self of (changed, self') \<Rightarrow> (changed, self', []))
      | (None, _) \<Rightarrow>
          (if rc_game_launcher self \<noteq> None
           then (case poll_game_launcher env self of (changed, self') \<Rightarrow> (changed, self', []))
           else (False, self, [])))"

section \<open>Frame statistics\<close>

definition note_source_frame :: "instant \<Rightarrow> controller \<Rightarrow> controller" where
  "note_source_frame now self =
     (if rc_child self = None then self
      else (let frames = rc_sample_frames self + 1;
                sample_started = (case rc_sample_started self of None \<Rightarrow> now | Some t \<Rightarrow> t);
                elapsed = as_secs_f64 (now - sample_started);
                self' = self\<lparr>rc_sample_frames := frames, rc_sample_started := Some sample_started\<rparr>
            in if f64_le (rnd (1 / 2)) elapsed
               then (let source_fps = f64_to_f32 (f64_div (f64_of_int (uint frames)) elapsed)
                     in self'\<lparr>rc_status := (rc_status self)
                          \<lparr>st_source_fps := source_fps,
                           st_encoded_fps := f64_min source_fps
                             (rnd32 (of_nat (unat (st_requested_fps (rc_status self)))))\<rparr>,
                        rc_sample_frames := 0, rc_sample_started := Some now\<rparr>)
               else self'))"

section \<open>The controller as a state machine\<close>

datatype rc_event =
    EStart machine recorder bool "str option" str bool
  | EStartGame machine recorder game_capture_profile
  | EStartAttach machine recorder pid
  | EStartXwayland machine recorder "str option" str u32
  | EStop "str option" kill_result
  | EPause "str option"
  | ESaveReplay "str option"
  | EPoll poll_env
  | EFrame instant
  | EAbort kill_result str

definition rc_step :: "controller \<Rightarrow> rc_event \<Rightarrow> controller \<times> effect list" where
  "rc_step c ev =
     (case ev of
        EStart m config replay display oname paced \<Rightarrow> snd (start m c config replay display oname paced)
      | EStartGame m config profile \<Rightarrow> snd (start_game m c config profile)
      | EStartAttach m config target \<Rightarrow> snd (start_game_attach m c config target)
      | EStartXwayland m config display oname window \<Rightarrow>
          snd (start_game_xwayland m c config display oname window)
      | EStop wr kr \<Rightarrow> snd (stop wr kr c)
      | EPause wr \<Rightarrow> snd (toggle_pause wr c)
      | ESaveReplay wr \<Rightarrow> snd (save_replay wr c)
      | EPoll env \<Rightarrow> snd (poll env c)
      | EFrame now \<Rightarrow> (note_source_frame now c, [])
      | EAbort kr reason \<Rightarrow> snd (abort kr reason c))"

definition controller_inv :: "controller \<Rightarrow> bool" where
  "controller_inv c \<longleftrightarrow>
     (rc_child c = None \<or> rc_game_launcher c = None)
     \<and> rc_stdin c = rc_child c
     \<and> rc_replay_max_mib c = None
     \<and> st_state (rc_status c) \<noteq> Replay
     \<and> (is_running c \<longrightarrow> st_state (rc_status c) \<noteq> Idle)"

definition held :: "controller \<Rightarrow> pid set" where
  "held c = set_option (rc_child c) \<union> set_option (rc_game_launcher c)"

text \<open>A start either changes nothing or, when nothing runs, spawns the one process it then holds.\<close>

definition start_shape :: "controller \<Rightarrow> 'a outcome \<Rightarrow> bool" where
  "start_shape c out \<longleftrightarrow>
     (case out of (r, c', effs) \<Rightarrow>
        (\<not> is_ok r \<and> c' = c \<and> effs = [])
        \<or> (is_ok r \<and> \<not> is_running c \<and> st_state (rc_status c') = Starting
           \<and> rc_replay_max_mib c' = None
           \<and> (\<exists>prog args env p. effs = [Spawn prog args env p]
                \<and> ((rc_child c' = Some p \<and> rc_stdin c' = Some p \<and> rc_game_launcher c' = None)
                    \<or> (rc_game_launcher c' = Some p \<and> rc_child c' = None \<and> rc_stdin c' = rc_stdin c)))))"

lemma start_shapes:
  "start_shape c (start m c config replay display oname paced)"
  "start_shape c (start_game m c config profile)"
  "start_shape c (start_game_attach m c config target)"
  "start_shape c (start_game_xwayland m c config display oname window)"
proof -
  show s: "start_shape c (start m c config replay display oname paced)" for config replay paced
    by (auto simp: start_shape_def start_def is_running_def Let_def recorder_status_default_def
        split: sum.splits)
  show "start_shape c (start_game m c config profile)"
    by (auto simp: start_shape_def start_game_def game_started_def is_running_def Let_def
        recorder_status_default_def split: sum.splits)
  show "start_shape c (start_game_attach m c config target)"
    by (auto simp: start_shape_def start_game_attach_def game_started_def is_running_def Let_def
        recorder_status_default_def split: sum.splits)
  show "start_shape c (start_game_xwayland m c config display oname window)"
    using s [of "config\<lparr>rec_screen_fps := rec_fps config\<rparr>" False True]
    by (auto simp: start_shape_def start_game_xwayland_def split: prod.splits sum.splits)
qed

lemma start_shape_inv:
  assumes "start_shape c (r, c', effs)" "controller_inv c"
  shows "controller_inv c'"
  using assms by (auto simp: start_shape_def controller_inv_def is_running_def)

lemma poll_inv: "controller_inv c \<Longrightarrow> controller_inv (fst (snd (poll env c)))"
  by (auto simp: controller_inv_def poll_def poll_native_def poll_game_launcher_def poll_running_def
      is_running_def split: option.splits try_wait.splits prod.splits)

lemma stop_inv: "controller_inv c \<Longrightarrow> controller_inv (fst (snd (stop wr kr c)))"
  by (auto simp: controller_inv_def stop_def reset_def terminate_game_launcher_def is_running_def
      recorder_status_default_def split: option.splits kill_result.splits)

lemma toggle_pause_inv: "controller_inv c \<Longrightarrow> controller_inv (fst (snd (toggle_pause wr c)))"
  by (auto simp: controller_inv_def toggle_pause_def send_control_def is_running_def
      split: option.splits)

lemma note_source_frame_inv: "controller_inv c \<Longrightarrow> controller_inv (note_source_frame now c)"
  by (auto simp: controller_inv_def note_source_frame_def is_running_def Let_def)

lemma rc_step_inv: "controller_inv c \<Longrightarrow> controller_inv (fst (rc_step c ev))"
proof (cases ev)
  case (EStart m config replay display oname paced)
  assume "controller_inv c"
  with start_shapes(1) [of c m config replay display oname paced] EStart show ?thesis
    by (cases "start m c config replay display oname paced")
      (auto simp: rc_step_def intro: start_shape_inv)
next
  case (EStartGame m config profile)
  assume "controller_inv c"
  with start_shapes(2) [of c m config profile] EStartGame show ?thesis
    by (cases "start_game m c config profile") (auto simp: rc_step_def intro: start_shape_inv)
next
  case (EStartAttach m config target)
  assume "controller_inv c"
  with start_shapes(3) [of c m config target] EStartAttach show ?thesis
    by (cases "start_game_attach m c config target") (auto simp: rc_step_def intro: start_shape_inv)
next
  case (EStartXwayland m config display oname window)
  assume "controller_inv c"
  with start_shapes(4) [of c m config display oname window] EStartXwayland show ?thesis
    by (cases "start_game_xwayland m c config display oname window")
      (auto simp: rc_step_def intro: start_shape_inv)
next
  case (ESaveReplay wr)
  assume "controller_inv c"
  with ESaveReplay show ?thesis by (simp add: rc_step_def save_replay_def controller_inv_def)
next
  case (EAbort kr reason)
  assume "controller_inv c"
  with EAbort show ?thesis by (simp add: rc_step_def abort_def controller_inv_def is_running_def)
qed (simp_all add: rc_step_def poll_inv stop_inv toggle_pause_inv note_source_frame_inv)

interpretation controller: invariant_machine "\<lambda>c ev. fst (rc_step c ev)" controller_inv
  by unfold_locales (rule rc_step_inv)

lemma controller_default_inv: "controller_inv controller_default"
  by (simp add: controller_inv_def controller_default_def recorder_status_default_def is_running_def)

section \<open>Properties\<close>

text \<open>
  C5: whatever the user, the processes and the operating system do, the controller holds at most
  one capture process, holds the control pipe of exactly the engine it holds, never reports idle
  while it holds a process, and never enters the replay state.
\<close>

theorem controller_always_consistent:
  "controller_inv (foldl (\<lambda>c ev. fst (rc_step c ev)) controller_default events)"
  by (rule controller.run_inv) (rule controller_default_inv)

fun effect_target :: "effect \<Rightarrow> pid option" where
  "effect_target (Spawn prog args env p) = None"
| "effect_target (Control p action) = Some p"
| "effect_target (Kill p) = Some p"
| "effect_target (Reap p) = Some p"
| "effect_target (ReapLater p) = Some p"
| "effect_target (Terminate p) = Some p"
| "effect_target (DropHandle p) = Some p"

text \<open>
  C6: the controller acts on nothing but the process it holds: no other process is ever written
  to, killed, terminated or waited for, and a new one is spawned only while none is held.
\<close>

theorem effects_concern_held_process:
  assumes "controller_inv c" "rc_step c ev = (c', effs)" "e \<in> set effs"
  shows "(case effect_target e of
      None \<Rightarrow> held c = {} \<and> (\<exists>prog args env p. e = Spawn prog args env p \<and> held c' = {p})
    | Some p \<Rightarrow> p \<in> held c)"
proof -
  have starts: "case effect_target e of
      None \<Rightarrow> held c = {} \<and> (\<exists>prog args env p. e = Spawn prog args env p \<and> held c' = {p})
    | Some p \<Rightarrow> p \<in> held c"
    if "start_shape c (r, c', effs)" for r :: "(u32, str) result"
    using that assms(1,3) by (auto simp: start_shape_def held_def is_running_def controller_inv_def)
  show ?thesis
  proof (cases ev)
    case (EStart m config replay display oname paced)
    with assms(2) start_shapes(1) [of c m config replay display oname paced] show ?thesis
      by (cases "start m c config replay display oname paced") (auto simp: rc_step_def intro: starts)
  next
    case (EStartGame m config profile)
    with assms(2) start_shapes(2) [of c m config profile] show ?thesis
      by (cases "start_game m c config profile") (auto simp: rc_step_def intro: starts)
  next
    case (EStartAttach m config target)
    with assms(2) start_shapes(3) [of c m config target] show ?thesis
      by (cases "start_game_attach m c config target") (auto simp: rc_step_def intro: starts)
  next
    case (EStartXwayland m config display oname window)
    with assms(2) start_shapes(4) [of c m config display oname window] show ?thesis
      by (cases "start_game_xwayland m c config display oname window")
        (auto simp: rc_step_def intro: starts)
  next
    case (EStop wr kr)
    with assms show ?thesis
      by (auto simp: rc_step_def stop_def held_def controller_inv_def terminate_game_launcher_def
          split: option.splits kill_result.splits if_split_asm)
  next
    case (EPause wr)
    with assms show ?thesis
      by (auto simp: rc_step_def toggle_pause_def send_control_def held_def controller_inv_def
          split: option.splits if_splits)
  next
    case (ESaveReplay wr)
    with assms show ?thesis
      by (auto simp: rc_step_def save_replay_def controller_inv_def)
  next
    case (EPoll env)
    with assms show ?thesis
      by (auto simp: rc_step_def poll_def controller_inv_def split: option.splits prod.splits if_splits)
  next
    case (EFrame now)
    with assms show ?thesis by (simp add: rc_step_def)
  next
    case (EAbort kr reason)
    with assms show ?thesis
      by (auto simp: rc_step_def abort_def held_def terminate_game_launcher_def
          split: option.splits kill_result.splits if_splits)
  qed
qed


text \<open>
  When the stop request cannot be written, the engine is forgotten without being killed or waited
  for, and the status keeps showing the state of before: the next start is not refused.
\<close>

lemma failed_stop_forgets_engine:
  assumes "controller_inv c" "rc_child c = Some p"
  shows "\<exists>msg c'. stop (Some e) kr c = (Inl msg, c', [DropHandle p])
    \<and> \<not> is_running c' \<and> rc_status c' = rc_status c \<and> st_state (rc_status c') \<noteq> Idle"
  using assms by (auto simp: stop_def controller_inv_def is_running_def)

text \<open>
  Pausing and resuming restores the controller exactly and sends the engine one request each.
\<close>

lemma pause_resume:
  assumes "controller_inv c" "rc_child c = Some p" "st_state (rc_status c) = Recording"
  shows "\<exists>c1. toggle_pause None c = (Inr (), c1, [Control p ''pause''])
    \<and> st_state (rc_status c1) = Paused \<and> toggle_pause None c1 = (Inr (), c, [Control p ''pause''])"
  using assms by (simp add: toggle_pause_def send_control_def controller_inv_def)

text \<open>
  A home directory written as a single tilde is not expanded to it but to a file named \<open>~\<close> in it.
\<close>

lemma tilde_alone_misexpanded:
  assumes "env ''HOME'' = Some home" "home \<noteq> []" "last home \<noteq> CHR ''/''"
  shows "expand_home env ''~'' = Inr (home @ ''/~'')"
proof -
  have "trim_start_matches ''~/'' ''~'' = ''~''"
    by (subst trim_start_matches.simps) (simp add: starts_with_def)
  with assms show ?thesis by (simp add: expand_home_def path_join_def starts_with_def)
qed

text \<open>What a reader delivers before the end of the stream.\<close>

fun delivered :: "bytes option list \<Rightarrow> bytes" where
  "delivered [] = []"
| "delivered (None # reads) = []"
| "delivered (Some chunk # reads) = (if chunk = [] then [] else chunk @ delivered reads)"

lemma drain_log_step:
  "(\<And>n. wr n) \<Longrightarrow> drain_log wr reads n w out = out @ take (MAX_RECORDER_LOG_BYTES - w) (delivered reads)"
proof (induction wr reads n w out rule: drain_log.induct)
  case (3 wr chunk reads n w out)
  let ?a = "min (length chunk) (MAX_RECORDER_LOG_BYTES - w)"
  show ?case
  proof (cases "chunk = [] \<or> MAX_RECORDER_LOG_BYTES \<le> w")
    case True
    with 3 show ?thesis by (auto simp: Let_def)
  next
    case False
    then have "0 < ?a" by auto
    with 3(1) [of ?a] 3(3) False show ?thesis by (simp add: Let_def min_def)
  qed
qed simp_all

text \<open>
  The log keeps the first MiB of what the process prints, and reading goes on to the end, so a
  chatty process is never blocked by its log.
\<close>

lemma log_is_capped:
  assumes "\<And>n. wr n"
  shows "drain_log wr reads 0 0 [] = take MAX_RECORDER_LOG_BYTES (delivered reads)"
  using drain_log_step [of wr reads 0 0 "[]"] assms by simp

section \<open>The properties on concrete states\<close>

abbreviation sample_machine :: machine where
  "sample_machine \<equiv> \<lparr>mc_env = (\<lambda>_. Some ''/r''), mc_create_dir = (\<lambda>_. None), mc_canonicalize = Inr,
     mc_create_log = None, mc_epoch = Inr 7, mc_current_exe = Inr ''/bin/wm'', mc_manifest_dir = ''/c'',
     mc_mode = (\<lambda>_. Some 0x1ED), mc_read = (\<lambda>_. Inl ''denied''), mc_spawn = Inr 42, mc_now = 0\<rparr>"

definition sample_controller :: controller where
  "sample_controller =
     controller_default\<lparr>rc_child := Some 42, rc_stdin := Some 42,
       rc_status := recorder_status_default\<lparr>st_state := Recording\<rparr>\<rparr>"

lemma sample_controller_inv: "controller_inv sample_controller"
  by (simp add: controller_inv_def sample_controller_def controller_default_def
      recorder_status_default_def)

lemma sample_start:
  "fst (start sample_machine controller_default recorder_default False None ''DP-1'' False) = Inr 240"
  by (simp add: start_def is_running_def controller_default_def recorder_default_def prepare_output_def
      expand_home_def starts_with_def Let_def)

lemma effects_concern_held_process_witness:
  "\<exists>c' effs. rc_step sample_controller (EStop None (KillExit True [])) = (c', effs)
     \<and> (\<forall>e \<in> set effs. effect_target e = Some 42)"
proof -
  have s: "rc_step sample_controller (EStop None (KillExit True []))
      = (reset sample_controller, [Control 42 ''stop'', ReapLater 42])"
    by (simp add: rc_step_def stop_def sample_controller_def controller_default_def)
  have h: "held sample_controller = {42}"
    by (simp add: held_def sample_controller_def controller_default_def)
  have "effect_target e = Some 42" if "e \<in> set [Control 42 ''stop'', ReapLater 42]" for e
    using effects_concern_held_process [OF sample_controller_inv s that] h
    by (auto split: option.splits)
  with s show ?thesis by blast
qed


end
