(* ===== verification/Engine.thy ===== *)
theory Engine
  imports F64
begin

text \<open>
  The capture engine, \<open>crates/recorder/src/main.rs\<close>: its command line, the events of the capture
  protocol, the constant-rate timeline of the encoder, its worker, the loop that hands capture
  buffers out, and the lock-free protocol that gives a buffer back when the last encoder buffer
  made from it is gone. GStreamer, GBM, the compositor and the clock are inputs. \<open>u64\<close> values of
  the timeline are natural numbers, saturated where the source saturates.
\<close>

section \<open>The command line\<close>

record engine_options =
  eo_output :: str
  eo_fps :: u32
  eo_codec :: str
  eo_hdr :: bool
  eo_quality :: u8
  eo_desktop_audio :: str
  eo_microphone :: str
  eo_output_width :: u32
  eo_output_height :: u32
  eo_output_name :: "str option"
  eo_replay_seconds :: "u32 option"
  eo_commit_paced :: bool

definition engine_defaults :: engine_options where
  "engine_defaults =
     \<lparr>eo_output = [], eo_fps = 480, eo_codec = ''h264'', eo_hdr = False, eo_quality = 20,
      eo_desktop_audio = ''disabled'', eo_microphone = ''disabled'', eo_output_width = 0,
      eo_output_height = 0, eo_output_name = None, eo_replay_seconds = None,
      eo_commit_paced = False\<rparr>"

definition parse_word32 :: "str \<Rightarrow> str \<Rightarrow> (u32, str) result" where
  "parse_word32 e value = map_sum id word_of_nat (ok_or e (parse_u32 value))"

definition engine_option :: "str \<Rightarrow> str \<Rightarrow> engine_options \<Rightarrow> (engine_options, str) result" where
  "engine_option flag value o' =
     (if flag = ''--output'' then Inr (o'\<lparr>eo_output := value\<rparr>)
      else if flag = ''--fps'' then
        map_sum id (\<lambda>n. o'\<lparr>eo_fps := n\<rparr>) (parse_word32 ''invalid fps'' value)
      else if flag = ''--codec'' then Inr (o'\<lparr>eo_codec := value\<rparr>)
      else if flag = ''--hdr'' then
        map_sum id (\<lambda>b. o'\<lparr>eo_hdr := b\<rparr>) (ok_or ''hdr must be true or false'' (parse_bool_str value))
      else if flag = ''--quality'' then
        map_sum id (\<lambda>n. o'\<lparr>eo_quality := word_of_nat n\<rparr>) (ok_or ''invalid quality'' (parse_u8 value))
      else if flag = ''--desktop-audio'' then Inr (o'\<lparr>eo_desktop_audio := value\<rparr>)
      else if flag = ''--microphone'' then Inr (o'\<lparr>eo_microphone := value\<rparr>)
      else if flag = ''--width'' then
        map_sum id (\<lambda>n. o'\<lparr>eo_output_width := n\<rparr>) (parse_word32 ''invalid width'' value)
      else if flag = ''--height'' then
        map_sum id (\<lambda>n. o'\<lparr>eo_output_height := n\<rparr>) (parse_word32 ''invalid height'' value)
      else if flag = ''--output-name'' then Inr (o'\<lparr>eo_output_name := Some value\<rparr>)
      else if flag = ''--pacing'' then
        (if value = ''clock'' then Inr (o'\<lparr>eo_commit_paced := False\<rparr>)
         else if value = ''commit'' then Inr (o'\<lparr>eo_commit_paced := True\<rparr>)
         else Inl ''pacing must be clock or commit'')
      else if flag = ''--replay-seconds'' then
        map_sum id (\<lambda>n. o'\<lparr>eo_replay_seconds := Some n\<rparr>)
          (parse_word32 ''invalid replay buffer duration'' value)
      else Inl (''unknown option '' @ flag))"

fun engine_collect :: "str list \<Rightarrow> engine_options \<Rightarrow> (engine_options, str) result" where
  "engine_collect [] o' = Inr o'"
| "engine_collect [flag] o' = Inl (''missing value for '' @ flag)"
| "engine_collect (flag # value # args) o' =
     bindR (engine_option flag value o') (engine_collect args)"

definition engine_parse :: "str list \<Rightarrow> (engine_options, str) result" where
  "engine_parse args =
     bindR (engine_collect args engine_defaults) (\<lambda>o'.
       if eo_output o' = [] \<or> \<not> (30 \<le> eo_fps o' \<and> eo_fps o' \<le> 480)
       then Inl ''--output and an fps from 30 through 480 are required''
       else if eo_replay_seconds o' \<noteq> None
       then Inl ''native replay buffering is not implemented yet''
       else if eo_hdr o' \<and> eo_codec o' \<noteq> ''hevc''
       then Inl ''HDR recording requires --codec hevc''
       else Inr o')"

definition options_width :: "engine_options \<Rightarrow> u32 \<Rightarrow> u32" where
  "options_width o' source = (if eo_output_width o' = 0 then source else eo_output_width o')"

definition options_height :: "engine_options \<Rightarrow> u32 \<Rightarrow> u32" where
  "options_height o' source = (if eo_output_height o' = 0 then source else eo_output_height o')"

section \<open>The capture protocol\<close>

record capture_state =
  cs_width :: u32
  cs_height :: u32
  cs_drm_device :: "u64 option"
  cs_formats :: "(u32 \<times> u64 list) list"
  cs_constraints_done :: bool
  cs_stopped :: bool
  cs_frame_ready :: bool
  cs_frame_failed :: "str option"
  cs_presentation_ns :: "u64 option"
  cs_ready_slot :: "nat option"
  cs_output_names :: "str option list"

definition capture_state_default :: "nat \<Rightarrow> capture_state" where
  "capture_state_default outputs =
     \<lparr>cs_width = 0, cs_height = 0, cs_drm_device = None, cs_formats = [],
      cs_constraints_done = False, cs_stopped = False, cs_frame_ready = False,
      cs_frame_failed = None, cs_presentation_ns = None, cs_ready_slot = None,
      cs_output_names = replicate outputs None\<rparr>"

text \<open>\<open>u64::from_ne_bytes\<close> on a little-endian machine, and \<open>chunks_exact(8)\<close>.\<close>

fun from_le :: "u8 list \<Rightarrow> nat" where
  "from_le [] = 0"
| "from_le (b # bs) = unat b + 256 * from_le bs"

function chunks_exact8 :: "u8 list \<Rightarrow> u8 list list" where
  "chunks_exact8 bs = (if length bs < 8 then [] else take 8 bs # chunks_exact8 (drop 8 bs))"
  by pat_completeness auto
termination
  by (relation "measure length") auto

declare chunks_exact8.simps [simp del]

datatype capture_event =
    OutputName nat str
  | BufferSize u32 u32
  | DmabufDevice "u8 list"
  | DmabufFormat u32 "u8 list"
  | ConstraintsDone
  | SessionStopped
  | PresentationTime u32 u32 u32
  | FrameReady nat
  | FrameFailed str
  | OtherEvent

definition capture_event :: "capture_event \<Rightarrow> capture_state \<Rightarrow> capture_state" where
  "capture_event ev s =
     (case ev of
        OutputName index name \<Rightarrow>
          if index < length (cs_output_names s)
          then s\<lparr>cs_output_names := (cs_output_names s)[index := Some name]\<rparr> else s
      | BufferSize width height \<Rightarrow> s\<lparr>cs_width := width, cs_height := height\<rparr>
      | DmabufDevice device \<Rightarrow>
          if length device = 8 then s\<lparr>cs_drm_device := Some (word_of_nat (from_le device))\<rparr> else s
      | DmabufFormat format modifiers \<Rightarrow>
          s\<lparr>cs_formats := cs_formats s
              @ [(format, map (\<lambda>bs. word_of_nat (from_le bs)) (chunks_exact8 modifiers))]\<rparr>
      | ConstraintsDone \<Rightarrow> s\<lparr>cs_constraints_done := True\<rparr>
      | SessionStopped \<Rightarrow> s\<lparr>cs_stopped := True\<rparr>
      | PresentationTime hi lo nsec \<Rightarrow>
          (let seconds = or (push_bit 32 (ucast hi)) (ucast lo) :: u64
           in s\<lparr>cs_presentation_ns := Some (seconds * 1000000000 + ucast nsec)\<rparr>)
      | FrameReady slot \<Rightarrow> s\<lparr>cs_frame_ready := True, cs_ready_slot := Some slot\<rparr>
      | FrameFailed reason \<Rightarrow> s\<lparr>cs_frame_failed := Some reason\<rparr>
      | OtherEvent \<Rightarrow> s)"

text \<open>The DRM codes of the formats the engine asks for, and the linear modifier.\<close>

definition Argb8888 :: u32 where "Argb8888 = 0x34325241"
definition Xrgb8888 :: u32 where "Xrgb8888 = 0x34325258"
definition Argb2101010 :: u32 where "Argb2101010 = 0x30335241"
definition Xrgb2101010 :: u32 where "Xrgb2101010 = 0x30335258"
definition LinearModifier :: u64 where "LinearModifier = 0"

fun first_format :: "(u32 \<times> u64 list) list \<Rightarrow> u32 list \<Rightarrow> (u32 \<times> u64) option" where
  "first_format formats [] = None"
| "first_format formats (p # preferred) =
     (case List.find (\<lambda>(f, _). f = p) formats of
        None \<Rightarrow> first_format formats preferred
      | Some (_, modifiers) \<Rightarrow>
          (if LinearModifier \<in> set modifiers then Some (p, LinearModifier)
           else case modifiers of
                  [] \<Rightarrow> first_format formats preferred
                | m # _ \<Rightarrow> Some (p, m)))"

definition select_format :: "(u32 \<times> u64 list) list \<Rightarrow> bool \<Rightarrow> (u32 \<times> u64, str) result" where
  "select_format formats hdr =
     ok_or (if hdr then ''compositor did not offer 10-bit ARGB/XRGB DMA-BUF capture required for HDR''
            else ''compositor did not offer 8-bit ARGB/XRGB DMA-BUF capture'')
       (first_format formats (if hdr then [Argb2101010, Xrgb2101010] else [Argb8888, Xrgb8888]))"

text \<open>\<open>open_render_node\<close>: the device number of each render node, if it can be inspected.\<close>

definition open_render_node ::
  "(str \<Rightarrow> u64 option) \<Rightarrow> (str \<Rightarrow> str option) \<Rightarrow> u64 \<Rightarrow> (str, str) result" where
  "open_render_node rdev open_error device =
     (case List.find (\<lambda>path. rdev path = Some device)
             (map (\<lambda>minor. ''/dev/dri/renderD'' @ show_nat minor) [128..<256]) of
        None \<Rightarrow> Inl ''capture render node was not found''
      | Some path \<Rightarrow>
          (case open_error path of
             Some e \<Rightarrow> Inl (''failed to open '' @ path @ '': '' @ e)
           | None \<Rightarrow> Inr path))"

section \<open>The timeline\<close>

definition sat_sub :: "nat \<Rightarrow> nat \<Rightarrow> nat" where
  "sat_sub a b = a - b"

definition frame_times :: "nat \<Rightarrow> u32 \<Rightarrow> nat \<times> nat" where
  "frame_times frame fps =
     (sat64 (frame * 1000000000) div unat fps,
      sat64 (sat64 (frame + 1) * 1000000000) div unat fps)"

definition frame_index_at :: "nat \<Rightarrow> u32 \<Rightarrow> nat" where
  "frame_index_at elapsed_ns fps =
     (let index = sat128 (elapsed_ns * unat fps) div 1000000000
      in if index \<le> u64_max then index else u64_max)"

definition paced_frame_index :: "nat \<Rightarrow> nat option \<Rightarrow> bool \<Rightarrow> nat" where
  "paced_frame_index wall_index previous preserve_commits =
     (if preserve_commits
      then (case previous of None \<Rightarrow> wall_index | Some p \<Rightarrow> max wall_index (sat64 (p + 1)))
      else wall_index)"

definition cfr_span :: "nat option \<Rightarrow> nat \<Rightarrow> nat \<Rightarrow> nat \<times> nat \<times> nat" where
  "cfr_span previous target maximum_duplicates =
     (let missing = (case previous of None \<Rightarrow> 0 | Some p \<Rightarrow> sat_sub (sat_sub target p) 1);
          duplicates = min missing maximum_duplicates
      in (sat_sub target duplicates, duplicates, sat_sub missing duplicates))"

section \<open>The encoder\<close>

record encode_frame =
  ef_slot :: nat
  ef_presentation_ns :: nat

text \<open>A buffer handed to the encoder: the capture slot it shows, its index, time and duration.\<close>

record pushed =
  pu_slot :: nat
  pu_index :: nat
  pu_pts :: nat
  pu_duration :: nat

record encoder =
  en_origin_ns :: "nat option"
  en_paused_ns :: nat
  en_paused_at :: "nat option"
  en_fps :: u32
  en_last_frame_index :: "nat option"
  en_commit_paced :: bool
  en_pushed :: "pushed list"

definition encoder_new :: "engine_options \<Rightarrow> encoder" where
  "encoder_new o' =
     \<lparr>en_origin_ns = None, en_paused_ns = 0, en_paused_at = None, en_fps = eo_fps o',
      en_last_frame_index = None, en_commit_paced = eo_commit_paced o', en_pushed = []\<rparr>"

record push_outcome =
  po_written :: nat
  po_duplicated :: nat
  po_unfilled :: nat
  po_maximum_gap :: nat
  po_skipped :: bool

definition push_outcome_default :: push_outcome where
  "push_outcome_default =
     \<lparr>po_written = 0, po_duplicated = 0, po_unfilled = 0, po_maximum_gap = 0, po_skipped = False\<rparr>"

text \<open>\<open>push_one\<close>; \<open>reject n\<close> is why the \<open>n\<close>-th buffer of the recording is not accepted.\<close>

definition push_one ::
  "(nat \<Rightarrow> str option) \<Rightarrow> encode_frame \<Rightarrow> nat \<Rightarrow> encoder \<Rightarrow> (unit, str) result \<times> encoder" where
  "push_one reject inp index e =
     (let (pts, next_pts) = frame_times index (en_fps e)
      in case reject (length (en_pushed e)) of
           Some err \<Rightarrow> (Inl err, e)
         | None \<Rightarrow>
             (Inr (), e\<lparr>en_pushed := en_pushed e
                @ [\<lparr>pu_slot = ef_slot inp, pu_index = index, pu_pts = pts,
                    pu_duration = next_pts - pts\<rparr>]\<rparr>))"

fun push_all ::
  "(nat \<Rightarrow> str option) \<Rightarrow> encode_frame \<Rightarrow> nat list \<Rightarrow> encoder \<Rightarrow> (unit, str) result \<times> encoder" where
  "push_all reject inp [] e = (Inr (), e)"
| "push_all reject inp (index # indices) e =
     (case push_one reject inp index e of
        (Inl err, e') \<Rightarrow> (Inl err, e')
      | (Inr _, e') \<Rightarrow> push_all reject inp indices e')"

definition elapsed_of :: "encode_frame \<Rightarrow> encoder \<Rightarrow> nat \<times> encoder" where
  "elapsed_of inp e =
     (let origin = (case en_origin_ns e of None \<Rightarrow> ef_presentation_ns inp | Some ns \<Rightarrow> ns)
      in (sat_sub (sat_sub (ef_presentation_ns inp) origin) (en_paused_ns e),
          e\<lparr>en_origin_ns := Some origin\<rparr>))"

definition push_latest ::
  "(nat \<Rightarrow> str option) \<Rightarrow> encode_frame \<Rightarrow> encoder \<Rightarrow> (push_outcome, str) result \<times> encoder" where
  "push_latest reject inp e0 =
     (let (elapsed_ns, e) = elapsed_of inp e0;
          frame_index = frame_index_at elapsed_ns (en_fps e)
      in if (case en_last_frame_index e of None \<Rightarrow> False | Some p \<Rightarrow> frame_index \<le> p)
         then (Inr (push_outcome_default\<lparr>po_skipped := True\<rparr>), e)
         else (let (first_index, duplicates, unfilled) =
                     cfr_span (en_last_frame_index e) frame_index (unat (en_fps e))
               in case push_all reject inp [first_index..<Suc frame_index] e of
                    (Inl err, e1) \<Rightarrow> (Inl err, e1)
                  | (Inr _, e1) \<Rightarrow>
                      (Inr \<lparr>po_written = duplicates + 1, po_duplicated = duplicates,
                            po_unfilled = unfilled, po_maximum_gap = sat64 (duplicates + unfilled),
                            po_skipped = False\<rparr>,
                       e1\<lparr>en_last_frame_index := Some frame_index\<rparr>)))"

definition push_committed ::
  "(nat \<Rightarrow> str option) \<Rightarrow> encode_frame \<Rightarrow> encoder \<Rightarrow> (push_outcome, str) result \<times> encoder" where
  "push_committed reject inp e0 =
     (let (elapsed_ns, e) = elapsed_of inp e0;
          frame_index = paced_frame_index (frame_index_at elapsed_ns (en_fps e))
                          (en_last_frame_index e) True;
          gap = (case en_last_frame_index e of None \<Rightarrow> 0 | Some p \<Rightarrow> sat_sub (sat_sub frame_index p) 1)
      in case push_one reject inp frame_index e of
           (Inl err, e1) \<Rightarrow> (Inl err, e1)
         | (Inr _, e1) \<Rightarrow>
             (Inr (push_outcome_default\<lparr>po_written := 1, po_unfilled := gap, po_maximum_gap := gap\<rparr>),
              e1\<lparr>en_last_frame_index := Some frame_index\<rparr>))"

text \<open>\<open>set_paused\<close> at time \<open>now\<close>, with the error of the state change if there is one.\<close>

definition set_paused :: "nat \<Rightarrow> str option \<Rightarrow> bool \<Rightarrow> encoder \<Rightarrow> (unit, str) result \<times> encoder" where
  "set_paused now failure paused e =
     (if paused
      then (case en_paused_at e of
              Some _ \<Rightarrow> (Inr (), e)
            | None \<Rightarrow>
                (case failure of
                   Some err \<Rightarrow> (Inl (''failed to pause encoder: '' @ err), e)
                 | None \<Rightarrow> (Inr (), e\<lparr>en_paused_at := Some now\<rparr>)))
      else (case en_paused_at e of
              None \<Rightarrow> (Inr (), e)
            | Some paused_at \<Rightarrow>
                (let e' = e\<lparr>en_paused_at := None,
                            en_paused_ns := sat64 (en_paused_ns e + min (now - paused_at) u64_max)\<rparr>
                 in case failure of
                      Some err \<Rightarrow> (Inl (''failed to resume encoder: '' @ err), e')
                    | None \<Rightarrow> (Inr (), e'))))"

section \<open>The worker\<close>

record worker_stats =
  ws_encoded_frames :: nat
  ws_duplicated_frames :: nat
  ws_unfilled_frames :: nat
  ws_skipped_captures :: nat
  ws_maximum_gap :: nat

definition worker_stats_default :: worker_stats where
  "worker_stats_default =
     \<lparr>ws_encoded_frames = 0, ws_duplicated_frames = 0, ws_unfilled_frames = 0,
      ws_skipped_captures = 0, ws_maximum_gap = 0\<rparr>"

text \<open>A pause carries the time at which it takes effect and the error of the state change.\<close>

datatype encoder_command = Frame encode_frame | Pause bool nat "str option" | FinishRecording

text \<open>
  \<open>Encoder::stop\<close>: the flow result of the video end of stream, the error of ending the audio, the
  bus until its deadline, the error of the state change, and the exit of FFmpeg (\<open>None\<close>: not before
  the deadline).
\<close>

datatype stop_message = StopEos | StopError str | StopOther

record stop_env =
  sp_video_eos :: "str option"
  sp_audio :: "str option"
  sp_bus :: "stop_message list"
  sp_null :: "str option"
  sp_muxer :: "(bool \<times> str, str) result option"

fun await_stop :: "stop_message list \<Rightarrow> (bool, str) result" where
  "await_stop [] = Inr False"
| "await_stop (StopEos # ms) = Inr True"
| "await_stop (StopError e # ms) = Inl (''encoder failed: '' @ e)"
| "await_stop (StopOther # ms) = await_stop ms"

definition encoder_stop :: "stop_env \<Rightarrow> (unit, str) result" where
  "encoder_stop env =
     (case sp_video_eos env of
        Some e \<Rightarrow> Inl (''video encoder rejected end-of-stream: '' @ e)
      | None \<Rightarrow>
          (case sp_audio env of
             Some e \<Rightarrow> Inl e
           | None \<Rightarrow>
               bindR (await_stop (sp_bus env)) (\<lambda>finalized.
                 if \<not> finalized
                 then Inl ''encoder timed out while finalizing the recording index''
                 else (case sp_null env of
                         Some e \<Rightarrow> Inl (''failed to stop encoder: '' @ e)
                       | None \<Rightarrow>
                           (case sp_muxer env of
                              None \<Rightarrow> Inl ''Hybrid MP4 muxer timed out while finalizing''
                            | Some (Inl e) \<Rightarrow> Inl (''failed to inspect Hybrid MP4 muxer: '' @ e)
                            | Some (Inr (success, text)) \<Rightarrow>
                                if success then Inr ()
                                else Inl (''Hybrid MP4 muxer exited with '' @ text))))))"

text \<open>
  One command of the clock-paced worker, and of the commit-paced one: the new encoder and
  statistics, and the slot that is given back at once because nothing was written from it.
\<close>

definition clock_command ::
  "(nat \<Rightarrow> str option) \<Rightarrow> encode_frame \<Rightarrow> encoder \<Rightarrow> worker_stats
     \<Rightarrow> (worker_stats \<times> nat list, str) result \<times> encoder" where
  "clock_command reject inp e st =
     (case push_latest reject inp e of
        (Inl err, e') \<Rightarrow> (Inl err, e')
      | (Inr out, e') \<Rightarrow>
          (Inr (\<lparr>ws_encoded_frames = sat64 (ws_encoded_frames st + po_written out),
                 ws_duplicated_frames = sat64 (ws_duplicated_frames st + po_duplicated out),
                 ws_unfilled_frames = sat64 (ws_unfilled_frames st + po_unfilled out),
                 ws_skipped_captures = sat64 (ws_skipped_captures st + (if po_skipped out then 1 else 0)),
                 ws_maximum_gap = max (ws_maximum_gap st) (po_maximum_gap out)\<rparr>,
                if po_written out = 0 then [ef_slot inp] else []), e'))"

definition commit_command ::
  "(nat \<Rightarrow> str option) \<Rightarrow> encode_frame \<Rightarrow> encoder \<Rightarrow> worker_stats
     \<Rightarrow> (worker_stats \<times> nat list, str) result \<times> encoder" where
  "commit_command reject inp e st =
     (case push_committed reject inp e of
        (Inl err, e') \<Rightarrow> (Inl err, e')
      | (Inr out, e') \<Rightarrow>
          (Inr (st\<lparr>ws_encoded_frames := sat64 (ws_encoded_frames st + po_written out),
                   ws_unfilled_frames := sat64 (ws_unfilled_frames st + po_unfilled out),
                   ws_maximum_gap := max (ws_maximum_gap st) (po_maximum_gap out)\<rparr>, []), e'))"

fun worker_loop ::
  "(nat \<Rightarrow> str option) \<Rightarrow> encoder_command list \<Rightarrow> encoder \<Rightarrow> worker_stats \<Rightarrow> nat list
     \<Rightarrow> (worker_stats, str) result \<times> encoder \<times> nat list" where
  "worker_loop reject [] e st returned = (Inr st, e, returned)"
| "worker_loop reject (FinishRecording # cmds) e st returned = (Inr st, e, returned)"
| "worker_loop reject (Pause paused now failure # cmds) e st returned =
     (case set_paused now failure paused e of
        (Inl err, e') \<Rightarrow> (Inl err, e', returned)
      | (Inr _, e') \<Rightarrow> worker_loop reject cmds e' st returned)"
| "worker_loop reject (Frame inp # cmds) e st returned =
     (case (if en_commit_paced e then commit_command reject inp e st
            else clock_command reject inp e st) of
        (Inl err, e') \<Rightarrow> (Inl err, e', returned)
      | (Inr (st', slots), e') \<Rightarrow> worker_loop reject cmds e' st' (returned @ slots))"

definition run_encoder_worker ::
  "(nat \<Rightarrow> str option) \<Rightarrow> stop_env \<Rightarrow> encoder_command list \<Rightarrow> encoder
     \<Rightarrow> (worker_stats, str) result \<times> encoder \<times> nat list" where
  "run_encoder_worker reject env cmds e =
     (case worker_loop reject cmds e worker_stats_default [] of
        (Inl err, e', returned) \<Rightarrow> (Inl err, e', returned)
      | (Inr st, e', returned) \<Rightarrow>
          (map_sum id (\<lambda>_. st) (encoder_stop env), e', returned))"

section \<open>The recording loop\<close>

definition drain_commands :: "str list \<Rightarrow> bool \<times> bool" where
  "drain_commands commands =
     foldl (\<lambda>(stop, toggle_pause) command.
         if trim command = ''stop'' then (True, toggle_pause)
         else if trim command = ''pause'' then (stop, \<not> toggle_pause)
         else (stop, toggle_pause)) (False, False) commands"

text \<open>
  The state of the loop: the free slots, whether it is paused, the frames captured, the protocol
  state and what was sent to the worker.
\<close>

record run_state =
  rs_available :: "nat list"
  rs_paused :: bool
  rs_captured :: nat
  rs_capture :: capture_state
  rs_sent :: "encoder_command list"

datatype paused_wait = Line str | Disconnected | Timeout

text \<open>
  What one turn meets: the pending control lines, the wait while paused, the slots given back, the
  dispatches of the capture (the events of each with the control lines pending after it, or an
  error), whether the worker still receives, and the time and outcome of a state change.
\<close>

record turn_env =
  te_commands :: "str list"
  te_wait :: paused_wait
  te_released :: "nat list"
  te_dispatches :: "(capture_event list \<times> str list, str) result list"
  te_worker_gone :: bool
  te_export :: "str option"
  te_now :: nat
  te_state_change :: "str option"

datatype turn = Continue run_state | Break run_state | Fail str

definition capture_done :: "capture_state \<Rightarrow> bool" where
  "capture_done s \<longleftrightarrow> cs_frame_ready s \<or> cs_frame_failed s \<noteq> None \<or> cs_stopped s"

text \<open>The inner loop: dispatch until the frame is ready, failed or the session stopped.\<close>

datatype capture_wait = Captured capture_state bool | StopRequested capture_state | Broken str | Waiting

fun await_capture ::
  "(capture_event list \<times> str list, str) result list \<Rightarrow> capture_state \<Rightarrow> bool \<Rightarrow> capture_wait" where
  "await_capture ds s paused =
     (if capture_done s then Captured s paused
      else case ds of
             [] \<Rightarrow> Waiting
           | Inl e # _ \<Rightarrow> Broken e
           | Inr (events, pending) # ds' \<Rightarrow>
               (let s' = foldl (\<lambda>s ev. capture_event ev s) s events;
                    (stop, toggle_pause) = drain_commands pending;
                    paused' = (if toggle_pause then \<not> paused else paused)
                in if stop then StopRequested s' else await_capture ds' s' paused'))"

declare await_capture.simps [simp del]

text \<open>After the slot has been taken: capture into it and hand the frame over.\<close>

definition capture_turn :: "turn_env \<Rightarrow> nat \<Rightarrow> run_state \<Rightarrow> turn" where
  "capture_turn env slot rs =
     (let fresh = (rs_capture rs)\<lparr>cs_frame_ready := False, cs_frame_failed := None,
                    cs_presentation_ns := None, cs_ready_slot := None\<rparr>
      in case await_capture (te_dispatches env) fresh (rs_paused rs) of
           Waiting \<Rightarrow> Fail ''still waiting for the compositor''
         | Broken e \<Rightarrow> Fail e
         | StopRequested s \<Rightarrow> Break (rs\<lparr>rs_capture := s\<rparr>)
         | Captured s paused \<Rightarrow>
             (if cs_stopped s then Fail ''capture session was stopped by the compositor''
              else case cs_frame_failed s of
                     Some reason \<Rightarrow> Fail (''capture frame failed: '' @ reason)
                   | None \<Rightarrow>
                       (case cs_presentation_ns s of
                          None \<Rightarrow> Fail ''capture frame omitted its presentation timestamp''
                        | Some ns \<Rightarrow>
                            (case te_export env of
                               Some e \<Rightarrow> Fail e
                             | None \<Rightarrow>
                                 if te_worker_gone env
                                 then Fail ''encoder worker stopped while accepting a capture frame''
                                 else Continue
                                   (rs\<lparr>rs_capture := s, rs_paused := paused,
                                       rs_captured := sat64 (rs_captured rs + 1),
                                       rs_sent := rs_sent rs
                                         @ [Frame \<lparr>ef_slot = slot, ef_presentation_ns = unat ns\<rparr>]
                                         @ (if paused then [Pause True (te_now env) (te_state_change env)]
                                            else [])\<rparr>)))))"

definition recording_turn :: "turn_env \<Rightarrow> run_state \<Rightarrow> turn" where
  "recording_turn env rs0 =
     (let (stop, toggle_pause) = drain_commands (te_commands env) in
      if stop then Break rs0
      else if toggle_pause \<and> te_worker_gone env
      then Fail ''encoder worker stopped while changing pause state''
      else
        (let rs = (if toggle_pause
                   then rs0\<lparr>rs_paused := \<not> rs_paused rs0,
                            rs_sent := rs_sent rs0
                              @ [Pause (\<not> rs_paused rs0) (te_now env) (te_state_change env)]\<rparr>
                   else rs0)
         in if rs_paused rs
            then (case te_wait env of
                    Line command \<Rightarrow>
                      if trim command = ''stop'' then Break rs
                      else if trim command = ''pause''
                      then if te_worker_gone env then Fail ''encoder worker stopped while resuming''
                           else Continue (rs\<lparr>rs_paused := False,
                                  rs_sent := rs_sent rs
                                    @ [Pause False (te_now env) (te_state_change env)]\<rparr>)
                      else Continue rs
                  | Disconnected \<Rightarrow> Break rs
                  | Timeout \<Rightarrow> Continue rs)
            else (case rs_available rs @ te_released env of
                    [] \<Rightarrow> Continue (rs\<lparr>rs_available := []\<rparr>)
                  | slot # rest \<Rightarrow> capture_turn env slot (rs\<lparr>rs_available := rest\<rparr>))))"

definition CAPTURE_BUFFER_POOL_SIZE :: nat where "CAPTURE_BUFFER_POOL_SIZE = 8"

definition recording_start :: "capture_state \<Rightarrow> run_state" where
  "recording_start s =
     \<lparr>rs_available = [0..<CAPTURE_BUFFER_POOL_SIZE], rs_paused = False, rs_captured = 0,
      rs_capture = s, rs_sent = []\<rparr>"

end
