(* ===== verification/Timeline.thy ===== *)
theory Timeline
  imports Engine "HOL-Library.Multiset"
begin

text \<open>
  What the capture engine's timeline promises: the buffers handed to the encoder never overlap or
  go back in time, whatever timestamps the compositor reports, and the statistics account for
  every captured frame and every frame slot of the recording.
\<close>

section \<open>Frame times\<close>

lemma frame_times_ordered:
  assumes "i < j"
  shows "snd (frame_times i fps) \<le> fst (frame_times j fps)"
proof -
  have "sat64 (i + 1) \<le> j" using sat64_le_self [of "i + 1"] assms by simp
  hence "sat64 (sat64 (i + 1) * 1000000000) \<le> sat64 (j * 1000000000)"
    by (intro sat64_mono mult_le_mono1)
  thus ?thesis by (simp add: frame_times_def div_le_mono)
qed

lemma frame_times_forward: "i \<le> u64_max - 1 \<Longrightarrow> fst (frame_times i fps) \<le> snd (frame_times i fps)"
  using frame_times_ordered [of i "Suc i" fps]
  by (simp add: frame_times_def div_le_mono sat64_mono sat64_def split: if_splits)

lemma frame_index_bound:
  assumes "ns \<le> u64_max" "unat fps \<le> 480"
  shows "frame_index_at ns fps \<le> 2 ^ 44"
proof -
  have m: "ns * unat fps \<le> u64_max * 480" using assms by (intro mult_le_mono)
  have "sat128 (ns * unat fps) \<le> u64_max * 480"
    using m by (auto simp: sat128_def)
  hence "sat128 (ns * unat fps) div 1000000000 \<le> u64_max * 480 div 1000000000"
    by (rule div_le_mono)
  thus ?thesis by (auto simp: frame_index_at_def u64_max_def Let_def)
qed

section \<open>The buffers of one frame\<close>

definition buffer_at :: "encode_frame \<Rightarrow> u32 \<Rightarrow> nat \<Rightarrow> pushed" where
  "buffer_at inp fps index =
     \<lparr>pu_slot = ef_slot inp, pu_index = index, pu_pts = fst (frame_times index fps),
      pu_duration = snd (frame_times index fps) - fst (frame_times index fps)\<rparr>"

lemma buffer_at_simps [simp]:
  "pu_index (buffer_at inp fps i) = i" "pu_pts (buffer_at inp fps i) = fst (frame_times i fps)"
  "pu_slot (buffer_at inp fps i) = ef_slot inp"
  by (simp_all add: buffer_at_def)

lemma push_one_cases:
  "push_one reject inp index e = (res, e') \<Longrightarrow>
     (res = Inr () \<and> e' = e\<lparr>en_pushed := en_pushed e @ [buffer_at inp (en_fps e) index]\<rparr>)
     \<or> (\<exists>err. res = Inl err \<and> e' = e)"
  by (auto simp: push_one_def buffer_at_def split: prod.splits option.splits)

lemma push_all_prefix:
  "push_all reject inp indices e = (res, e') \<Longrightarrow>
     \<exists>n \<le> length indices.
       e' = e\<lparr>en_pushed := en_pushed e @ map (buffer_at inp (en_fps e)) (take n indices)\<rparr>
       \<and> (res = Inr () \<longrightarrow> n = length indices)"
proof (induction indices arbitrary: e)
  case Nil
  then show ?case by auto
next
  case (Cons i indices)
  obtain r1 e1 where one: "push_one reject inp i e = (r1, e1)" by fastforce
  show ?case
  proof (cases r1)
    case (Inl err)
    then show ?thesis using Cons.prems one push_one_cases [OF one] by (intro exI [of _ 0]) auto
  next
    case (Inr u)
    hence e1: "e1 = e\<lparr>en_pushed := en_pushed e @ [buffer_at inp (en_fps e) i]\<rparr>"
      and rest: "push_all reject inp indices e1 = (res, e')"
      using push_one_cases [OF one] Cons.prems one by auto
    obtain n where "n \<le> length indices"
        "e' = e1\<lparr>en_pushed := en_pushed e1 @ map (buffer_at inp (en_fps e1)) (take n indices)\<rparr>"
        "res = Inr () \<longrightarrow> n = length indices"
      using Cons.IH [OF rest] by blast
    then show ?thesis using e1 by (intro exI [of _ "Suc n"]) auto
  qed
qed

section \<open>The invariant of the worker\<close>

definition follows :: "pushed \<Rightarrow> pushed \<Rightarrow> bool" where
  "follows x y \<longleftrightarrow> pu_index x < pu_index y \<and> pu_pts x + pu_duration x \<le> pu_pts y"

definition on_timeline :: "u32 \<Rightarrow> pushed list \<Rightarrow> bool" where
  "on_timeline fps ps \<longleftrightarrow>
     sorted_wrt follows ps
     \<and> (\<forall>x \<in> set ps. pu_pts x = fst (frame_times (pu_index x) fps)
          \<and> pu_pts x + pu_duration x \<le> snd (frame_times (pu_index x) fps))"

lemma on_timeline_append:
  assumes "on_timeline fps ps" "\<forall>x \<in> set ps. pu_index x < lo"
    and "sorted_wrt (<) indices" "\<forall>i \<in> set indices. lo \<le> i \<and> i < u64_max"
  shows "on_timeline fps (ps @ map (buffer_at inp fps) indices)"
proof -
  have buffers: "fst (frame_times i fps) + pu_duration (buffer_at inp fps i)
      \<le> snd (frame_times i fps)" if "i \<in> set indices" for i
    using frame_times_forward [of i fps] assms(4) that by (auto simp: buffer_at_def)
  have ordered: "follows x (buffer_at inp fps j)"
    if "pu_index x < j" "pu_pts x + pu_duration x \<le> snd (frame_times (pu_index x) fps)" for x j
    using that frame_times_ordered [OF that(1), of fps] by (simp add: follows_def)
  have "sorted_wrt follows (map (buffer_at inp fps) indices)"
    unfolding sorted_wrt_map
    by (rule sorted_wrt_mono_rel [OF _ assms(3)]) (simp add: ordered buffers)
  moreover have "follows x (buffer_at inp fps i)" if "x \<in> set ps" "i \<in> set indices" for x i
    using that assms by (intro ordered) (auto simp: on_timeline_def intro: less_le_trans)
  ultimately show ?thesis
    using assms(1) buffers by (auto simp: on_timeline_def sorted_wrt_append)
qed

text \<open>
  After \<open>frames\<close> frames: the timeline is in order up to the last index, and the statistics count the
  buffers, the slots and the frames.
\<close>

definition worker_inv :: "u32 \<Rightarrow> nat \<Rightarrow> encoder \<Rightarrow> worker_stats \<Rightarrow> nat list \<Rightarrow> bool" where
  "worker_inv fps frames e st returned \<longleftrightarrow>
     en_fps e = fps \<and> on_timeline fps (en_pushed e)
     \<and> (case en_last_frame_index e of
          None \<Rightarrow> en_pushed e = [] \<and> ws_encoded_frames st = 0 \<and> ws_unfilled_frames st = 0
        | Some p \<Rightarrow> en_origin_ns e \<noteq> None \<and> en_pushed e \<noteq> []
            \<and> (\<forall>x \<in> set (en_pushed e). pu_index x \<le> p) \<and> pu_index (last (en_pushed e)) = p
            \<and> ws_encoded_frames st + ws_unfilled_frames st = p + 1 \<and> p \<le> 2 ^ 44 + frames)
     \<and> (en_last_frame_index e = None \<longrightarrow> en_origin_ns e = None \<and> frames = 0)
     \<and> ws_encoded_frames st = length (en_pushed e)
     \<and> ws_duplicated_frames st \<le> ws_encoded_frames st
     \<and> frames + ws_duplicated_frames st = ws_skipped_captures st + ws_encoded_frames st
     \<and> ws_skipped_captures st = length returned"

lemma worker_inv_start: "worker_inv (eo_fps o') 0 (encoder_new o') worker_stats_default []"
  by (simp add: worker_inv_def encoder_new_def worker_stats_default_def on_timeline_def)

lemma worker_inv_timeline: "worker_inv fps frames e st returned \<Longrightarrow> on_timeline fps (en_pushed e)"
  by (simp add: worker_inv_def)

lemma elapsed_of_facts:
  assumes "elapsed_of inp e0 = (ns, e)" "ef_presentation_ns inp \<le> u64_max"
  shows "ns \<le> u64_max" "en_pushed e = en_pushed e0" "en_fps e = en_fps e0"
    "en_last_frame_index e = en_last_frame_index e0" "en_origin_ns e \<noteq> None"
    "en_commit_paced e = en_commit_paced e0" "en_origin_ns e0 = None \<Longrightarrow> ns = 0"
  using assms by (auto simp: elapsed_of_def sat_sub_def Let_def split: option.splits)

lemma frame_index_zero [simp]: "frame_index_at 0 fps = 0"
  by (simp add: frame_index_at_def sat128_def Let_def)

lemma cfr_span_facts:
  assumes "cfr_span previous target maximum = (lo, duplicates, unfilled)"
  shows "duplicates \<le> target" "lo = target - duplicates" "duplicates \<le> maximum"
    "previous = None \<Longrightarrow> duplicates = 0 \<and> unfilled = 0"
    "previous = Some p \<Longrightarrow> p < target \<Longrightarrow> p < lo \<and> duplicates + unfilled = target - p - 1"
  using assms by (auto simp: cfr_span_def sat_sub_def Let_def min_def split: option.splits if_splits)

lemma take_index_range:
  "sorted_wrt (<) (take n [lo..<hi])" "i \<in> set (take n [lo..<hi]) \<Longrightarrow> lo \<le> i \<and> i < hi"
  by (auto simp: sorted_wrt_take dest: in_set_takeD)

lemma worker_inv_bounds:
  assumes "worker_inv fps frames e st returned" "frames < 2 ^ 32"
  shows "ws_encoded_frames st \<le> 2 ^ 45" "ws_unfilled_frames st \<le> 2 ^ 45"
    "ws_duplicated_frames st \<le> 2 ^ 45" "ws_skipped_captures st \<le> 2 ^ 45"
  using assms by (auto simp: worker_inv_def split: option.splits)

lemma sat64_small: "m \<le> 2 ^ 45 \<Longrightarrow> n \<le> 2 ^ 46 \<Longrightarrow> sat64 (m + n) = m + n"
  by (simp add: sat64_def u64_max_def)

lemma worker_inv_skip:
  assumes inv: "worker_inv fps frames e st returned" and frames: "frames < 2 ^ 32"
    and same: "en_last_frame_index e \<noteq> None" "en_origin_ns e' \<noteq> None" "en_fps e' = en_fps e"
      "en_pushed e' = en_pushed e" "en_last_frame_index e' = en_last_frame_index e"
    and stats: "ws_encoded_frames st' = sat64 (ws_encoded_frames st)"
      "ws_duplicated_frames st' = sat64 (ws_duplicated_frames st)"
      "ws_unfilled_frames st' = sat64 (ws_unfilled_frames st)"
      "ws_skipped_captures st' = sat64 (ws_skipped_captures st + 1)"
  shows "worker_inv fps (frames + 1) e' st' (returned @ [slot])"
proof -
  have "ws_encoded_frames st' = ws_encoded_frames st" "ws_duplicated_frames st' = ws_duplicated_frames st"
    "ws_unfilled_frames st' = ws_unfilled_frames st" "ws_skipped_captures st' = ws_skipped_captures st + 1"
    using stats worker_inv_bounds [OF inv frames] sat64_small [of _ 0] sat64_small [of _ 1] by simp_all
  with inv same show ?thesis by (auto simp: worker_inv_def split: option.splits)
qed

lemma worker_inv_write:
  assumes inv: "worker_inv fps frames e st returned" and frames: "frames < 2 ^ 32"
    and origin: "en_origin_ns e' \<noteq> None" and fps: "en_fps e' = fps"
    and pushed: "en_pushed e' = en_pushed e @ map (buffer_at inp fps) [lo..<Suc target]"
    and newest: "en_last_frame_index e' = Some target" "target \<le> 2 ^ 44 + frames + 1"
    and span: "lo + duplicates = target"
      "case en_last_frame_index e of None \<Rightarrow> lo = 0 \<and> unfilled = 0
       | Some p \<Rightarrow> p < lo \<and> duplicates + unfilled = target - p - 1"
    and stats: "ws_encoded_frames st' = sat64 (ws_encoded_frames st + (duplicates + 1))"
      "ws_duplicated_frames st' = sat64 (ws_duplicated_frames st + duplicates)"
      "ws_unfilled_frames st' = sat64 (ws_unfilled_frames st + unfilled)"
      "ws_skipped_captures st' = ws_skipped_captures st"
  shows "worker_inv fps (frames + 1) e' st' returned"
proof -
  note b = worker_inv_bounds [OF inv frames]
  have small: "duplicates + 1 \<le> 2 ^ 46" "unfilled \<le> 2 ^ 46"
    using span newest(2) frames by (auto split: option.splits)
  have st': "ws_encoded_frames st' = ws_encoded_frames st + (duplicates + 1)"
    "ws_duplicated_frames st' = ws_duplicated_frames st + duplicates"
    "ws_unfilled_frames st' = ws_unfilled_frames st + unfilled"
    using stats small sat64_small [OF b(1) small(1)] sat64_small [OF b(3), of duplicates]
      sat64_small [OF b(2) small(2)] by simp_all
  have order: "on_timeline fps (en_pushed e')"
    unfolding pushed using inv newest(2) frames span
    by (intro on_timeline_append [where lo = lo])
       (auto simp: worker_inv_def u64_max_def sorted_wrt_upt simp del: upt_Suc split: option.splits)
  have len: "length [lo..<Suc target] = duplicates + 1" using span(1) by simp
  have "lo \<le> target" using span(1) by simp
  hence final: "pu_index (last (en_pushed e')) = target" using pushed by simp
  show ?thesis
    using inv order origin fps pushed newest span st' stats(4) len frames final
    by (auto simp: worker_inv_def simp del: upt_Suc split: option.splits)
qed

lemma clock_step:
  assumes inv: "worker_inv fps frames e0 st returned" and frames: "frames < 2 ^ 32"
    and ns: "ef_presentation_ns inp \<le> u64_max" and fps: "unat fps \<le> 480"
    and run: "clock_command reject inp e0 st = (res, e')"
  shows "on_timeline fps (en_pushed e')
    \<and> (\<forall>st' slots. res = Inr (st', slots) \<longrightarrow> worker_inv fps (frames + 1) e' st' (returned @ slots))"
proof -
  obtain elapsed e where el: "elapsed_of inp e0 = (elapsed, e)" by fastforce
  note elf = elapsed_of_facts [OF el ns]
  define target where "target = frame_index_at elapsed (en_fps e)"
  have efps: "en_fps e = fps" using inv elf by (simp add: worker_inv_def)
  have tb: "target \<le> 2 ^ 44" using frame_index_bound elf(1) fps efps by (simp add: target_def)
  have first: "en_last_frame_index e = None \<Longrightarrow> target = 0"
    using inv elf(4,7) by (auto simp: worker_inv_def target_def)
  have old: "on_timeline fps (en_pushed e)" using inv elf by (simp add: worker_inv_def)
  show ?thesis
  proof (cases "case en_last_frame_index e of None \<Rightarrow> False | Some p \<Rightarrow> target \<le> p")
    case True
    hence "push_latest reject inp e0 = (Inr (push_outcome_default\<lparr>po_skipped := True\<rparr>), e)"
      by (simp add: push_latest_def el target_def [symmetric])
    hence run': "e' = e" and out: "\<And>st' slots. res = Inr (st', slots) \<Longrightarrow> slots = [ef_slot inp]
      \<and> ws_encoded_frames st' = sat64 (ws_encoded_frames st)
      \<and> ws_duplicated_frames st' = sat64 (ws_duplicated_frames st)
      \<and> ws_unfilled_frames st' = sat64 (ws_unfilled_frames st)
      \<and> ws_skipped_captures st' = sat64 (ws_skipped_captures st + 1)"
      using run by (auto simp: clock_command_def push_outcome_default_def)
    show ?thesis
    proof (intro conjI allI impI)
      show "on_timeline fps (en_pushed e')" using old run' by simp
      fix st' slots assume "res = Inr (st', slots)"
      then show "worker_inv fps (frames + 1) e' st' (returned @ slots)"
        using worker_inv_skip [OF inv frames, of e' st'] out [of st' slots] True elf run'
        by (auto split: option.splits)
    qed
  next
    case False
    obtain lo duplicates unfilled where
      span: "cfr_span (en_last_frame_index e) target (unat (en_fps e)) = (lo, duplicates, unfilled)"
      by (metis prod_cases3)
    obtain r1 e1 where all: "push_all reject inp [lo..<Suc target] e = (r1, e1)" by fastforce
    obtain n where e1: "e1 = e\<lparr>en_pushed := en_pushed e
          @ map (buffer_at inp fps) (take n [lo..<Suc target])\<rparr>"
        and full: "r1 = Inr () \<longrightarrow> take n [lo..<Suc target] = [lo..<Suc target]"
      using push_all_prefix [OF all] efps by (metis take_all order_refl)
    note sp = cfr_span_facts [OF span]
    have below: "\<forall>x \<in> set (en_pushed e). pu_index x < lo"
      using inv False sp(5) elf by (auto simp: worker_inv_def split: option.splits)
    have "on_timeline fps (en_pushed e @ map (buffer_at inp fps) (take n [lo..<Suc target]))"
      using old below tb
      by (intro on_timeline_append [where lo = lo] take_index_range)
         (auto simp: u64_max_def simp del: upt_Suc dest: take_index_range(2))
    hence "on_timeline fps (en_pushed e1)" using e1 by simp
    moreover have "worker_inv fps (frames + 1) e' st' (returned @ slots)"
      if "res = Inr (st', slots)" for st' slots
    proof -
      have r1: "r1 = Inr ()" and st': "slots = []" "e' = e1\<lparr>en_last_frame_index := Some target\<rparr>"
        "ws_encoded_frames st' = sat64 (ws_encoded_frames st + (duplicates + 1))"
        "ws_duplicated_frames st' = sat64 (ws_duplicated_frames st + duplicates)"
        "ws_unfilled_frames st' = sat64 (ws_unfilled_frames st + unfilled)"
        "ws_skipped_captures st' = sat64 (ws_skipped_captures st)"
        using run that all span False
        by (auto simp: clock_command_def push_latest_def el target_def [symmetric] simp del: upt_Suc
            split: sum.splits)
      have "case en_last_frame_index e of None \<Rightarrow> lo = 0 \<and> unfilled = 0
         | Some p \<Rightarrow> p < lo \<and> duplicates + unfilled = target - p - 1"
        using sp(2,4,5) first False by (auto split: option.splits)
      hence shape: "case en_last_frame_index e0 of None \<Rightarrow> lo = 0 \<and> unfilled = 0
         | Some p \<Rightarrow> p < lo \<and> duplicates + unfilled = target - p - 1"
        using elf by simp
      have "take n [lo..<Suc target] = [lo..<Suc target]" using full r1 by blast
      hence all': "en_pushed e' = en_pushed e0 @ map (buffer_at inp fps) [lo..<Suc target]"
        using e1 st'(2) elf(2) by (simp del: upt_Suc)
      have rest: "en_origin_ns e' \<noteq> None" "en_fps e' = fps" "en_last_frame_index e' = Some target"
        "target \<le> 2 ^ 44 + frames + 1" "lo + duplicates = target"
        "ws_skipped_captures st' = ws_skipped_captures st"
        using st' sp(1,2) elf efps e1 tb sat64_small [of _ 0] worker_inv_bounds [OF inv frames]
        by (auto simp del: upt_Suc)
      show ?thesis
        using worker_inv_write [OF inv frames rest(1,2) all' rest(3,4,5) shape st'(3,4,5) rest(6)] st'(1)
        by simp
    qed
    moreover have "en_pushed e' = en_pushed e1"
      using run all span False
      by (auto simp: clock_command_def push_latest_def el target_def [symmetric] split: sum.splits)
    ultimately show ?thesis by simp
  qed
qed

lemma paced_frame_index_next:
  "paced_frame_index wall (Some p) True = max wall (sat64 (p + 1))"
  "paced_frame_index wall None True = wall"
  by (simp_all add: paced_frame_index_def)

lemma commit_step:
  assumes inv: "worker_inv fps frames e0 st returned" and frames: "frames < 2 ^ 32"
    and ns: "ef_presentation_ns inp \<le> u64_max" and fps: "unat fps \<le> 480"
    and run: "commit_command reject inp e0 st = (res, e')"
  shows "on_timeline fps (en_pushed e')
    \<and> (\<forall>st' slots. res = Inr (st', slots) \<longrightarrow> worker_inv fps (frames + 1) e' st' (returned @ slots))"
proof -
  obtain elapsed e where el: "elapsed_of inp e0 = (elapsed, e)" by fastforce
  note elf = elapsed_of_facts [OF el ns]
  define target where
    "target = paced_frame_index (frame_index_at elapsed (en_fps e)) (en_last_frame_index e) True"
  have efps: "en_fps e = fps" using inv elf by (simp add: worker_inv_def)
  have wall: "frame_index_at elapsed (en_fps e) \<le> 2 ^ 44" using frame_index_bound elf(1) fps efps by simp
  have tb: "target \<le> 2 ^ 44 + frames + 1"
    and next_index: "case en_last_frame_index e of None \<Rightarrow> target = 0 | Some p \<Rightarrow> p < target"
    using wall inv frames elf(4,7)
    by (auto simp: target_def worker_inv_def paced_frame_index_next sat64_def u64_max_def
        split: option.splits)
  have old: "on_timeline fps (en_pushed e)" using inv elf by (simp add: worker_inv_def)
  obtain r1 e1 where one: "push_one reject inp target e = (r1, e1)" by fastforce
  define gap where
    "gap = (case en_last_frame_index e of None \<Rightarrow> 0 | Some p \<Rightarrow> sat_sub (sat_sub target p) 1)"
  have pushed': "en_pushed e' = en_pushed e1"
    using run one by (auto simp: commit_command_def push_committed_def el target_def [symmetric] Let_def
        split: sum.splits)
  from push_one_cases [OF one] consider
    (written) "r1 = Inr ()" "e1 = e\<lparr>en_pushed := en_pushed e @ [buffer_at inp fps target]\<rparr>"
    | (rejected) err where "r1 = Inl err" "e1 = e"
    using efps by auto
  then show ?thesis
  proof cases
    case rejected
    then show ?thesis using run old one
      by (auto simp: commit_command_def push_committed_def el target_def [symmetric] Let_def)
  next
    case written
    have committed: "push_committed reject inp e0 =
        (Inr (push_outcome_default\<lparr>po_written := 1, po_unfilled := gap, po_maximum_gap := gap\<rparr>),
         e1\<lparr>en_last_frame_index := Some target\<rparr>)"
      using one written(1) by (simp add: push_committed_def el target_def gap_def Let_def cong: option.case_cong)
    have out: "e' = e1\<lparr>en_last_frame_index := Some target\<rparr>"
      "\<exists>st'. res = Inr (st', []) \<and> ws_encoded_frames st' = sat64 (ws_encoded_frames st + 1)
         \<and> ws_duplicated_frames st' = ws_duplicated_frames st
         \<and> ws_unfilled_frames st' = sat64 (ws_unfilled_frames st + gap)
         \<and> ws_skipped_captures st' = ws_skipped_captures st"
      using run by (auto simp: commit_command_def committed push_outcome_default_def)
    then obtain st' where st': "res = Inr (st', [])"
      "ws_encoded_frames st' = sat64 (ws_encoded_frames st + 1)"
      "ws_duplicated_frames st' = ws_duplicated_frames st"
      "ws_unfilled_frames st' = sat64 (ws_unfilled_frames st + gap)"
      "ws_skipped_captures st' = ws_skipped_captures st" by blast
    have "worker_inv fps (frames + 1) e' st' returned"
      using st' out(1) written next_index tb elf efps sat64_small [of "ws_duplicated_frames st" 0]
        worker_inv_bounds [OF inv frames]
      by (intro worker_inv_write [OF inv frames, where inp = inp and lo = target and target = target
            and duplicates = 0 and unfilled = gap])
         (auto simp: gap_def sat_sub_def split: option.splits)
    then show ?thesis using st' worker_inv_timeline by auto
  qed
qed

section \<open>The worker\<close>

lemma set_paused_keeps:
  assumes "set_paused now failure paused e = (res, e')"
  shows "en_fps e' = en_fps e" "en_pushed e' = en_pushed e" "en_origin_ns e' = en_origin_ns e"
    "en_last_frame_index e' = en_last_frame_index e"
  using assms by (auto simp: set_paused_def Let_def split: if_splits option.splits)

definition frame_commands :: "encoder_command list \<Rightarrow> encode_frame list" where
  "frame_commands cmds = concat (map (\<lambda>c. case c of Frame f \<Rightarrow> [f] | _ \<Rightarrow> []) cmds)"

lemma frame_commands_simps [simp]:
  "frame_commands [] = []" "frame_commands (Frame f # cmds) = f # frame_commands cmds"
  "frame_commands (Pause p now failure # cmds) = frame_commands cmds"
  "frame_commands (FinishRecording # cmds) = frame_commands cmds"
  by (simp_all add: frame_commands_def)

text \<open>The commands the worker takes from its queue before it is told to finish.\<close>

definition until_finish :: "encoder_command list \<Rightarrow> encoder_command list" where
  "until_finish cmds = takeWhile (\<lambda>c. c \<noteq> FinishRecording) cmds"

lemma until_finish_simps [simp]:
  "until_finish [] = []" "until_finish (FinishRecording # cmds) = []"
  "until_finish (Frame f # cmds) = Frame f # until_finish cmds"
  "until_finish (Pause p now failure # cmds) = Pause p now failure # until_finish cmds"
  by (simp_all add: until_finish_def)

definition commands_in_range :: "encoder_command list \<Rightarrow> bool" where
  "commands_in_range cmds \<longleftrightarrow> (\<forall>f \<in> set (frame_commands cmds). ef_presentation_ns f \<le> u64_max)"

lemma commands_in_range_simps [simp]:
  "commands_in_range (Frame f # cmds) \<longleftrightarrow> ef_presentation_ns f \<le> u64_max \<and> commands_in_range cmds"
  "commands_in_range (Pause p now failure # cmds) \<longleftrightarrow> commands_in_range cmds"
  by (auto simp: commands_in_range_def)

lemma worker_loop_inv:
  assumes "worker_loop reject cmds e st returned = (res, e', returned')"
    and "worker_inv fps frames e st returned" "unat fps \<le> 480"
    and "commands_in_range cmds" "frames + length (frame_commands cmds) < 2 ^ 32"
  shows "on_timeline fps (en_pushed e')
    \<and> (\<forall>st'. res = Inr st' \<longrightarrow>
          worker_inv fps (frames + length (frame_commands (until_finish cmds))) e' st' returned')"
  using assms
proof (induction reject cmds e st returned arbitrary: frames rule: worker_loop.induct)
  case (1 reject e st returned)
  then show ?case by (auto dest: worker_inv_timeline)
next
  case (2 reject cmds e st returned)
  then show ?case by (auto dest: worker_inv_timeline)
next
  case (3 reject paused now failure cmds e st returned)
  obtain r1 e1 where p: "set_paused now failure paused e = (r1, e1)" by fastforce
  have inv: "worker_inv fps frames e1 st returned"
    using "3.prems"(2) set_paused_keeps [OF p] by (simp add: worker_inv_def split: option.splits)
  show ?case
  proof (cases r1)
    case (Inl err)
    then show ?thesis using "3.prems"(1) p inv worker_inv_timeline by auto
  next
    case (Inr u)
    then show ?thesis using "3.IH" [OF p [symmetric] Inr _ inv] "3.prems" p by simp
  qed
next
  case (4 reject inp cmds e st returned)
  let ?run = "if en_commit_paced e then commit_command reject inp e st else clock_command reject inp e st"
  obtain r1 e1 where r: "?run = (r1, e1)" by fastforce
  have f: "frames < 2 ^ 32" "ef_presentation_ns inp \<le> u64_max" using "4.prems" by auto
  have step: "on_timeline fps (en_pushed e1)
      \<and> (\<forall>st' slots. r1 = Inr (st', slots) \<longrightarrow> worker_inv fps (frames + 1) e1 st' (returned @ slots))"
    using r clock_step [OF "4.prems"(2) f(1,2) "4.prems"(3)] commit_step [OF "4.prems"(2) f(1,2) "4.prems"(3)]
    by (auto split: if_splits)
  show ?case
  proof (cases r1)
    case (Inl err)
    then show ?thesis using "4.prems"(1) r step by auto
  next
    case (Inr q)
    obtain st1 slots where q: "q = (st1, slots)" by fastforce
    have "worker_loop reject cmds e1 st1 (returned @ slots) = (res, e', returned')"
      using "4.prems"(1) r Inr q by simp
    from "4.IH" [OF r [symmetric] Inr q [symmetric] this, of "frames + 1"] step Inr q "4.prems"
    show ?thesis by auto
  qed
qed

lemma engine_parse_fps: "engine_parse args = Inr o' \<Longrightarrow> unat (eo_fps o') \<le> 480"
  by (auto simp: engine_parse_def bindR_eq_Inr word_le_nat_alt split: if_splits)

lemma run_encoder_worker_cases:
  assumes "run_encoder_worker reject env cmds e = (res, e', returned)"
  obtains r where "worker_loop reject cmds e worker_stats_default [] = (r, e', returned)"
    and "\<And>st. res = Inr st \<Longrightarrow> r = Inr st"
  using assms by (auto simp: run_encoder_worker_def split: prod.splits sum.splits)

lemma worker_run_inv:
  assumes "engine_parse args = Inr o'" "commands_in_range cmds" "length (frame_commands cmds) < 2 ^ 32"
    and "run_encoder_worker reject env cmds (encoder_new o') = (res, e', returned)"
  shows "on_timeline (eo_fps o') (en_pushed e')"
    and "res = Inr st \<Longrightarrow>
      worker_inv (eo_fps o') (length (frame_commands (until_finish cmds))) e' st returned"
proof -
  obtain r where "worker_loop reject cmds (encoder_new o') worker_stats_default [] = (r, e', returned)"
    and r: "\<And>st. res = Inr st \<Longrightarrow> r = Inr st"
    using run_encoder_worker_cases [OF assms(4)] by blast
  from worker_loop_inv [OF this(1) worker_inv_start engine_parse_fps [OF assms(1)] assms(2)] assms(3)
  show "on_timeline (eo_fps o') (en_pushed e')"
    and "res = Inr st \<Longrightarrow>
      worker_inv (eo_fps o') (length (frame_commands (until_finish cmds))) e' st returned"
    using r by auto
qed

text \<open>
  C23: whatever timestamps the compositor reports, early, late, repeated or backwards, the buffers
  the encoder receives have strictly increasing frame indices and no buffer starts before the one
  before it has ended; this holds for both pacings and also for a run that fails half way.
\<close>

theorem timeline_never_overlaps:
  assumes "engine_parse args = Inr o'" "commands_in_range cmds" "length (frame_commands cmds) < 2 ^ 32"
    and "run_encoder_worker reject env cmds (encoder_new o') = (res, e', returned)"
  shows "sorted_wrt (\<lambda>x y. pu_index x < pu_index y \<and> pu_pts x + pu_duration x \<le> pu_pts y)
           (en_pushed e')"
  using worker_run_inv(1) [OF assms] by (simp add: on_timeline_def follows_def [abs_def])

text \<open>
  The statistics of a finished recording account for everything. The frames encoded are the
  buffers pushed; together with the slots left unfilled they are all the slots up to the last
  buffer; every captured frame was written once or skipped, the other buffers are duplicates; and
  exactly the skipped frames gave their capture slot back at once.
\<close>

lemma frames_are_accounted:
  assumes "engine_parse args = Inr o'" "commands_in_range cmds" "length (frame_commands cmds) < 2 ^ 32"
    and "run_encoder_worker reject env cmds (encoder_new o') = (Inr st, e', returned)"
  shows "ws_encoded_frames st = length (en_pushed e')
    \<and> (if en_pushed e' = [] then ws_unfilled_frames st = 0
       else ws_encoded_frames st + ws_unfilled_frames st = pu_index (last (en_pushed e')) + 1)
    \<and> length (frame_commands (until_finish cmds)) + ws_duplicated_frames st
        = ws_skipped_captures st + ws_encoded_frames st
    \<and> ws_skipped_captures st = length returned"
  using worker_run_inv(2) [OF assms refl] by (auto simp: worker_inv_def split: option.splits)

section \<open>Stopping while paused\<close>

lemma worker_loop_append:
  assumes "worker_loop reject pre e st ret = (Inr st', e', ret')" "FinishRecording \<notin> set pre"
  shows "worker_loop reject (pre @ cmds) e st ret = worker_loop reject cmds e' st' ret'"
  using assms
  by (induction reject pre e st ret rule: worker_loop.induct) (auto split: prod.splits sum.splits)

lemma stop_while_paused:
  assumes "worker_loop reject pre e st [] = (Inr st', e', ret)" "FinishRecording \<notin> set pre"
    and "en_paused_at e' = None"
  shows "worker_loop reject (pre @ [Pause True now None, FinishRecording]) e st []
    = (Inr st', e'\<lparr>en_paused_at := Some now\<rparr>, ret)"
  using assms by (simp add: worker_loop_append set_paused_def)

section \<open>The pool of capture slots\<close>

definition sent_slots :: "encoder_command list \<Rightarrow> nat list" where
  "sent_slots cmds = map ef_slot (frame_commands cmds)"

lemma sent_slots_append [simp]: "sent_slots (a @ b) = sent_slots a @ sent_slots b"
  by (simp add: sent_slots_def frame_commands_def)

lemma sent_slots_simps [simp]:
  "sent_slots [] = []" "sent_slots (Frame f # cs) = ef_slot f # sent_slots cs"
  "sent_slots (Pause p now failure # cs) = sent_slots cs"
  by (simp_all add: sent_slots_def)

text \<open>A turn reads the returned slots only if it is not paused after the pending commands.\<close>

definition received :: "turn_env \<Rightarrow> run_state \<Rightarrow> nat list" where
  "received env rs =
     (if rs_paused rs = snd (drain_commands (te_commands env)) then te_released env else [])"

text \<open>
  The states of the loop, with the slots the encoder holds: a slot comes back only if the encoder
  held it, and no more often than it was handed over.
\<close>

inductive recording :: "capture_state \<Rightarrow> run_state \<Rightarrow> nat multiset \<Rightarrow> bool" for s where
  start: "recording s (recording_start s) {#}"
| turn: "recording s rs held \<Longrightarrow> recording_turn env rs = Continue rs' \<Longrightarrow>
    mset (received env rs) \<subseteq># held \<Longrightarrow>
    sent = drop (length (rs_sent rs)) (rs_sent rs') \<Longrightarrow>
    recording s rs' (held - mset (received env rs) + mset (sent_slots sent))"

lemma capture_turn_Continue:
  assumes "capture_turn env slot rs = Continue rs'"
  shows "rs_available rs' = rs_available rs
    \<and> (\<exists>new. rs_sent rs' = rs_sent rs @ new \<and> sent_slots new = [slot])"
  using assms
  by (auto simp: capture_turn_def Let_def split: capture_wait.splits option.splits if_splits)

lemma mset_uncons: "xs @ ys = z # zs \<Longrightarrow> add_mset z (mset zs) = mset xs + mset ys"
  by (metis mset.simps(2) mset_append)

lemma recording_turn_pool:
  assumes "recording_turn env rs = Continue rs'"
  shows "mset (rs_available rs') + mset (sent_slots (drop (length (rs_sent rs)) (rs_sent rs')))
    = mset (rs_available rs) + mset (received env rs)"
proof -
  obtain stop toggle where d: "drain_commands (te_commands env) = (stop, toggle)" by fastforce
  show ?thesis
    using assms
    by (auto simp: recording_turn_def d received_def Let_def split: if_splits paused_wait.splits
        list.splits dest!: capture_turn_Continue dest: mset_uncons)
qed

lemma recording_pool:
  "recording s rs held \<Longrightarrow> mset (rs_available rs) + held = mset [0..<CAPTURE_BUFFER_POOL_SIZE]"
proof (induction rule: recording.induct)
  case start
  then show ?case by (simp add: recording_start_def)
next
  case (turn rs held env rs' sent)
  let ?R = "mset (received env rs)"
  have "mset (rs_available rs') + (held - ?R + mset (sent_slots sent))
      = (mset (rs_available rs') + mset (sent_slots sent)) + (held - ?R)" by simp
  also have "\<dots> = mset (rs_available rs) + (?R + (held - ?R))"
    using recording_turn_pool [OF turn.hyps(2)] turn.hyps(4) by simp
  also have "\<dots> = mset (rs_available rs) + held" using turn.hyps(3) by simp
  finally show ?case using turn.IH by simp
qed

text \<open>
  C24: the pool never loses or duplicates a capture slot. As long as the encoder gives back only
  slots it holds, every one of the eight slots is either free or held by the encoder, never both,
  and the compositor is only ever asked to capture into a slot no encoder buffer refers to.
\<close>

theorem capture_slot_is_free:
  assumes "recording s rs held"
  shows "mset (rs_available rs) + held = mset [0..<CAPTURE_BUFFER_POOL_SIZE]
    \<and> distinct (rs_available rs) \<and> (\<forall>slot \<in> set (rs_available rs). slot \<notin># held)"
proof -
  obtain hs where hs: "mset hs = held" by (metis ex_mset)
  have "mset (rs_available rs @ hs) = mset [0..<CAPTURE_BUFFER_POOL_SIZE]"
    using recording_pool [OF assms] hs by simp
  hence "distinct (rs_available rs @ hs)" by (metis distinct_upt mset_eq_imp_distinct_iff)
  thus ?thesis using recording_pool [OF assms] hs by auto
qed

section \<open>The properties on a concrete recording\<close>

abbreviation sample_engine :: engine_options where
  "sample_engine \<equiv> engine_defaults\<lparr>eo_output := ''x'', eo_fps := 100\<rparr>"

abbreviation sample_stop :: stop_env where
  "sample_stop \<equiv> \<lparr>sp_video_eos = None, sp_audio = None, sp_bus = [StopEos], sp_null = None,
     sp_muxer = Some (Inr (True, []))\<rparr>"

text \<open>Three frames at 100 per second: the second three slots late, the third too early.\<close>

abbreviation sample_commands :: "encoder_command list" where
  "sample_commands \<equiv> [Frame \<lparr>ef_slot = 0, ef_presentation_ns = 5000000000\<rparr>,
     Frame \<lparr>ef_slot = 1, ef_presentation_ns = 5030000000\<rparr>,
     Frame \<lparr>ef_slot = 2, ef_presentation_ns = 5020000000\<rparr>, FinishRecording]"

lemma sample_parse: "engine_parse [''--output'', ''x'', ''--fps'', ''100''] = Inr sample_engine"
  by (simp add: engine_parse_def engine_option_def engine_defaults_def parse_word32_def
      parse_u32_def parse_uint_radix_def strip_plus_def to_digit_def bindR_def ok_or_def)

lemma sample_run:
  "\<exists>e'. run_encoder_worker (\<lambda>_. None) sample_stop sample_commands (encoder_new sample_engine)
     = (Inr \<lparr>ws_encoded_frames = 4, ws_duplicated_frames = 2, ws_unfilled_frames = 0,
             ws_skipped_captures = 1, ws_maximum_gap = 2\<rparr>, e', [2]) \<and> length (en_pushed e') = 4"
  by (simp add: run_encoder_worker_def encoder_new_def engine_defaults_def worker_stats_default_def
      clock_command_def push_latest_def elapsed_of_def sat_sub_def frame_index_at_def cfr_span_def
      push_one_def frame_times_def sat64_def sat128_def u64_max_def u128_max_def
      push_outcome_default_def encoder_stop_def bindR_def Let_def upt_rec)

theorem timeline_never_overlaps_witness:
  "\<exists>res e' returned. run_encoder_worker (\<lambda>_. None) sample_stop sample_commands
       (encoder_new sample_engine) = (res, e', returned) \<and> length (en_pushed e') = 4
     \<and> sorted_wrt (\<lambda>x y. pu_index x < pu_index y \<and> pu_pts x + pu_duration x \<le> pu_pts y)
         (en_pushed e')"
proof -
  obtain res e' returned where run: "run_encoder_worker (\<lambda>_. None) sample_stop sample_commands
      (encoder_new sample_engine) = (res, e', returned)" and len: "length (en_pushed e') = 4"
    using sample_run by blast
  have "commands_in_range sample_commands" "length (frame_commands sample_commands) < 2 ^ 32"
    by (simp_all add: commands_in_range_def u64_max_def)
  from timeline_never_overlaps [OF sample_parse this run] run len show ?thesis by blast
qed

abbreviation sample_turn :: turn_env where
  "sample_turn \<equiv> \<lparr>te_commands = [], te_wait = Timeout, te_released = [],
     te_dispatches = [Inr ([PresentationTime 0 1 5, FrameReady 0], [])], te_worker_gone = False,
     te_export = None, te_now = 0, te_state_change = None\<rparr>"

theorem capture_slot_is_free_witness:
  "\<exists>rs'. recording_turn sample_turn (recording_start (capture_state_default 1)) = Continue rs'
     \<and> mset (rs_available rs') + {#0#} = mset [0..<CAPTURE_BUFFER_POOL_SIZE]
     \<and> 0 \<notin> set (rs_available rs')"
proof -
  let ?rs = "recording_start (capture_state_default 1)"
  obtain rs' where run: "recording_turn sample_turn ?rs = Continue rs'"
    and sent: "sent_slots (drop (length (rs_sent ?rs)) (rs_sent rs')) = [0]"
    by (simp add: recording_turn_def drain_commands_def recording_start_def CAPTURE_BUFFER_POOL_SIZE_def
        capture_turn_def await_capture.simps capture_done_def capture_state_default_def capture_event_def
        upt_rec)
  have "recording (capture_state_default 1) rs'
      ({#} - mset (received sample_turn ?rs) + mset [0])"
    unfolding sent [symmetric]
    by (rule recording.turn [OF recording.start run]) (simp_all add: received_def)
  hence r: "recording (capture_state_default 1) rs' {#0#}" by simp
  show ?thesis using run capture_slot_is_free [OF r] by auto
qed

end
