(* ===== verification/Release.thy ===== *)
theory Release
  imports Prelude
begin

text \<open>
  \<open>BufferRelease\<close> of \<open>crates/recorder/src/main.rs\<close>: the atomics through which the worker and the
  finalizers of the encoder buffers agree who gives a capture slot back. Every atomic access is one
  step; any number of finalizers run beside the worker. The worker's store to \<open>retired\<close> is a
  release store, so on hardware with store buffers (x86 has them) it may stay pending while the
  worker already reads \<open>in_flight\<close>; the model has both machines.
\<close>

section \<open>The shared memory\<close>

record release_memory =
  in_flight :: nat
  retired :: bool
  returned :: bool
  sent :: nat

text \<open>\<open>maybe_return\<close>: the position of a thread inside it, and one access of it.\<close>

datatype check = LoadRetired | LoadInFlight | CompareExchange | SendSlot | Leave

fun maybe_return :: "bool \<Rightarrow> check \<Rightarrow> release_memory \<Rightarrow> check \<times> release_memory" where
  "maybe_return retired_seen LoadRetired m = (if retired_seen then LoadInFlight else Leave, m)"
| "maybe_return retired_seen LoadInFlight m =
     (if in_flight m = 0 then CompareExchange else Leave, m)"
| "maybe_return retired_seen CompareExchange m =
     (if returned m then (Leave, m) else (SendSlot, m\<lparr>returned := True\<rparr>))"
| "maybe_return retired_seen SendSlot m = (Leave, m\<lparr>sent := sent m + 1\<rparr>)"
| "maybe_return retired_seen Leave m = (Leave, m)"

section \<open>The threads\<close>

text \<open>
  The worker pushes a number of buffers (each retained before it is handed over) and then retires
  the release; a buffer lives until its last reference is gone, then its finalizer runs.
\<close>

datatype worker_pc = Pushing nat | Retiring check
datatype buffer_pc = Alive | Finalizing check

record release_system =
  memory :: release_memory
  worker :: worker_pc
  buffers :: "buffer_pc list"
  pending :: bool

definition release_new :: "nat \<Rightarrow> release_system" where
  "release_new pushes =
     \<lparr>memory = \<lparr>in_flight = 0, retired = False, returned = False, sent = 0\<rparr>,
      worker = Pushing pushes, buffers = [], pending = False\<rparr>"

definition retain :: "release_system \<Rightarrow> release_system" where
  "retain s = s\<lparr>memory := (memory s)\<lparr>in_flight := in_flight (memory s) + 1\<rparr>,
                buffers := buffers s @ [Alive]\<rparr>"

definition retire :: "bool \<Rightarrow> release_system \<Rightarrow> release_system" where
  "retire buffered s =
     (if buffered then s\<lparr>pending := True\<rparr> else s\<lparr>memory := (memory s)\<lparr>retired := True\<rparr>\<rparr>)
       \<lparr>worker := Retiring LoadRetired\<rparr>"

definition encoder_buffer_finalized :: "nat \<Rightarrow> release_system \<Rightarrow> release_system" where
  "encoder_buffer_finalized i s =
     s\<lparr>memory := (memory s)\<lparr>in_flight := in_flight (memory s) - 1\<rparr>,
       buffers := (buffers s)[i := Finalizing LoadRetired]\<rparr>"

text \<open>
  The worker sees its own pending store; an exchange waits until its stores have reached the
  memory.
\<close>

inductive release_step :: "bool \<Rightarrow> release_system \<Rightarrow> release_system \<Rightarrow> bool" for buffered where
  push: "worker s = Pushing (Suc n) \<Longrightarrow>
    release_step buffered s ((retain s)\<lparr>worker := Pushing n\<rparr>)"
| retire: "worker s = Pushing 0 \<Longrightarrow> release_step buffered s (retire buffered s)"
| drain: "pending s \<Longrightarrow>
    release_step buffered s (s\<lparr>pending := False, memory := (memory s)\<lparr>retired := True\<rparr>\<rparr>)"
| worker: "worker s = Retiring c \<Longrightarrow> c \<noteq> Leave \<Longrightarrow> c = CompareExchange \<longrightarrow> \<not> pending s \<Longrightarrow>
    maybe_return (retired (memory s) \<or> pending s) c (memory s) = (c', m) \<Longrightarrow>
    release_step buffered s (s\<lparr>worker := Retiring c', memory := m\<rparr>)"
| finalize: "i < length (buffers s) \<Longrightarrow> buffers s ! i = Alive \<Longrightarrow>
    release_step buffered s (encoder_buffer_finalized i s)"
| finalizer: "i < length (buffers s) \<Longrightarrow> buffers s ! i = Finalizing c \<Longrightarrow> c \<noteq> Leave \<Longrightarrow>
    maybe_return (retired (memory s)) c (memory s) = (c', m) \<Longrightarrow>
    release_step buffered s (s\<lparr>buffers := (buffers s)[i := Finalizing c'], memory := m\<rparr>)"

inductive release_run :: "bool \<Rightarrow> release_system \<Rightarrow> release_system \<Rightarrow> bool" for buffered where
  none: "release_run buffered s s"
| more: "release_run buffered s s' \<Longrightarrow> release_step buffered s' s'' \<Longrightarrow> release_run buffered s s''"

definition finished :: "release_system \<Rightarrow> bool" where
  "finished s \<longleftrightarrow> worker s = Retiring Leave \<and> \<not> pending s \<and> set (buffers s) \<subseteq> {Finalizing Leave}"

section \<open>Safety, on both machines\<close>

text \<open>How many threads are at a position of \<open>maybe_return\<close>; how many buffers are alive.\<close>

definition at_check :: "release_system \<Rightarrow> check \<Rightarrow> nat" where
  "at_check s c = (if worker s = Retiring c then 1 else 0) + count_list (buffers s) (Finalizing c)"

definition alive :: "release_system \<Rightarrow> nat" where
  "alive s = count_list (buffers s) Alive"

definition pushing :: "release_system \<Rightarrow> bool" where
  "pushing s \<longleftrightarrow> (case worker s of Pushing n \<Rightarrow> True | Retiring c \<Rightarrow> False)"

definition release_inv :: "release_system \<Rightarrow> bool" where
  "release_inv s \<longleftrightarrow>
     in_flight (memory s) = alive s
     \<and> (pushing s \<longrightarrow> \<not> retired (memory s) \<and> \<not> pending s \<and> \<not> returned (memory s)
          \<and> at_check s LoadInFlight + at_check s CompareExchange + at_check s SendSlot = 0)
     \<and> (0 < alive s \<longrightarrow> \<not> returned (memory s)
          \<and> at_check s CompareExchange + at_check s SendSlot = 0)
     \<and> sent (memory s) + at_check s SendSlot = (if returned (memory s) then 1 else 0)"

lemma count_list_update:
  "i < length xs \<Longrightarrow>
     count_list (xs[i := y]) a + (if xs ! i = a then 1 else 0)
     = count_list xs a + (if y = a then 1 else (0::nat))"
proof (induction xs arbitrary: i)
  case (Cons x xs)
  show ?case
  proof (cases i)
    case (Suc j)
    then show ?thesis using Cons.IH [of j] Cons.prems by auto
  qed (use Cons.prems in auto)
qed simp

lemma release_inv_start: "release_inv (release_new n)"
  by (simp add: release_inv_def release_new_def alive_def at_check_def)

lemma release_inv_step: "release_step buffered s s' \<Longrightarrow> release_inv s \<Longrightarrow> release_inv s'"
proof (induction rule: release_step.induct)
  case (push s n)
  then show ?case
    by (auto simp: release_inv_def retain_def alive_def at_check_def pushing_def)
next
  case (retire s)
  then show ?case
    by (auto simp: release_inv_def retire_def alive_def at_check_def pushing_def)
next
  case (drain s)
  then show ?case
    by (auto simp: release_inv_def alive_def at_check_def pushing_def)
next
  case (worker s c c' m)
  then show ?case
    by (cases c) (auto simp: release_inv_def alive_def at_check_def pushing_def split: if_splits)
next
  case (finalize i s)
  have u: "count_list ((buffers s)[i := Finalizing LoadRetired]) a + (if a = Alive then 1 else 0)
      = count_list (buffers s) a + (if a = Finalizing LoadRetired then 1 else 0)" for a
    using count_list_update [OF finalize.hyps(1), of "Finalizing LoadRetired" a] finalize.hyps(2) by auto
  show ?case
    using finalize.prems u [of Alive] u [of "Finalizing LoadInFlight"] u [of "Finalizing CompareExchange"]
      u [of "Finalizing SendSlot"]
    by (auto simp: release_inv_def encoder_buffer_finalized_def alive_def at_check_def pushing_def
        split: worker_pc.splits)
next
  case (finalizer i s c c' m)
  have u: "count_list ((buffers s)[i := Finalizing c']) a + (if a = Finalizing c then 1 else 0)
      = count_list (buffers s) a + (if a = Finalizing c' then 1 else 0)" for a
    using count_list_update [OF finalizer.hyps(1), of "Finalizing c'" a] finalizer.hyps(2) by auto
  show ?case
    using finalizer u [of Alive] u [of "Finalizing LoadInFlight"] u [of "Finalizing CompareExchange"]
      u [of "Finalizing SendSlot"]
    by (cases c) (auto simp: release_inv_def alive_def at_check_def pushing_def split: worker_pc.splits if_splits)
qed

lemma release_run_inv: "release_run buffered (release_new n) s \<Longrightarrow> release_inv s"
  by (induction "release_new n" s rule: release_run.induct) (auto intro: release_inv_start release_inv_step)

text \<open>Every buffer that is to be pushed is still to come or is in the list.\<close>

lemma release_run_buffers:
  "release_run buffered (release_new n) s \<Longrightarrow>
     length (buffers s) + (case worker s of Pushing k \<Rightarrow> k | Retiring c \<Rightarrow> 0) = n"
proof (induction "release_new n" s rule: release_run.induct)
  case none
  then show ?case by (simp add: release_new_def)
next
  case (more s' s'')
  then show ?case
    by (auto simp: retain_def retire_def encoder_buffer_finalized_def elim!: release_step.cases
        split: worker_pc.splits)
qed

lemma alive_zero: "alive s = 0 \<longleftrightarrow> Alive \<notin> set (buffers s)"
  by (simp add: alive_def count_list_0_iff)

text \<open>
  C25: a capture slot is given back at most once, and only after every buffer made from it has been
  pushed and its last reference is gone: no encoder ever reads a slot that is being captured into.
  This holds for every interleaving, with and without store buffers.
\<close>

theorem slot_returned_once_and_idle:
  assumes "release_run buffered (release_new n) s"
  shows "sent (memory s) \<le> 1
    \<and> (sent (memory s) = 1 \<longrightarrow> length (buffers s) = n \<and> Alive \<notin> set (buffers s))"
  using release_run_inv [OF assms] release_run_buffers [OF assms]
  by (auto simp: release_inv_def pushing_def alive_zero [symmetric] split: worker_pc.splits if_splits)

section \<open>Every run ends\<close>

fun check_weight :: "check \<Rightarrow> nat" where
  "check_weight LoadRetired = 4"
| "check_weight LoadInFlight = 3"
| "check_weight CompareExchange = 2"
| "check_weight SendSlot = 1"
| "check_weight Leave = 0"

definition steps_left :: "release_system \<Rightarrow> nat" where
  "steps_left s =
     (case worker s of Pushing k \<Rightarrow> 6 * k + 6 | Retiring c \<Rightarrow> check_weight c)
     + sum_list (map (\<lambda>b. case b of Alive \<Rightarrow> 5 | Finalizing c \<Rightarrow> check_weight c) (buffers s))
     + (if pending s then 1 else 0)"

lemma maybe_return_weight:
  "maybe_return seen c m = (c', m') \<Longrightarrow> c \<noteq> Leave \<Longrightarrow> check_weight c' < check_weight c"
  by (cases c) (auto split: if_splits)

lemma sum_list_update_less:
  "i < length xs \<Longrightarrow> f y < f (xs ! i) \<Longrightarrow>
     sum_list (map f (xs[i := y])) < sum_list (map (f :: 'a \<Rightarrow> nat) xs)"
proof (induction xs arbitrary: i)
  case (Cons x xs)
  then show ?case by (cases i) auto
qed simp

lemma release_step_decreases:
  "release_step buffered s s' \<Longrightarrow> steps_left s' < steps_left s"
  by (induction rule: release_step.induct)
     (auto simp: steps_left_def retain_def retire_def encoder_buffer_finalized_def
       dest: maybe_return_weight intro!: add_less_mono sum_list_update_less)

lemma release_progress:
  assumes "\<not> finished s"
  shows "\<exists>s'. release_step buffered s s'"
proof (cases "pending s")
  case True
  then show ?thesis using release_step.drain by blast
next
  case False
  consider n where "worker s = Pushing n" | c where "worker s = Retiring c" "c \<noteq> Leave"
    | i where "i < length (buffers s)" "buffers s ! i \<noteq> Finalizing Leave"
    using assms False by (cases "worker s") (auto simp: finished_def set_conv_nth)
  then show ?thesis
  proof cases
    case 1
    then show ?thesis using release_step.push release_step.retire by (cases n) blast+
  next
    case 2
    obtain c' m where "maybe_return (retired (memory s) \<or> pending s) c (memory s) = (c', m)" by fastforce
    then show ?thesis using 2 False release_step.worker by blast
  next
    case 3
    then show ?thesis
    proof (cases "buffers s ! i")
      case Alive
      then show ?thesis using 3 release_step.finalize by blast
    next
      case (Finalizing c)
      obtain c' m where "maybe_return (retired (memory s)) c (memory s) = (c', m)" by fastforce
      then show ?thesis using 3 Finalizing release_step.finalizer by blast
    qed
  qed
qed


section \<open>Nothing is lost when the memory is sequentially consistent\<close>

text \<open>
  While the slot is due, some thread is still on its way to give it back.
\<close>

definition owed_inv :: "release_system \<Rightarrow> bool" where
  "owed_inv s \<longleftrightarrow>
     \<not> pending s \<and> (\<not> pushing s \<longrightarrow> retired (memory s))
     \<and> (\<not> pushing s \<and> alive s = 0 \<and> \<not> returned (memory s) \<longrightarrow>
          0 < at_check s LoadRetired + at_check s LoadInFlight + at_check s CompareExchange)"

lemma owed_inv_step:
  "release_step False s s' \<Longrightarrow> release_inv s \<Longrightarrow> owed_inv s \<Longrightarrow> owed_inv s'"
proof (induction rule: release_step.induct)
  case (push s n)
  then show ?case by (auto simp: owed_inv_def retain_def alive_def at_check_def pushing_def)
next
  case (retire s)
  then show ?case by (auto simp: owed_inv_def retire_def alive_def at_check_def pushing_def)
next
  case (drain s)
  then show ?case by (auto simp: owed_inv_def)
next
  case (worker s c c' m)
  then show ?case
    by (cases c) (auto simp: owed_inv_def release_inv_def alive_def at_check_def pushing_def
        split: if_splits)
next
  case (finalize i s)
  then show ?case
    using count_list_update [OF finalize.hyps(1), of "Finalizing LoadRetired" "Finalizing LoadRetired"]
    by (auto simp: owed_inv_def encoder_buffer_finalized_def at_check_def pushing_def)
next
  case (finalizer i s c c' m)
  have u: "count_list ((buffers s)[i := Finalizing c']) a + (if a = Finalizing c then 1 else 0)
      = count_list (buffers s) a + (if a = Finalizing c' then 1 else 0)" for a
    using count_list_update [OF finalizer.hyps(1), of "Finalizing c'" a] finalizer.hyps(2) by auto
  show ?case
    using finalizer u [of Alive] u [of "Finalizing LoadRetired"] u [of "Finalizing LoadInFlight"]
      u [of "Finalizing CompareExchange"]
    by (cases c) (auto simp: owed_inv_def release_inv_def alive_def at_check_def pushing_def
        split: worker_pc.splits if_splits)
qed

lemma owed_inv_run: "release_run False (release_new n) s \<Longrightarrow> owed_inv s"
proof (induction "release_new n" s rule: release_run.induct)
  case none
  then show ?case by (simp add: owed_inv_def release_new_def pushing_def)
next
  case (more s' s'')
  then show ?case using owed_inv_step release_run_inv by blast
qed

lemma finished_positions:
  assumes "finished s"
  shows "c \<noteq> Leave \<Longrightarrow> at_check s c = 0" "alive s = 0" "\<not> pushing s"
  using assms by (auto simp: finished_def at_check_def alive_def pushing_def count_list_0_iff)


section \<open>A slot is lost when the store is buffered\<close>

text \<open>
  On a machine that delays the store to \<open>retired\<close> behind the load of \<open>in_flight\<close>, as x86
  does for the orderings the code asks for, a slot can be lost for good: the worker reads a buffer
  still in flight and leaves, the finalizer of that buffer reads \<open>retired\<close> as false and leaves too,
  and nobody gives the slot back. Eight such losses stop the recording.
\<close>

lemma slot_lost_with_store_buffer:
  "\<exists>s. release_run True (release_new 1) s \<and> finished s \<and> sent (memory s) = 0"
proof -
  let ?m = "\<lambda>k r. \<lparr>in_flight = k, retired = r, returned = False, sent = 0\<rparr>"
  let ?s = "\<lambda>k r w bs p. \<lparr>memory = ?m k r, worker = w, buffers = bs, pending = p\<rparr>"
  note run = release_run.more
  have "release_run True (release_new 1) (?s 0 False (Pushing 1) [] False)"
    using release_run.none by (simp add: release_new_def)
  from run [OF this release_step.push [of _ 0]]
  have "release_run True (release_new 1) (?s 1 False (Pushing 0) [Alive] False)"
    by (simp add: retain_def)
  from run [OF this release_step.retire]
  have "release_run True (release_new 1) (?s 1 False (Retiring LoadRetired) [Alive] True)"
    by (simp add: retire_def)
  from run [OF this release_step.worker [of _ LoadRetired LoadInFlight "?m 1 False"]]
  have "release_run True (release_new 1) (?s 1 False (Retiring LoadInFlight) [Alive] True)"
    by simp
  from run [OF this release_step.worker [of _ LoadInFlight Leave "?m 1 False"]]
  have "release_run True (release_new 1) (?s 1 False (Retiring Leave) [Alive] True)"
    by simp
  from run [OF this release_step.finalize [of 0]]
  have "release_run True (release_new 1)
      (?s 0 False (Retiring Leave) [Finalizing LoadRetired] True)"
    by (simp add: encoder_buffer_finalized_def)
  from run [OF this release_step.finalizer [of 0 _ LoadRetired Leave "?m 0 False"]]
  have "release_run True (release_new 1) (?s 0 False (Retiring Leave) [Finalizing Leave] True)"
    by simp
  from run [OF this release_step.drain]
  have "release_run True (release_new 1) (?s 0 True (Retiring Leave) [Finalizing Leave] False)"
    by simp
  thus ?thesis by (intro exI conjI) (assumption, simp_all add: finished_def)
qed

section \<open>The properties on a concrete run\<close>

abbreviation returned_once :: release_system where
  "returned_once \<equiv> \<lparr>memory = \<lparr>in_flight = 0, retired = True, returned = True, sent = 1\<rparr>,
     worker = Retiring Leave, buffers = [Finalizing Leave], pending = False\<rparr>"

lemma sample_release: "release_run False (release_new 1) returned_once"
proof -
  let ?m = "\<lambda>k r d n. \<lparr>in_flight = k, retired = r, returned = d, sent = n\<rparr>"
  let ?s = "\<lambda>m w bs. \<lparr>memory = m, worker = w, buffers = bs, pending = False\<rparr>"
  note run = release_run.more
  have "release_run False (release_new 1) (?s (?m 0 False False 0) (Pushing 1) [])"
    using release_run.none by (simp add: release_new_def)
  from run [OF this release_step.push [of _ 0]]
  have "release_run False (release_new 1) (?s (?m 1 False False 0) (Pushing 0) [Alive])"
    by (simp add: retain_def)
  from run [OF this release_step.retire]
  have "release_run False (release_new 1) (?s (?m 1 True False 0) (Retiring LoadRetired) [Alive])"
    by (simp add: retire_def)
  from run [OF this release_step.worker [of _ LoadRetired LoadInFlight "?m 1 True False 0"]]
  have "release_run False (release_new 1) (?s (?m 1 True False 0) (Retiring LoadInFlight) [Alive])"
    by simp
  from run [OF this release_step.worker [of _ LoadInFlight Leave "?m 1 True False 0"]]
  have "release_run False (release_new 1) (?s (?m 1 True False 0) (Retiring Leave) [Alive])"
    by simp
  from run [OF this release_step.finalize [of 0]]
  have "release_run False (release_new 1)
      (?s (?m 0 True False 0) (Retiring Leave) [Finalizing LoadRetired])"
    by (simp add: encoder_buffer_finalized_def)
  from run [OF this release_step.finalizer [of 0 _ LoadRetired LoadInFlight "?m 0 True False 0"]]
  have "release_run False (release_new 1)
      (?s (?m 0 True False 0) (Retiring Leave) [Finalizing LoadInFlight])" by simp
  from run [OF this release_step.finalizer [of 0 _ LoadInFlight CompareExchange "?m 0 True False 0"]]
  have "release_run False (release_new 1)
      (?s (?m 0 True False 0) (Retiring Leave) [Finalizing CompareExchange])" by simp
  from run [OF this release_step.finalizer [of 0 _ CompareExchange SendSlot "?m 0 True True 0"]]
  have "release_run False (release_new 1)
      (?s (?m 0 True True 0) (Retiring Leave) [Finalizing SendSlot])" by simp
  from run [OF this release_step.finalizer [of 0 _ SendSlot Leave "?m 0 True True 1"]]
  show ?thesis by simp
qed

theorem slot_returned_once_and_idle_witness:
  "sent (memory returned_once) = 1 \<and> length (buffers returned_once) = 1
     \<and> Alive \<notin> set (buffers returned_once)"
  using slot_returned_once_and_idle [OF sample_release] by simp


end
