(* ===== verification/Lock.thy ===== *)
theory Lock
  imports RecController CoreLayout
begin

text \<open>
  The session lock, \<open>crates/compositor/src/lock.rs\<close>, with the parts of the compositor's state its
  handlers touch: the recorder controller, the capture boost of \<open>state.rs\<close>, the seat. An output is
  a number; Smithay's lock surfaces and lockers are numbers too; the logical size of an output is
  an input. Configure events sent to lock surfaces are kept in a list.
\<close>

section \<open>The capture boost\<close>

datatype capture_source = OutputSource | WindowSource nat | RegionSource rect

record capture_boost =
  cb_timer :: "nat option" \<comment> \<open>the interval's frame rate, while the timer is registered\<close>
  cb_fps :: "nat option"
  cb_session_pending :: bool
  cb_override :: capture_source
  cb_commit_driven :: bool

definition start_capture_boost :: "str option \<Rightarrow> nat \<Rightarrow> capture_boost \<Rightarrow> (unit, str) result \<times> capture_boost" where
  "start_capture_boost failure fps cb =
     (let fps' = max 30 (min fps 480)
      in case failure of
           Some e \<Rightarrow> (Inl e, cb\<lparr>cb_timer := None\<rparr>)
         | None \<Rightarrow> (Inr (), cb\<lparr>cb_timer := Some fps', cb_fps := Some fps', cb_session_pending := True\<rparr>))"

definition stop_capture_boost :: "capture_boost \<Rightarrow> capture_boost" where
  "stop_capture_boost cb =
     cb\<lparr>cb_timer := None, cb_fps := None, cb_session_pending := False, cb_override := OutputSource,
        cb_commit_driven := False\<rparr>"

section \<open>State\<close>

record lock_output =
  lo_locked :: bool
  lo_surface :: "nat option"
  lo_lock_surface :: "nat option"
  lo_configured_size :: "(int \<times> int) option"
  lo_generation :: u64
  lo_presentations :: u8

definition lock_output_default :: lock_output where
  "lock_output_default =
     \<lparr>lo_locked = False, lo_surface = None, lo_lock_surface = None, lo_configured_size = None,
      lo_generation = 0, lo_presentations = 0\<rparr>"

definition record_presented :: "u64 \<Rightarrow> lock_output \<Rightarrow> bool \<times> lock_output" where
  "record_presented generation lo =
     (if \<not> lo_locked lo \<or> lo_generation lo \<noteq> generation then (False, lo)
      else (let n = (if lo_presentations lo = 255 then 255 else lo_presentations lo + 1)
            in (n < 2, lo\<lparr>lo_presentations := n\<rparr>)))"

definition ready :: "u64 \<Rightarrow> lock_output \<Rightarrow> bool" where
  "ready generation lo \<longleftrightarrow> lo_locked lo \<and> lo_generation lo = generation \<and> 2 \<le> lo_presentations lo"

record lock_state =
  ls_locked :: bool
  ls_generation :: u64
  ls_confirmation :: "nat option"

datatype keyboard_focus = LockFocus nat | ClientFocus nat

text \<open>A tablet tool: whether it is grabbed, and whether it is near a tablet.\<close>

record seat =
  se_keyboard_grab :: bool
  se_focus :: "keyboard_focus option"
  se_pressed_keys :: "nat list"
  se_suppressed_keys :: "nat list"
  se_super_tap_pending :: bool
  se_super_tap_used :: bool
  se_pointer_grab :: bool
  se_pointer_focus :: "nat option"
  se_touch_grab :: bool
  se_touch_points :: "nat list"
  se_tools :: "(bool \<times> bool) list"
  se_dnd_icon :: "nat option"
  se_cursor :: "nat option" \<comment> \<open>the image a client set, if any\<close>

record anvil =
  an_supports_lock :: bool
  an_active :: bool
  an_lock :: lock_state
  an_outputs :: "nat list"
  an_lock_outputs :: "nat \<Rightarrow> lock_output option"
  an_recorder :: controller
  an_boost :: capture_boost
  an_capture_sessions :: "nat list"
  an_seat :: seat
  an_redraw :: bool
  an_confirmed :: "nat list"
  an_configures :: "(nat \<times> int \<times> int) list"
  an_effects :: "effect list"

section \<open>The handlers\<close>

text \<open>
  \<open>configure_surface\<close>: \<open>size\<close> is the output's logical size, \<open>alive\<close> whether a lock surface lives.
\<close>

definition configure_surface ::
  "(nat \<Rightarrow> (int \<times> int) option) \<Rightarrow> (nat \<Rightarrow> bool) \<Rightarrow> nat \<Rightarrow> anvil \<Rightarrow> anvil" where
  "configure_surface extent alive output' a =
     (case extent output' of
        None \<Rightarrow> a
      | Some sz \<Rightarrow>
          (case an_lock_outputs a output' of
             None \<Rightarrow> a
           | Some lo \<Rightarrow>
               if \<not> lo_locked lo \<or> lo_configured_size lo = Some sz then a
               else (case lo_lock_surface lo of
                       None \<Rightarrow> a
                     | Some surface \<Rightarrow>
                         if \<not> alive surface then a
                         else a\<lparr>an_lock_outputs := (an_lock_outputs a)
                                  (output' \<mapsto> lo\<lparr>lo_configured_size := Some sz\<rparr>),
                                an_configures := an_configures a @ [(surface, sz)]\<rparr>)))"

text \<open>The end of every input sequence a client takes part in.\<close>

definition release_input :: "seat \<Rightarrow> seat" where
  "release_input s =
     s\<lparr>se_keyboard_grab := False, se_focus := None, se_pressed_keys := [], se_suppressed_keys := [],
       se_super_tap_pending := False, se_super_tap_used := False,
       se_pointer_grab := False, se_pointer_focus := None,
       se_touch_grab := False, se_touch_points := [],
       se_tools := map (\<lambda>_. (False, False)) (se_tools s),
       se_dnd_icon := None, se_cursor := None\<rparr>"

definition lock :: "kill_result \<Rightarrow> nat \<Rightarrow> anvil \<Rightarrow> anvil" where
  "lock kr locker a =
     (if \<not> an_supports_lock a \<or> ls_locked (an_lock a) \<or> \<not> an_active a then a
      else
        (let (recorder, effects) =
               (if is_running (an_recorder a)
                then (case abort kr ''recording stopped because the session locked'' (an_recorder a) of
                        (_, r, es) \<Rightarrow> (r, es))
                else (an_recorder a, []));
             generation = ls_generation (an_lock a) + 1;
             fresh = lock_output_default\<lparr>lo_locked := True, lo_generation := generation\<rparr>
         in a\<lparr>an_lock := \<lparr>ls_locked = True, ls_generation = generation, ls_confirmation = Some locker\<rparr>,
              an_boost := stop_capture_boost (an_boost a),
              an_recorder := recorder, an_effects := an_effects a @ effects,
              an_capture_sessions := [],
              an_seat := release_input (an_seat a),
              an_lock_outputs := (\<lambda>o'. if o' \<in> set (an_outputs a) then Some fresh
                                       else an_lock_outputs a o'),
              an_redraw := True\<rparr>))"

definition unlock :: "anvil \<Rightarrow> anvil" where
  "unlock a =
     a\<lparr>an_lock := (an_lock a)\<lparr>ls_locked := False, ls_confirmation := None\<rparr>,
       an_lock_outputs := (\<lambda>o'. if o' \<in> set (an_outputs a)
                                then map_option (\<lambda>_. lock_output_default) (an_lock_outputs a o')
                                else an_lock_outputs a o'),
       an_redraw := True\<rparr>"

definition new_surface ::
  "(nat \<Rightarrow> (int \<times> int) option) \<Rightarrow> (nat \<Rightarrow> bool) \<Rightarrow> nat \<Rightarrow> nat \<Rightarrow> anvil \<Rightarrow> anvil" where
  "new_surface extent alive surface output' a =
     (let lo = (case an_lock_outputs a output' of None \<Rightarrow> lock_output_default | Some lo \<Rightarrow> lo);
          lo' = lo\<lparr>lo_locked := True, lo_generation := ls_generation (an_lock a),
                   lo_surface := Some surface, lo_lock_surface := Some surface,
                   lo_configured_size := None\<rparr>;
          a' = configure_surface extent alive output'
                 (a\<lparr>an_lock_outputs := (an_lock_outputs a)(output' \<mapsto> lo')\<rparr>)
      in a'\<lparr>an_seat := (an_seat a')\<lparr>se_focus := Some (LockFocus surface)\<rparr>, an_redraw := True\<rparr>)"

definition lock_presented :: "nat \<Rightarrow> u64 \<Rightarrow> anvil \<Rightarrow> anvil" where
  "lock_presented output' generation a =
     (if \<not> ls_locked (an_lock a) \<or> ls_generation (an_lock a) \<noteq> generation then a
      else
        (let a1 = (case an_lock_outputs a output' of
                     None \<Rightarrow> a
                   | Some lo \<Rightarrow>
                       (let (again, lo') = record_presented generation lo
                        in a\<lparr>an_lock_outputs := (an_lock_outputs a)(output' \<mapsto> lo'),
                             an_redraw := an_redraw a \<or> again\<rparr>))
         in if list_all (\<lambda>o'. case an_lock_outputs a1 o' of None \<Rightarrow> False
                                 | Some lo \<Rightarrow> ready generation lo) (an_outputs a1)
            then (case ls_confirmation (an_lock a1) of
                    None \<Rightarrow> a1
                  | Some locker \<Rightarrow>
                      a1\<lparr>an_lock := (an_lock a1)\<lparr>ls_confirmation := None\<rparr>,
                         an_confirmed := an_confirmed a1 @ [locker]\<rparr>)
            else a1))"

text \<open>
  Outputs come and go (\<open>connector_connected\<close> and \<open>connector_disconnected\<close> of \<open>udev.rs\<close>): every
  connected output is a new object, locked at once when the session is.
\<close>

definition add_output :: "nat \<Rightarrow> anvil \<Rightarrow> anvil" where
  "add_output output' a =
     a\<lparr>an_outputs := an_outputs a @ [output'],
       an_lock_outputs := (an_lock_outputs a)
         (output' := if ls_locked (an_lock a)
                     then Some (lock_output_default\<lparr>lo_locked := True,
                                  lo_generation := ls_generation (an_lock a)\<rparr>)
                     else None)\<rparr>"

definition remove_output :: "nat \<Rightarrow> anvil \<Rightarrow> anvil" where
  "remove_output output' a = a\<lparr>an_outputs := filter (\<lambda>o'. o' \<noteq> output') (an_outputs a)\<rparr>"

text \<open>
  While the session is locked \<open>focus.rs\<close> passes input only to lock surfaces: keyboard events to the
  focus that is one, pointer events to a surface some output shows as its lock surface.
\<close>

datatype pointer_target = SurfaceTarget nat | X11Target nat | DecorationTarget

definition allowed_while_locked :: "anvil \<Rightarrow> pointer_target \<Rightarrow> bool" where
  "allowed_while_locked a target \<longleftrightarrow>
     \<not> ls_locked (an_lock a)
     \<or> (case target of
          SurfaceTarget surface \<Rightarrow>
            list_ex (\<lambda>o'. case an_lock_outputs a o' of None \<Rightarrow> False
                              | Some lo \<Rightarrow> lo_surface lo = Some surface) (an_outputs a)
        | _ \<Rightarrow> False)"

definition keyboard_delivers :: "anvil \<Rightarrow> keyboard_focus \<Rightarrow> bool" where
  "keyboard_delivers a focus \<longleftrightarrow>
     \<not> (ls_locked (an_lock a) \<and> (case focus of LockFocus _ \<Rightarrow> False | ClientFocus _ \<Rightarrow> True))"

section \<open>The lock over time\<close>

datatype lock_event =
    LockRequest kill_result nat
  | UnlockRequest
  | NewSurface nat nat
  | Presented nat u64
  | OutputAdded nat
  | OutputRemoved nat

definition lock_step ::
  "(nat \<Rightarrow> (int \<times> int) option) \<Rightarrow> (nat \<Rightarrow> bool) \<Rightarrow> lock_event \<Rightarrow> anvil \<Rightarrow> anvil" where
  "lock_step extent alive ev a =
     (case ev of
        LockRequest kr locker \<Rightarrow> lock kr locker a
      | UnlockRequest \<Rightarrow> unlock a
      | NewSurface surface output' \<Rightarrow> new_surface extent alive surface output' a
      | Presented output' generation \<Rightarrow> lock_presented output' generation a
      | OutputAdded output' \<Rightarrow> if output' \<in> set (an_outputs a) then a else add_output output' a
      | OutputRemoved output' \<Rightarrow> remove_output output' a)"

text \<open>
  How often each output has presented a frame of the current lock since it was granted (or since
  the output was connected).
\<close>

definition shown_step :: "lock_event \<Rightarrow> anvil \<Rightarrow> (nat \<Rightarrow> nat) \<Rightarrow> nat \<Rightarrow> nat" where
  "shown_step ev a shown =
     (case ev of
        LockRequest kr locker \<Rightarrow>
          if an_supports_lock a \<and> \<not> ls_locked (an_lock a) \<and> an_active a then (\<lambda>_. 0) else shown
      | Presented output' generation \<Rightarrow>
          if generation = ls_generation (an_lock a)
          then shown(output' := shown output' + 1) else shown
      | OutputAdded output' \<Rightarrow> if output' \<in> set (an_outputs a) then shown else shown(output' := 0)
      | _ \<Rightarrow> shown)"

fun lock_run ::
  "(nat \<Rightarrow> (int \<times> int) option) \<Rightarrow> (nat \<Rightarrow> bool) \<Rightarrow> lock_event list \<Rightarrow> anvil \<Rightarrow> (nat \<Rightarrow> nat)
     \<Rightarrow> anvil \<times> (nat \<Rightarrow> nat)" where
  "lock_run extent alive [] a shown = (a, shown)"
| "lock_run extent alive (ev # evs) a shown =
     lock_run extent alive evs (lock_step extent alive ev a) (shown_step ev a shown)"

definition lock_inv :: "anvil \<Rightarrow> (nat \<Rightarrow> nat) \<Rightarrow> bool" where
  "lock_inv a shown \<longleftrightarrow>
     (ls_locked (an_lock a) \<longrightarrow>
       (\<forall>o' \<in> set (an_outputs a). \<exists>lo. an_lock_outputs a o' = Some lo \<and> lo_locked lo
          \<and> lo_generation lo = ls_generation (an_lock a) \<and> unat (lo_presentations lo) \<le> shown o')
       \<and> an_capture_sessions a = [] \<and> \<not> is_running (an_recorder a) \<and> cb_timer (an_boost a) = None
       \<and> (\<forall>c. se_focus (an_seat a) \<noteq> Some (ClientFocus c)))"

lemma configure_surface_keeps:
  "an_lock (configure_surface extent alive o' a) = an_lock a"
  "an_outputs (configure_surface extent alive o' a) = an_outputs a"
  "an_capture_sessions (configure_surface extent alive o' a) = an_capture_sessions a"
  "an_recorder (configure_surface extent alive o' a) = an_recorder a"
  "an_boost (configure_surface extent alive o' a) = an_boost a"
  "an_seat (configure_surface extent alive o' a) = an_seat a"
  "an_confirmed (configure_surface extent alive o' a) = an_confirmed a"
  by (simp_all add: configure_surface_def split: option.splits)

lemma configure_surface_outputs:
  "an_lock_outputs (configure_surface extent alive o' a) x = Some lo \<Longrightarrow>
     \<exists>lo0. an_lock_outputs a x = Some lo0 \<and> lo_locked lo = lo_locked lo0
       \<and> lo_generation lo = lo_generation lo0 \<and> lo_presentations lo = lo_presentations lo0
       \<and> lo_surface lo = lo_surface lo0"
  "an_lock_outputs a x = Some lo0 \<Longrightarrow>
     \<exists>lo. an_lock_outputs (configure_surface extent alive o' a) x = Some lo \<and> lo_locked lo = lo_locked lo0
       \<and> lo_generation lo = lo_generation lo0 \<and> lo_presentations lo = lo_presentations lo0
       \<and> lo_surface lo = lo_surface lo0"
  by (auto simp: configure_surface_def split: option.splits if_splits)

lemma lock_inv_output:
  assumes "lock_inv a shown" "ls_locked (an_lock a)" "x \<in> set (an_outputs a)"
  shows "\<exists>lo. an_lock_outputs a x = Some lo \<and> lo_locked lo
    \<and> lo_generation lo = ls_generation (an_lock a) \<and> unat (lo_presentations lo) \<le> shown x"
  using assms unfolding lock_inv_def by blast

lemma configure_surface_inv:
  assumes "lock_inv a shown"
  shows "lock_inv (configure_surface extent alive o' a) shown"
proof -
  have "\<exists>lo. an_lock_outputs (configure_surface extent alive o' a) x = Some lo \<and> lo_locked lo
      \<and> lo_generation lo = ls_generation (an_lock a) \<and> unat (lo_presentations lo) \<le> shown x"
    if "ls_locked (an_lock a)" "x \<in> set (an_outputs a)" for x
  proof -
    note x = that
    obtain lo0 where lo0: "an_lock_outputs a x = Some lo0" "lo_locked lo0"
        "lo_generation lo0 = ls_generation (an_lock a)" "unat (lo_presentations lo0) \<le> shown x"
      using lock_inv_output [OF assms x] by blast
    from configure_surface_outputs(2) [OF lo0(1), of extent alive o'] lo0(2-4) show ?thesis by auto
  qed
  with assms show ?thesis by (simp add: lock_inv_def configure_surface_keeps)
qed

lemma abort_stops: "abort kr reason c = (r, c', es) \<Longrightarrow> \<not> is_running c'"
  by (auto simp: abort_def is_running_def)

lemma record_presented_facts:
  assumes "record_presented g lo = (again, lo')"
  shows "lo_locked lo' = lo_locked lo" "lo_generation lo' = lo_generation lo"
    "lo_surface lo' = lo_surface lo"
    "unat (lo_presentations lo') \<le> unat (lo_presentations lo) + 1"
  using assms unat_plus_simple [of "lo_presentations lo" 1]
  by (auto simp: record_presented_def Let_def unat_word_ariths split: if_splits)

text \<open>Recording the frame, before the confirmation is decided.\<close>

definition note_presented :: "nat \<Rightarrow> u64 \<Rightarrow> anvil \<Rightarrow> anvil" where
  "note_presented output' generation a =
     (case an_lock_outputs a output' of
        None \<Rightarrow> a
      | Some lo \<Rightarrow>
          a\<lparr>an_lock_outputs := (an_lock_outputs a)(output' \<mapsto> snd (record_presented generation lo)),
            an_redraw := an_redraw a \<or> fst (record_presented generation lo)\<rparr>)"

lemma lock_presented_eq:
  "lock_presented output' generation a =
     (if \<not> ls_locked (an_lock a) \<or> ls_generation (an_lock a) \<noteq> generation then a
      else (let a1 = note_presented output' generation a
            in if list_all (\<lambda>o'. case an_lock_outputs a1 o' of None \<Rightarrow> False
                                    | Some lo \<Rightarrow> ready generation lo) (an_outputs a1)
               then (case ls_confirmation (an_lock a1) of
                       None \<Rightarrow> a1
                     | Some locker \<Rightarrow>
                         a1\<lparr>an_lock := (an_lock a1)\<lparr>ls_confirmation := None\<rparr>,
                            an_confirmed := an_confirmed a1 @ [locker]\<rparr>)
               else a1))"
  by (simp add: lock_presented_def note_presented_def Let_def case_prod_beta split: option.split)

lemma note_presented_inv:
  assumes "lock_inv a shown" "g = ls_generation (an_lock a)"
  shows "lock_inv (note_presented o' g a) (shown(o' := shown o' + 1))"
proof -
  have same: "an_lock (note_presented o' g a) = an_lock a" "an_outputs (note_presented o' g a) = an_outputs a"
    "an_capture_sessions (note_presented o' g a) = an_capture_sessions a"
    "an_recorder (note_presented o' g a) = an_recorder a" "an_boost (note_presented o' g a) = an_boost a"
    "an_seat (note_presented o' g a) = an_seat a"
    by (simp_all add: note_presented_def split: option.splits)
  have "\<exists>lo. an_lock_outputs (note_presented o' g a) x = Some lo \<and> lo_locked lo
      \<and> lo_generation lo = ls_generation (an_lock a)
      \<and> unat (lo_presentations lo) \<le> (shown(o' := shown o' + 1)) x"
    if "ls_locked (an_lock a)" "x \<in> set (an_outputs a)" for x
  proof -
    note x = that
    obtain lo where lo: "an_lock_outputs a x = Some lo" "lo_locked lo"
        "lo_generation lo = ls_generation (an_lock a)" "unat (lo_presentations lo) \<le> shown x"
      using lock_inv_output [OF assms(1) x] by blast
    show ?thesis
      using lo record_presented_facts [OF surjective_pairing, of g lo]
      by (cases "x = o'") (auto simp: note_presented_def split: option.splits)
  qed
  with assms same show ?thesis by (simp add: lock_inv_def)
qed

lemma lock_inv_confirm:
  "lock_inv a shown \<Longrightarrow> lock_inv (a\<lparr>an_lock := (an_lock a)\<lparr>ls_confirmation := None\<rparr>, an_confirmed := cs\<rparr>) shown"
  by (simp add: lock_inv_def)

lemma lock_presented_inv:
  assumes "lock_inv a shown"
  shows "lock_inv (lock_presented o' g a)
    (if g = ls_generation (an_lock a) then shown(o' := shown o' + 1) else shown)"
  using assms note_presented_inv [OF assms, of g o']
  by (auto simp: lock_presented_eq lock_inv_confirm Let_def split: option.splits)
     (simp_all add: lock_inv_def)

lemma lock_inv_step:
  assumes "lock_inv a shown"
  shows "lock_inv (lock_step extent alive ev a) (shown_step ev a shown)"
proof (cases ev)
  case (LockRequest kr locker)
  with assms show ?thesis
    by (auto simp: lock_inv_def lock_step_def shown_step_def lock_def lock_output_default_def
        release_input_def stop_capture_boost_def Let_def split: prod.splits dest: abort_stops)
next
  case UnlockRequest
  then show ?thesis by (simp add: lock_inv_def lock_step_def unlock_def)
next
  case (NewSurface surface o')
  define lo' where "lo' = (case an_lock_outputs a o' of None \<Rightarrow> lock_output_default | Some lo \<Rightarrow> lo)
    \<lparr>lo_locked := True, lo_generation := ls_generation (an_lock a), lo_surface := Some surface,
     lo_lock_surface := Some surface, lo_configured_size := None\<rparr>"
  define a0 where "a0 = a\<lparr>an_lock_outputs := (an_lock_outputs a)(o' \<mapsto> lo')\<rparr>"
  have step: "lock_step extent alive ev a =
      (let a' = configure_surface extent alive o' a0
       in a'\<lparr>an_seat := (an_seat a')\<lparr>se_focus := Some (LockFocus surface)\<rparr>, an_redraw := True\<rparr>)"
    by (simp add: NewSurface lock_step_def new_surface_def lo'_def a0_def Let_def)
  have "lock_inv a0 shown"
    using assms by (auto simp: lock_inv_def a0_def lo'_def split: option.splits)
  hence "lock_inv (configure_surface extent alive o' a0) shown"
    by (rule configure_surface_inv)
  then show ?thesis
    unfolding step by (auto simp: lock_inv_def NewSurface shown_step_def Let_def)
next
  case (Presented o' g)
  then show ?thesis
    using assms lock_presented_inv by (auto simp: lock_step_def shown_step_def)
next
  case (OutputAdded o')
  with assms show ?thesis
    by (auto simp: lock_inv_def lock_step_def shown_step_def add_output_def lock_output_default_def)
next
  case (OutputRemoved o')
  with assms show ?thesis
    by (auto simp: lock_inv_def lock_step_def shown_step_def remove_output_def)
qed

lemma lock_run_inv:
  "lock_inv a shown \<Longrightarrow> lock_run extent alive evs a shown = (a', shown') \<Longrightarrow> lock_inv a' shown'"
  by (induction evs arbitrary: a shown) (auto intro: lock_inv_step)

lemma lock_inv_unlocked: "\<not> ls_locked (an_lock a) \<Longrightarrow> lock_inv a shown"
  by (simp add: lock_inv_def)

lemma new_surface_facts:
  "\<exists>lo. an_lock_outputs (new_surface extent alive surface o' a) o' = Some lo \<and> lo_locked lo
     \<and> lo_surface lo = Some surface"
  "an_lock (new_surface extent alive surface o' a) = an_lock a"
  "an_outputs (new_surface extent alive surface o' a) = an_outputs a"
  "se_focus (an_seat (new_surface extent alive surface o' a)) = Some (LockFocus surface)"
proof -
  let ?lo = "(case an_lock_outputs a o' of None \<Rightarrow> lock_output_default | Some lo \<Rightarrow> lo)
    \<lparr>lo_locked := True, lo_generation := ls_generation (an_lock a), lo_surface := Some surface,
     lo_lock_surface := Some surface, lo_configured_size := None\<rparr>"
  have "an_lock_outputs (a\<lparr>an_lock_outputs := (an_lock_outputs a)(o' \<mapsto> ?lo)\<rparr>) o' = Some ?lo" by simp
  from configure_surface_outputs(2) [OF this, of extent alive o']
  show "\<exists>lo. an_lock_outputs (new_surface extent alive surface o' a) o' = Some lo \<and> lo_locked lo
     \<and> lo_surface lo = Some surface"
    by (auto simp: new_surface_def Let_def)
qed (simp_all add: new_surface_def configure_surface_keeps Let_def)

section \<open>The properties\<close>

text \<open>
  C16: the lock is confirmed to the client only when no output can still show the session: at that
  moment every connected output, also one connected while locked, has presented two frames of this
  lock since it was granted.
\<close>

theorem lock_confirmed_only_when_shown:
  assumes "\<not> ls_locked (an_lock a0)" "lock_run extent alive evs a0 (\<lambda>_. 0) = (a, shown)"
    and "an_confirmed (lock_step extent alive ev a) \<noteq> an_confirmed a"
  shows "\<exists>locker. ls_locked (an_lock a) \<and> ls_confirmation (an_lock a) = Some locker
    \<and> an_confirmed (lock_step extent alive ev a) = an_confirmed a @ [locker]
    \<and> ls_confirmation (an_lock (lock_step extent alive ev a)) = None
    \<and> (\<forall>o' \<in> set (an_outputs a). 2 \<le> shown_step ev a shown o')"
proof -
  obtain o' g where ev: "ev = Presented o' g"
    using assms(3)
    by (cases ev) (auto simp: lock_step_def lock_def unlock_def new_surface_def add_output_def
        remove_output_def configure_surface_keeps Let_def split: if_splits prod.splits)
  define a1 where "a1 = note_presented o' g a"
  have a1: "an_lock a1 = an_lock a" "an_outputs a1 = an_outputs a" "an_confirmed a1 = an_confirmed a"
    by (simp_all add: a1_def note_presented_def split: option.splits)
  have granted: "ls_locked (an_lock a)" "ls_generation (an_lock a) = g"
    and all: "\<forall>x \<in> set (an_outputs a). \<exists>lo. an_lock_outputs a1 x = Some lo \<and> ready g lo"
    and conf: "ls_confirmation (an_lock a) \<noteq> None"
    using assms(3) a1
    by (auto simp: ev lock_step_def lock_presented_eq a1_def [symmetric] Let_def list_all_iff
        split: if_splits option.splits)
  obtain locker where locker: "ls_confirmation (an_lock a) = Some locker" using conf by blast
  have res: "lock_step extent alive ev a = a1\<lparr>an_lock := (an_lock a1)\<lparr>ls_confirmation := None\<rparr>,
      an_confirmed := an_confirmed a1 @ [locker]\<rparr>"
    using assms(3) a1 locker
    by (auto simp: ev lock_step_def lock_presented_eq a1_def [symmetric] Let_def split: if_splits)
  have inv: "lock_inv a1 (shown(o' := shown o' + 1))"
    unfolding a1_def using lock_run_inv [OF lock_inv_unlocked [OF assms(1)] assms(2)] granted(2)
    by (intro note_presented_inv) simp_all
  have "2 \<le> (shown(o' := shown o' + 1)) x" if x: "x \<in> set (an_outputs a)" for x
  proof -
    obtain lo where lo: "an_lock_outputs a1 x = Some lo" "ready g lo" using all x by blast
    obtain lo' where "an_lock_outputs a1 x = Some lo'"
        "unat (lo_presentations lo') \<le> (shown(o' := shown o' + 1)) x"
      using lock_inv_output [OF inv, of x] granted a1 x by auto
    with lo show ?thesis by (auto simp: ready_def word_le_nat_alt simp del: fun_upd_apply)
  qed
  with granted locker res a1 show ?thesis
    by (simp add: ev shown_step_def)
qed


text \<open>
  Creating a lock surface is not tied to the lock that was granted. A client whose own request
  was refused because another client holds the lock gets its surface shown on the output and the
  keyboard and the pointer with it; and after the session was unlocked a late lock surface makes
  its output show lock content although nothing is locked.
\<close>

lemma refused_locker_takes_over:
  "(ls_locked (an_lock a) \<and> output' \<in> set (an_outputs a) \<longrightarrow>
      lock kr intruder a = a
      \<and> (let a' = new_surface extent alive surface output' (lock kr intruder a)
         in (\<exists>lo. an_lock_outputs a' output' = Some lo \<and> lo_surface lo = Some surface)
            \<and> se_focus (an_seat a') = Some (LockFocus surface)
            \<and> keyboard_delivers a' (LockFocus surface)
            \<and> allowed_while_locked a' (SurfaceTarget surface)))
   \<and> (\<not> ls_locked (an_lock a) \<longrightarrow>
      (let a' = new_surface extent alive surface output' a
       in \<not> ls_locked (an_lock a')
          \<and> (\<exists>lo. an_lock_outputs a' output' = Some lo \<and> lo_locked lo)))"
proof -
  note facts = new_surface_facts [of extent alive surface output' a]
  have "lock kr intruder a = a" if "ls_locked (an_lock a)"
    using that by (simp add: lock_def)
  then show ?thesis
    using facts by (auto simp: Let_def keyboard_delivers_def allowed_while_locked_def list_ex_iff
        intro!: bexI [of _ output'])
qed

section \<open>The properties on a concrete session\<close>

definition sample_seat :: seat where
  "sample_seat =
     \<lparr>se_keyboard_grab = False, se_focus = Some (ClientFocus 7), se_pressed_keys = [30],
      se_suppressed_keys = [], se_super_tap_pending = False, se_super_tap_used = False,
      se_pointer_grab = True, se_pointer_focus = Some 7, se_touch_grab = False,
      se_touch_points = [], se_tools = [(True, True)], se_dnd_icon = None, se_cursor = Some 3\<rparr>"

text \<open>A session with two outputs and a running engine.\<close>

definition sample_anvil :: anvil where
  "sample_anvil =
     \<lparr>an_supports_lock = True, an_active = True,
      an_lock = \<lparr>ls_locked = False, ls_generation = 4, ls_confirmation = None\<rparr>,
      an_outputs = [0, 1], an_lock_outputs = (\<lambda>_. None),
      an_recorder = controller_default\<lparr>rc_child := Some 11, rc_stdin := Some 11\<rparr>,
      an_boost = \<lparr>cb_timer = Some 60, cb_fps = Some 60, cb_session_pending = False,
                  cb_override = OutputSource, cb_commit_driven = False\<rparr>,
      an_capture_sessions = [5], an_seat = sample_seat, an_redraw = False, an_confirmed = [],
      an_configures = [], an_effects = []\<rparr>"

abbreviation sample_lock_events :: "lock_event list" where
  "sample_lock_events \<equiv> [LockRequest (KillExit True []) 1, NewSurface 20 0, Presented 0 5,
     Presented 0 5, Presented 1 5]"

abbreviation sample_extent :: "nat \<Rightarrow> (int \<times> int) option" where
  "sample_extent \<equiv> (\<lambda>_. Some (1920, 1080))"

definition sample_locked :: "anvil \<times> (nat \<Rightarrow> nat)" where
  "sample_locked = lock_run sample_extent (\<lambda>_. True) sample_lock_events sample_anvil (\<lambda>_. 0)"

lemma sample_locked_facts:
  "ls_locked (an_lock (fst sample_locked))" "an_outputs (fst sample_locked) = [0, 1]"
  "an_confirmed (fst sample_locked) = []"
  "an_confirmed (lock_step sample_extent (\<lambda>_. True) (Presented 1 5) (fst sample_locked)) = [1]"
  by code_simp+

lemma sample_locked_run:
  "lock_run sample_extent (\<lambda>_. True) sample_lock_events sample_anvil (\<lambda>_. 0)
     = (fst sample_locked, snd sample_locked)"
  by (simp only: sample_locked_def prod.collapse)

lemma sample_unlocked: "\<not> ls_locked (an_lock sample_anvil)"
  by (simp add: sample_anvil_def)

theorem lock_confirmed_only_when_shown_witness:
  "\<exists>locker. ls_confirmation (an_lock (fst sample_locked)) = Some locker
     \<and> (\<forall>o' \<in> {0, 1}. 2 \<le> shown_step (Presented 1 5) (fst sample_locked) (snd sample_locked) o')"
  using lock_confirmed_only_when_shown [OF sample_unlocked sample_locked_run, of "Presented 1 5"]
    sample_locked_facts
  by simp


end
