(* ===== verification/Desktop.thy ===== *)
theory Desktop
  imports CoreConfig Lock
begin

text \<open>
  The desktop policy's data, \<open>crates/compositor/src/policy.rs\<close>: managed windows, the workspace of
  every output, services; the queries and helpers its commands and its maintenance pass share; the
  programs it starts. Windows are numbers, outputs are named by their strings as in the source;
  what clients and the operating system say is an input.
\<close>

section \<open>State\<close>

record movement =
  mv_from :: "int \<times> int"
  mv_started :: instant

record resize =
  rz_from :: "int \<times> int"
  rz_started :: instant

record managed =
  mg_window :: nat
  mg_id :: nat
  mg_workspace :: u8
  mg_output :: str
  mg_floating :: bool
  mg_fullscreen :: bool
  mg_scratchpad :: bool
  mg_rect :: "rect option"
  mg_floating_rect :: "rect option"
  mg_requested_size :: "int option \<times> int option"
  mg_last_size :: "(int \<times> int) option"
  mg_opacity :: f32
  mg_opening_started :: "instant option"
  mg_opened :: bool
  mg_movement :: "movement option"
  mg_resize :: "resize option"

text \<open>A service: its command, its process, how often it has been started.\<close>

type_synonym service = "str list \<times> pid option \<times> u8"

record desktop =
  dk_config :: config
  dk_windows :: "managed list"
  dk_outputs :: "(str, u8) btree"
  dk_next_id :: nat
  dk_dirty :: bool
  dk_redraw :: bool
  dk_active :: bool
  dk_error :: "str option"
  dk_children :: "pid list"
  dk_services :: "service list"
  dk_recorder :: controller
  dk_performance_override :: "str option"
  dk_animation_timer :: "nat option" \<comment> \<open>its rate in millihertz, while it is registered\<close>

definition desktop_default :: "(config, str) result \<Rightarrow> desktop" where
  "desktop_default loaded =
     (let (config, error) = (case loaded of Inr c \<Rightarrow> (c, None) | Inl e \<Rightarrow> (config_default, Some e))
      in \<lparr>dk_config = config, dk_windows = [], dk_outputs = [], dk_next_id = 1, dk_dirty = True,
          dk_redraw = True, dk_active = True, dk_error = error, dk_children = [], dk_services = [],
          dk_recorder = controller_default, dk_performance_override = None,
          dk_animation_timer = None\<rparr>)"

text \<open>
  What the policy sees of the compositor: the mapped windows from back to front with their
  locations, the outputs of the space, the keyboard focus, the output under the pointer, the
  fullscreen window of each output, what it asked other parts to do.
\<close>

datatype desktop_focus = WindowFocus nat | LayerFocus bool | PopupFocus bool | OtherFocus
  \<comment> \<open>layers and popups with whether they are alive\<close>

record space_output =
  so_name :: str
  so_geometry :: "rect option"
  so_zone :: rect \<comment> \<open>the layer map's non-exclusive zone, relative to the output\<close>
  so_refresh :: "int option"
  so_scale :: f64
  so_transform :: str

text \<open>
  What the policy told the renderer about a window, and the last state it asked a toplevel for.
\<close>

record visual =
  vs_opening :: f32
  vs_focused :: bool
  vs_blur :: bool
  vs_opacity :: f32
  vs_radius :: f64
  vs_render_size :: "(int \<times> int) option"

definition visual_default :: visual where
  "visual_default =
     \<lparr>vs_opening = Fin 1, vs_focused = False, vs_blur = False, vs_opacity = Fin 1,
      vs_radius = Fin 0, vs_render_size = None\<rparr>"

record toplevel_state =
  tp_size :: "int \<times> int"
  tp_bounds :: "int \<times> int"
  tp_activated :: bool
  tp_fullscreen :: bool
  tp_tiled :: bool

record shell_state =
  ss_desktop :: desktop
  ss_locked :: bool
  ss_supports_lock :: bool
  ss_running :: bool
  ss_elements :: "(nat \<times> (int \<times> int)) list"
  ss_outputs :: "space_output list"
  ss_focus :: "desktop_focus option"
  ss_pointer_output :: "str option"
  ss_pointer_grabbed :: bool
  ss_fullscreen :: "str \<Rightarrow> nat option"
  ss_visual :: "nat \<Rightarrow> visual"
  ss_toplevel :: "nat \<Rightarrow> toplevel_state option"
  ss_configured :: "(nat \<times> rect) list" \<comment> \<open>configure requests sent to X11 windows\<close>
  ss_theme :: "str \<Rightarrow> theme"
  ss_boost :: capture_boost
  ss_files :: files
  ss_spawned :: "str list list"
  ss_closed :: "nat list"
  ss_transitions :: "(str \<times> u8 \<times> u8) list"
  ss_effects :: "effect list"

text \<open>What a client shows of a window.\<close>

record client =
  cl_alive :: bool
  cl_app_id :: str
  cl_title :: str
  cl_toplevel :: bool
  cl_has_parent :: bool
  cl_x11_window :: "u32 option"
  cl_override_redirect :: bool
  cl_auxiliary :: bool
  cl_size :: "int \<times> int"
  cl_bbox_empty :: bool

type_synonym clients = "nat \<Rightarrow> client"

abbreviation with_desktop :: "(desktop \<Rightarrow> desktop) \<Rightarrow> shell_state \<Rightarrow> shell_state" where
  "with_desktop f s \<equiv> s\<lparr>ss_desktop := f (ss_desktop s)\<rparr>"

section \<open>Queries\<close>

definition identity :: "client \<Rightarrow> str \<times> str" where
  "identity c = (if cl_toplevel c \<or> cl_x11_window c \<noteq> None then (cl_app_id c, cl_title c) else ([], []))"

definition workspace_of :: "desktop \<Rightarrow> str \<Rightarrow> u8" where
  "workspace_of d name = (case bt_get (dk_outputs d) name of Some w \<Rightarrow> w | None \<Rightarrow> 1)"

definition configured_performance_profile :: "desktop \<Rightarrow> str" where
  "configured_performance_profile d =
     (case dk_performance_override d of Some p \<Rightarrow> p | None \<Rightarrow> pf_profile (cf_performance (dk_config d)))"

definition performance_gaming_outputs :: "shell_state \<Rightarrow> str list" where
  "performance_gaming_outputs s =
     (let d = ss_desktop s; profile = configured_performance_profile d
      in if profile = ''desktop'' then []
         else if profile = ''gaming'' then map so_name (ss_outputs s)
         else filter (\<lambda>name.
                let workspace = workspace_of d name
                in list_ex (\<lambda>w. mg_output w = name \<and> mg_workspace w = workspace
                     \<and> mg_fullscreen w \<and> \<not> mg_scratchpad w) (dk_windows d))
              (map so_name (ss_outputs s)))"

definition element_location :: "shell_state \<Rightarrow> nat \<Rightarrow> (int \<times> int) option" where
  "element_location s w = map_of (ss_elements s) w"

definition focused_index :: "shell_state \<Rightarrow> nat option" where
  "focused_index s =
     (case ss_focus s of
        Some (WindowFocus f) \<Rightarrow> position (\<lambda>w. mg_window w = f) (dk_windows (ss_desktop s))
      | _ \<Rightarrow> None)"

definition can_manipulate_window :: "shell_state \<Rightarrow> nat \<Rightarrow> bool" where
  "can_manipulate_window s window \<longleftrightarrow>
     \<not> ss_locked s
     \<and> list_ex (\<lambda>w. mg_window w = window \<and> mg_floating w \<and> \<not> mg_fullscreen w \<and> \<not> mg_scratchpad w
          \<and> bt_get (dk_outputs (ss_desktop s)) (mg_output w) = Some (mg_workspace w))
        (dk_windows (ss_desktop s))"

definition active_output :: "shell_state \<Rightarrow> str option" where
  "active_output s =
     (case focused_index s of
        Some i \<Rightarrow> Some (mg_output (dk_windows (ss_desktop s) ! i))
      | None \<Rightarrow>
          (case ss_pointer_output s of
             Some name \<Rightarrow> Some name
           | None \<Rightarrow> (case ss_outputs s of [] \<Rightarrow> None | o' # _ \<Rightarrow> Some (so_name o'))))"

text \<open>\<open>raise_element\<close> moves a mapped window to the front and leaves an unmapped one alone.\<close>

definition raise_element :: "nat \<Rightarrow> (nat \<times> (int \<times> int)) list \<Rightarrow> (nat \<times> (int \<times> int)) list" where
  "raise_element w es = filter (\<lambda>e. fst e \<noteq> w) es @ filter (\<lambda>e. fst e = w) es"

definition focus_window :: "nat \<Rightarrow> shell_state \<Rightarrow> shell_state" where
  "focus_window index s =
     (let w = mg_window (dk_windows (ss_desktop s) ! index)
      in with_desktop (\<lambda>d. d\<lparr>dk_redraw := True\<rparr>)
           (s\<lparr>ss_elements := raise_element w (ss_elements s), ss_focus := Some (WindowFocus w)\<rparr>))"

text \<open>An unmapped toplevel loses its role state; so does the policy's record of it.\<close>

definition window_unmapped :: "nat \<Rightarrow> shell_state \<Rightarrow> shell_state" where
  "window_unmapped surface s =
     (let d = ss_desktop s in
      case position (\<lambda>w. mg_window w = surface) (dk_windows d) of
        None \<Rightarrow> s
      | Some i \<Rightarrow>
          (let w = dk_windows d ! i;
               w' = w\<lparr>mg_fullscreen := False, mg_last_size := None, mg_opened := False,
                      mg_opening_started := None, mg_movement := None, mg_resize := None\<rparr>
           in s\<lparr>ss_desktop := d\<lparr>dk_windows := (dk_windows d)[i := w'], dk_redraw := True\<rparr>,
                ss_fullscreen :=
                  (if mg_fullscreen w
                   then (\<lambda>name. if name \<in> so_name ` set (ss_outputs s)
                                   \<and> ss_fullscreen s name = Some (mg_window w)
                                then None else ss_fullscreen s name)
                   else ss_fullscreen s)\<rparr>))"

section \<open>Key bindings\<close>

definition binding_action :: "(str, str) btree \<Rightarrow> str \<Rightarrow> str option" where
  "binding_action bindings key =
     (case bt_get bindings key of
        Some action \<Rightarrow> Some action
      | None \<Rightarrow> map_option snd (List.find (\<lambda>(b, _). eq_ignore_ascii_case b key) bindings))"

record modifiers =
  md_logo :: bool
  md_ctrl :: bool
  md_alt :: bool
  md_shift :: bool

text \<open>\<open>name\<close> and \<open>raw\<close> are the names of the keysym with and without the modifiers applied.\<close>

definition shortcut :: "(str, str) btree \<Rightarrow> modifiers \<Rightarrow> str \<Rightarrow> str \<Rightarrow> str option" where
  "shortcut bindings mods name raw =
     (let prefix = (if md_logo mods then ''Super+'' else []) @ (if md_ctrl mods then ''Ctrl+'' else [])
                   @ (if md_alt mods then ''Alt+'' else []) @ (if md_shift mods then ''Shift+'' else [])
      in case binding_action bindings (prefix @ name) of
           Some c \<Rightarrow> Some c
         | None \<Rightarrow> binding_action bindings (prefix @ raw))"

section \<open>Programs\<close>

text \<open>\<open>Path::file_name\<close>: the last component, unless it is \<open>..\<close> or there is none.\<close>

definition file_name :: "str \<Rightarrow> str option" where
  "file_name path =
     (let components = filter (\<lambda>c. c \<noteq> [] \<and> c \<noteq> ''.'') (split_at (CHR ''/'') path)
      in if components = [] \<or> last components = ''..'' then None else Some (last components))"

definition application_desktop_environment :: "str \<Rightarrow> str" where
  "application_desktop_environment executable =
     (if file_name executable = Some ''gsr-ui'' then ''wm:wlr:river'' else ''wm:wlr'')"

text \<open>
  A command: its program, its arguments, the variables it removes (\<open>None\<close>) or sets. The sockets of
  the session are those it announces to clients.
\<close>

type_synonym command = "str \<times> str list \<times> (str \<times> str option) list"

definition app_command :: "str option \<Rightarrow> nat option \<Rightarrow> str list \<Rightarrow> (command, str) result" where
  "app_command socket xdisplay args =
     (case args of
        [] \<Rightarrow> Inl ''empty command''
      | program # rest' \<Rightarrow>
          Inr (program, rest',
            [(''DISPLAY'', None), (''WAYLAND_SOCKET'', None),
             (''XDG_CURRENT_DESKTOP'', Some (application_desktop_environment program)),
             (''XDG_SESSION_TYPE'', Some ''wayland'')]
            @ (if file_name program = Some ''wm-shell'' then [(''GDK_BACKEND'', Some ''wayland'')] else [])
            @ (case socket of None \<Rightarrow> [] | Some sock \<Rightarrow> [(''WAYLAND_DISPLAY'', Some sock)])
            @ (case xdisplay of None \<Rightarrow> [] | Some n \<Rightarrow> [(''DISPLAY'', Some ('':'' @ show_nat n))])))"

text \<open>\<open>os_spawn\<close> says what starting a program gives: its process or an error.\<close>

definition spawn_app :: "(str list \<Rightarrow> (pid, str) result) \<Rightarrow> str list \<Rightarrow> shell_state
    \<Rightarrow> (unit, str) result \<times> shell_state" where
  "spawn_app os_spawn args s =
     (case args of
        [] \<Rightarrow> (Inl ''empty command'', s)
      | program # _ \<Rightarrow>
          (case os_spawn args of
             Inl e \<Rightarrow> (Inl (program @ '': '' @ e), s)
           | Inr pid \<Rightarrow>
               (Inr (), with_desktop (\<lambda>d. d\<lparr>dk_children := dk_children d @ [pid]\<rparr>)
                          (s\<lparr>ss_spawned := ss_spawned s @ [args]\<rparr>))))"

text \<open>
  \<open>supervise\<close>: children that have exited are forgotten, a service that is not running is started
  again, at most three times in all. \<open>exited\<close> says whether a process has exited by now; the
  number of a start tells two starts of one command apart.
\<close>

definition supervise_service ::
  "(pid \<Rightarrow> bool) \<Rightarrow> (str list \<Rightarrow> u8 \<Rightarrow> (pid, str) result) \<Rightarrow> service \<Rightarrow> service \<times> str option" where
  "supervise_service exited os_spawn sv =
     (case sv of (args, child, starts) \<Rightarrow>
        (let dead = (case child of None \<Rightarrow> True | Some pid \<Rightarrow> exited pid)
         in if dead \<and> starts < 3
            then (case (if args = [] then Inl ''empty command'' else os_spawn args (starts + 1)) of
                    Inr pid \<Rightarrow> ((args, Some pid, starts + 1), None)
                  | Inl e \<Rightarrow> ((args, child, starts + 1), Some e))
            else (sv, None)))"

fun supervise_services ::
  "(pid \<Rightarrow> bool) \<Rightarrow> (str list \<Rightarrow> u8 \<Rightarrow> (pid, str) result) \<Rightarrow> service list \<Rightarrow> str option
     \<Rightarrow> service list \<times> str option" where
  "supervise_services exited os_spawn [] error = ([], error)"
| "supervise_services exited os_spawn (sv # svs) error =
     (let (sv', e) = supervise_service exited os_spawn sv;
          (svs', error') = supervise_services exited os_spawn svs
             (case e of None \<Rightarrow> error | Some msg \<Rightarrow> Some msg)
      in (sv' # svs', error'))"

definition supervise ::
  "(pid \<Rightarrow> bool) \<Rightarrow> (str list \<Rightarrow> u8 \<Rightarrow> (pid, str) result) \<Rightarrow> desktop \<Rightarrow> desktop" where
  "supervise exited os_spawn d =
     (let (services, error) = supervise_services exited os_spawn (dk_services d) (dk_error d)
      in d\<lparr>dk_children := filter (\<lambda>pid. \<not> exited pid) (dk_children d),
           dk_services := services, dk_error := error\<rparr>)"

section \<open>Capture sources\<close>

definition recorder_source :: "desktop \<Rightarrow> str \<Rightarrow> (capture_source, str) result" where
  "recorder_source d value =
     (case (case split_whitespace value of [] \<Rightarrow> (''output'', []) | p # ps \<Rightarrow> (p, ps)) of
        (kind, parts) \<Rightarrow>
          if kind = ''output'' then Inr OutputSource
          else if kind = ''window'' then
            (case parts of
               [] \<Rightarrow> Inl ''window source requires an id''
             | number # extra \<Rightarrow>
                 (case parse_u64 number of
                    None \<Rightarrow> Inl ''window id must be a number''
                  | Some n \<Rightarrow>
                      if extra \<noteq> [] \<or> \<not> list_ex (\<lambda>w. mg_id w = n) (dk_windows d)
                      then Inl ''recorder window does not exist''
                      else Inr (WindowSource n)))
          else if kind = ''region'' then
            bindR (collectR (map (\<lambda>v. ok_or ''region values must be integers'' (parse_i32 v)) parts))
              (\<lambda>values.
                 if length values \<noteq> 4 \<or> values ! 2 \<le> 0 \<or> values ! 3 \<le> 0
                 then Inl ''region source requires x y width height with a positive size''
                 else Inr (RegionSource \<lparr>rx = values ! 0, ry = values ! 1, rw = values ! 2,
                                         rh = values ! 3\<rparr>))
          else Inl ''recorder source must be output, window ID, or region X Y W H'')"

text \<open>
  \<open>remembered_recorder_source\<close>; \<open>lower\<close> is \<open>str::to_lowercase\<close>, whose Unicode tables are not
  modelled.
\<close>

definition remembered_recorder_source ::
  "(str \<Rightarrow> str) \<Rightarrow> clients \<Rightarrow> desktop \<Rightarrow> recorder \<Rightarrow> (capture_source, str) result" where
  "remembered_recorder_source lower clients d config =
     (if rec_window_app_id config = [] \<and> rec_window_title config = [] then Inr OutputSource
      else
        (let wanted_app = lower (rec_window_app_id config);
             wanted_title = lower (rec_window_title config)
         in case List.find (\<lambda>w.
                let (app, caption) = identity (clients (mg_window w));
                    app_id = lower app; title = lower caption
                in wanted_app \<noteq> []
                     \<and> (app_id \<noteq> [] \<and> contains app_id wanted_app
                        \<or> app_id = [] \<and> contains title wanted_app)
                   \<or> wanted_title \<noteq> [] \<and> contains title wanted_title) (dk_windows d) of
              Some w \<Rightarrow> Inr (WindowSource (mg_id w))
            | None \<Rightarrow> Inl (''remembered window '' @ [CHR 0x27]
                 @ (if rec_window_app_id config = [] then rec_window_title config
                    else rec_window_app_id config) @ [CHR 0x27] @ '' is not open'')))"

definition overlap_area :: "rect \<Rightarrow> rect \<Rightarrow> int" where
  "overlap_area region geometry =
     (let left = max (rx region) (rx geometry);
          top = max (ry region) (ry geometry);
          right = min (wrap32 (rx region + rw region)) (wrap32 (rx geometry + rw geometry));
          bottom = min (wrap32 (ry region + rh region)) (wrap32 (ry geometry + rh geometry))
      in max (wrap32 (right - left)) 0 * max (wrap32 (bottom - top)) 0)"

definition recorder_output :: "shell_state \<Rightarrow> capture_source \<Rightarrow> (str, str) result" where
  "recorder_output s source =
     (case source of
        OutputSource \<Rightarrow> ok_or ''recorder has no active output'' (active_output s)
      | WindowSource n \<Rightarrow>
          ok_or ''recorder window does not exist''
            (map_option mg_output (List.find (\<lambda>w. mg_id w = n) (dk_windows (ss_desktop s))))
      | RegionSource region \<Rightarrow>
          ok_or ''recorder region does not intersect an output''
            (map_option snd (max_by_key fst
              (concat (map (\<lambda>o'. case so_geometry o' of
                                  None \<Rightarrow> []
                                | Some geometry \<Rightarrow>
                                    let area = overlap_area region geometry
                                    in if 0 < area then [(area, so_name o')] else [])
                 (ss_outputs s))))))"

section \<open>The session locker\<close>

definition executable_in_path :: "machine \<Rightarrow> str \<Rightarrow> str option" where
  "executable_in_path m name =
     (case mc_env m ''PATH'' of
        None \<Rightarrow> None
      | Some path \<Rightarrow>
          List.find (executable_file m)
            (map (\<lambda>directory. path_join directory name) (split_at (CHR '':'') path)))"

definition lock_theme_config_path :: "machine \<Rightarrow> (str, str) result" where
  "lock_theme_config_path m =
     (let candidates =
            (case mc_current_exe m of
               Inl _ \<Rightarrow> []
             | Inr exe \<Rightarrow>
                 [path_join (parent_dir exe) ''hyprlock.conf'',
                  path_join (parent_dir exe) ''../share/luma-wm/hyprlock.conf''])
            @ [path_join (mc_manifest_dir m) ''../../config/luma-hyprlock.conf'']
      in case List.find (\<lambda>path. mc_mode m path \<noteq> None) candidates of
           None \<Rightarrow> Inl ''Luma hyprlock.conf is missing; reinstall the compositor package''
         | Some path \<Rightarrow> Inr (case mc_canonicalize m path of Inr resolved \<Rightarrow> resolved | Inl _ \<Rightarrow> path))"

definition session_lock_command :: "machine \<Rightarrow> (str list, str) result" where
  "session_lock_command m =
     (let fallback = (case executable_in_path m ''swaylock'' of
                        Some swaylock \<Rightarrow> Inr [swaylock]
                      | None \<Rightarrow> Inl ''no session locker is available; install hyprlock or swaylock'')
      in case executable_in_path m ''hyprlock'' of
           None \<Rightarrow> fallback
         | Some hyprlock \<Rightarrow>
             (case lock_theme_config_path m of
                Inl _ \<Rightarrow> fallback
              | Inr config \<Rightarrow>
                  Inr [hyprlock, ''--config'', config, ''--grace'', ''0'', ''--no-fade-in'',
                       ''--immediate-render'']))"

section \<open>Commands of the session\<close>

definition activation_environment_command :: "str \<Rightarrow> bool \<Rightarrow> str list" where
  "activation_environment_command socket private_bus =
     ''dbus-update-activation-environment'' # (if private_bus then [] else [''--systemd''])
     @ [''WAYLAND_DISPLAY='' @ socket, ''XDG_CURRENT_DESKTOP=wm:wlr'', ''XDG_SESSION_DESKTOP=wm'',
        ''XDG_SESSION_TYPE=wayland'']"

definition portal_refresh_commands :: "str list list" where
  "portal_refresh_commands =
     [[''systemctl'', ''--user'', ''reset-failed'', ''xdg-desktop-portal-*.service''],
      [''systemctl'', ''--user'', ''--no-block'', ''try-restart'', ''xdg-desktop-portal-*.service''],
      [''systemctl'', ''--user'', ''--no-block'', ''restart'', ''xdg-desktop-portal.service'']]"

text \<open>\<open>shlex\<close> is \<open>shlex::split\<close>.\<close>

definition launch_args :: "(str \<Rightarrow> str list option) \<Rightarrow> str \<Rightarrow> (str list, str) result" where
  "launch_args shlex text =
     (case shlex text of
        None \<Rightarrow> Inl ''launch has an unterminated quote''
      | Some args \<Rightarrow> if args = [] then Inl ''launch requires a program'' else Inr args)"

definition screenshot_copy_command :: "str list" where
  "screenshot_copy_command = [''sh'', ''-c'', ''grim -t png - | wl-copy --type image/png'']"

definition shell_name :: "desktop \<Rightarrow> str" where
  "shell_name d = (if sh_backend (cf_shell (dk_config d)) = ''sctk'' then ''wm-shell-sctk'' else ''wm-shell'')"

section \<open>Supervision\<close>

definition service_starts :: "service \<Rightarrow> nat" where
  "service_starts sv = unat (snd (snd sv))"

lemma service_start_counts: "(n :: u8) < 3 \<Longrightarrow> unat (n + 1) = unat n + 1 \<and> unat n < 3"
  by (simp add: word_less_nat_alt unat_word_ariths)

lemma supervise_service_starts:
  assumes "supervise_service exited os_spawn sv = (sv', e)"
  shows "service_starts sv \<le> service_starts sv' \<and> service_starts sv' \<le> max 3 (service_starts sv)
    \<and> fst sv' = fst sv"
  using assms
  by (auto simp: supervise_service_def service_starts_def Let_def dest: service_start_counts
      split: prod.splits if_splits sum.splits option.splits)

lemma supervise_services_starts:
  "supervise_services exited os_spawn svs error = (svs', error') \<Longrightarrow>
     list_all2 (\<lambda>sv sv'. fst sv' = fst sv \<and> service_starts sv' \<le> max 3 (service_starts sv)) svs svs'"
proof (induction svs arbitrary: svs' error error')
  case (Cons sv svs)
  obtain sv1 e where one: "supervise_service exited os_spawn sv = (sv1, e)" by fastforce
  from Cons show ?case
    using supervise_service_starts [OF one]
    by (auto simp: one Let_def split: prod.splits)
qed simp

fun supervise_many ::
  "((pid \<Rightarrow> bool) \<times> (str list \<Rightarrow> u8 \<Rightarrow> (pid, str) result)) list \<Rightarrow> desktop \<Rightarrow> desktop" where
  "supervise_many [] d = d"
| "supervise_many ((exited, os_spawn) # ticks) d = supervise_many ticks (supervise exited os_spawn d)"

lemma supervise_many_starts:
  "list_all (\<lambda>sv. service_starts sv \<le> 3) (dk_services d) \<Longrightarrow>
     map fst (dk_services (supervise_many ticks d)) = map fst (dk_services d)
     \<and> list_all (\<lambda>sv. service_starts sv \<le> 3) (dk_services (supervise_many ticks d))"
proof (induction ticks d rule: supervise_many.induct)
  case (2 exited os_spawn ticks d)
  obtain svs e where run: "supervise_services exited os_spawn (dk_services d) (dk_error d) = (svs, e)"
    by fastforce
  note same = supervise_services_starts [OF run]
  have d': "dk_services (supervise exited os_spawn d) = svs"
    by (simp add: supervise_def run)
  have "list_all (\<lambda>sv. service_starts sv \<le> 3) svs" "map fst svs = map fst (dk_services d)"
    using same "2.prems" by (auto simp: list_all2_conv_all_nth list_all_length intro: nth_equalityI)
  with "2.IH" d' show ?case by simp
qed simp

text \<open>
  A broken shell never makes the session respawn it for ever. Whatever the processes do and
  however often supervision runs, every service keeps its command and is started at most three
  times; a service that is not running and has starts left is started at the next pass, and one
  that runs is left alone.
\<close>

lemma supervision_is_bounded:
  assumes "list_all (\<lambda>sv. service_starts sv = 0) (dk_services d)"
    and "d' = supervise_many ticks d" "i < length (dk_services d)"
    and "dk_services d' ! i = (args, child, starts)" "args \<noteq> []"
  shows "args = fst (dk_services d ! i) \<and> unat starts \<le> 3
    \<and> fst (supervise_service exited os_spawn (dk_services d' ! i)) =
        (if (\<forall>pid. child = Some pid \<longrightarrow> exited pid) \<and> starts < 3
         then (case os_spawn args (starts + 1) of Inr pid \<Rightarrow> (args, Some pid, starts + 1)
                                                | Inl _ \<Rightarrow> (args, child, starts + 1))
         else (args, child, starts))"
proof -
  have "list_all (\<lambda>sv. service_starts sv \<le> 3) (dk_services d)"
    using assms(1) by (simp add: list_all_length)
  note many = supervise_many_starts [OF this, of ticks, folded assms(2)]
  have len: "length (dk_services d') = length (dk_services d)"
    using many by (metis length_map)
  have "map fst (dk_services d') ! i = map fst (dk_services d) ! i" using many by simp
  hence "fst (dk_services d' ! i) = fst (dk_services d ! i)" using assms(3) len by simp
  hence "args = fst (dk_services d ! i)" by (simp add: assms(4))
  moreover have "service_starts (dk_services d' ! i) \<le> 3"
    using many assms(3) len by (simp add: list_all_length)
  hence "unat starts \<le> 3" by (simp add: assms(4) service_starts_def)
  moreover have "fst (supervise_service exited os_spawn (args, child, starts)) =
        (if (\<forall>pid. child = Some pid \<longrightarrow> exited pid) \<and> starts < 3
         then (case os_spawn args (starts + 1) of Inr pid \<Rightarrow> (args, Some pid, starts + 1)
                                                | Inl _ \<Rightarrow> (args, child, starts + 1))
         else (args, child, starts))"
    using assms(5) by (cases child) (simp_all add: supervise_service_def split: sum.split)
  ultimately show ?thesis unfolding assms(4) by blast
qed

section \<open>Bindings\<close>

text \<open>
  A key always runs the action bound to it exactly as it is written in the configuration, if
  there is one; otherwise one whose spelling differs in case only, the same one each time; and
  nothing is run for a key that is bound in no spelling.
\<close>

lemma exact_binding_wins:
  "(case binding_action bindings key of
      None \<Rightarrow> \<forall>(b, action) \<in> set bindings. \<not> eq_ignore_ascii_case b key
    | Some action \<Rightarrow>
        (if bt_contains bindings key then bt_get bindings key = Some action
         else \<exists>b. (b, action) \<in> set bindings \<and> eq_ignore_ascii_case b key))"
proof (cases "bt_get bindings key")
  case None
  show ?thesis
  proof (cases "List.find (\<lambda>(b, _). eq_ignore_ascii_case b key) bindings")
    case None
    then have "\<forall>(b, action) \<in> set bindings. \<not> eq_ignore_ascii_case b key"
      by (auto simp: find_None_iff)
    with None \<open>bt_get bindings key = None\<close> show ?thesis
      by (simp add: binding_action_def)
  next
    case (Some e)
    then have "e \<in> set bindings \<and> eq_ignore_ascii_case (fst e) key"
      by (auto dest!: find_SomeD)
    with Some \<open>bt_get bindings key = None\<close> show ?thesis
      by (cases e) (auto simp: binding_action_def bt_contains_def)
  qed
qed (simp add: binding_action_def bt_contains_def)

end
