(* ===== verification/Maintain.thy ===== *)
theory Maintain
  imports Desktop
begin

text \<open>
  \<open>maintain_desktop\<close> of \<open>crates/compositor/src/policy.rs\<close>, the pass that runs after every command and
  commit: it polls the recorder, gives every output a workspace, forgets dead windows and adopts
  new ones, lays every output out, hides what is not visible, restores the stacking order and the
  focus. Each phase is a definition, in the order of the source.
\<close>

section \<open>The environment of a pass\<close>

record pass_env =
  pe_poll :: poll_env
  pe_clients :: clients
  pe_backend :: "performance \<Rightarrow> str list \<Rightarrow> (str, output_config) btree \<Rightarrow> str list"
    \<comment> \<open>the errors of applying the performance policy\<close>
  pe_clock :: instant
  pe_rearranged :: "str \<Rightarrow> f64 \<Rightarrow> str \<Rightarrow> rect option \<times> rect"
    \<comment> \<open>geometry and zone of an output once its scale and transform have changed\<close>
  pe_touch_grabbed :: bool
  pe_tick :: "str \<Rightarrow> bool \<Rightarrow> u8 \<Rightarrow> bool" \<comment> \<open>whether closing images remain on an output\<close>

section \<open>Recorder, outputs, windows\<close>

definition poll_recorder :: "pass_env \<Rightarrow> shell_state \<Rightarrow> shell_state" where
  "poll_recorder env s =
     (case poll (pe_poll env) (dk_recorder (ss_desktop s)) of
        (changed, recorder, effects) \<Rightarrow>
          (let s1 = s\<lparr>ss_desktop := (ss_desktop s)\<lparr>dk_recorder := recorder\<rparr>,
                      ss_effects := ss_effects s @ effects\<rparr>
           in if changed
              then (if is_running recorder then s1
                    else s1\<lparr>ss_boost := stop_capture_boost (ss_boost s1)\<rparr>)
                     \<lparr>ss_desktop := (ss_desktop s1)\<lparr>dk_dirty := True\<rparr>\<rparr>
              else s1))"

definition free_workspace :: "(str, u8) btree \<Rightarrow> u8" where
  "free_workspace m =
     (case List.find (\<lambda>n. \<not> list_ex (\<lambda>(_, w). w = n) m) (map word_of_nat [1..<10]) of
        Some n \<Rightarrow> n | None \<Rightarrow> 1)"

definition assign_output :: "str \<Rightarrow> (str, u8) btree \<Rightarrow> (str, u8) btree" where
  "assign_output name m = (if bt_contains m name then m else bt_insert name (free_workspace m) m)"

definition sync_outputs :: "str list \<Rightarrow> (str, u8) btree \<Rightarrow> (str, u8) btree" where
  "sync_outputs names m =
     foldl (\<lambda>m name. assign_output name m) (bt_retain (\<lambda>name _. name \<in> set names) m) names"

text \<open>Windows whose client is gone are forgotten, windows of a lost output move to the first.\<close>

definition rehome :: "str list \<Rightarrow> managed \<Rightarrow> managed" where
  "rehome names w =
     (if mg_output w \<in> set names then w
      else w\<lparr>mg_output := (case names of [] \<Rightarrow> [] | name # _ \<Rightarrow> name)\<rparr>)"

definition sync_desktop :: "pass_env \<Rightarrow> shell_state \<Rightarrow> shell_state" where
  "sync_desktop env s =
     (let names = map so_name (ss_outputs s);
          d = ss_desktop s;
          outputs = sync_outputs names (dk_outputs d);
          alive = filter (\<lambda>w. cl_alive (pe_clients env (mg_window w))) (dk_windows d);
          lost = length alive \<noteq> length (dk_windows d)
      in s\<lparr>ss_desktop := d\<lparr>dk_outputs := outputs,
             dk_windows := map (rehome names) alive,
             dk_dirty := dk_dirty d \<or> (\<exists>name \<in> set names. \<not> bt_contains (dk_outputs d) name) \<or> lost
               \<or> (\<exists>w \<in> set alive. mg_output w \<notin> set names),
             dk_redraw := dk_redraw d \<or> lost\<rparr>\<rparr>)"

definition apply_performance :: "pass_env \<Rightarrow> shell_state \<Rightarrow> shell_state" where
  "apply_performance env s =
     (let d = ss_desktop s in
      case pe_backend env (cf_performance (dk_config d)) (performance_gaming_outputs s)
             (cf_outputs (dk_config d)) of
        [] \<Rightarrow> s
      | error # _ \<Rightarrow>
          if dk_error d = Some error then s
          else s\<lparr>ss_desktop := d\<lparr>dk_error := Some error, dk_dirty := True\<rparr>\<rparr>)"

section \<open>New windows\<close>

definition rule_matches :: "str \<Rightarrow> str \<Rightarrow> window_rule \<Rightarrow> bool" where
  "rule_matches app title r \<longleftrightarrow>
     (case wr_app_id r of None \<Rightarrow> True | Some a \<Rightarrow> a = app)
     \<and> (case wr_title r of None \<Rightarrow> True | Some t \<Rightarrow> contains title t)"

text \<open>Where a window goes: output, workspace, whether it floats, the size it gets.\<close>

type_synonym placement = "str \<times> u8 \<times> bool \<times> int option \<times> int option"

definition apply_rule :: "str list \<Rightarrow> desktop \<Rightarrow> window_rule \<Rightarrow> placement \<Rightarrow> placement" where
  "apply_rule names d r p =
     (case p of (output, workspace, floating, width, height) \<Rightarrow>
        (let (output, workspace) =
               (case wr_output r of
                  None \<Rightarrow> (output, workspace)
                | Some o' \<Rightarrow> if o' \<in> set names then (o', workspace_of d o') else (output, workspace));
             workspace = (case wr_workspace r of None \<Rightarrow> workspace | Some n \<Rightarrow> n);
             floating = (case wr_floating r of None \<Rightarrow> floating | Some f \<Rightarrow> f);
             width = (case wr_width r of None \<Rightarrow> width | Some x \<Rightarrow> Some x);
             height = (case wr_height r of None \<Rightarrow> height | Some x \<Rightarrow> Some x)
         in (output, workspace, floating, width, height)))"

definition initial_placement :: "str list \<Rightarrow> str \<Rightarrow> client \<Rightarrow> desktop \<Rightarrow> placement" where
  "initial_placement names active c d =
     (let (app, title) = identity c;
          floating = (cl_toplevel c \<and> cl_has_parent c) \<or> cl_auxiliary c;
          (w, h) = cl_size c;
          width = (if cl_auxiliary c \<and> 0 < w then Some w else None);
          height = (if cl_auxiliary c \<and> 0 < h then Some h else None)
      in foldl (\<lambda>p r. if rule_matches app title r then apply_rule names d r p else p)
           (active, workspace_of d active, floating, width, height) (cf_rules (dk_config d)))"

definition adopt_window :: "str list \<Rightarrow> str \<Rightarrow> clients \<Rightarrow> nat \<Rightarrow> desktop \<Rightarrow> desktop" where
  "adopt_window names active clients window d =
     (if list_ex (\<lambda>w. mg_window w = window) (dk_windows d)
         \<or> (cl_x11_window (clients window) \<noteq> None \<and> cl_override_redirect (clients window))
      then d
      else
        (case initial_placement names active (clients window) d of
           (output, workspace, floating, width, height) \<Rightarrow>
             d\<lparr>dk_windows := dk_windows d @
                 [\<lparr>mg_window = window, mg_id = dk_next_id d, mg_workspace = workspace,
                   mg_output = output, mg_floating = floating, mg_fullscreen = False,
                   mg_scratchpad = False, mg_rect = None, mg_floating_rect = None,
                   mg_requested_size = (width, height), mg_last_size = None, mg_opacity = Fin 1,
                   mg_opening_started = None, mg_opened = False, mg_movement = None,
                   mg_resize = None\<rparr>],
               dk_next_id := dk_next_id d + 1, dk_dirty := True\<rparr>))"

definition adopt_windows :: "pass_env \<Rightarrow> shell_state \<Rightarrow> shell_state" where
  "adopt_windows env s =
     (let names = map so_name (ss_outputs s);
          active = (case active_output s of Some name \<Rightarrow> name
                    | None \<Rightarrow> (case names of [] \<Rightarrow> [] | name # _ \<Rightarrow> name))
      in s\<lparr>ss_desktop :=
             foldl (\<lambda>d window. adopt_window names active (pe_clients env) window d)
               (ss_desktop s) (map fst (ss_elements s))\<rparr>)"

section \<open>Opening and moving\<close>

text \<open>\<open>opening_opacity\<close> of \<open>core/src/lib.rs\<close>; \<open>elapsed\<close> is in nanoseconds.\<close>

definition opening_opacity :: "nat \<Rightarrow> u32 \<Rightarrow> bool \<Rightarrow> f32" where
  "opening_opacity elapsed duration_ms reduced_motion =
     (if reduced_motion \<or> duration_ms = 0 then Fin 1
      else
        (let progress = f64_clamp (Fin 0) (Fin 1)
               (f64_div (f64_mul (as_secs_f64 elapsed) (Fin 1000)) (f64_of_int (uint duration_ms)));
             rest' = f64_sub (Fin 1) progress
         in f64_to_f32 (f64_sub (Fin 1) (f64_mul rest' (f64_mul rest' rest')))))"

text \<open>A coordinate on its way from \<open>a\<close> to \<open>b\<close>.\<close>

definition interpolate :: "f64 \<Rightarrow> int \<Rightarrow> int \<Rightarrow> f64" where
  "interpolate t a b =
     f64_round (f64_add (f64_of_int a) (f64_mul (f64_sub (f64_of_int b) (f64_of_int a)) t))"

definition geo_contains :: "rect \<Rightarrow> int \<times> int \<Rightarrow> bool" where
  "geo_contains geo p \<longleftrightarrow>
     rx geo \<le> fst p \<and> fst p < rx geo + rw geo \<and> ry geo \<le> snd p \<and> snd p < ry geo + rh geo"

text \<open>\<open>Space::map_element\<close> puts the window on top, at its new location.\<close>

definition map_element :: "nat \<Rightarrow> int \<times> int \<Rightarrow> (nat \<times> (int \<times> int)) list \<Rightarrow> (nat \<times> (int \<times> int)) list" where
  "map_element w location es = filter (\<lambda>e. fst e \<noteq> w) es @ [(w, location)]"

section \<open>Placing one window\<close>

text \<open>
  What the placement of a window depends on: the clock, the flags of the pass, the output, its
  usable area, and the tiles of the output with the indices of the windows they are for.
\<close>

record place_env =
  pl_now :: instant
  pl_clients :: clients
  pl_gaming :: "str list"
  pl_animate :: bool
  pl_focused :: "nat option"
  pl_geometry :: rect
  pl_area :: rect
  pl_rotated :: bool
  pl_refresh :: int
  pl_tiles :: "nat list"
  pl_rects :: "rect list"

text \<open>The pass so far: whether something is being animated, on how fast an output, what moved.\<close>

record pass =
  ps_state :: shell_state
  ps_animating :: bool
  ps_refresh :: int
  ps_moved :: bool

text \<open>The fade of a new window: its opacity, and the window with its start or end noted.\<close>

definition opening_step :: "place_env \<Rightarrow> shell_state \<Rightarrow> managed \<Rightarrow> f32 \<times> managed \<times> bool" where
  "opening_step env s w =
     (if mg_opened w \<or> mg_fullscreen w \<or> ss_locked s \<or> \<not> dk_active (ss_desktop s)
      then (Fin 1, w\<lparr>mg_opened := True\<rparr>, False)
      else if cl_bbox_empty (pl_clients env (mg_window w)) then (Fin 0, w, False)
      else
        (let started = (case mg_opening_started w of None \<Rightarrow> pl_now env | Some t \<Rightarrow> t);
             th = cf_theme (dk_config (ss_desktop s));
             v = opening_opacity (pl_now env - started) (th_animation_ms th) (th_reduced_motion th);
             opened = f64_le (Fin 1) v
         in (v, w\<lparr>mg_opening_started := Some started, mg_opened := opened\<rparr>, \<not> opened)))"

definition last_rule :: "config \<Rightarrow> str \<times> str \<Rightarrow> (window_rule \<Rightarrow> 'a option) \<Rightarrow> 'a \<Rightarrow> 'a" where
  "last_rule cfg ident field fallback =
     (case concat (map (\<lambda>r. case field r of None \<Rightarrow> [] | Some x \<Rightarrow> [x])
             (filter (rule_matches (fst ident) (snd ident)) (cf_rules cfg))) of
        [] \<Rightarrow> fallback | x # xs \<Rightarrow> last (x # xs))"

definition visual_of :: "place_env \<Rightarrow> shell_state \<Rightarrow> nat \<Rightarrow> managed \<Rightarrow> f32 \<Rightarrow> (int \<times> int) option \<Rightarrow> visual" where
  "visual_of env s i w opening render_size =
     (let cfg = dk_config (ss_desktop s); ident = identity (pl_clients env (mg_window w))
      in \<lparr>vs_opening = opening,
          vs_focused = (pl_focused env = Some i),
          vs_blur = (\<not> mg_fullscreen w \<and> last_rule cfg ident wr_blur (th_blur (cf_theme cfg))),
          vs_opacity = (if mg_fullscreen w \<or> mg_output w \<in> set (pl_gaming env) then Fin 1
                        else last_rule cfg ident wr_opacity (th_opacity (cf_theme cfg))),
          vs_radius = (if mg_fullscreen w \<or> pl_rotated env then Fin 0 else th_radius (cf_theme cfg)),
          vs_render_size = render_size\<rparr>)"

text \<open>
  The rectangle a window gets, and the floating geometry it remembers. The branches without a
  result stand for panics of the source, which \<open>windows_fit_their_output\<close> excludes.
\<close>

definition target_rect :: "place_env \<Rightarrow> nat \<Rightarrow> managed \<Rightarrow> rect \<times> managed" where
  "target_rect env i w =
     (if mg_fullscreen w then (pl_geometry env, w)
      else if mg_floating w then
        (case floating_rect (pl_area env) (mg_floating_rect w) (mg_requested_size w) of
           Some r \<Rightarrow> (r, w\<lparr>mg_floating_rect := Some r\<rparr>)
         | None \<Rightarrow> (pl_area env, w))
      else (case position (\<lambda>j. j = i) (pl_tiles env) of
              Some k \<Rightarrow> (pl_rects env ! k, w)
            | None \<Rightarrow> (pl_geometry env, w)))"

definition movement_step :: "place_env \<Rightarrow> (int \<times> int) option \<Rightarrow> rect \<Rightarrow> managed \<Rightarrow> managed" where
  "movement_step env location r w =
     (if \<not> pl_animate env \<or> mg_fullscreen w \<or> location = None then w\<lparr>mg_movement := None\<rparr>
      else if mg_rect w \<noteq> Some r
      then w\<lparr>mg_movement :=
               (case location of
                  None \<Rightarrow> None
                | Some l \<Rightarrow> if mg_rect w \<noteq> None \<and> l \<noteq> (rx r, ry r) \<and> geo_contains (pl_geometry env) l
                            then Some \<lparr>mv_from = l, mv_started = pl_now env\<rparr> else None)\<rparr>
      else w)"

definition resize_step ::
  "place_env \<Rightarrow> (int \<times> int) option \<Rightarrow> (int \<times> int) option \<Rightarrow> rect \<Rightarrow> managed \<Rightarrow> managed" where
  "resize_step env location render_size r w =
     (if \<not> pl_animate env \<or> mg_fullscreen w \<or> location = None then w\<lparr>mg_resize := None\<rparr>
      else if mg_rect w \<noteq> Some r
        \<and> (case mg_rect w of None \<Rightarrow> False | Some p \<Rightarrow> (rw p, rh p) \<noteq> (rw r, rh r))
      then w\<lparr>mg_resize :=
               (case (case render_size of Some sz \<Rightarrow> Some sz
                        | None \<Rightarrow> map_option (\<lambda>p. (rw p, rh p)) (mg_rect w)) of
                  None \<Rightarrow> None
                | Some from \<Rightarrow> if from \<noteq> (rw r, rh r)
                               then Some \<lparr>rz_from = from, rz_started = pl_now env\<rparr> else None)\<rparr>
      else w)"

text \<open>Where a moving window is now, and how large a resizing one is drawn.\<close>

definition animated_location :: "place_env \<Rightarrow> u32 \<Rightarrow> rect \<Rightarrow> managed \<Rightarrow> (int \<times> int) \<times> managed \<times> bool" where
  "animated_location env ms r w =
     (case mg_movement w of
        None \<Rightarrow> ((rx r, ry r), w, False)
      | Some mv \<Rightarrow>
          (let progress = opening_opacity (pl_now env - mv_started mv) ms False
           in if f64_le (Fin 1) progress then ((rx r, ry r), w\<lparr>mg_movement := None\<rparr>, False)
              else ((f64_to_i32 (interpolate progress (fst (mv_from mv)) (rx r)),
                     f64_to_i32 (interpolate progress (snd (mv_from mv)) (ry r))), w, True)))"

definition animated_size :: "place_env \<Rightarrow> u32 \<Rightarrow> rect \<Rightarrow> managed \<Rightarrow> (int \<times> int) \<times> managed \<times> bool" where
  "animated_size env ms r w =
     (case mg_resize w of
        None \<Rightarrow> ((rw r, rh r), w, False)
      | Some rz \<Rightarrow>
          (let progress = opening_opacity (pl_now env - rz_started rz) ms False
           in if f64_le (Fin 1) progress then ((rw r, rh r), w\<lparr>mg_resize := None\<rparr>, False)
              else ((f64_to_i32 (f64_max (interpolate progress (fst (rz_from rz)) (rw r)) (Fin 1)),
                     f64_to_i32 (f64_max (interpolate progress (snd (rz_from rz)) (rh r)) (Fin 1))),
                    w, True)))"

definition place_window :: "place_env \<Rightarrow> str \<Rightarrow> nat \<Rightarrow> pass \<Rightarrow> pass" where
  "place_window env name i p =
     (let s = ps_state p; d = ss_desktop s; w0 = dk_windows d ! i; window = mg_window w0;
          ms = th_animation_ms (cf_theme (dk_config d));
          (opening, w1, fading) = opening_step env s w0;
          (r, w2) = target_rect env i w1;
          location = element_location s window;
          old = ss_visual s window;
          changed = mg_rect w2 \<noteq> Some r;
          w3 = resize_step env location (vs_render_size old) r (movement_step env location r w2);
          (place, w4, moving) = animated_location env ms r w3;
          (extent, w5, resizing) = animated_size env ms r w4;
          render_size = (if extent \<noteq> cl_size (pl_clients env window) then Some extent else None);
          visual = visual_of env s i w0 opening render_size;
          remap = changed \<or> location \<noteq> Some place;
          w6 = w5\<lparr>mg_opacity := vs_opacity visual, mg_rect := (if remap then Some r else mg_rect w5),
                  mg_last_size := Some (rw r, rh r)\<rparr>;
          animating = fading \<or> moving \<or> resizing
      in \<lparr>ps_state = s\<lparr>
            ss_desktop := d\<lparr>dk_windows := (dk_windows d)[i := w6],
              dk_redraw := dk_redraw d \<or> visual\<lparr>vs_radius := vs_radius old\<rparr> \<noteq> old \<or> remap\<rparr>,
            ss_visual := (ss_visual s)(window := visual),
            ss_fullscreen := (if mg_fullscreen w0 then (ss_fullscreen s)(name \<mapsto> window)
                              else ss_fullscreen s),
            ss_elements := (if remap then map_element window place (ss_elements s) else ss_elements s),
            ss_toplevel :=
              (if cl_toplevel (pl_clients env window)
               then (ss_toplevel s)(window \<mapsto>
                      \<lparr>tp_size = (rw r, rh r), tp_bounds = (rw (pl_area env), rh (pl_area env)),
                       tp_activated = (pl_focused env = Some i), tp_fullscreen = mg_fullscreen w0,
                       tp_tiled = (\<not> mg_floating w0)\<rparr>)
               else ss_toplevel s),
            ss_configured :=
              (if cl_x11_window (pl_clients env window) \<noteq> None
                 \<and> (changed \<or> mg_last_size w0 \<noteq> Some (rw r, rh r))
               then ss_configured s @ [(window, r)] else ss_configured s)\<rparr>,
          ps_animating = ps_animating p \<or> animating,
          ps_refresh = (if animating then max (ps_refresh p) (pl_refresh env) else ps_refresh p),
          ps_moved = ps_moved p \<or> (remap \<and> location \<noteq> Some place)\<rparr>)"

section \<open>Laying out an output\<close>

definition effective_theme :: "theme \<Rightarrow> bool \<Rightarrow> theme" where
  "effective_theme th gaming =
     (if gaming
      then th\<lparr>th_blur := False, th_blur_passes := 0, th_shadow_size := 0, th_shadow_opacity := Fin 0,
              th_radius := Fin 0, th_opacity := Fin 1, th_animation_ms := 0, th_reduced_motion := True\<rparr>
      else th)"

text \<open>The indices of the windows an output shows, and of those it tiles.\<close>

definition visible_on :: "str \<Rightarrow> u8 \<Rightarrow> managed \<Rightarrow> bool" where
  "visible_on name workspace w \<longleftrightarrow> mg_output w = name \<and> mg_workspace w = workspace \<and> \<not> mg_scratchpad w"

definition visible_indices :: "desktop \<Rightarrow> str \<Rightarrow> u8 \<Rightarrow> nat list" where
  "visible_indices d name workspace =
     filter (\<lambda>i. visible_on name workspace (dk_windows d ! i)) [0..<length (dk_windows d)]"

definition tiled_indices :: "desktop \<Rightarrow> nat list \<Rightarrow> nat list" where
  "tiled_indices d visible =
     filter (\<lambda>i. \<not> mg_floating (dk_windows d ! i) \<and> \<not> mg_fullscreen (dk_windows d ! i)) visible"

definition configured_transform :: "output_config option \<Rightarrow> str" where
  "configured_transform c =
     (case c of None \<Rightarrow> ''normal''
      | Some oc \<Rightarrow> if oc_transform oc \<in> {''90'', ''180'', ''270'', ''flipped'', ''flipped-90'', ''flipped-180'',
                       ''flipped-270''} then oc_transform oc else ''normal'')"

text \<open>The configured scale, transform and position of an output are applied before it is laid out.\<close>

definition arrange_output :: "pass_env \<Rightarrow> output_config option \<Rightarrow> rect \<Rightarrow> space_output
    \<Rightarrow> space_output \<times> rect \<times> bool" where
  "arrange_output env configured geo o' =
     (let scale = (case configured of None \<Rightarrow> Fin 1 | Some c \<Rightarrow> oc_scale c);
          transform = configured_transform configured;
          changed = (so_scale o' \<noteq> scale \<or> so_transform o' \<noteq> transform);
          (geometry, zone) = pe_rearranged env (so_name o') scale transform;
          o1 = (if changed then o'\<lparr>so_scale := scale, so_transform := transform,
                                  so_geometry := geometry, so_zone := zone\<rparr> else o');
          geo1 = (if changed then (case geometry of None \<Rightarrow> geo | Some g \<Rightarrow> g) else geo)
      in case configured of
           None \<Rightarrow> (o1, geo1, changed)
         | Some c \<Rightarrow>
             if (rx geo1, ry geo1) \<noteq> (oc_x c, oc_y c)
             then (let geo2 = geo1\<lparr>rx := oc_x c, ry := oc_y c\<rparr>
                   in (o1\<lparr>so_geometry := Some geo2\<rparr>, geo2, changed))
             else (o1, geo1, changed))"

definition replace_output :: "space_output \<Rightarrow> space_output list \<Rightarrow> space_output list" where
  "replace_output o' os = map (\<lambda>x. if so_name x = so_name o' then o' else x) os"

text \<open>The area of an output that panels leave free, its tiled windows and their tiles.\<close>

definition usable_area :: "rect \<Rightarrow> rect \<Rightarrow> rect" where
  "usable_area geo zone =
     \<lparr>rx = wrap32 (rx geo + rx zone), ry = wrap32 (ry geo + ry zone), rw = rw zone, rh = rh zone\<rparr>"

definition output_tiles :: "desktop \<Rightarrow> str \<Rightarrow> nat list" where
  "output_tiles d name = tiled_indices d (visible_indices d name (workspace_of d name))"

definition output_rects :: "config \<Rightarrow> rect \<Rightarrow> nat \<Rightarrow> rect list" where
  "output_rects cfg area count =
     tile area count (wrap32 (th_gap (cf_theme cfg) + th_border (cf_theme cfg)))
       (ly_master_ratio (cf_layout cfg)) (ly_mode (cf_layout cfg) = ''monocle'')"

definition place_env_of ::
  "pass_env \<Rightarrow> str list \<Rightarrow> bool \<Rightarrow> nat option \<Rightarrow> space_output \<Rightarrow> rect \<Rightarrow> desktop \<Rightarrow> place_env" where
  "place_env_of env gaming animate focused o' geo d =
     (let area = usable_area geo (so_zone o'); tiles = output_tiles d (so_name o')
      in \<lparr>pl_now = pe_clock env, pl_clients = pe_clients env, pl_gaming = gaming,
          pl_animate = animate, pl_focused = focused, pl_geometry = geo, pl_area = area,
          pl_rotated = (so_transform o' \<noteq> ''normal''),
          pl_refresh = (case so_refresh o' of None \<Rightarrow> 60000 | Some n \<Rightarrow> n),
          pl_tiles = tiles, pl_rects = output_rects (dk_config d) area (length tiles)\<rparr>)"

definition layout_windows ::
  "pass_env \<Rightarrow> str list \<Rightarrow> bool \<Rightarrow> nat option \<Rightarrow> space_output \<Rightarrow> rect \<Rightarrow> pass \<Rightarrow> pass" where
  "layout_windows env gaming animate focused o' geo p =
     (let s = ps_state p; d = ss_desktop s; name = so_name o';
          place = place_env_of env gaming animate focused o' geo d
      in foldl (\<lambda>p i. place_window place name i p)
           (p\<lparr>ps_state := s\<lparr>ss_fullscreen := (ss_fullscreen s)(name := None)\<rparr>\<rparr>)
           (visible_indices d name (workspace_of d name)))"

text \<open>Closing images and the theme of an output, before its windows are laid out.\<close>

definition begin_output :: "pass_env \<Rightarrow> str list \<Rightarrow> space_output \<Rightarrow> pass \<Rightarrow> pass" where
  "begin_output env gaming o' p =
     (let s = ps_state p; d = ss_desktop s; th = cf_theme (dk_config d); name = so_name o';
          refresh = (case so_refresh o' of None \<Rightarrow> 60000 | Some n \<Rightarrow> n);
          closing = pe_tick env name
            (gaming = [] \<and> dk_active d \<and> \<not> ss_locked s \<and> \<not> th_reduced_motion th
             \<and> 0 < th_animation_ms th \<and> ss_fullscreen s name = None) (workspace_of d name);
          next_theme = effective_theme th (name \<in> set gaming);
          old = ss_theme s name;
          shader = (th_radius old \<noteq> th_radius next_theme \<or> th_blur old \<noteq> th_blur next_theme
                    \<or> th_blur_passes old \<noteq> th_blur_passes next_theme)
      in p\<lparr>ps_state := s\<lparr>ss_theme := (ss_theme s)(name := next_theme),
                         ss_desktop := d\<lparr>dk_redraw := dk_redraw d \<or> closing \<or> shader\<rparr>\<rparr>,
           ps_animating := ps_animating p \<or> closing,
           ps_refresh := (if closing then max (ps_refresh p) refresh else ps_refresh p)\<rparr>)"

definition layout_output ::
  "pass_env \<Rightarrow> str list \<Rightarrow> bool \<Rightarrow> nat option \<Rightarrow> pass \<Rightarrow> str \<Rightarrow> pass" where
  "layout_output env gaming animate focused p name =
     (case List.find (\<lambda>o'. so_name o' = name) (ss_outputs (ps_state p)) of
        None \<Rightarrow> p
      | Some o' \<Rightarrow>
          (let p1 = begin_output env gaming o' p; s = ps_state p1; d = ss_desktop s
           in case so_geometry o' of
                None \<Rightarrow> p1
              | Some geo \<Rightarrow>
                  (case arrange_output env (bt_get (cf_outputs (dk_config d)) name) geo o' of
                     (o1, geo1, changed) \<Rightarrow>
                       layout_windows env gaming animate focused o1 geo1
                         (p1\<lparr>ps_state := s\<lparr>ss_outputs := replace_output o1 (ss_outputs s),
                            ss_desktop := d\<lparr>dk_redraw := dk_redraw d \<or> changed\<rparr>\<rparr>\<rparr>))))"

section \<open>Hiding, stacking, focus\<close>

definition shown :: "desktop \<Rightarrow> managed \<Rightarrow> bool" where
  "shown d w \<longleftrightarrow> \<not> mg_scratchpad w \<and> bt_get (dk_outputs d) (mg_output w) = Some (mg_workspace w)"

definition hide_window :: "pass \<Rightarrow> nat \<Rightarrow> pass" where
  "hide_window p i =
     (let s = ps_state p; d = ss_desktop s; w = dk_windows d ! i; window = mg_window w
      in if \<not> shown d w \<and> element_location s window \<noteq> None
         then p\<lparr>ps_moved := True,
                ps_state := s\<lparr>
                  ss_desktop := d\<lparr>dk_redraw := True,
                    dk_windows := (dk_windows d)[i := w\<lparr>mg_movement := None, mg_resize := None,
                      mg_opened := False, mg_opening_started := None\<rparr>]\<rparr>,
                  ss_visual := (ss_visual s)(window := (ss_visual s window)\<lparr>vs_render_size := None\<rparr>),
                  ss_elements := filter (\<lambda>e. fst e \<noteq> window) (ss_elements s)\<rparr>\<rparr>
         else p)"

definition hide_windows :: "pass \<Rightarrow> pass" where
  "hide_windows p = foldl hide_window p [0..<length (dk_windows (ss_desktop (ps_state p)))]"

definition is_floating :: "desktop \<Rightarrow> nat \<Rightarrow> bool" where
  "is_floating d window \<longleftrightarrow> list_ex (\<lambda>w. mg_window w = window \<and> mg_floating w) (dk_windows d)"

fun tile_above_float :: "(nat \<Rightarrow> bool) \<Rightarrow> nat list \<Rightarrow> bool \<Rightarrow> bool" where
  "tile_above_float flt [] seen = False"
| "tile_above_float flt (w # ws) seen =
     (if flt w then tile_above_float flt ws True else seen \<or> tile_above_float flt ws seen)"

definition restack :: "pass \<Rightarrow> pass" where
  "restack p =
     (let s = ps_state p; d = ss_desktop s; ws = map fst (ss_elements s)
      in if tile_above_float (is_floating d) ws False
         then p\<lparr>ps_state := s\<lparr>ss_elements := foldl (\<lambda>es w. raise_element w es) (ss_elements s)
                                             (filter (is_floating d) ws),
                              ss_desktop := d\<lparr>dk_redraw := True\<rparr>\<rparr>\<rparr>
         else p)"

definition restore_focus :: "shell_state \<Rightarrow> shell_state" where
  "restore_focus s =
     (let ws = dk_windows (ss_desktop s);
          mapped = (\<lambda>w. element_location s (mg_window w) \<noteq> None);
          layer = (case ss_focus s of Some (LayerFocus alive) \<Rightarrow> alive | Some (PopupFocus alive) \<Rightarrow> alive
                   | _ \<Rightarrow> False)
      in if \<not> ss_locked s \<and> \<not> layer
            \<and> (case focused_index s of None \<Rightarrow> True | Some i \<Rightarrow> \<not> mapped (ws ! i))
         then (case rposition mapped ws of
                 Some i \<Rightarrow> focus_window i s
               | None \<Rightarrow> s\<lparr>ss_focus := None\<rparr>)
         else s)"

text \<open>The animation timer: one at a time, at the rate of the fastest output that animates.\<close>

definition update_timer :: "bool \<Rightarrow> int \<Rightarrow> desktop \<Rightarrow> desktop" where
  "update_timer animating refresh d =
     (if animating \<and> dk_animation_timer d = None
      then d\<lparr>dk_animation_timer := Some (nat (clamp 30000 240000 refresh))\<rparr>
      else if \<not> animating then d\<lparr>dk_animation_timer := None\<rparr>
      else d)"

section \<open>The pass\<close>

definition layout_desktop :: "pass_env \<Rightarrow> shell_state \<Rightarrow> pass" where
  "layout_desktop env s =
     (let d = ss_desktop s; th = cf_theme (dk_config d);
          gaming = performance_gaming_outputs s;
          animate = (gaming = [] \<and> \<not> ss_locked s \<and> dk_active d \<and> \<not> ss_pointer_grabbed s
                     \<and> \<not> pe_touch_grabbed env \<and> \<not> th_reduced_motion th \<and> 0 < th_animation_ms th)
      in foldl (layout_output env gaming animate (focused_index s))
           \<lparr>ps_state = s, ps_animating = False, ps_refresh = 0, ps_moved = False\<rparr>
           (map so_name (ss_outputs s)))"

definition maintain_desktop :: "pass_env \<Rightarrow> shell_state \<Rightarrow> shell_state" where
  "maintain_desktop env s =
     (let s1 = sync_desktop env (poll_recorder env s);
          s2 = adopt_windows env (apply_performance env s1);
          p = restack (hide_windows (layout_desktop env s2));
          s3 = restore_focus (ps_state p)
      in with_desktop (\<lambda>d. (update_timer (ps_animating p) (ps_refresh p) d)\<lparr>dk_dirty := False\<rparr>) s3)"

end
