(* ===== verification/MaintainProofs.thy ===== *)
theory MaintainProofs
  imports Maintain
begin

text \<open>What a maintenance pass guarantees.\<close>

section \<open>Workspaces of outputs\<close>

definition outputs_ok :: "(str, u8) btree \<Rightarrow> bool" where
  "outputs_ok m \<longleftrightarrow>
     bt_wf m \<and> inj_map (bt_get m) \<and> (\<forall>k v. bt_get m k = Some v \<longrightarrow> 1 \<le> v \<and> v \<le> 9)"

lemma outputs_okD:
  "outputs_ok m \<Longrightarrow> bt_get m k1 = Some v \<Longrightarrow> bt_get m k2 = Some v \<Longrightarrow> k1 = k2"
  by (auto simp: outputs_ok_def dest: inj_mapD)

lemma outputs_ok_insert:
  assumes "outputs_ok m" "1 \<le> v" "v \<le> 9" and fresh: "\<And>k'. bt_get m k' = Some v \<Longrightarrow> k' = k"
  shows "outputs_ok (bt_insert k v m)"
proof -
  have wf: "bt_wf m" and inj: "inj_map (bt_get m)" using assms(1) by (simp_all add: outputs_ok_def)
  have "inj_map (bt_get (bt_insert k v m))" by (rule bt.inj_insert_fresh [OF wf inj fresh])
  then show ?thesis
    using assms(1,2,3) by (auto simp: outputs_ok_def bt_get_insert bt_wf_insert)
qed

lemma outputs_ok_retain: "outputs_ok m \<Longrightarrow> outputs_ok (bt_retain P m)"
  unfolding outputs_ok_def by (auto intro: bt.wf_retain bt.inj_retain dest: bt.get_retain_SomeD)

lemma bt_get_set: "bt_wf m \<Longrightarrow> (k, v) \<in> set m \<longleftrightarrow> bt_get m k = Some v"
  by (simp add: bt_get_iff)

lemma bt_length_keys: "bt_wf m \<Longrightarrow> length m = card (fst ` set m)"
  using bt_wf_distinct [of m] by (metis distinct_card length_map list.set_map)

text \<open>With at most eight outputs there is a workspace left for another one.\<close>

lemma free_workspace_fresh:
  assumes "bt_wf m" "length m \<le> 8"
  shows "1 \<le> free_workspace m \<and> free_workspace m \<le> 9 \<and> bt_get m k \<noteq> Some (free_workspace m)"
proof -
  let ?W = "map word_of_nat [1..<10] :: u8 list"
  have W: "?W = [1, 2, 3, 4, 5, 6, 7, 8, 9]" by (simp add: upt_rec)
  have card: "card (set ?W) = 9" unfolding W by simp
  have "card (snd ` set m) \<le> card (set m)" by (rule card_image_le) simp
  also have "\<dots> \<le> 8" using assms(2) card_length [of m] by simp
  finally have "card (snd ` set m) < card (set ?W)" unfolding card by simp
  hence "\<not> set ?W \<subseteq> snd ` set m" by (metis card_mono finite_imageI finite_set not_le)
  then obtain n where "n \<in> set ?W" "n \<notin> snd ` set m" by blast
  hence "List.find (\<lambda>n. \<not> list_ex (\<lambda>(_, w). w = n) m) ?W \<noteq> None"
    unfolding find_None_iff list_ex_iff by force
  then obtain n' where n': "List.find (\<lambda>n. \<not> list_ex (\<lambda>(_, w). w = n) m) ?W = Some n'" by blast
  have free: "free_workspace m = n'" unfolding free_workspace_def n' by simp
  have mem: "n' \<in> set ?W" "\<not> list_ex (\<lambda>(_, w). w = n') m"
    using find_SomeD [OF n'] by simp_all
  have "1 \<le> n' \<and> n' \<le> 9" using mem(1) unfolding W by auto
  moreover have "bt_get m k \<noteq> Some n'"
    using mem(2) bt_get_iff [OF assms(1), of k n'] by (force simp: list_ex_iff)
  ultimately show ?thesis by (simp add: free)
qed

lemma bt_contains_iff: "bt_contains m k \<longleftrightarrow> k \<in> dom (bt_get m)"
  by (auto simp: bt_contains_def)

lemma bt_length: "bt_wf m \<Longrightarrow> length m = card (dom (bt_get m))"
  using distinct_card [OF bt_wf_distinct, of m] by (simp add: bt_get_def [abs_def] dom_map_of_conv_image_fst)

lemma assign_output_ok:
  assumes "outputs_ok m" "dom (bt_get m) \<subseteq> set names" "name \<in> set names" "length names \<le> 9"
  shows "outputs_ok (assign_output name m)"
    and "dom (bt_get (assign_output name m)) = insert name (dom (bt_get m))"
    and "bt_get m k = Some v \<Longrightarrow> bt_get (assign_output name m) k = Some v"
proof -
  have wf: "bt_wf m" using assms(1) by (simp add: outputs_ok_def)
  have len: "length m \<le> 8" if "\<not> bt_contains m name"
  proof -
    have "dom (bt_get m) \<subset> set names" using that assms(2,3) by (auto simp: bt_contains_iff)
    hence "card (dom (bt_get m)) < card (set names)" by (simp add: psubset_card_mono)
    also have "\<dots> \<le> 9" using card_length [of names] assms(4) by linarith
    finally show ?thesis by (simp add: bt_length [OF wf])
  qed
  show "outputs_ok (assign_output name m)"
    using assms(1) free_workspace_fresh [OF wf len]
    by (auto simp: assign_output_def intro!: outputs_ok_insert)
  show "dom (bt_get (assign_output name m)) = insert name (dom (bt_get m))"
    by (auto simp: assign_output_def bt_get_insert bt_contains_iff)
  show "bt_get m k = Some v \<Longrightarrow> bt_get (assign_output name m) k = Some v"
    by (auto simp: assign_output_def bt_get_insert bt_contains_def)
qed

lemma assign_outputs_ok:
  assumes "set todo \<subseteq> set names" "length names \<le> 9"
    and "outputs_ok m" "dom (bt_get m) \<subseteq> set names"
  shows "outputs_ok (foldl (\<lambda>m name. assign_output name m) m todo)
    \<and> dom (bt_get (foldl (\<lambda>m name. assign_output name m) m todo)) = dom (bt_get m) \<union> set todo
    \<and> (\<forall>k v. bt_get m k = Some v \<longrightarrow> bt_get (foldl (\<lambda>m name. assign_output name m) m todo) k = Some v)"
  using assms(1,3,4)
proof (induction todo arbitrary: m)
  case (Cons name todo)
  note one = assign_output_ok [OF Cons.prems(2,3) _ assms(2), of name]
  have "dom (bt_get (assign_output name m)) \<subseteq> set names" using one(2) Cons.prems by auto
  with one Cons.prems Cons.IH [of "assign_output name m"] show ?case by auto
qed simp

text \<open>Outputs that stay keep their workspaces, new ones get free ones, gone ones are forgotten.\<close>

lemma sync_outputs_ok:
  assumes "outputs_ok m" "length names \<le> 9"
  shows "outputs_ok (sync_outputs names m)"
    and "dom (bt_get (sync_outputs names m)) = set names"
    and "name \<in> set names \<Longrightarrow> bt_get m name = Some v \<Longrightarrow> bt_get (sync_outputs names m) name = Some v"
proof -
  let ?kept = "bt_retain (\<lambda>name _. name \<in> set names) m"
  have wf: "bt_wf m" using assms(1) by (simp add: outputs_ok_def)
  have "dom (bt_get ?kept) \<subseteq> set names"
    using bt.get_retain_SomeD [OF wf] by fastforce
  note all = assign_outputs_ok [OF subset_refl assms(2) outputs_ok_retain [OF assms(1)] this]
  then show "outputs_ok (sync_outputs names m)"
    "dom (bt_get (sync_outputs names m)) = set names"
    using \<open>dom (bt_get ?kept) \<subseteq> set names\<close> by (auto simp: sync_outputs_def)
  show "name \<in> set names \<Longrightarrow> bt_get m name = Some v \<Longrightarrow> bt_get (sync_outputs names m) name = Some v"
    using all by (simp add: sync_outputs_def bt_get_retain [OF wf])
qed

section \<open>One window placed\<close>

text \<open>What the policy decided about a window, which no layout changes.\<close>

definition mg_key :: "managed \<Rightarrow> nat \<times> nat \<times> u8 \<times> str \<times> bool \<times> bool \<times> bool" where
  "mg_key w = (mg_window w, mg_id w, mg_workspace w, mg_output w, mg_floating w, mg_fullscreen w,
     mg_scratchpad w)"

lemma mg_keyD:
  "mg_key w = mg_key w' \<Longrightarrow> mg_window w = mg_window w' \<and> mg_id w = mg_id w'
     \<and> mg_workspace w = mg_workspace w' \<and> mg_output w = mg_output w' \<and> mg_floating w = mg_floating w'
     \<and> mg_fullscreen w = mg_fullscreen w' \<and> mg_scratchpad w = mg_scratchpad w'"
  by (simp add: mg_key_def)

lemma opening_step_shape:
  assumes "opening_step env s w = (v, w', fading)"
  shows "w' = w\<lparr>mg_opening_started := mg_opening_started w', mg_opened := mg_opened w'\<rparr>"
proof -
  consider "w' = w\<lparr>mg_opened := True\<rparr>" | "w' = w"
    | a b where "w' = w\<lparr>mg_opening_started := a, mg_opened := b\<rparr>"
    using assms unfolding opening_step_def Let_def by (metis prod.inject)
  then show ?thesis by cases (cases w; simp)+
qed

lemma target_rect_opening:
  "fst (target_rect env i (w\<lparr>mg_opening_started := a, mg_opened := b\<rparr>)) = fst (target_rect env i w)"
  by (simp add: target_rect_def split: option.split)

lemma opening_step_keeps:
  assumes "opening_step env s w = (v, w', fading)"
  shows "mg_key w' = mg_key w \<and> mg_rect w' = mg_rect w \<and> fst (target_rect env' i w') = fst (target_rect env' i w)"
proof -
  obtain a b where "w' = w\<lparr>mg_opening_started := a, mg_opened := b\<rparr>"
    using opening_step_shape [OF assms] by blast
  then show ?thesis by (simp add: target_rect_opening mg_key_def)
qed

lemma target_rect_keeps: "target_rect env i w = (r, w') \<Longrightarrow> mg_key w' = mg_key w \<and> mg_rect w' = mg_rect w"
  by (auto simp: target_rect_def mg_key_def split: if_splits option.splits)

lemma movement_step_keeps:
  "mg_key (movement_step env location r w) = mg_key w" "mg_rect (movement_step env location r w) = mg_rect w"
  by (simp_all add: movement_step_def mg_key_def)

lemma resize_step_keeps:
  "mg_key (resize_step env location sz r w) = mg_key w" "mg_rect (resize_step env location sz r w) = mg_rect w"
  by (simp_all add: resize_step_def mg_key_def)

lemma animated_location_keeps:
  "animated_location env ms r w = (place, w', moving) \<Longrightarrow> mg_key w' = mg_key w \<and> mg_rect w' = mg_rect w"
  by (auto simp: animated_location_def Let_def mg_key_def split: if_splits option.splits)

lemma animated_size_keeps:
  "animated_size env ms r w = (sz, w', resizing) \<Longrightarrow> mg_key w' = mg_key w \<and> mg_rect w' = mg_rect w"
  by (auto simp: animated_size_def Let_def mg_key_def split: if_splits option.splits)

lemma map_of_map_element:
  "map_of (map_element w l es) v = (if v = w then Some l else map_of es v)"
  by (induction es) (auto simp: map_element_def)

lemma distinct_map_element: "distinct (map fst es) \<Longrightarrow> distinct (map fst (map_element w l es))"
  by (auto simp: map_element_def distinct_map inj_on_def)

text \<open>The parts of the state that a layout leaves alone.\<close>

definition layout_frame :: "shell_state \<Rightarrow> (str, u8) btree \<times> config \<times> nat \<times> bool \<times> bool
    \<times> desktop_focus option \<times> controller \<times> capture_boost" where
  "layout_frame s = (dk_outputs (ss_desktop s), dk_config (ss_desktop s), dk_next_id (ss_desktop s),
     dk_active (ss_desktop s), ss_locked s, ss_focus s, dk_recorder (ss_desktop s), ss_boost s)"

lemma place_window_effect:
  fixes p :: pass and env :: place_env and name :: str and i :: nat
  defines "s \<equiv> ps_state p" and "s' \<equiv> ps_state (place_window env name i p)"
  defines "w \<equiv> dk_windows (ss_desktop s) ! i"
  shows "\<exists>w'. dk_windows (ss_desktop s') = (dk_windows (ss_desktop s))[i := w'] \<and> mg_key w' = mg_key w
      \<and> mg_rect w' = Some (fst (target_rect env i w))"
    and "layout_frame s' = layout_frame s" and "ss_outputs s' = ss_outputs s"
    and "element_location s' v = None \<longleftrightarrow> v \<noteq> mg_window w \<and> element_location s v = None"
    and "distinct (map fst (ss_elements s)) \<Longrightarrow> distinct (map fst (ss_elements s'))"
proof -
  let ?location = "element_location s (mg_window w)" and ?old = "ss_visual s (mg_window w)"
  let ?ms = "th_animation_ms (cf_theme (dk_config (ss_desktop s)))"
  obtain opacity w1 fading where 1: "opening_step env s w = (opacity, w1, fading)"
    by (cases "opening_step env s w")
  obtain r w2 where 2: "target_rect env i w1 = (r, w2)" by (cases "target_rect env i w1")
  let ?w3 = "resize_step env ?location (vs_render_size ?old) r (movement_step env ?location r w2)"
  obtain place w4 moving where 4: "animated_location env ?ms r ?w3 = (place, w4, moving)"
    by (cases "animated_location env ?ms r ?w3")
  obtain extent w5 resizing where 5: "animated_size env ?ms r w4 = (extent, w5, resizing)"
    by (cases "animated_size env ?ms r w4")
  note runs = 1 [unfolded s_def w_def] 2 4 [unfolded s_def w_def] 5 [unfolded s_def w_def]
  have r: "r = fst (target_rect env i w)" using opening_step_keeps [OF 1, of env i] 2 by simp
  have key: "mg_key w5 = mg_key w" and rect: "mg_rect w5 = mg_rect w2"
    using opening_step_keeps [OF 1] target_rect_keeps [OF 2] animated_location_keeps [OF 4]
      animated_size_keeps [OF 5] by (simp_all add: movement_step_keeps resize_step_keeps)
  have key': "mg_key (w5\<lparr>mg_opacity := x, mg_rect := y, mg_last_size := z\<rparr>) = mg_key w" for x y z
    using key by (simp add: mg_key_def)
  let ?remap = "mg_rect w2 \<noteq> Some r \<or> ?location \<noteq> Some place"
  have elements: "ss_elements s' =
      (if ?remap then map_element (mg_window w) place (ss_elements s) else ss_elements s)"
    unfolding s'_def s_def w_def by (simp add: place_window_def Let_def runs split del: if_split)
  have "\<exists>x z. dk_windows (ss_desktop s') = (dk_windows (ss_desktop s))[i :=
      w5\<lparr>mg_opacity := x, mg_rect := (if ?remap then Some r else mg_rect w5), mg_last_size := z\<rparr>]"
    unfolding s'_def s_def w_def by (simp add: place_window_def Let_def runs split del: if_split) blast
  then obtain x z where windows: "dk_windows (ss_desktop s') = (dk_windows (ss_desktop s))[i :=
      w5\<lparr>mg_opacity := x, mg_rect := (if ?remap then Some r else mg_rect w5), mg_last_size := z\<rparr>]"
    by blast
  have "(if ?remap then Some r else mg_rect w5) = Some r" using rect by auto
  then show "\<exists>w'. dk_windows (ss_desktop s') = (dk_windows (ss_desktop s))[i := w'] \<and> mg_key w' = mg_key w
      \<and> mg_rect w' = Some (fst (target_rect env i w))"
    unfolding windows r [symmetric]
    by (intro exI [of _ "w5\<lparr>mg_opacity := x, mg_rect := (if ?remap then Some r else mg_rect w5), mg_last_size := z\<rparr>"]
        conjI refl key') simp
  show "layout_frame s' = layout_frame s" "ss_outputs s' = ss_outputs s"
    unfolding s'_def s_def
    by (simp_all add: place_window_def Let_def runs layout_frame_def split del: if_split)
  show "element_location s' v = None \<longleftrightarrow> v \<noteq> mg_window w \<and> element_location s v = None"
    unfolding element_location_def elements
    by (auto simp: map_of_map_element element_location_def)
  show "distinct (map fst (ss_elements s)) \<Longrightarrow> distinct (map fst (ss_elements s'))"
    unfolding elements by (simp add: distinct_map_element)
qed

section \<open>The windows of an output\<close>

lemma keys_length: "map mg_key ws' = map mg_key ws \<Longrightarrow> length ws' = length ws"
  by (metis length_map)

lemma keys_nth: "map mg_key ws' = map mg_key ws \<Longrightarrow> i < length ws \<Longrightarrow> mg_key (ws' ! i) = mg_key (ws ! i)"
  by (metis keys_length nth_map)

lemma visible_on_key: "mg_key w' = mg_key w \<Longrightarrow> visible_on name n w' = visible_on name n w"
  by (auto simp: visible_on_def dest: mg_keyD)

lemma visible_indices_cong:
  assumes "map mg_key (dk_windows d') = map mg_key (dk_windows d)"
  shows "visible_indices d' name n = visible_indices d name n"
  unfolding visible_indices_def keys_length [OF assms]
  by (rule filter_cong) (simp_all add: visible_on_key [OF keys_nth [OF assms]])

lemma output_tiles_cong:
  assumes "map mg_key (dk_windows d') = map mg_key (dk_windows d)" "dk_outputs d' = dk_outputs d"
  shows "output_tiles d' name = output_tiles d name"
proof -
  have "mg_floating (dk_windows d' ! i) = mg_floating (dk_windows d ! i)"
    "mg_fullscreen (dk_windows d' ! i) = mg_fullscreen (dk_windows d ! i)"
    if "i \<in> set (visible_indices d name n)" for i n
    using that mg_keyD [OF keys_nth [OF assms(1)]] by (auto simp: visible_indices_def)
  then show ?thesis
    by (auto simp: output_tiles_def tiled_indices_def workspace_of_def assms(2)
        visible_indices_cong [OF assms(1)] intro!: filter_cong)
qed

lemma visible_indices_set:
  "set (visible_indices d name n) = {i. i < length (dk_windows d) \<and> visible_on name n (dk_windows d ! i)}"
  "distinct (visible_indices d name n)"
  by (auto simp: visible_indices_def)

lemma place_windows_effect:
  fixes p :: pass and env :: place_env and name :: str
  assumes "distinct is" "\<forall>i \<in> set is. i < length (dk_windows (ss_desktop (ps_state p)))"
  defines "s \<equiv> ps_state p" and "s' \<equiv> ps_state (foldl (\<lambda>p i. place_window env name i p) p is)"
  shows "map mg_key (dk_windows (ss_desktop s')) = map mg_key (dk_windows (ss_desktop s))
    \<and> layout_frame s' = layout_frame s \<and> ss_outputs s' = ss_outputs s
    \<and> (\<forall>v. element_location s' v = None \<longleftrightarrow>
         (\<forall>i \<in> set is. mg_window (dk_windows (ss_desktop s) ! i) \<noteq> v) \<and> element_location s v = None)
    \<and> (distinct (map fst (ss_elements s)) \<longrightarrow> distinct (map fst (ss_elements s')))
    \<and> (\<forall>i \<in> set is. mg_rect (dk_windows (ss_desktop s') ! i) =
         Some (fst (target_rect env i (dk_windows (ss_desktop s) ! i))))
    \<and> (\<forall>i. i \<notin> set is \<longrightarrow> dk_windows (ss_desktop s') ! i = dk_windows (ss_desktop s) ! i)"
  using assms(1,2) unfolding s_def s'_def
proof (induction "is" arbitrary: p)
  case Nil
  then show ?case by simp
next
  case (Cons i "is")
  let ?q = "place_window env name i p"
  let ?ws = "dk_windows (ss_desktop (ps_state p))" and ?vs = "dk_windows (ss_desktop (ps_state ?q))"
  obtain w' where w': "?vs = ?ws[i := w']" "mg_key w' = mg_key (?ws ! i)"
      "mg_rect w' = Some (fst (target_rect env i (?ws ! i)))"
    using place_window_effect(1) by blast
  have i: "i < length ?ws" "i \<notin> set is" "distinct is" using Cons.prems by auto
  have keys: "map mg_key ?vs = map mg_key ?ws"
    using w'(1,2) i(1) by (auto simp: map_update list_update_same_conv)
  have len: "\<forall>j \<in> set is. j < length ?vs" using Cons.prems keys_length [OF keys] by simp
  have other: "?vs ! j = ?ws ! j" if "j \<noteq> i" for j using that w'(1) by simp
  have same: "\<forall>j \<in> set is. ?vs ! j = ?ws ! j" using other i(2) by metis
  have at: "?vs ! i = w'" using w'(1) i(1) by simp
  note IH = Cons.IH [OF i(3) len]
  note one = place_window_effect [where p = p and env = env and name = name and i = i]
  show ?case
    using IH one(2,3,4,5) keys same at i(2) w'(3) other by (auto simp: foldl_Cons)
qed

section \<open>What fits an output\<close>

text \<open>
  The rectangle the policy promises to a window shown on an output: the whole output, a floating
  rectangle of the usable area, or its tile.
\<close>

definition fits :: "desktop \<Rightarrow> space_output \<Rightarrow> rect \<Rightarrow> nat \<Rightarrow> bool" where
  "fits d o' geo i \<longleftrightarrow>
     (let w = dk_windows d ! i; area = usable_area geo (so_zone o'); tiles = output_tiles d (so_name o')
      in \<exists>r. mg_rect w = Some r
        \<and> (if mg_fullscreen w then r = geo
           else if mg_floating w then \<exists>saved w h.
             r = (case floating_rect area saved (w, h) of Some f \<Rightarrow> f | None \<Rightarrow> area)
           else \<exists>k < length tiles. tiles ! k = i \<and> r = output_rects (dk_config d) area (length tiles) ! k))"

lemma target_rect_fits:
  assumes vis: "i \<in> set (visible_indices d (so_name o') (workspace_of d (so_name o')))"
    and place_def: "place = place_env_of env gaming animate focused o' geo d"
    and w_def: "w = dk_windows d ! i"
    and rect: "mg_rect (dk_windows d' ! i) = Some (fst (target_rect place i w))"
    and keys: "map mg_key (dk_windows d') = map mg_key (dk_windows d)"
    and same: "dk_outputs d' = dk_outputs d" "dk_config d' = dk_config d"
  shows "fits d' o' geo i"
proof -
  let ?area = "usable_area geo (so_zone o')" and ?tiles = "output_tiles d (so_name o')"
  have i: "i < length (dk_windows d)" using vis by (simp add: visible_indices_set)
  have key: "mg_fullscreen (dk_windows d' ! i) = mg_fullscreen w" "mg_floating (dk_windows d' ! i) = mg_floating w"
    using mg_keyD [OF keys_nth [OF keys i]] by (simp_all add: w_def)
  have tiles: "output_tiles d' (so_name o') = ?tiles" by (rule output_tiles_cong [OF keys same(1)])
  have place: "pl_geometry place = geo" "pl_area place = ?area" "pl_tiles place = ?tiles"
    "pl_rects place = output_rects (dk_config d) ?area (length ?tiles)"
    by (simp_all add: place_def place_env_of_def Let_def)
  consider (full) "mg_fullscreen w" | (float) "\<not> mg_fullscreen w" "mg_floating w"
    | (tile) "\<not> mg_fullscreen w" "\<not> mg_floating w" by blast
  then show ?thesis
  proof cases
    case full
    then show ?thesis using rect key place by (simp add: fits_def Let_def target_rect_def)
  next
    case float
    then have "fst (target_rect place i w) =
        (case floating_rect ?area (mg_floating_rect w) (mg_requested_size w) of Some f \<Rightarrow> f | None \<Rightarrow> ?area)"
      using place by (simp add: target_rect_def split: option.split)
    with float show ?thesis
      unfolding fits_def Let_def rect key by (cases "mg_requested_size w") auto
  next
    case tile
    then have "i \<in> set ?tiles" using vis by (simp add: output_tiles_def tiled_indices_def w_def)
    then obtain k where k: "position (\<lambda>j. j = i) ?tiles = Some k"
      using position_None [of "\<lambda>j. j = i" ?tiles] by fastforce
    then have "k < length ?tiles" "?tiles ! k = i" using position_Some [OF k] by auto
    moreover have "fst (target_rect place i w) = output_rects (dk_config d) ?area (length ?tiles) ! k"
      using tile k by (simp add: target_rect_def place)
    ultimately show ?thesis
      using tile unfolding fits_def Let_def rect key tiles same(2) by auto
  qed
qed

lemma fits_cong:
  assumes "fits d o' geo i" "map mg_key (dk_windows d') = map mg_key (dk_windows d)"
    and "dk_outputs d' = dk_outputs d" "dk_config d' = dk_config d"
    and "mg_rect (dk_windows d' ! i) = mg_rect (dk_windows d ! i)"
    and "mg_key (dk_windows d' ! i) = mg_key (dk_windows d ! i)"
  shows "fits d' o' geo i"
proof -
  have "mg_floating (dk_windows d' ! i) = mg_floating (dk_windows d ! i)"
    "mg_fullscreen (dk_windows d' ! i) = mg_fullscreen (dk_windows d ! i)"
    using mg_keyD [OF assms(6)] by simp_all
  then have "fits d' o' geo i = fits d o' geo i"
    unfolding fits_def Let_def by (simp only: output_tiles_cong [OF assms(2,3)] assms(4,5))
  with assms(1) show ?thesis by simp
qed

section \<open>An output laid out\<close>

lemma arrange_output_keeps:
  "arrange_output env c geo o' = (o1, geo1, ch) \<Longrightarrow> so_name o1 = so_name o'
     \<and> (so_geometry o' = Some geo \<longrightarrow> so_geometry o1 = Some g \<longrightarrow> geo1 = g)"
  by (auto simp: arrange_output_def Let_def split: option.splits if_splits prod.splits)

lemma replace_output_names: "map so_name (replace_output o' os) = map so_name os"
  by (simp add: replace_output_def)

lemma replace_output_set:
  "x \<in> set (replace_output o' os) \<Longrightarrow> x = o' \<or> so_name x \<noteq> so_name o' \<and> x \<in> set os"
  by (auto simp: replace_output_def split: if_splits)

text \<open>The outputs laid out so far, with their geometry, show their windows where these fit.\<close>

definition laid_out :: "str set \<Rightarrow> shell_state \<Rightarrow> bool" where
  "laid_out names s \<longleftrightarrow>
     (\<forall>o' \<in> set (ss_outputs s). \<forall>geo. so_name o' \<in> names \<longrightarrow> so_geometry o' = Some geo \<longrightarrow>
        (\<forall>i \<in> set (visible_indices (ss_desktop s) (so_name o') (workspace_of (ss_desktop s) (so_name o'))).
           fits (ss_desktop s) o' geo i
           \<and> element_location s (mg_window (dk_windows (ss_desktop s) ! i)) \<noteq> None))"

lemma begin_output_keeps:
  fixes p :: pass
  defines "s \<equiv> ps_state p"
  shows "dk_windows (ss_desktop (ps_state (begin_output env gaming o' p))) = dk_windows (ss_desktop s)"
    "layout_frame (ps_state (begin_output env gaming o' p)) = layout_frame s"
    "ss_elements (ps_state (begin_output env gaming o' p)) = ss_elements s"
    "ss_outputs (ps_state (begin_output env gaming o' p)) = ss_outputs s"
  by (simp_all add: begin_output_def Let_def s_def layout_frame_def)

lemma layout_windows_effect:
  fixes p :: pass and o1 :: space_output
  defines "s \<equiv> ps_state p" and "is \<equiv> visible_indices (ss_desktop (ps_state p)) (so_name o1)
      (workspace_of (ss_desktop (ps_state p)) (so_name o1))"
  assumes "s' = ps_state (layout_windows env gaming animate focused o1 geo1 p)"
  shows "map mg_key (dk_windows (ss_desktop s')) = map mg_key (dk_windows (ss_desktop s))"
    and "layout_frame s' = layout_frame s" and "ss_outputs s' = ss_outputs s"
    and "element_location s' v = None \<longleftrightarrow>
         (\<forall>i \<in> set is. mg_window (dk_windows (ss_desktop s) ! i) \<noteq> v) \<and> element_location s v = None"
    and "distinct (map fst (ss_elements s)) \<Longrightarrow> distinct (map fst (ss_elements s'))"
    and "i \<in> set is \<Longrightarrow> fits (ss_desktop s') o1 geo1 i"
    and "i \<notin> set is \<Longrightarrow> dk_windows (ss_desktop s') ! i = dk_windows (ss_desktop s) ! i"
proof -
  let ?env = "place_env_of env gaming animate focused o1 geo1 (ss_desktop s)"
  let ?q = "p\<lparr>ps_state := s\<lparr>ss_fullscreen := (ss_fullscreen s)(so_name o1 := None)\<rparr>\<rparr>"
  have s': "s' = ps_state (foldl (\<lambda>p i. place_window ?env (so_name o1) i p) ?q is)"
    by (simp add: assms(3) layout_windows_def Let_def s_def is_def)
  have "distinct is" and bound: "\<forall>i \<in> set is. i < length (dk_windows (ss_desktop (ps_state ?q)))"
    by (auto simp: is_def visible_indices_set s_def)
  note eff = place_windows_effect [OF this, of ?env "so_name o1", folded s']
  have q: "dk_windows (ss_desktop (ps_state ?q)) = dk_windows (ss_desktop s)"
    "layout_frame (ps_state ?q) = layout_frame s" "ss_outputs (ps_state ?q) = ss_outputs s"
    "ss_elements (ps_state ?q) = ss_elements s" "element_location (ps_state ?q) v = element_location s v" for v
    by (simp_all add: layout_frame_def element_location_def)
  note eff = eff [unfolded q]
  from eff show keys: "map mg_key (dk_windows (ss_desktop s')) = map mg_key (dk_windows (ss_desktop s))"
    and frame: "layout_frame s' = layout_frame s" and "ss_outputs s' = ss_outputs s"
    and "element_location s' v = None \<longleftrightarrow>
         (\<forall>i \<in> set is. mg_window (dk_windows (ss_desktop s) ! i) \<noteq> v) \<and> element_location s v = None"
    and "distinct (map fst (ss_elements s)) \<Longrightarrow> distinct (map fst (ss_elements s'))"
    and "i \<notin> set is \<Longrightarrow> dk_windows (ss_desktop s') ! i = dk_windows (ss_desktop s) ! i"
    by blast+
  show "fits (ss_desktop s') o1 geo1 i" if "i \<in> set is"
    by (rule target_rect_fits [where d = "ss_desktop s", OF _ refl refl _ keys])
      (use that eff frame in \<open>simp_all add: is_def s_def layout_frame_def\<close>)
qed

lemma layout_output_cases:
  assumes s_def: "s = ps_state p"
    and p': "p' = layout_output env gaming animate focused p name"
  obtains (windows) p1 o' o1 geo1
    where "p' = layout_windows env gaming animate focused o1 geo1 p1"
      "so_name o1 = name" "o' \<in> set (ss_outputs s)" "so_name o' = name"
      "\<And>g. so_geometry o1 = Some g \<Longrightarrow> geo1 = g"
      "dk_windows (ss_desktop (ps_state p1)) = dk_windows (ss_desktop s)"
      "layout_frame (ps_state p1) = layout_frame s" "ss_elements (ps_state p1) = ss_elements s"
      "ss_outputs (ps_state p1) = replace_output o1 (ss_outputs s)"
  | (skipped) "dk_windows (ss_desktop (ps_state p')) = dk_windows (ss_desktop s)"
      "layout_frame (ps_state p') = layout_frame s" "ss_elements (ps_state p') = ss_elements s"
      "ss_outputs (ps_state p') = ss_outputs s"
      "\<And>o'. List.find (\<lambda>o'. so_name o' = name) (ss_outputs s) = Some o' \<Longrightarrow> so_geometry o' = None"
proof (cases "List.find (\<lambda>o'. so_name o' = name) (ss_outputs s)")
  case None
  show ?thesis by (rule skipped) (use None in \<open>simp_all add: p' layout_output_def s_def\<close>)
next
  case (Some o')
  then have o': "o' \<in> set (ss_outputs s)" "so_name o' = name" using find_SomeD [OF Some] by simp_all
  show ?thesis
  proof (cases "so_geometry o'")
    case None
    show ?thesis
      by (rule skipped)
        (use None Some in \<open>simp_all add: p' layout_output_def Let_def s_def begin_output_keeps\<close>)
  next
    case geo: (Some geo)
    let ?p1 = "begin_output env gaming o' p"
    obtain o1 geo1 ch where arrange:
        "arrange_output env (bt_get (cf_outputs (dk_config (ss_desktop (ps_state ?p1)))) name) geo o' = (o1, geo1, ch)"
      by (metis prod_cases3)
    have keeps: "so_name o1 = name" "\<And>g. so_geometry o1 = Some g \<Longrightarrow> geo1 = g"
      using arrange_output_keeps [OF arrange] geo o'(2) by auto
    show ?thesis
    proof (rule windows [OF _ keeps(1) o' keeps(2)])
      show "p' = layout_windows env gaming animate focused o1 geo1
          (?p1\<lparr>ps_state := (ps_state ?p1)\<lparr>ss_outputs := replace_output o1 (ss_outputs (ps_state ?p1)),
             ss_desktop := (ss_desktop (ps_state ?p1))\<lparr>dk_redraw := dk_redraw (ss_desktop (ps_state ?p1)) \<or> ch\<rparr>\<rparr>\<rparr>)"
        using Some geo arrange by (simp add: p' layout_output_def Let_def s_def)
    qed (use begin_output_keeps [of env gaming o' p] in \<open>simp_all add: layout_frame_def s_def\<close>)
  qed
qed

lemma layout_frameD:
  "layout_frame s' = layout_frame s \<Longrightarrow>
     dk_outputs (ss_desktop s') = dk_outputs (ss_desktop s) \<and> dk_config (ss_desktop s') = dk_config (ss_desktop s)
     \<and> dk_next_id (ss_desktop s') = dk_next_id (ss_desktop s) \<and> dk_active (ss_desktop s') = dk_active (ss_desktop s)
     \<and> ss_locked s' = ss_locked s \<and> ss_focus s' = ss_focus s
     \<and> dk_recorder (ss_desktop s') = dk_recorder (ss_desktop s) \<and> ss_boost s' = ss_boost s"
  by (simp add: layout_frame_def)

lemma laid_outI:
  assumes "\<And>o' geo i. o' \<in> set (ss_outputs s) \<Longrightarrow> so_name o' \<in> names \<Longrightarrow> so_geometry o' = Some geo \<Longrightarrow>
      i < length (dk_windows (ss_desktop s)) \<Longrightarrow>
      visible_on (so_name o') (workspace_of (ss_desktop s) (so_name o')) (dk_windows (ss_desktop s) ! i) \<Longrightarrow>
      fits (ss_desktop s) o' geo i \<and> element_location s (mg_window (dk_windows (ss_desktop s) ! i)) \<noteq> None"
  shows "laid_out names s"
  using assms by (auto simp: laid_out_def visible_indices_set)

lemma laid_outD:
  assumes "laid_out names s" "o' \<in> set (ss_outputs s)" "so_name o' \<in> names" "so_geometry o' = Some geo"
    "i < length (dk_windows (ss_desktop s))"
    "visible_on (so_name o') (workspace_of (ss_desktop s) (so_name o')) (dk_windows (ss_desktop s) ! i)"
  shows "fits (ss_desktop s) o' geo i" "element_location s (mg_window (dk_windows (ss_desktop s) ! i)) \<noteq> None"
  using assms by (auto simp: laid_out_def visible_indices_set)

text \<open>What is laid out stays so while other windows are laid out.\<close>

lemma laid_out_kept:
  assumes "laid_out names s" "map mg_key (dk_windows (ss_desktop s')) = map mg_key (dk_windows (ss_desktop s))"
    and "layout_frame s' = layout_frame s" "o' \<in> set (ss_outputs s)" "so_name o' \<in> names"
    and "so_geometry o' = Some geo" "i < length (dk_windows (ss_desktop s'))"
    and "visible_on (so_name o') (workspace_of (ss_desktop s') (so_name o')) (dk_windows (ss_desktop s') ! i)"
    and "dk_windows (ss_desktop s') ! i = dk_windows (ss_desktop s) ! i"
    and "\<And>v. element_location s v \<noteq> None \<Longrightarrow> element_location s' v \<noteq> None"
  shows "fits (ss_desktop s') o' geo i \<and> element_location s' (mg_window (dk_windows (ss_desktop s') ! i)) \<noteq> None"
proof -
  note frame = layout_frameD [OF assms(3)]
  have i: "i < length (dk_windows (ss_desktop s))" using assms(7) keys_length [OF assms(2)] by simp
  have vis: "visible_on (so_name o') (workspace_of (ss_desktop s) (so_name o')) (dk_windows (ss_desktop s) ! i)"
    using assms(8,9) frame by (simp add: workspace_of_def)
  note was = laid_outD [OF assms(1,4,5,6) i vis]
  have "fits (ss_desktop s') o' geo i"
    by (rule fits_cong [OF was(1) assms(2)]) (simp_all add: frame assms(9))
  with was(2) assms(9,10) show ?thesis by simp
qed

lemma layout_output_step:
  fixes p :: pass
  defines "s \<equiv> ps_state p"
  assumes p': "p' = layout_output env gaming animate focused p name"
    and names: "laid_out names s" "name \<notin> names" "distinct (map so_name (ss_outputs s))"
  shows "laid_out (insert name names) (ps_state p')"
    and "map mg_key (dk_windows (ss_desktop (ps_state p'))) = map mg_key (dk_windows (ss_desktop s))"
    and "layout_frame (ps_state p') = layout_frame s"
    and "map so_name (ss_outputs (ps_state p')) = map so_name (ss_outputs s)"
    and "distinct (map fst (ss_elements s)) \<Longrightarrow> distinct (map fst (ss_elements (ps_state p')))"
    and "element_location s v \<noteq> None \<Longrightarrow> element_location (ps_state p') v \<noteq> None"
proof -
  let ?s' = "ps_state p'"
  have "laid_out (insert name names) ?s'
    \<and> map mg_key (dk_windows (ss_desktop ?s')) = map mg_key (dk_windows (ss_desktop s))
    \<and> layout_frame ?s' = layout_frame s \<and> map so_name (ss_outputs ?s') = map so_name (ss_outputs s)
    \<and> (distinct (map fst (ss_elements s)) \<longrightarrow> distinct (map fst (ss_elements ?s')))
    \<and> (\<forall>v. element_location s v \<noteq> None \<longrightarrow> element_location ?s' v \<noteq> None)"
    using s_def [THEN meta_eq_to_obj_eq] p'
  proof (cases rule: layout_output_cases)
    case (windows p1 o' o1 geo1)
    note cs = windows
    note eff = layout_windows_effect [where p = p1 and ?o1.0 = o1 and s' = ?s', OF arg_cong [OF cs(1)]]
    have keys: "map mg_key (dk_windows (ss_desktop ?s')) = map mg_key (dk_windows (ss_desktop s))"
      and frame: "layout_frame ?s' = layout_frame s"
      and outputs: "ss_outputs ?s' = replace_output o1 (ss_outputs s)"
      using eff(1,2,3) cs by simp_all
    have loc: "element_location (ps_state p1) v = element_location s v" for v
      using cs(8) by (simp add: element_location_def)
    have more: "element_location s v \<noteq> None \<Longrightarrow> element_location ?s' v \<noteq> None" for v
      using eff(4) loc by simp
    have ws: "workspace_of (ss_desktop (ps_state p1)) = workspace_of (ss_desktop s)"
      "workspace_of (ss_desktop ?s') = workspace_of (ss_desktop s)"
      using layout_frameD [OF frame] layout_frameD [OF cs(7)] by (simp_all add: workspace_of_def fun_eq_iff)
    have "laid_out (insert name names) ?s'"
    proof (rule laid_outI)
      fix oo geo i
      assume oo: "oo \<in> set (ss_outputs ?s')" "so_name oo \<in> insert name names" "so_geometry oo = Some geo"
        and i: "i < length (dk_windows (ss_desktop ?s'))"
        and vis: "visible_on (so_name oo) (workspace_of (ss_desktop ?s') (so_name oo)) (dk_windows (ss_desktop ?s') ! i)"
      have i': "i < length (dk_windows (ss_desktop (ps_state p1)))"
        using i keys_length [OF eff(1)] by simp
      note key = keys_nth [OF eff(1) i']
      show "fits (ss_desktop ?s') oo geo i
          \<and> element_location ?s' (mg_window (dk_windows (ss_desktop ?s') ! i)) \<noteq> None"
      proof (cases "oo = o1")
        case True
        then have geo: "geo1 = geo" using cs(5) oo(3) by simp
        have "i \<in> set (visible_indices (ss_desktop (ps_state p1)) (so_name o1)
            (workspace_of (ss_desktop (ps_state p1)) (so_name o1)))"
          using vis i' visible_on_key [OF key] True ws by (simp add: visible_indices_set)
        then show ?thesis
          using eff(4) eff(6) mg_keyD [OF key] unfolding True geo by auto
      next
        case False
        then have other: "so_name oo \<noteq> name" "oo \<in> set (ss_outputs s)"
          using oo(1) cs(2) replace_output_set unfolding outputs by fastforce+
        have "mg_output (dk_windows (ss_desktop (ps_state p1)) ! i) \<noteq> name"
          using vis other(1) mg_keyD [OF key] by (simp add: visible_on_def)
        then have "dk_windows (ss_desktop ?s') ! i = dk_windows (ss_desktop s) ! i"
          using eff(7) cs(2,6) by (simp add: visible_indices_set visible_on_def)
        then show ?thesis
          using laid_out_kept [OF names(1) keys frame other(2) _ oo(3) i vis _ more] oo(2) other(1) by simp
      qed
    qed
    with keys frame outputs more eff(5) cs(8) show "?thesis" by (simp add: replace_output_names)
  next
    case skipped
    note cs = skipped
    have loc: "element_location ?s' v = element_location s v" for v using cs(3) by (simp add: element_location_def)
    have "laid_out (insert name names) ?s'"
    proof (rule laid_outI)
      fix oo geo i
      assume oo: "oo \<in> set (ss_outputs ?s')" "so_name oo \<in> insert name names" "so_geometry oo = Some geo"
        and i: "i < length (dk_windows (ss_desktop ?s'))"
        and vis: "visible_on (so_name oo) (workspace_of (ss_desktop ?s') (so_name oo)) (dk_windows (ss_desktop ?s') ! i)"
      have "so_name oo \<noteq> name"
      proof
        assume n: "so_name oo = name"
        then obtain o2 where o2: "List.find (\<lambda>o'. so_name o' = name) (ss_outputs s) = Some o2"
          using oo(1) cs(4) find_Some_iff_ex [of "\<lambda>o'. so_name o' = name" "ss_outputs s"] by auto
        then have "o2 = oo"
          using find_SomeD [OF o2] names(3) oo(1) n cs(4) by (auto simp: distinct_map inj_on_def)
        with cs(5) [OF o2] oo(3) show False by simp
      qed
      then show "fits (ss_desktop ?s') oo geo i
          \<and> element_location ?s' (mg_window (dk_windows (ss_desktop ?s') ! i)) \<noteq> None"
        using laid_out_kept [OF names(1) arg_cong [OF cs(1)] cs(2) _ _ oo(3) i vis] oo(1,2) cs(1,4) loc by simp
    qed
    with cs loc show "?thesis" by simp
  qed
  then show "laid_out (insert name names) ?s'"
    and "map mg_key (dk_windows (ss_desktop ?s')) = map mg_key (dk_windows (ss_desktop s))"
    and "layout_frame ?s' = layout_frame s" and "map so_name (ss_outputs ?s') = map so_name (ss_outputs s)"
    and "distinct (map fst (ss_elements s)) \<Longrightarrow> distinct (map fst (ss_elements ?s'))"
    and "element_location s v \<noteq> None \<Longrightarrow> element_location ?s' v \<noteq> None"
    by blast+
qed

lemma layout_outputs_effect:
  fixes p :: pass
  assumes "distinct todo" "set todo \<inter> names = {}" "laid_out names (ps_state p)"
    and "distinct (map so_name (ss_outputs (ps_state p)))"
    and s_def: "s = ps_state p" and s'_def: "s' = ps_state (foldl (layout_output env gaming animate focused) p todo)"
  shows "laid_out (names \<union> set todo) s'
    \<and> map mg_key (dk_windows (ss_desktop s')) = map mg_key (dk_windows (ss_desktop s))
    \<and> layout_frame s' = layout_frame s \<and> map so_name (ss_outputs s') = map so_name (ss_outputs s)
    \<and> (distinct (map fst (ss_elements s)) \<longrightarrow> distinct (map fst (ss_elements s')))"
  using assms(1-4) unfolding s_def s'_def
proof (induction todo arbitrary: p names)
  case (Cons name todo)
  have "name \<notin> names" "set todo \<inter> insert name names = {}" "distinct todo" using Cons.prems by auto
  note step = layout_output_step [OF refl Cons.prems(3) this(1) Cons.prems(4), where env = env and gaming = gaming and animate = animate and focused = focused]
  have "distinct (map so_name (ss_outputs (ps_state (layout_output env gaming animate focused p name))))"
    using step(4) Cons.prems(4) by simp
  from Cons.IH [OF \<open>distinct todo\<close> \<open>set todo \<inter> insert name names = {}\<close> step(1) this] step(2-5)
  show ?case by simp
qed simp

section \<open>Hiding\<close>

lemma hide_window_effect:
  fixes p :: pass
  defines "s \<equiv> ps_state p"
  assumes s'_def: "s' = ps_state (hide_window p i)"
  shows "map (\<lambda>w. (mg_key w, mg_rect w)) (dk_windows (ss_desktop s')) =
      map (\<lambda>w. (mg_key w, mg_rect w)) (dk_windows (ss_desktop s))"
    and "layout_frame s' = layout_frame s" "ss_outputs s' = ss_outputs s"
    and "element_location s' v = (if \<not> shown (ss_desktop s) (dk_windows (ss_desktop s) ! i)
      \<and> v = mg_window (dk_windows (ss_desktop s) ! i) then None else element_location s v)"
    and "distinct (map fst (ss_elements s)) \<Longrightarrow> distinct (map fst (ss_elements s'))"
proof -
  let ?w = "dk_windows (ss_desktop s) ! i"
  have set: "map f ((dk_windows (ss_desktop s))[i := w']) = map f (dk_windows (ss_desktop s))"
    if "f w' = f ?w" for f :: "managed \<Rightarrow> (nat \<times> nat \<times> u8 \<times> str \<times> bool \<times> bool \<times> bool) \<times> rect option" and w'
    using that by (metis list_update_beyond list_update_same_conv map_update nth_map not_le length_map)
  have filt: "map_of (filter (\<lambda>e. fst e \<noteq> w) es) v = (if v = w then None else map_of es v)" for es v and w :: nat
    by (induction es) auto
  show "map (\<lambda>w. (mg_key w, mg_rect w)) (dk_windows (ss_desktop s')) =
      map (\<lambda>w. (mg_key w, mg_rect w)) (dk_windows (ss_desktop s))"
    unfolding s'_def s_def hide_window_def Let_def
    by (simp add: set [unfolded s_def] mg_key_def)
  show "layout_frame s' = layout_frame s" "ss_outputs s' = ss_outputs s"
    by (simp_all add: s'_def s_def hide_window_def Let_def layout_frame_def)
  show "element_location s' v = (if \<not> shown (ss_desktop s) ?w \<and> v = mg_window ?w then None else element_location s v)"
    by (cases "element_location (ps_state p) (mg_window (dk_windows (ss_desktop (ps_state p)) ! i))")
      (auto simp: s'_def s_def hide_window_def Let_def element_location_def filt)
  show "distinct (map fst (ss_elements s)) \<Longrightarrow> distinct (map fst (ss_elements s'))"
    by (auto simp: s'_def s_def hide_window_def Let_def distinct_map inj_on_def)
qed

lemma shown_key: "mg_key w' = mg_key w \<Longrightarrow> dk_outputs d' = dk_outputs d \<Longrightarrow> shown d' w' = shown d w"
  by (auto simp: shown_def dest: mg_keyD)

lemma hide_windows_effect:
  fixes p :: pass
  defines "s \<equiv> ps_state p"
  assumes "\<forall>i \<in> set is. i < length (dk_windows (ss_desktop (ps_state p)))"
    and "s' = ps_state (foldl hide_window p is)"
  shows "map (\<lambda>w. (mg_key w, mg_rect w)) (dk_windows (ss_desktop s')) =
      map (\<lambda>w. (mg_key w, mg_rect w)) (dk_windows (ss_desktop s))
    \<and> layout_frame s' = layout_frame s \<and> ss_outputs s' = ss_outputs s
    \<and> (\<forall>v. element_location s' v = (if \<exists>i \<in> set is. \<not> shown (ss_desktop s) (dk_windows (ss_desktop s) ! i)
          \<and> v = mg_window (dk_windows (ss_desktop s) ! i) then None else element_location s v))
    \<and> (distinct (map fst (ss_elements s)) \<longrightarrow> distinct (map fst (ss_elements s')))"
  using assms(2,3) unfolding s_def
proof (induction "is" arbitrary: p s')
  case Nil
  then show ?case by simp
next
  case (Cons i "is")
  let ?q = "hide_window p i"
  note one = hide_window_effect [OF refl, of p i]
  have keys: "map mg_key (dk_windows (ss_desktop (ps_state ?q))) = map mg_key (dk_windows (ss_desktop (ps_state p)))"
    using arg_cong [OF one(1), of "map fst"] by (simp add: comp_def)
  have len: "length (dk_windows (ss_desktop (ps_state ?q))) = length (dk_windows (ss_desktop (ps_state p)))"
    by (rule keys_length [OF keys])
  have key: "mg_key (dk_windows (ss_desktop (ps_state ?q)) ! j) = mg_key (dk_windows (ss_desktop (ps_state p)) ! j)"
    if "j \<in> set is" for j using that Cons.prems(1) keys_nth [OF keys] by simp
  have sh: "shown (ss_desktop (ps_state ?q)) (dk_windows (ss_desktop (ps_state ?q)) ! j)
      = shown (ss_desktop (ps_state p)) (dk_windows (ss_desktop (ps_state p)) ! j)"
    "mg_window (dk_windows (ss_desktop (ps_state ?q)) ! j) = mg_window (dk_windows (ss_desktop (ps_state p)) ! j)"
    if "j \<in> set is" for j
    using shown_key [OF key [OF that]] mg_keyD [OF key [OF that]] layout_frameD [OF one(2)] by simp_all
  have "\<forall>j \<in> set is. j < length (dk_windows (ss_desktop (ps_state ?q)))" using Cons.prems(1) len by simp
  from Cons.IH [OF this, of s'] Cons.prems(2) one sh show ?case by auto
qed

end
