(* ===== verification/MaintainPass.thy ===== *)
theory MaintainPass
  imports MaintainProofs
begin

text \<open>
  What holds after a maintenance pass: every output has a workspace of its own, a window is on
  screen exactly when its workspace is, windows fit their outputs, tiles do not overlap, and the
  keyboard focus rests on a window that is on screen.
\<close>

section \<open>The end of a pass\<close>

text \<open>What the end of a pass, stacking and focus, leaves alone.\<close>

definition view :: "shell_state \<Rightarrow> managed list \<times> (str, u8) btree \<times> config \<times> nat \<times> space_output list
    \<times> bool \<times> (nat \<Rightarrow> (int \<times> int) option)" where
  "view s = (dk_windows (ss_desktop s), dk_outputs (ss_desktop s), dk_config (ss_desktop s),
     dk_next_id (ss_desktop s), ss_outputs s, ss_locked s, element_location s)"

lemma viewD:
  "view s' = view s \<Longrightarrow> dk_windows (ss_desktop s') = dk_windows (ss_desktop s)
     \<and> dk_outputs (ss_desktop s') = dk_outputs (ss_desktop s) \<and> dk_config (ss_desktop s') = dk_config (ss_desktop s)
     \<and> dk_next_id (ss_desktop s') = dk_next_id (ss_desktop s) \<and> ss_outputs s' = ss_outputs s
     \<and> ss_locked s' = ss_locked s \<and> (\<forall>v. element_location s' v = element_location s v)"
  by (simp add: view_def)

lemma map_of_raise_element: "map_of (raise_element w es) = map_of es"
proof
  have "map_of (filter (\<lambda>e. fst e \<noteq> w) es) v = (if v = w then None else map_of es v)"
    "map_of (filter (\<lambda>e. fst e = w) es) v = (if v = w then map_of es v else None)" for v
    by (induction es) auto
  then show "map_of (raise_element w es) v = map_of es v" for v
    by (simp add: raise_element_def map_add_def split: option.split)
qed

lemma raise_element_keys: "set (map fst (raise_element w es)) = set (map fst es)"
  by (auto simp: raise_element_def)

lemma distinct_raise_element: "distinct (map fst es) \<Longrightarrow> distinct (map fst (raise_element w es))"
  by (auto simp: raise_element_def distinct_map inj_on_def)

lemma raise_elements:
  "map_of (foldl (\<lambda>es w. raise_element w es) es ws) = map_of es"
  "distinct (map fst es) \<Longrightarrow> distinct (map fst (foldl (\<lambda>es w. raise_element w es) es ws))"
  by (induction ws arbitrary: es) (simp_all add: map_of_raise_element distinct_raise_element)

lemma restack_effect:
  "view (ps_state (restack p)) = view (ps_state p)"
  "distinct (map fst (ss_elements (ps_state p))) \<Longrightarrow> distinct (map fst (ss_elements (ps_state (restack p))))"
  "ss_focus (ps_state (restack p)) = ss_focus (ps_state p)"
  by (simp_all add: restack_def Let_def view_def element_location_def [abs_def] raise_elements)

lemma focus_window_effect:
  "view (focus_window i s) = view s"
  "distinct (map fst (ss_elements s)) \<Longrightarrow> distinct (map fst (ss_elements (focus_window i s)))"
  "ss_focus (focus_window i s) = Some (WindowFocus (mg_window (dk_windows (ss_desktop s) ! i)))"
  by (simp_all add: focus_window_def Let_def view_def element_location_def [abs_def] map_of_raise_element
      distinct_raise_element)

lemma restore_focus_cases:
  "restore_focus s = s \<or> (\<exists>i. restore_focus s = focus_window i s) \<or> restore_focus s = s\<lparr>ss_focus := None\<rparr>"
  unfolding restore_focus_def Let_def by (auto split: option.split)

lemma restore_focus_effect:
  "view (restore_focus s) = view s"
  "distinct (map fst (ss_elements s)) \<Longrightarrow> distinct (map fst (ss_elements (restore_focus s)))"
proof -
  have none: "view (s\<lparr>ss_focus := None\<rparr>) = view s" by (simp add: view_def element_location_def [abs_def])
  show "view (restore_focus s) = view s"
    using restore_focus_cases [of s] none focus_window_effect(1) by metis
  show "distinct (map fst (ss_elements s)) \<Longrightarrow> distinct (map fst (ss_elements (restore_focus s)))"
    using restore_focus_cases [of s] focus_window_effect(2) by (elim disjE) auto
qed

lemma finish_effect:
  "view (with_desktop (\<lambda>d. (update_timer a r d)\<lparr>dk_dirty := False\<rparr>) s) = view s"
  "ss_elements (with_desktop (\<lambda>d. (update_timer a r d)\<lparr>dk_dirty := False\<rparr>) s) = ss_elements s"
  "ss_focus (with_desktop (\<lambda>d. (update_timer a r d)\<lparr>dk_dirty := False\<rparr>) s) = ss_focus s"
  by (simp_all add: view_def update_timer_def element_location_def [abs_def])

text \<open>Once restacked, no tiled window lies above a floating one.\<close>

lemma foldl_raise:
  "distinct fs \<Longrightarrow> foldl (\<lambda>es w. raise_element w es) es fs =
     filter (\<lambda>e. fst e \<notin> set fs) es @ concat (map (\<lambda>f. filter (\<lambda>e. fst e = f) es) fs)"
proof (induction fs arbitrary: es)
  case (Cons f fs)
  have "filter (\<lambda>e. fst e \<notin> set fs) (raise_element f es)
      = filter (\<lambda>e. fst e \<notin> set (f # fs)) es @ filter (\<lambda>e. fst e = f) es"
    using Cons.prems by (auto simp: raise_element_def intro!: filter_cong)
  moreover have "filter (\<lambda>e. fst e = g) (raise_element f es) = filter (\<lambda>e. fst e = g) es" if "g \<in> set fs" for g
  proof -
    have "filter (\<lambda>e. fst e = f \<and> fst e = g) es = []" "filter (\<lambda>e. fst e \<noteq> f \<and> fst e = g) es = filter (\<lambda>e. fst e = g) es"
      using that Cons.prems by (auto simp: filter_empty_conv intro!: filter_cong)
    then show ?thesis by (simp add: raise_element_def)
  qed
  then have "concat (map (\<lambda>g. filter (\<lambda>e. fst e = g) (raise_element f es)) fs)
      = concat (map (\<lambda>g. filter (\<lambda>e. fst e = g) es) fs)"
    by (simp cong: map_cong)
  ultimately show ?case using Cons by simp
qed simp

lemma tile_above_float_append:
  "tile_above_float flt (xs @ ys) seen \<longleftrightarrow>
     tile_above_float flt xs seen \<or> tile_above_float flt ys (seen \<or> (\<exists>x \<in> set xs. flt x))"
  by (induction xs arbitrary: seen) auto

lemma tile_above_float_same:
  "\<forall>w \<in> set ws. flt w \<Longrightarrow> \<not> tile_above_float flt ws seen"
  "\<forall>w \<in> set ws. \<not> flt w \<Longrightarrow> \<not> tile_above_float flt ws False"
  by (induction ws arbitrary: seen) auto

section \<open>The start of a pass\<close>

text \<open>Windows and their numbers are distinct; numbers already given are never given again.\<close>

definition windows_ok :: "desktop \<Rightarrow> bool" where
  "windows_ok d \<longleftrightarrow>
     distinct (map mg_window (dk_windows d)) \<and> distinct (map mg_id (dk_windows d))
     \<and> (\<forall>w \<in> set (dk_windows d). mg_id w < dk_next_id d)"

lemma windows_okI:
  assumes "windows_ok d" "map mg_window ws = map mg_window (dk_windows d)"
    "map mg_id ws = map mg_id (dk_windows d)"
  shows "windows_ok (d\<lparr>dk_windows := ws\<rparr>)"
proof -
  have "mg_id ` set ws = mg_id ` set (dk_windows d)" using arg_cong [OF assms(3), of set] by simp
  then have "\<forall>w \<in> set ws. mg_id w < dk_next_id d"
    using assms(1) unfolding windows_ok_def by (metis image_iff)
  with assms show ?thesis by (simp add: windows_ok_def)
qed

lemma windows_ok_keys:
  assumes "windows_ok d" "map mg_key (dk_windows d') = map mg_key (dk_windows d)" "dk_next_id d' = dk_next_id d"
  shows "windows_ok d'"
proof -
  have proj: "map mg_window ws = map fst (map mg_key ws)" "map mg_id ws = map (fst \<circ> snd) (map mg_key ws)" for ws
    by (simp_all add: mg_key_def comp_def)
  have same: "map mg_window (dk_windows d') = map mg_window (dk_windows d)"
    "map mg_id (dk_windows d') = map mg_id (dk_windows d)"
    by (simp_all only: proj assms(2))
  then have "windows_ok (d\<lparr>dk_windows := dk_windows d'\<rparr>)" by (intro windows_okI [OF assms(1)])
  then show ?thesis by (simp add: windows_ok_def assms(3))
qed

text \<open>Windows forgotten and windows adopted.\<close>

lemma windows_ok_filter: "windows_ok d \<Longrightarrow> windows_ok (d\<lparr>dk_windows := filter P (dk_windows d)\<rparr>)"
  by (auto simp: windows_ok_def distinct_map intro: inj_on_subset)

lemma rehome_keeps [simp]: "mg_window (rehome names w) = mg_window w" "mg_id (rehome names w) = mg_id w"
  by (simp_all add: rehome_def)

lemma windows_ok_sync:
  assumes "windows_ok (ss_desktop s)"
  shows "windows_ok (ss_desktop (sync_desktop env s))"
proof -
  have "windows_ok ((ss_desktop s)\<lparr>dk_windows := map (rehome names) (filter P (dk_windows (ss_desktop s)))\<rparr>)"
    for names P
    using windows_okI [OF windows_ok_filter [OF assms], of "map (rehome names) (filter P (dk_windows (ss_desktop s)))" P]
    by (simp add: comp_def)
  then show ?thesis by (simp add: sync_desktop_def Let_def windows_ok_def)
qed

lemma windows_ok_adopt:
  "windows_ok d \<Longrightarrow> windows_ok (adopt_window names active clients window d)"
  unfolding windows_ok_def adopt_window_def
  by (auto simp: list_ex_iff split: prod.splits)

lemma adopt_window_outputs:
  "dk_outputs (adopt_window names active clients window d) = dk_outputs d"
  "dk_config (adopt_window names active clients window d) = dk_config d"
  by (simp_all add: adopt_window_def split: prod.split)

lemma adopt_windows_effect:
  "windows_ok (ss_desktop s) \<Longrightarrow> windows_ok (ss_desktop (adopt_windows env s))"
  "dk_outputs (ss_desktop (adopt_windows env s)) = dk_outputs (ss_desktop s)"
  "dk_config (ss_desktop (adopt_windows env s)) = dk_config (ss_desktop s)"
  "ss_outputs (adopt_windows env s) = ss_outputs s" "ss_elements (adopt_windows env s) = ss_elements s"
  "ss_locked (adopt_windows env s) = ss_locked s" "ss_focus (adopt_windows env s) = ss_focus s"
proof -
  have "(windows_ok d \<longrightarrow> windows_ok (foldl (\<lambda>d window. adopt_window names active clients window d) d ws))
    \<and> dk_outputs (foldl (\<lambda>d window. adopt_window names active clients window d) d ws) = dk_outputs d
    \<and> dk_config (foldl (\<lambda>d window. adopt_window names active clients window d) d ws) = dk_config d"
    for names active clients ws d
    by (induction ws arbitrary: d) (simp_all add: adopt_window_outputs windows_ok_adopt)
  then show "windows_ok (ss_desktop s) \<Longrightarrow> windows_ok (ss_desktop (adopt_windows env s))"
    "dk_outputs (ss_desktop (adopt_windows env s)) = dk_outputs (ss_desktop s)"
    "dk_config (ss_desktop (adopt_windows env s)) = dk_config (ss_desktop s)"
    by (simp_all add: adopt_windows_def Let_def)
qed (simp_all add: adopt_windows_def Let_def)

lemma poll_recorder_effect:
  "view (poll_recorder env s) = view s" "ss_elements (poll_recorder env s) = ss_elements s"
  "ss_focus (poll_recorder env s) = ss_focus s"
  by (simp_all add: poll_recorder_def Let_def view_def element_location_def [abs_def] split: prod.split)

lemma apply_performance_effect:
  "view (apply_performance env s) = view s" "ss_elements (apply_performance env s) = ss_elements s"
  "ss_focus (apply_performance env s) = ss_focus s"
  by (simp_all add: apply_performance_def Let_def view_def element_location_def [abs_def] split: list.split)

lemma sync_desktop_effect:
  "dk_outputs (ss_desktop (sync_desktop env s)) = sync_outputs (map so_name (ss_outputs s)) (dk_outputs (ss_desktop s))"
  "dk_config (ss_desktop (sync_desktop env s)) = dk_config (ss_desktop s)"
  "ss_outputs (sync_desktop env s) = ss_outputs s" "ss_elements (sync_desktop env s) = ss_elements s"
  "ss_locked (sync_desktop env s) = ss_locked s" "ss_focus (sync_desktop env s) = ss_focus s"
  by (simp_all add: sync_desktop_def Let_def)

text \<open>Everything before the layout.\<close>

definition synced :: "pass_env \<Rightarrow> shell_state \<Rightarrow> shell_state" where
  "synced env s = adopt_windows env (apply_performance env (sync_desktop env (poll_recorder env s)))"

lemma windows_ok_view: "view s' = view s \<Longrightarrow> windows_ok (ss_desktop s') = windows_ok (ss_desktop s)"
  by (simp add: view_def windows_ok_def)

lemma synced_effect:
  "dk_outputs (ss_desktop (synced env s)) = sync_outputs (map so_name (ss_outputs s)) (dk_outputs (ss_desktop s))"
  "dk_config (ss_desktop (synced env s)) = dk_config (ss_desktop s)"
  "ss_outputs (synced env s) = ss_outputs s" "ss_elements (synced env s) = ss_elements s"
  "ss_locked (synced env s) = ss_locked s" "ss_focus (synced env s) = ss_focus s"
  "windows_ok (ss_desktop s) \<Longrightarrow> windows_ok (ss_desktop (synced env s))"
proof -
  note polled = viewD [OF poll_recorder_effect(1), of env s]
  note applied = viewD [OF apply_performance_effect(1), of env "sync_desktop env (poll_recorder env s)"]
  show "dk_outputs (ss_desktop (synced env s)) = sync_outputs (map so_name (ss_outputs s)) (dk_outputs (ss_desktop s))"
    "dk_config (ss_desktop (synced env s)) = dk_config (ss_desktop s)"
    "ss_outputs (synced env s) = ss_outputs s" "ss_elements (synced env s) = ss_elements s"
    "ss_locked (synced env s) = ss_locked s" "ss_focus (synced env s) = ss_focus s"
    using polled applied poll_recorder_effect(2,3) [of env s]
      apply_performance_effect(2,3) [of env "sync_desktop env (poll_recorder env s)"]
    by (simp_all add: synced_def adopt_windows_effect sync_desktop_effect)
  show "windows_ok (ss_desktop (synced env s))" if "windows_ok (ss_desktop s)"
  proof -
    have "windows_ok (ss_desktop (poll_recorder env s))"
      using that windows_ok_view [OF poll_recorder_effect(1), of env s] by simp
    from windows_ok_sync [OF this, of env]
    show ?thesis
      using windows_ok_view [OF apply_performance_effect(1), of env "sync_desktop env (poll_recorder env s)"]
      by (simp add: synced_def adopt_windows_effect(1))
  qed
qed

section \<open>The whole pass\<close>

text \<open>
  The states a pass starts from: windows and their numbers are distinct, every window is mapped at
  most once, outputs have distinct names and are at most nine, and no two outputs share a workspace.
\<close>

definition pass_ok :: "shell_state \<Rightarrow> bool" where
  "pass_ok s \<longleftrightarrow>
     windows_ok (ss_desktop s) \<and> distinct (map fst (ss_elements s))
     \<and> distinct (map so_name (ss_outputs s)) \<and> length (ss_outputs s) \<le> 9
     \<and> outputs_ok (dk_outputs (ss_desktop s))"

lemma layout_desktop_effect:
  assumes "distinct (map so_name (ss_outputs s))"
    and s'_def: "s' = ps_state (layout_desktop env s)"
  shows "laid_out (so_name ` set (ss_outputs s)) s'
    \<and> map mg_key (dk_windows (ss_desktop s')) = map mg_key (dk_windows (ss_desktop s))
    \<and> layout_frame s' = layout_frame s \<and> map so_name (ss_outputs s') = map so_name (ss_outputs s)
    \<and> (distinct (map fst (ss_elements s)) \<longrightarrow> distinct (map fst (ss_elements s')))"
proof -
  let ?p = "\<lparr>ps_state = s, ps_animating = False, ps_refresh = 0, ps_moved = False\<rparr>"
  have "laid_out {} (ps_state ?p)" by (simp add: laid_out_def)
  from layout_outputs_effect [OF assms(1) _ this _ refl refl] assms(1)
  show ?thesis by (simp add: s'_def layout_desktop_def Let_def)
qed

lemma sync_outputs_covers: "name \<in> set names \<Longrightarrow> bt_get (sync_outputs names m) name \<noteq> None"
proof -
  have "bt_get m name \<noteq> None \<or> name \<in> set todo \<Longrightarrow>
      bt_get (foldl (\<lambda>m name. assign_output name m) m todo) name \<noteq> None" for m todo
  proof (induction todo arbitrary: m)
    case (Cons n todo)
    have "bt_get (assign_output n m) name \<noteq> None" if "bt_get m name \<noteq> None \<or> name = n"
      using that by (auto simp: assign_output_def bt_get_insert bt_contains_def)
    with Cons show ?case by auto
  qed simp
  then show "name \<in> set names \<Longrightarrow> bt_get (sync_outputs names m) name \<noteq> None"
    by (simp add: sync_outputs_def)
qed

lemma shown_visible:
  assumes "visible_on name (workspace_of d name) w" "bt_get (dk_outputs d) name \<noteq> None"
  shows "shown d w"
  using assms by (auto simp: visible_on_def workspace_of_def shown_def)

lemma pass_effect:
  assumes s': "s' = maintain_desktop env s" and "distinct (map so_name (ss_outputs s))"
    and "windows_ok (ss_desktop s)"
  shows "map mg_key (dk_windows (ss_desktop s')) = map mg_key (dk_windows (ss_desktop (synced env s)))"
    and "dk_outputs (ss_desktop s') = sync_outputs (map so_name (ss_outputs s)) (dk_outputs (ss_desktop s))"
    and "dk_config (ss_desktop s') = dk_config (ss_desktop s)"
    and "map so_name (ss_outputs s') = map so_name (ss_outputs s)"
    and "ss_locked s' = ss_locked s"
    and "windows_ok (ss_desktop s')"
    and "distinct (map fst (ss_elements s)) \<Longrightarrow> distinct (map fst (ss_elements s'))"
    and "laid_out (so_name ` set (ss_outputs s)) s'"
    and "w \<in> set (dk_windows (ss_desktop s')) \<Longrightarrow> \<not> shown (ss_desktop s') w \<Longrightarrow>
      element_location s' (mg_window w) = None"
proof -
  let ?s2 = "synced env s"
  let ?p = "layout_desktop env ?s2"
  let ?l = "ps_state ?p" and ?h = "ps_state (hide_windows ?p)"
  have "distinct (map so_name (ss_outputs ?s2))" using assms(2) by (simp add: synced_effect)
  note laid = layout_desktop_effect [OF this refl, of env]
  have "\<forall>i \<in> set [0..<length (dk_windows (ss_desktop ?l))]. i < length (dk_windows (ss_desktop ?l))" by simp
  note hide = hide_windows_effect [OF this refl, folded hide_windows_def]
  have keys: "map mg_key (dk_windows (ss_desktop ?h)) = map mg_key (dk_windows (ss_desktop ?l))"
    and rects: "map mg_rect (dk_windows (ss_desktop ?h)) = map mg_rect (dk_windows (ss_desktop ?l))"
    using arg_cong [OF conjunct1 [OF hide], of "map fst"] arg_cong [OF conjunct1 [OF hide], of "map snd"]
    by (simp_all add: comp_def)
  have view: "view s' = view ?h"
    by (simp add: s' maintain_desktop_def Let_def finish_effect restore_focus_effect restack_effect
        synced_def)
  note end' = viewD [OF view]
  have hframe: "layout_frame ?h = layout_frame ?l" and lframe: "layout_frame ?l = layout_frame ?s2"
    and louts: "map so_name (ss_outputs ?l) = map so_name (ss_outputs ?s2)" "ss_outputs ?h = ss_outputs ?l"
    and lkeys: "map mg_key (dk_windows (ss_desktop ?l)) = map mg_key (dk_windows (ss_desktop ?s2))"
    using hide laid by blast+
  note fr = layout_frameD [OF hframe] layout_frameD [OF lframe]
  show k: "map mg_key (dk_windows (ss_desktop s')) = map mg_key (dk_windows (ss_desktop ?s2))"
    using end' keys lkeys by simp
  show "dk_outputs (ss_desktop s') = sync_outputs (map so_name (ss_outputs s)) (dk_outputs (ss_desktop s))"
    "dk_config (ss_desktop s') = dk_config (ss_desktop s)" "ss_locked s' = ss_locked s"
    using end' fr by (simp_all add: synced_effect)
  show "map so_name (ss_outputs s') = map so_name (ss_outputs s)"
    using end' louts by (simp add: synced_effect)
  show ok: "windows_ok (ss_desktop s')"
    by (rule windows_ok_keys [OF _ k]) (use end' fr in \<open>simp_all add: synced_effect(7) [OF assms(3)]\<close>)
  show "distinct (map fst (ss_elements s')) " if "distinct (map fst (ss_elements s))"
    using that laid hide
    by (simp add: s' maintain_desktop_def Let_def finish_effect restore_focus_effect restack_effect
        synced_def [symmetric] synced_effect)
  have oks: "windows_ok (ss_desktop ?l)"
    by (rule windows_ok_keys [OF synced_effect(7) [OF assms(3)]]) (use lkeys fr in simp_all)
  have loc: "element_location s' v = (if \<exists>j < length (dk_windows (ss_desktop ?l)).
        \<not> shown (ss_desktop ?l) (dk_windows (ss_desktop ?l) ! j) \<and> v = mg_window (dk_windows (ss_desktop ?l) ! j)
      then None else element_location ?l v)" for v
    using end' hide by (auto simp: atLeast0LessThan)
  have outs: "dk_outputs (ss_desktop s') = dk_outputs (ss_desktop ?l)"
    "dk_config (ss_desktop s') = dk_config (ss_desktop ?l)" using end' fr by simp_all
  have ws: "dk_windows (ss_desktop s') = dk_windows (ss_desktop ?h)" using end' by simp
  have len: "length (dk_windows (ss_desktop ?h)) = length (dk_windows (ss_desktop ?l))"
    by (rule keys_length [OF keys])
  show "laid_out (so_name ` set (ss_outputs s)) s'"
  proof (rule laid_outI)
    fix o' geo i
    assume o': "o' \<in> set (ss_outputs s')" "so_name o' \<in> so_name ` set (ss_outputs s)" "so_geometry o' = Some geo"
      and i: "i < length (dk_windows (ss_desktop s'))"
      and vis: "visible_on (so_name o') (workspace_of (ss_desktop s') (so_name o')) (dk_windows (ss_desktop s') ! i)"
    have i': "i < length (dk_windows (ss_desktop ?l))" using i ws len by simp
    note key = keys_nth [OF keys i']
    have rect: "mg_rect (dk_windows (ss_desktop ?h) ! i) = mg_rect (dk_windows (ss_desktop ?l) ! i)"
      using rects i' len by (metis nth_map)
    have vis': "visible_on (so_name o') (workspace_of (ss_desktop ?l) (so_name o')) (dk_windows (ss_desktop ?l) ! i)"
      using vis visible_on_key [OF key] outs ws by (simp add: workspace_of_def)
    have in': "o' \<in> set (ss_outputs ?l)" "so_name o' \<in> so_name ` set (ss_outputs ?s2)"
      using o' end' louts by (simp_all add: synced_effect)
    note was = laid_outD [OF conjunct1 [OF laid] in' o'(3) i' vis']
    have fit: "fits (ss_desktop s') o' geo i"
      by (rule fits_cong [OF was(1)]) (simp_all add: ws keys outs rect key)
    have "bt_get (dk_outputs (ss_desktop ?l)) (so_name o') \<noteq> None"
      using sync_outputs_covers [of "so_name o'"] in'(2) fr by (auto simp: synced_effect)
    then have sh: "shown (ss_desktop ?l) (dk_windows (ss_desktop ?l) ! i)" by (rule shown_visible [OF vis'])
    have "j = i" if "j < length (dk_windows (ss_desktop ?l))"
      "mg_window (dk_windows (ss_desktop ?l) ! i) = mg_window (dk_windows (ss_desktop ?l) ! j)" for j
      using that i' oks nth_eq_iff_index_eq [of "map mg_window (dk_windows (ss_desktop ?l))" j i]
      by (simp add: windows_ok_def)
    with sh have "element_location s' (mg_window (dk_windows (ss_desktop ?l) ! i)) \<noteq> None"
      unfolding loc using was(2) by auto
    with fit show "fits (ss_desktop s') o' geo i
        \<and> element_location s' (mg_window (dk_windows (ss_desktop s') ! i)) \<noteq> None"
      using mg_keyD [OF key] ws by simp
  qed
  show "element_location s' (mg_window w) = None"
    if w: "w \<in> set (dk_windows (ss_desktop s'))" "\<not> shown (ss_desktop s') w"
  proof -
    obtain j where j: "j < length (dk_windows (ss_desktop ?l))" "dk_windows (ss_desktop ?h) ! j = w"
      using w(1) ws len by (metis in_set_conv_nth)
    note key = keys_nth [OF keys j(1)]
    have "\<not> shown (ss_desktop ?l) (dk_windows (ss_desktop ?l) ! j)"
      using w(2) shown_key [OF key outs(1)] j(2) by simp
    then show ?thesis unfolding loc using j mg_keyD [OF key] by auto
  qed
qed

text \<open>The recorder and its capture timer change only where the pass polls the recorder.\<close>

definition engine_of :: "shell_state \<Rightarrow> controller \<times> capture_boost" where
  "engine_of s = (dk_recorder (ss_desktop s), ss_boost s)"

lemma pass_engine:
  assumes "distinct (map so_name (ss_outputs s))"
  shows "engine_of (maintain_desktop env s) = engine_of (poll_recorder env s)"
proof -
  let ?l = "layout_desktop env (synced env s)"
  have adopt: "dk_recorder (foldl (\<lambda>d window. adopt_window names active clients window d) d ws) = dk_recorder d"
    for names active clients ws d
    by (induction ws arbitrary: d) (simp_all add: adopt_window_def split: prod.split)
  have synced: "engine_of (synced env s) = engine_of (poll_recorder env s)"
    by (simp add: synced_def adopt_windows_def apply_performance_def sync_desktop_def Let_def adopt engine_of_def
        split: list.split)
  have "distinct (map so_name (ss_outputs (synced env s)))" using assms by (simp add: synced_effect)
  then have "layout_frame (ps_state ?l) = layout_frame (synced env s)"
    using layout_desktop_effect [OF _ refl] by blast
  moreover have "\<forall>i \<in> set [0..<length (dk_windows (ss_desktop (ps_state ?l)))].
      i < length (dk_windows (ss_desktop (ps_state ?l)))" by simp
  note hide = hide_windows_effect [OF this refl, folded hide_windows_def]
  ultimately have "engine_of (ps_state (hide_windows ?l)) = engine_of (synced env s)"
    using layout_frameD hide unfolding engine_of_def by metis
  moreover have "engine_of (maintain_desktop env s) = engine_of (ps_state (hide_windows ?l))"
    using restore_focus_cases [of "ps_state (restack (hide_windows ?l))"]
    by (auto simp: maintain_desktop_def Let_def synced_def [symmetric] engine_of_def update_timer_def
        restack_def focus_window_def)
  ultimately show ?thesis using synced by simp
qed

section \<open>Properties\<close>

lemma pass_keeps_ok:
  assumes "pass_ok s"
  shows "pass_ok (maintain_desktop env s)"
    and "dom (bt_get (dk_outputs (ss_desktop (maintain_desktop env s)))) = so_name ` set (ss_outputs s)"
    and "name \<in> so_name ` set (ss_outputs s) \<Longrightarrow> bt_get (dk_outputs (ss_desktop s)) name = Some v \<Longrightarrow>
      bt_get (dk_outputs (ss_desktop (maintain_desktop env s))) name = Some v"
proof -
  have ok: "distinct (map so_name (ss_outputs s))" "windows_ok (ss_desktop s)" "length (map so_name (ss_outputs s)) \<le> 9"
    "outputs_ok (dk_outputs (ss_desktop s))" "distinct (map fst (ss_elements s))"
    using assms by (simp_all add: pass_ok_def)
  note eff = pass_effect [OF refl ok(1,2), where env = env]
  note sync = sync_outputs_ok [OF ok(4,3)]
  have "length (ss_outputs (maintain_desktop env s)) = length (ss_outputs s)"
    using arg_cong [OF eff(4), of length] by simp
  then show "pass_ok (maintain_desktop env s)"
    using ok eff(6) eff(7) sync(1) by (simp add: pass_ok_def eff(2,4))
  show "dom (bt_get (dk_outputs (ss_desktop (maintain_desktop env s)))) = so_name ` set (ss_outputs s)"
    using sync(2) by (simp add: eff(2))
  show "name \<in> so_name ` set (ss_outputs s) \<Longrightarrow> bt_get (dk_outputs (ss_desktop s)) name = Some v \<Longrightarrow>
      bt_get (dk_outputs (ss_desktop (maintain_desktop env s))) name = Some v"
    using sync(3) by (simp add: eff(2))
qed

text \<open>
  C21: a maintenance pass keeps the desktop consistent. With up to nine outputs, every connected
  output has a workspace of its own between 1 and 9 afterwards, no other output has one, and an
  output that stays connected keeps the workspace it shows; windows stay distinct and mapped at most
  once, and a window number is never given twice.
\<close>

theorem maintenance_keeps_consistency:
  assumes "pass_ok s" "s' = maintain_desktop env s"
  shows "pass_ok s' \<and> dom (bt_get (dk_outputs (ss_desktop s'))) = so_name ` set (ss_outputs s')
    \<and> inj_map (bt_get (dk_outputs (ss_desktop s')))
    \<and> (\<forall>o' \<in> set (ss_outputs s). \<forall>v. bt_get (dk_outputs (ss_desktop s)) (so_name o') = Some v \<longrightarrow>
         bt_get (dk_outputs (ss_desktop s')) (so_name o') = Some v)"
proof -
  have ok: "pass_ok s'" unfolding assms(2) by (rule pass_keeps_ok(1) [OF assms(1)])
  have "map so_name (ss_outputs s') = map so_name (ss_outputs s)"
    using pass_effect(4) [OF assms(2)] assms(1) by (simp add: pass_ok_def)
  then have "so_name ` set (ss_outputs s') = so_name ` set (ss_outputs s)" by (metis list.set_map)
  then show ?thesis
    using ok pass_keeps_ok(2,3) [OF assms(1), where env = env] by (auto simp: assms(2) pass_ok_def outputs_ok_def)
qed

text \<open>
  C18: after a pass a window is on screen exactly when it is not in the scratchpad and its output
  shows its workspace.
\<close>

theorem mapped_iff_shown:
  assumes "pass_ok s" "s' = maintain_desktop env s" "\<forall>o' \<in> set (ss_outputs s'). so_geometry o' \<noteq> None"
    and "w \<in> set (dk_windows (ss_desktop s'))"
  shows "element_location s' (mg_window w) \<noteq> None \<longleftrightarrow> shown (ss_desktop s') w"
proof
  have names: "distinct (map so_name (ss_outputs s))" and wins: "windows_ok (ss_desktop s)"
    using assms(1) by (simp_all add: pass_ok_def)
  note eff = pass_effect [OF assms(2) names wins]
  show "shown (ss_desktop s') w" if "element_location s' (mg_window w) \<noteq> None"
    using that eff(9) [OF assms(4)] by (cases "shown (ss_desktop s') w") simp_all
  assume sh: "shown (ss_desktop s') w"
  then have dom: "mg_output w \<in> so_name ` set (ss_outputs s)"
    using pass_keeps_ok(2) [OF assms(1), where env = env] by (auto simp: shown_def assms(2) dom_def)
  then have "mg_output w \<in> set (map so_name (ss_outputs s'))" by (simp add: eff(4))
  then obtain o' geo where o': "o' \<in> set (ss_outputs s')" "so_name o' = mg_output w" "so_geometry o' = Some geo"
    using assms(3) by fastforce
  obtain i where i: "i < length (dk_windows (ss_desktop s'))" "w = dk_windows (ss_desktop s') ! i"
    using assms(4) by (metis in_set_conv_nth)
  have "visible_on (so_name o') (workspace_of (ss_desktop s') (so_name o')) (dk_windows (ss_desktop s') ! i)"
    using sh o'(2) i(2) by (simp add: shown_def visible_on_def workspace_of_def)
  from laid_outD(2) [OF eff(8) o'(1) _ o'(3) i(1) this] dom o'(2) i(2)
  show "element_location s' (mg_window w) \<noteq> None" by simp
qed

lemma visible_fits:
  assumes "pass_ok s" "s' = maintain_desktop env s" "o' \<in> set (ss_outputs s')" "so_geometry o' = Some geo"
    and "i < length (dk_windows (ss_desktop s'))"
    and "visible_on (so_name o') (workspace_of (ss_desktop s') (so_name o')) (dk_windows (ss_desktop s') ! i)"
  shows "fits (ss_desktop s') o' geo i"
proof -
  have names: "distinct (map so_name (ss_outputs s))" and wins: "windows_ok (ss_desktop s)"
    using assms(1) by (simp_all add: pass_ok_def)
  note eff = pass_effect [OF assms(2) names wins]
  have "so_name o' \<in> set (map so_name (ss_outputs s'))" using assms(3) by simp
  then have "so_name o' \<in> so_name ` set (ss_outputs s)" unfolding eff(4) by simp
  from laid_outD(1) [OF eff(8) assms(3) this assms(4,5,6)] show ?thesis .
qed

text \<open>
  C19: after a pass every window an output shows has a nonempty place on it: a fullscreen window
  covers the output, any other lies inside the area panels leave free, whatever geometry it had
  saved or asked for and however many windows there are.
\<close>

theorem windows_fit_their_output:
  assumes "pass_ok s" "s' = maintain_desktop env s" "o' \<in> set (ss_outputs s')" "so_geometry o' = Some geo"
    and "area_ok (usable_area geo (so_zone o'))" "w \<in> set (dk_windows (ss_desktop s'))"
    and "visible_on (so_name o') (workspace_of (ss_desktop s') (so_name o')) w"
  shows "\<exists>r. mg_rect w = Some r \<and> (if mg_fullscreen w then r = geo else rect_inside (usable_area geo (so_zone o')) r)"
proof -
  let ?area = "usable_area geo (so_zone o')"
  obtain i where i: "i < length (dk_windows (ss_desktop s'))" "w = dk_windows (ss_desktop s') ! i"
    using assms(6) by (metis in_set_conv_nth)
  have "fits (ss_desktop s') o' geo i" using visible_fits [OF assms(1-4) i(1)] assms(7) i(2) by simp
  then obtain r where r: "mg_rect w = Some r"
    "if mg_fullscreen w then r = geo
     else if mg_floating w then \<exists>saved w h.
       r = (case floating_rect ?area saved (w, h) of Some f \<Rightarrow> f | None \<Rightarrow> ?area)
     else \<exists>k < length (output_tiles (ss_desktop s') (so_name o')).
       r = output_rects (dk_config (ss_desktop s')) ?area (length (output_tiles (ss_desktop s') (so_name o'))) ! k"
    unfolding fits_def Let_def i(2) [symmetric] by (metis (no_types, lifting))
  have "rect_inside ?area r" if "\<not> mg_fullscreen w"
  proof (cases "mg_floating w")
    case True
    then obtain saved x y where "r = (case floating_rect ?area saved (x, y) of Some f \<Rightarrow> f | None \<Rightarrow> ?area)"
      using r(2) \<open>\<not> mg_fullscreen w\<close> by auto
    then show ?thesis using floating_inside [OF assms(5), of saved "(x, y)"] by auto
  next
    case False
    let ?rects = "output_rects (dk_config (ss_desktop s')) ?area (length (output_tiles (ss_desktop s') (so_name o')))"
    have "r \<in> set ?rects"
      using r(2) False \<open>\<not> mg_fullscreen w\<close> by (auto simp: output_rects_def tile_count)
    then show ?thesis unfolding output_rects_def by (rule tile_inside [OF assms(5)])
  qed
  with r show ?thesis by auto
qed

text \<open>
  C20: after a pass the tiled windows of an output never overlap, unless the monocle layout stacks
  them or the area is too small to have a pixel for each.
\<close>

theorem tiled_windows_disjoint:
  assumes "pass_ok s" "s' = maintain_desktop env s" "o' \<in> set (ss_outputs s')" "so_geometry o' = Some geo"
    and "area = usable_area geo (so_zone o')" "area_ok area" "2 \<le> rw area"
    and "int (length (output_tiles (ss_desktop s') (so_name o')) - 1) \<le> rh area"
    and "ly_mode (cf_layout (dk_config (ss_desktop s'))) \<noteq> ''monocle''"
    and "i \<in> set (output_tiles (ss_desktop s') (so_name o'))" "j \<in> set (output_tiles (ss_desktop s') (so_name o'))"
    and "i \<noteq> j"
  shows "\<exists>p q. mg_rect (dk_windows (ss_desktop s') ! i) = Some p \<and> mg_rect (dk_windows (ss_desktop s') ! j) = Some q
    \<and> rect_disjoint p q"
proof -
  let ?d = "ss_desktop s'" and ?tiles = "output_tiles (ss_desktop s') (so_name o')"
  let ?rects = "output_rects (dk_config ?d) area (length ?tiles)"
  have tile: "\<exists>k < length ?tiles. ?tiles ! k = x \<and> mg_rect (dk_windows ?d ! x) = Some (?rects ! k)"
    if "x \<in> set ?tiles" for x
  proof -
    have x: "x < length (dk_windows ?d)" "visible_on (so_name o') (workspace_of ?d (so_name o')) (dk_windows ?d ! x)"
      "\<not> mg_floating (dk_windows ?d ! x)" "\<not> mg_fullscreen (dk_windows ?d ! x)"
      using that by (auto simp: output_tiles_def tiled_indices_def visible_indices_set)
    have "fits ?d o' geo x" using visible_fits [OF assms(1-4) x(1,2)] .
    with x(3,4) show ?thesis by (auto simp: fits_def Let_def assms(5))
  qed
  have disj: "sorted_wrt rect_disjoint ?rects"
    unfolding output_rects_def using tile_disjoint [OF assms(6,7,8)] assms(9) by simp
  have len: "length ?rects = length ?tiles" by (simp add: output_rects_def tile_count)
  obtain k l where k: "k < length ?tiles" "?tiles ! k = i" "mg_rect (dk_windows ?d ! i) = Some (?rects ! k)"
    and l: "l < length ?tiles" "?tiles ! l = j" "mg_rect (dk_windows ?d ! j) = Some (?rects ! l)"
    using tile [OF assms(10)] tile [OF assms(11)] by blast
  have "k \<noteq> l" using k l assms(12) by auto
  then have "rect_disjoint (?rects ! k) (?rects ! l)"
    using sorted_wrt_nth_less [OF disj, of k l] sorted_wrt_nth_less [OF disj, of l k] k(1) l(1) len
    by (cases "k < l") (auto simp: rect_disjoint_def)
  with k(3) l(3) show ?thesis by blast
qed

section \<open>A session of two outputs\<close>

definition sample_output :: "str \<Rightarrow> int \<Rightarrow> space_output" where
  "sample_output name x =
     \<lparr>so_name = name, so_geometry = Some \<lparr>rx = x, ry = 0, rw = 1920, rh = 1080\<rparr>,
      so_zone = \<lparr>rx = 0, ry = 30, rw = 1920, rh = 1050\<rparr>, so_refresh = Some 60000, so_scale = Fin 1,
      so_transform = ''normal''\<rparr>"

definition sample_window :: "nat \<Rightarrow> u8 \<Rightarrow> str \<Rightarrow> bool \<Rightarrow> managed" where
  "sample_window n workspace output floating =
     \<lparr>mg_window = n, mg_id = n, mg_workspace = workspace, mg_output = output, mg_floating = floating,
      mg_fullscreen = False, mg_scratchpad = False, mg_rect = None, mg_floating_rect = None,
      mg_requested_size = (None, None), mg_last_size = None, mg_opacity = Fin 1,
      mg_opening_started = None, mg_opened = False, mg_movement = None, mg_resize = None\<rparr>"

definition sample_session :: shell_state where
  "sample_session =
     \<lparr>ss_desktop = (desktop_default (Inr config_default))
        \<lparr>dk_windows := [sample_window 1 1 ''A'' False, sample_window 2 1 ''A'' False,
           sample_window 3 2 ''B'' True], dk_outputs := [(''A'', 1), (''B'', 2)], dk_next_id := 4\<rparr>,
      ss_locked = False, ss_supports_lock = True, ss_running = True, ss_elements = [],
      ss_outputs = [sample_output ''A'' 0, sample_output ''B'' 1920], ss_focus = None,
      ss_pointer_output = None, ss_pointer_grabbed = False, ss_fullscreen = (\<lambda>_. None),
      ss_visual = (\<lambda>_. visual_default), ss_toplevel = (\<lambda>_. None), ss_configured = [],
      ss_theme = (\<lambda>_. theme_default),
      ss_boost = \<lparr>cb_timer = None, cb_fps = None, cb_session_pending = False, cb_override = OutputSource,
                  cb_commit_driven = False\<rparr>,
      ss_files = (\<lambda>_. None), ss_spawned = [], ss_closed = [], ss_transitions = [], ss_effects = []\<rparr>"

definition sample_client :: client where
  "sample_client =
     \<lparr>cl_alive = True, cl_app_id = ''editor'', cl_title = [], cl_toplevel = True, cl_has_parent = False,
      cl_x11_window = None, cl_override_redirect = False, cl_auxiliary = False, cl_size = (800, 600),
      cl_bbox_empty = False\<rparr>"

definition sample_pass :: pass_env where
  "sample_pass =
     \<lparr>pe_poll = \<lparr>pe_wait = StillRunning, pe_log = None, pe_status = None, pe_now = 0\<rparr>,
      pe_clients = (\<lambda>_. sample_client), pe_backend = (\<lambda>_ _ _. []), pe_clock = 1000000,
      pe_rearranged = (\<lambda>_ _ _. (None, \<lparr>rx = 0, ry = 30, rw = 1920, rh = 1050\<rparr>)),
      pe_touch_grabbed = False, pe_tick = (\<lambda>_ _ _. False)\<rparr>"

text \<open>With no configured outputs a pass leaves outputs of normal scale and transform as they are.\<close>

lemma replace_output_same:
  "distinct (map so_name os) \<Longrightarrow> o' \<in> set os \<Longrightarrow> replace_output o' os = os"
  by (auto simp: replace_output_def distinct_map dest: inj_onD intro!: map_idI)

lemma layout_output_plain:
  assumes "cf_outputs (dk_config (ss_desktop (ps_state p))) = []" "distinct (map so_name (ss_outputs (ps_state p)))"
    and "\<forall>o' \<in> set (ss_outputs (ps_state p)). so_scale o' = Fin 1 \<and> so_transform o' = ''normal''"
  shows "ss_outputs (ps_state (layout_output env gaming animate focused p name)) = ss_outputs (ps_state p)"
proof (cases "List.find (\<lambda>o'. so_name o' = name) (ss_outputs (ps_state p))")
  case (Some o')
  note o' = find_SomeD [OF Some]
  have config: "dk_config (ss_desktop (ps_state (begin_output env gaming o' p))) = dk_config (ss_desktop (ps_state p))"
    using layout_frameD [OF begin_output_keeps(2)] by blast
  have "arrange_output env None geo o' = (o', geo, False)" for geo
    using o' assms(3) by (simp add: arrange_output_def Let_def configured_transform_def split: prod.split)
  then show ?thesis
    using o' Some assms(1,2)
    by (cases "so_geometry o'")
      (simp_all add: layout_output_def Let_def layout_windows_effect(3) [OF refl] begin_output_keeps config
        bt_get_def replace_output_same)
qed (simp add: layout_output_def)

lemma layout_outputs_plain:
  assumes "cf_outputs (dk_config (ss_desktop (ps_state p))) = []" "distinct (map so_name (ss_outputs (ps_state p)))"
    and "\<forall>o' \<in> set (ss_outputs (ps_state p)). so_scale o' = Fin 1 \<and> so_transform o' = ''normal''"
    and "distinct todo" "laid_out names (ps_state p)" "set todo \<inter> names = {}"
  shows "ss_outputs (ps_state (foldl (layout_output env gaming animate focused) p todo)) = ss_outputs (ps_state p)"
  using assms
proof (induction todo arbitrary: p names)
  case (Cons name todo)
  let ?q = "layout_output env gaming animate focused p name"
  have same: "ss_outputs (ps_state ?q) = ss_outputs (ps_state p)"
    by (rule layout_output_plain [OF Cons.prems(1-3)])
  have new: "name \<notin> names" using Cons.prems by auto
  note step = layout_output_step [OF refl Cons.prems(5) new Cons.prems(2),
      where env = env and gaming = gaming and animate = animate and focused = focused]
  have "cf_outputs (dk_config (ss_desktop (ps_state ?q))) = []"
    using layout_frameD [OF step(3)] Cons.prems(1) by simp
  from Cons.IH [OF this _ _ _ step(1)] Cons.prems same show ?case by simp
qed simp

lemma pass_outputs_plain:
  assumes "cf_outputs (dk_config (ss_desktop s)) = []" "distinct (map so_name (ss_outputs s))"
    and "\<forall>o' \<in> set (ss_outputs s). so_scale o' = Fin 1 \<and> so_transform o' = ''normal''"
  shows "ss_outputs (maintain_desktop env s) = ss_outputs s"
proof -
  let ?l = "layout_desktop env (synced env s)"
  have "\<forall>i \<in> set [0..<length (dk_windows (ss_desktop (ps_state ?l)))].
      i < length (dk_windows (ss_desktop (ps_state ?l)))" by simp
  note hide = hide_windows_effect [OF this refl, folded hide_windows_def]
  have "laid_out {} (synced env s)" by (simp add: laid_out_def)
  then have "ss_outputs (ps_state ?l) = ss_outputs (synced env s)"
    unfolding layout_desktop_def Let_def
    using assms by (subst layout_outputs_plain [where names = "{}"]) (simp_all add: synced_effect)
  moreover have "view (maintain_desktop env s) = view (ps_state (hide_windows ?l))"
    by (simp add: maintain_desktop_def Let_def finish_effect restore_focus_effect restack_effect synced_def)
  ultimately show ?thesis using viewD hide by (metis synced_effect(3))
qed

lemma sample_session_ok: "pass_ok sample_session"
  by (simp add: pass_ok_def sample_session_def windows_ok_def sample_window_def sample_output_def
      desktop_default_def outputs_ok_def bt_wf_def bt_get_def inj_map_def)

lemma sample_synced: "synced sample_pass sample_session = sample_session"
  by (simp add: synced_def poll_recorder_def poll_def controller_default_def desktop_default_def
      sample_session_def sample_pass_def sync_desktop_def Let_def sync_outputs_def bt_retain_def
      assign_output_def bt_contains_def bt_get_def sample_output_def sample_window_def sample_client_def
      rehome_def apply_performance_def adopt_windows_def)

abbreviation sample_after :: shell_state where
  "sample_after \<equiv> maintain_desktop sample_pass sample_session"

lemma sample_after_pass:
  "ss_outputs sample_after = [sample_output ''A'' 0, sample_output ''B'' 1920]"
  "map mg_key (dk_windows (ss_desktop sample_after)) =
     map mg_key [sample_window 1 1 ''A'' False, sample_window 2 1 ''A'' False, sample_window 3 2 ''B'' True]"
  "dk_outputs (ss_desktop sample_after) = [(''A'', 1), (''B'', 2)]"
  "dk_config (ss_desktop sample_after) = config_default"
proof -
  have ok: "distinct (map so_name (ss_outputs sample_session))" "windows_ok (ss_desktop sample_session)"
    using sample_session_ok by (simp_all add: pass_ok_def)
  note eff = pass_effect [OF refl ok, where env = sample_pass]
  show "ss_outputs sample_after = [sample_output ''A'' 0, sample_output ''B'' 1920]"
    by (subst pass_outputs_plain)
      (simp_all add: sample_session_def desktop_default_def config_default_def sample_output_def)
  show "map mg_key (dk_windows (ss_desktop sample_after)) =
     map mg_key [sample_window 1 1 ''A'' False, sample_window 2 1 ''A'' False, sample_window 3 2 ''B'' True]"
    unfolding eff(1) sample_synced by (simp add: sample_session_def)
  show "dk_outputs (ss_desktop sample_after) = [(''A'', 1), (''B'', 2)]"
    unfolding eff(2)
    by (simp add: sample_session_def sync_outputs_def bt_retain_def assign_output_def bt_contains_def
        bt_get_def sample_output_def)
  show "dk_config (ss_desktop sample_after) = config_default"
    unfolding eff(3) by (simp add: sample_session_def desktop_default_def)
qed

theorem maintenance_keeps_consistency_witness:
  "pass_ok sample_after \<and> dom (bt_get (dk_outputs (ss_desktop sample_after))) = {''A'', ''B''}"
  using maintenance_keeps_consistency [OF sample_session_ok refl, of sample_pass]
  by (simp add: sample_after_pass sample_output_def)

theorem mapped_iff_shown_witness:
  "\<exists>w \<in> set (dk_windows (ss_desktop sample_after)). mg_window w = 3 \<and> element_location sample_after 3 \<noteq> None"
proof -
  have len: "length (dk_windows (ss_desktop sample_after)) = 3"
    using arg_cong [OF sample_after_pass(2), of length] by simp
  have key: "mg_key (dk_windows (ss_desktop sample_after) ! 2) = mg_key (sample_window 3 2 ''B'' True)"
    using arg_cong [OF sample_after_pass(2), of "\<lambda>ks. ks ! 2"] len by simp
  let ?w = "dk_windows (ss_desktop sample_after) ! 2"
  have w: "mg_window ?w = 3" "shown (ss_desktop sample_after) ?w"
    using mg_keyD [OF key] by (simp_all add: sample_window_def shown_def sample_after_pass bt_get_def)
  have mem: "?w \<in> set (dk_windows (ss_desktop sample_after))" using len by simp
  then have "element_location sample_after (mg_window ?w) \<noteq> None \<longleftrightarrow> shown (ss_desktop sample_after) ?w"
    by (intro mapped_iff_shown [OF sample_session_ok refl])
      (simp_all add: sample_after_pass sample_output_def)
  with w mem show ?thesis by metis
qed

theorem windows_fit_their_output_witness:
  "\<exists>r. mg_rect (dk_windows (ss_desktop sample_after) ! 2) = Some r
    \<and> rect_inside \<lparr>rx = 1920, ry = 30, rw = 1920, rh = 1050\<rparr> r"
proof -
  have len: "length (dk_windows (ss_desktop sample_after)) = 3"
    using arg_cong [OF sample_after_pass(2), of length] by simp
  have key: "mg_key (dk_windows (ss_desktop sample_after) ! 2) = mg_key (sample_window 3 2 ''B'' True)"
    using arg_cong [OF sample_after_pass(2), of "\<lambda>ks. ks ! 2"] len by simp
  let ?w = "dk_windows (ss_desktop sample_after) ! 2"
  have area: "usable_area \<lparr>rx = 1920, ry = 0, rw = 1920, rh = 1080\<rparr> (so_zone (sample_output ''B'' 1920))
      = \<lparr>rx = 1920, ry = 30, rw = 1920, rh = 1050\<rparr>"
    by (simp add: usable_area_def sample_output_def wrap32_id)
  have "\<exists>r. mg_rect ?w = Some r \<and> (if mg_fullscreen ?w then r = \<lparr>rx = 1920, ry = 0, rw = 1920, rh = 1080\<rparr>
      else rect_inside (usable_area \<lparr>rx = 1920, ry = 0, rw = 1920, rh = 1080\<rparr> (so_zone (sample_output ''B'' 1920))) r)"
  proof (rule windows_fit_their_output [OF sample_session_ok refl])
    show "sample_output ''B'' 1920 \<in> set (ss_outputs sample_after)" by (simp add: sample_after_pass)
    show "area_ok (usable_area \<lparr>rx = 1920, ry = 0, rw = 1920, rh = 1080\<rparr> (so_zone (sample_output ''B'' 1920)))"
      unfolding area by (simp add: area_ok_def)
    show "visible_on (so_name (sample_output ''B'' 1920))
        (workspace_of (ss_desktop sample_after) (so_name (sample_output ''B'' 1920))) ?w"
      using mg_keyD [OF key]
      by (simp add: visible_on_def workspace_of_def sample_after_pass bt_get_def sample_window_def sample_output_def)
  qed (use len in \<open>simp_all add: sample_output_def\<close>)
  then show ?thesis using mg_keyD [OF key] area by (simp add: sample_window_def)
qed

lemma sample_session_fields:
  "dk_windows (ss_desktop sample_session) =
     [sample_window 1 1 ''A'' False, sample_window 2 1 ''A'' False, sample_window 3 2 ''B'' True]"
  "dk_outputs (ss_desktop sample_session) = [(''A'', 1), (''B'', 2)]"
  by (simp_all add: sample_session_def)

lemma sample_tiles: "output_tiles (ss_desktop sample_after) ''A'' = [0, 1]"
proof -
  have "output_tiles (ss_desktop sample_after) ''A'' = output_tiles (ss_desktop sample_session) ''A''"
    by (rule output_tiles_cong) (simp_all only: sample_after_pass sample_session_fields)
  then show ?thesis
    by (simp add: output_tiles_def tiled_indices_def visible_indices_def visible_on_def workspace_of_def
        bt_get_def sample_session_fields sample_window_def upt_conv_Cons)
qed

theorem tiled_windows_disjoint_witness:
  "\<exists>p q. mg_rect (dk_windows (ss_desktop sample_after) ! 0) = Some p
    \<and> mg_rect (dk_windows (ss_desktop sample_after) ! 1) = Some q \<and> rect_disjoint p q"
proof (rule tiled_windows_disjoint [OF sample_session_ok refl])
  show "sample_output ''A'' 0 \<in> set (ss_outputs sample_after)" by (simp add: sample_after_pass)
  show "\<lparr>rx = 0, ry = 30, rw = 1920, rh = 1050\<rparr>
      = usable_area \<lparr>rx = 0, ry = 0, rw = 1920, rh = 1080\<rparr> (so_zone (sample_output ''A'' 0))"
    by (simp add: usable_area_def sample_output_def wrap32_id)
  have name: "so_name (sample_output ''A'' 0) = ''A''" by (simp add: sample_output_def)
  show "0 \<in> set (output_tiles (ss_desktop sample_after) (so_name (sample_output ''A'' 0)))"
    "1 \<in> set (output_tiles (ss_desktop sample_after) (so_name (sample_output ''A'' 0)))"
    "int (length (output_tiles (ss_desktop sample_after) (so_name (sample_output ''A'' 0))) - 1)
      \<le> rh \<lparr>rx = 0, ry = 30, rw = 1920, rh = 1050\<rparr>"
    unfolding name sample_tiles by simp_all
qed (simp_all add: sample_output_def area_ok_def sample_after_pass config_default_def layout_default_def)

section \<open>Focus and stacking\<close>

lemma rposition_Some: "rposition P xs = Some i \<Longrightarrow> i < length xs \<and> P (xs ! i)"
proof -
  assume "rposition P xs = Some i"
  then obtain k where k: "position P (rev xs) = Some k" "i = length xs - 1 - k"
    by (auto simp: rposition_def)
  with position_Some [OF k(1)] show ?thesis by (auto simp: rev_nth)
qed

lemma rposition_None: "rposition P xs = None \<longleftrightarrow> (\<forall>x \<in> set xs. \<not> P x)"
  by (simp add: rposition_def position_None)

lemma restored_focus:
  fixes t :: shell_state
  defines "mapped \<equiv> \<lambda>w. element_location t (mg_window w) \<noteq> None"
  assumes "\<not> ss_locked t"
    and "\<forall>alive. ss_focus (restore_focus t) = Some (LayerFocus alive)
      \<or> ss_focus (restore_focus t) = Some (PopupFocus alive) \<longrightarrow> \<not> alive"
  shows "case focused_index (restore_focus t) of
      Some i \<Rightarrow> mapped (dk_windows (ss_desktop t) ! i)
    | None \<Rightarrow> ss_focus (restore_focus t) = None \<and> (\<forall>w \<in> set (dk_windows (ss_desktop t)). \<not> mapped w)"
proof -
  let ?ws = "dk_windows (ss_desktop t)"
  let ?layer = "case ss_focus t of Some (LayerFocus alive) \<Rightarrow> alive | Some (PopupFocus alive) \<Rightarrow> alive | _ \<Rightarrow> False"
  let ?need = "\<not> ?layer \<and> (case focused_index t of None \<Rightarrow> True | Some i \<Rightarrow> \<not> mapped (?ws ! i))"
  have run: "restore_focus t = (if ?need then (case rposition mapped ?ws of
      Some i \<Rightarrow> focus_window i t | None \<Rightarrow> t\<lparr>ss_focus := None\<rparr>) else t)"
    unfolding restore_focus_def Let_def mapped_def using assms(2) by (simp del: not_None_eq)
  show ?thesis
  proof (cases ?need)
    case False
    then have "restore_focus t = t" unfolding run by (rule if_not_P)
    with assms(3) have "\<not> ?layer" by (auto split: option.splits desktop_focus.splits)
    with False obtain i where "focused_index t = Some i" "mapped (?ws ! i)" by (cases "focused_index t") auto
    with \<open>restore_focus t = t\<close> show ?thesis by simp
  next
    case need: True
    show ?thesis
    proof (cases "rposition mapped ?ws")
      case None
      then have "restore_focus t = t\<lparr>ss_focus := None\<rparr>" using need run by simp
      with None show ?thesis by (simp add: focused_index_def rposition_None)
    next
      case (Some i)
      note i = rposition_Some [OF Some]
      have u: "restore_focus t = focus_window i t" using need run Some by simp
      have "dk_windows (ss_desktop (focus_window i t)) = ?ws" using viewD [OF focus_window_effect(1)] by blast
      then have f: "focused_index (restore_focus t) = position (\<lambda>w. mg_window w = mg_window (?ws ! i)) ?ws"
        by (simp add: focused_index_def u focus_window_effect(3))
      then obtain j where j: "focused_index (restore_focus t) = Some j"
        using i position_None [of "\<lambda>w. mg_window w = mg_window (?ws ! i)" ?ws] by fastforce
      have "mg_window (?ws ! j) = mg_window (?ws ! i)"
        using position_Some [OF f [unfolded j, symmetric]] by simp
      with i j show ?thesis by (simp add: mapped_def)
    qed
  qed
qed

text \<open>
  C22: the keyboard focus never rests on a window that is not on screen. After a pass of an unlocked
  session, unless a panel or a popup holds the focus, either the focused window is on screen or no
  managed window is and nothing has the focus.
\<close>

theorem focus_is_on_screen:
  assumes "s' = maintain_desktop env s" "\<not> ss_locked s'"
    and "\<forall>alive. ss_focus s' = Some (LayerFocus alive) \<or> ss_focus s' = Some (PopupFocus alive) \<longrightarrow> \<not> alive"
  shows "case focused_index s' of
      Some i \<Rightarrow> element_location s' (mg_window (dk_windows (ss_desktop s') ! i)) \<noteq> None
    | None \<Rightarrow> ss_focus s' = None \<and> (\<forall>w \<in> set (dk_windows (ss_desktop s')). element_location s' (mg_window w) = None)"
proof -
  obtain t a r where t: "s' = with_desktop (\<lambda>d. (update_timer a r d)\<lparr>dk_dirty := False\<rparr>) (restore_focus t)"
    by (simp add: assms(1) maintain_desktop_def Let_def)
  define u where "u = restore_focus t"
  have same: "view s' = view u" "ss_focus s' = ss_focus u" by (simp_all add: t u_def finish_effect)
  note vu = viewD [OF same(1)]
  have vt: "dk_windows (ss_desktop u) = dk_windows (ss_desktop t)" "element_location u v = element_location t v"
    "ss_locked u = ss_locked t" for v
    using viewD [OF restore_focus_effect(1) [of t]] by (simp_all add: u_def)
  have foc: "focused_index s' = focused_index u"
    using vu same(2) by (simp add: focused_index_def split: option.split desktop_focus.split)
  let ?mapped = "\<lambda>w. element_location t (mg_window w) \<noteq> None"
  have "case focused_index u of
      Some i \<Rightarrow> ?mapped (dk_windows (ss_desktop t) ! i)
    | None \<Rightarrow> ss_focus u = None \<and> (\<forall>w \<in> set (dk_windows (ss_desktop t)). \<not> ?mapped w)"
    unfolding u_def by (rule restored_focus) (use assms(2,3) same vu vt in \<open>simp_all add: u_def\<close>)
  then show ?thesis using foc vu vt same(2) by (cases "focused_index u") (simp_all del: not_None_eq)
qed

lemma maintain_focus:
  "ss_focus (maintain_desktop env s) = ss_focus s \<or> ss_focus (maintain_desktop env s) = None
    \<or> (\<exists>w. ss_focus (maintain_desktop env s) = Some (WindowFocus w))"
  if "distinct (map so_name (ss_outputs s))"
proof -
  let ?l = "layout_desktop env (synced env s)"
  have "distinct (map so_name (ss_outputs (synced env s)))" using that by (simp add: synced_effect)
  then have "layout_frame (ps_state ?l) = layout_frame (synced env s)"
    using layout_desktop_effect [OF _ refl] by blast
  moreover have "\<forall>i \<in> set [0..<length (dk_windows (ss_desktop (ps_state ?l)))].
      i < length (dk_windows (ss_desktop (ps_state ?l)))" by simp
  note hide = hide_windows_effect [OF this refl, folded hide_windows_def]
  ultimately have "ss_focus (ps_state (restack (hide_windows ?l))) = ss_focus s"
    using layout_frameD hide by (metis restack_effect(3) synced_effect(6))
  moreover have "ss_focus (maintain_desktop env s) = ss_focus (restore_focus (ps_state (restack (hide_windows ?l))))"
    by (simp add: maintain_desktop_def Let_def finish_effect synced_def)
  ultimately show ?thesis
    using restore_focus_cases [of "ps_state (restack (hide_windows ?l))"] by (auto simp: focus_window_effect)
qed

theorem focus_is_on_screen_witness:
  "case focused_index sample_after of
      Some i \<Rightarrow> element_location sample_after (mg_window (dk_windows (ss_desktop sample_after) ! i)) \<noteq> None
    | None \<Rightarrow> ss_focus sample_after = None
        \<and> (\<forall>w \<in> set (dk_windows (ss_desktop sample_after)). element_location sample_after (mg_window w) = None)"
proof (rule focus_is_on_screen [OF refl])
  have ok: "distinct (map so_name (ss_outputs sample_session))" "windows_ok (ss_desktop sample_session)"
    using sample_session_ok by (simp_all add: pass_ok_def)
  show "\<not> ss_locked sample_after"
    unfolding pass_effect(5) [OF refl ok] by (simp add: sample_session_def)
  have "ss_focus sample_session = None" by (simp add: sample_session_def)
  then show "\<forall>alive. ss_focus sample_after = Some (LayerFocus alive) \<or> ss_focus sample_after = Some (PopupFocus alive)
      \<longrightarrow> \<not> alive"
    using maintain_focus [OF ok(1), of sample_pass] by auto
qed

text \<open>
  Floating windows stay above tiled ones. After the restacking of a pass no tiled window lies
  above a floating one, and the windows of each kind keep their order among themselves.
\<close>

lemma floating_windows_above:
  assumes "distinct (map fst (ss_elements (ps_state p)))"
  defines "flt \<equiv> is_floating (ss_desktop (ps_state p))"
  shows "\<not> tile_above_float flt (map fst (ss_elements (ps_state (restack p)))) False
    \<and> filter (\<lambda>e. flt (fst e)) (ss_elements (ps_state (restack p))) = filter (\<lambda>e. flt (fst e)) (ss_elements (ps_state p))
    \<and> filter (\<lambda>e. \<not> flt (fst e)) (ss_elements (ps_state (restack p))) = filter (\<lambda>e. \<not> flt (fst e)) (ss_elements (ps_state p))"
proof (cases "tile_above_float flt (map fst (ss_elements (ps_state p))) False")
  case False
  then show ?thesis by (simp add: restack_def Let_def flt_def)
next
  case True
  let ?es = "ss_elements (ps_state p)" and ?fs = "filter flt (map fst (ss_elements (ps_state p)))"
  have "concat (map (\<lambda>f. filter (\<lambda>e. fst e = f) es) (filter flt (map fst es))) = filter (\<lambda>e. flt (fst e)) es"
    if "distinct (map fst es)" for es :: "(nat \<times> (int \<times> int)) list"
    using that
  proof (induction es)
    case (Cons e es)
    have "\<forall>e' \<in> set es. fst e' \<noteq> fst e"
      using Cons.prems by (metis distinct.simps(2) image_eqI list.map(2) list.set_map)
    then have "filter (\<lambda>e'. fst e' = fst e) es = []" by (simp add: filter_empty_conv)
    moreover have "map (\<lambda>f. filter (\<lambda>e. fst e = f) (e # es)) (filter flt (map fst es))
        = map (\<lambda>f. filter (\<lambda>e. fst e = f) es) (filter flt (map fst es))"
      using Cons.prems by auto
    note this [THEN arg_cong, of concat]
    ultimately show ?case using Cons by simp
  qed simp
  note floats = this [OF assms(1)]
  have stack: "ss_elements (ps_state (restack p)) =
      filter (\<lambda>e. \<not> flt (fst e)) ?es @ filter (\<lambda>e. flt (fst e)) ?es"
  proof -
    have "filter (\<lambda>e. fst e \<notin> set ?fs) ?es = filter (\<lambda>e. \<not> flt (fst e)) ?es"
      by (rule filter_cong) auto
    then show ?thesis
      using True floats foldl_raise [of ?fs ?es] assms(1)
      by (simp add: restack_def Let_def flt_def)
  qed
  show ?thesis
    unfolding stack by (simp add: tile_above_float_append tile_above_float_same filter_empty_conv)
qed

end
