(* ===== verification/Commands.thy ===== *)
theory Commands
  imports Maintain
begin

text \<open>
  \<open>desktop_command\<close> of \<open>crates/compositor/src/policy.rs\<close>: the commands that keys, \<open>wmctl\<close> and the
  shells send. Every arm of the source is a definition; an error leaves as its text, together with
  the state the arm had reached.
\<close>

section \<open>What a command depends on\<close>

text \<open>
  What the operating system and other crates answer while a command runs: starting programs, the
  capture timer, the recorder's control pipe, the configuration files, \<open>toml\<close>, \<open>serde_json\<close> and
  \<open>shlex\<close>, the X11 connection, the output backend.
\<close>

record command_env =
  ce_machine :: machine
  ce_clients :: clients
  ce_spawn :: "str list \<Rightarrow> (pid, str) result"
  ce_socket :: "str option"
  ce_boost_failure :: "str option"
  ce_write :: "str option"
  ce_kill :: kill_result
  ce_lower :: "str \<Rightarrow> str"
  ce_toml :: toml
  ce_to_toml :: "recorder \<Rightarrow> (str, str) result"
  ce_fault :: write_fault
  ce_denied :: "str option"
  ce_json :: "str \<Rightarrow> str list option"
  ce_shlex :: "str \<Rightarrow> str list option"
  ce_close_error :: "nat \<Rightarrow> str option"
  ce_output_errors :: "(str, output_config) btree \<Rightarrow> str list"
  ce_pass :: pass_env

type_synonym outcome_of = "(unit, str) result \<times> shell_state"

abbreviation set_recorder :: "controller \<Rightarrow> effect list \<Rightarrow> shell_state \<Rightarrow> shell_state" where
  "set_recorder recorder effects s \<equiv>
     s\<lparr>ss_desktop := (ss_desktop s)\<lparr>dk_recorder := recorder\<rparr>, ss_effects := ss_effects s @ effects\<rparr>"

section \<open>Performance\<close>

definition performance_command :: "str \<Rightarrow> shell_state \<Rightarrow> outcome_of" where
  "performance_command arg s =
     (let words = split_whitespace arg;
          (action, parts) = (case words of [] \<Rightarrow> (''status'', []) | w # ws \<Rightarrow> (w, ws));
          usage = ''performance profile requires auto, desktop, or gaming''
      in if action = ''status'' \<and> parts = [] then (Inr (), s)
         else if action = ''reset'' \<and> parts = []
         then (Inr (), with_desktop (\<lambda>d. d\<lparr>dk_dirty := True\<rparr>) s)
         else if action = ''profile''
         then (case parts of
                 [] \<Rightarrow> (Inl usage, s)
               | profile # extra \<Rightarrow>
                   if extra \<noteq> [] \<or> profile \<notin> {''auto'', ''desktop'', ''gaming''} then (Inl usage, s)
                   else (Inr (), with_desktop (\<lambda>d. d\<lparr>dk_performance_override := Some profile,
                                   dk_redraw := True, dk_dirty := True\<rparr>) s))
         else (Inl ''performance requires status, reset, or profile auto|desktop|gaming'', s))"

section \<open>Recording\<close>

definition source_text :: "capture_source \<Rightarrow> str" where
  "source_text source =
     (case source of
        OutputSource \<Rightarrow> ''output''
      | WindowSource n \<Rightarrow> ''window '' @ show_nat n
      | RegionSource r \<Rightarrow>
          ''region '' @ show_int (rx r) @ '','' @ show_int (ry r) @ '' '' @ show_int (rw r) @ ''x'' @ show_int (rh r))"

text \<open>\<open>start\<close> and \<open>replay-start\<close>, from the point where the source is known.\<close>

definition record_source :: "command_env \<Rightarrow> bool \<Rightarrow> capture_source \<Rightarrow> shell_state \<Rightarrow> outcome_of" where
  "record_source env replay source s =
     (let d = ss_desktop s; config = cf_recorder (dk_config d) in
      case recorder_output s source of
        Inl e \<Rightarrow> (Inl e, s)
      | Inr capture_output \<Rightarrow>
          (case start_capture_boost (ce_boost_failure env) (unat (rec_screen_fps config))
                  ((ss_boost s)\<lparr>cb_override := source, cb_commit_driven := False\<rparr>) of
             (Inl e, boost) \<Rightarrow> (Inl e, s\<lparr>ss_boost := boost\<lparr>cb_override := OutputSource\<rparr>\<rparr>)
           | (Inr _, boost) \<Rightarrow>
               (case start (ce_machine env) (dk_recorder d) config replay (ce_socket env) capture_output False of
                  (Inl e, recorder, effects) \<Rightarrow>
                    (Inl e, set_recorder recorder effects (s\<lparr>ss_boost := stop_capture_boost boost\<rparr>))
                | (Inr _, recorder, effects) \<Rightarrow>
                    (Inr (), set_recorder
                       (recorder\<lparr>rc_status := (rc_status recorder)
                          \<lparr>st_source := Some (source_text (cb_override boost))\<rparr>\<rparr>)
                       effects (s\<lparr>ss_boost := boost\<rparr>)))))"

definition record_start :: "command_env \<Rightarrow> str \<Rightarrow> shell_state \<Rightarrow> outcome_of" where
  "record_start env source_arg s =
     (let d = ss_desktop s in
      case (if trim source_arg = ''remembered''
            then remembered_recorder_source (ce_lower env) (ce_clients env) d (cf_recorder (dk_config d))
            else recorder_source d source_arg) of
        Inl e \<Rightarrow> (Inl e, s)
      | Inr source \<Rightarrow> record_source env False source s)"

definition record_replay :: "command_env \<Rightarrow> str \<Rightarrow> shell_state \<Rightarrow> outcome_of" where
  "record_replay env source_arg s =
     (case recorder_source (ss_desktop s) source_arg of
        Inl e \<Rightarrow> (Inl e, s)
      | Inr source \<Rightarrow> record_source env True source s)"

text \<open>A game records itself through its own rendering API: nothing is copied from the compositor.\<close>

definition record_game :: "command_env \<Rightarrow> str \<Rightarrow> shell_state \<Rightarrow> outcome_of" where
  "record_game env source_arg s =
     (let d = ss_desktop s; config = cf_recorder (dk_config d); name = trim source_arg in
      if name = [] then (Inl ''game-start requires a configured game profile name'', s)
      else (case List.find (\<lambda>p. gp_name p = name) (rec_game_profiles config) of
              None \<Rightarrow> (Inl (''recorder game profile '' @ [CHR 0x27] @ name @ [CHR 0x27] @ '' does not exist''), s)
            | Some profile \<Rightarrow>
                if gp_api profile \<notin> {''opengl'', ''vulkan''}
                then (Inl (''game capture profile '' @ [CHR 0x27] @ name @ [CHR 0x27]
                       @ '' has unsupported API '' @ gp_api profile), s)
                else
                  (case start_game (ce_machine env) (dk_recorder d) config profile of
                     (r, recorder, effects) \<Rightarrow>
                       (map_sum id (\<lambda>_. ()) r,
                        set_recorder recorder effects (s\<lparr>ss_boost := (ss_boost s)\<lparr>cb_override := OutputSource\<rparr>\<rparr>)))))"

definition record_attach :: "command_env \<Rightarrow> str \<Rightarrow> shell_state \<Rightarrow> outcome_of" where
  "record_attach env source_arg s =
     (let d = ss_desktop s; usage = ''game-attach requires one positive graphics-process PID'' in
      case parse_u32 (trim source_arg) of
        None \<Rightarrow> (Inl usage, s)
      | Some pid \<Rightarrow>
          if pid = 0 then (Inl usage, s)
          else
            (case start_game_attach (ce_machine env) (dk_recorder d) (cf_recorder (dk_config d)) (of_nat pid) of
               (r, recorder, effects) \<Rightarrow>
                 (map_sum id (\<lambda>_. ()) r,
                  set_recorder recorder effects (s\<lparr>ss_boost := (ss_boost s)\<lparr>cb_override := OutputSource\<rparr>\<rparr>))))"

definition record_xwayland :: "command_env \<Rightarrow> str \<Rightarrow> shell_state \<Rightarrow> outcome_of" where
  "record_xwayland env source_arg s =
     (let d = ss_desktop s; config = cf_recorder (dk_config d);
          usage = ''xwayland-start requires one positive X11 window ID'' in
      case parse_u32 (trim source_arg) of
        None \<Rightarrow> (Inl usage, s)
      | Some window \<Rightarrow>
          if window = 0 then (Inl usage, s)
          else
            (case List.find (\<lambda>w. cl_x11_window (ce_clients env (mg_window w)) = Some (of_nat window)) (dk_windows d) of
               None \<Rightarrow> (Inl (''X11 window 0x'' @ hex_digits window @ '' is not managed by this Luma session''), s)
             | Some w \<Rightarrow>
                 (case start_capture_boost (ce_boost_failure env) (unat (rec_fps config))
                         ((ss_boost s)\<lparr>cb_override := WindowSource (mg_id w), cb_commit_driven := True\<rparr>) of
                    (Inl e, boost) \<Rightarrow>
                      (Inl e, s\<lparr>ss_boost := boost\<lparr>cb_override := OutputSource, cb_commit_driven := False\<rparr>\<rparr>)
                  | (Inr _, boost) \<Rightarrow>
                      (case start_game_xwayland (ce_machine env) (dk_recorder d) config (ce_socket env)
                              (mg_output w) (of_nat window) of
                         (Inl e, recorder, effects) \<Rightarrow>
                           (Inl e, set_recorder recorder effects (s\<lparr>ss_boost := stop_capture_boost boost\<rparr>))
                       | (Inr _, recorder, effects) \<Rightarrow>
                           (Inr (), set_recorder recorder effects (s\<lparr>ss_boost := boost\<rparr>))))))"

definition record_stop :: "command_env \<Rightarrow> shell_state \<Rightarrow> outcome_of" where
  "record_stop env s =
     (let recorder0 = dk_recorder (ss_desktop s); game_capture = is_game_capture recorder0 in
      case stop (ce_write env) (ce_kill env) recorder0 of
        (r, recorder, effects) \<Rightarrow>
          (r, set_recorder recorder effects
                (if game_capture then s else s\<lparr>ss_boost := stop_capture_boost (ss_boost s)\<rparr>)))"

definition record_toggle :: "command_env \<Rightarrow> shell_state \<Rightarrow> outcome_of" where
  "record_toggle env s =
     (let d = ss_desktop s; config = cf_recorder (dk_config d) in
      if is_running (dk_recorder d)
      then (case stop (ce_write env) (ce_kill env) (dk_recorder d) of
              (r, recorder, effects) \<Rightarrow>
                (r, set_recorder recorder effects (s\<lparr>ss_boost := stop_capture_boost (ss_boost s)\<rparr>)))
      else
        (case recorder_output s OutputSource of
           Inl e \<Rightarrow> (Inl e, s)
         | Inr capture_output \<Rightarrow>
             (case start_capture_boost (ce_boost_failure env) (unat (rec_screen_fps config))
                     ((ss_boost s)\<lparr>cb_override := OutputSource, cb_commit_driven := False\<rparr>) of
                (Inl e, boost) \<Rightarrow> (Inl e, s\<lparr>ss_boost := boost\<rparr>)
              | (Inr _, boost) \<Rightarrow>
                  (case start (ce_machine env) (dk_recorder d) config False (ce_socket env) capture_output False of
                     (Inl e, recorder, effects) \<Rightarrow>
                       (Inl e, set_recorder recorder effects (s\<lparr>ss_boost := stop_capture_boost boost\<rparr>))
                   | (Inr _, recorder, effects) \<Rightarrow>
                       (Inr (), set_recorder recorder effects (s\<lparr>ss_boost := boost\<rparr>))))))"

text \<open>Settings take effect at once and are stored for the next start.\<close>

definition record_set :: "command_env \<Rightarrow> str \<Rightarrow> shell_state \<Rightarrow> outcome_of" where
  "record_set env source_arg s =
     (let usage = ''recorder set requires a KEY and VALUE''; d = ss_desktop s; cfg = dk_config d in
      case split_once (CHR '' '') (trim source_arg) of
        None \<Rightarrow> (Inl usage, s)
      | Some (key, v) \<Rightarrow>
          if key = [] \<or> trim v = [] then (Inl usage, s)
          else
            (case apply_setting (cf_recorder cfg) (trim key) v of
               (Inl e, _) \<Rightarrow> (Inl e, s)
             | (Inr _, settings) \<Rightarrow>
                 (case write_recorder_settings (ce_to_toml env) (ce_fault env)
                         (recorder_settings_path (mc_env (ce_machine env))) settings (ss_files s) of
                    (r, files) \<Rightarrow>
                      (r, s\<lparr>ss_desktop := d\<lparr>dk_config := cfg\<lparr>cf_recorder := settings\<rparr>\<rparr>, ss_files := files\<rparr>))))"

definition record_reset :: "command_env \<Rightarrow> shell_state \<Rightarrow> outcome_of" where
  "record_reset env s =
     (let d = ss_desktop s; environ = mc_env (ce_machine env) in
      case clear_recorder_settings (ce_denied env) (recorder_settings_path environ) (ss_files s) of
        (Inl e, files) \<Rightarrow> (Inl e, s\<lparr>ss_files := files\<rparr>)
      | (Inr _, files) \<Rightarrow>
          (case config_load (ce_toml env) environ (read_files files) of
             Inl e \<Rightarrow> (Inl e, s\<lparr>ss_files := files\<rparr>)
           | Inr base \<Rightarrow>
               (Inr (), s\<lparr>ss_files := files,
                  ss_desktop := d\<lparr>dk_config := (dk_config d)\<lparr>cf_recorder := cf_recorder base\<rparr>\<rparr>\<rparr>)))"

text \<open>Everything but \<open>status\<close> marks the desktop dirty when it succeeds.\<close>

definition mark_dirty :: "bool \<Rightarrow> outcome_of \<Rightarrow> outcome_of" where
  "mark_dirty redraw o' =
     (case o' of
        (Inl e, s) \<Rightarrow> (Inl e, s)
      | (Inr _, s) \<Rightarrow>
          (Inr (), with_desktop (\<lambda>d. d\<lparr>dk_dirty := True, dk_redraw := dk_redraw d \<or> redraw\<rparr>) s))"

definition recorder_command :: "command_env \<Rightarrow> str \<Rightarrow> shell_state \<Rightarrow> outcome_of" where
  "recorder_command env arg s =
     (let (action, source_arg) = (case split_once (CHR '' '') arg of Some p \<Rightarrow> p | None \<Rightarrow> (arg, []));
          recorder0 = dk_recorder (ss_desktop s)
      in if action = ''status'' then (Inr (), s)
         else mark_dirty False
           (if action = ''start'' then record_start env source_arg s
            else if action = ''game-start'' then record_game env source_arg s
            else if action = ''game-attach'' then record_attach env source_arg s
            else if action = ''xwayland-start'' then record_xwayland env source_arg s
            else if action = ''replay-start'' then record_replay env source_arg s
            else if action = ''stop'' then record_stop env s
            else if action = ''toggle'' then record_toggle env s
            else if action = ''pause''
            then (case toggle_pause (ce_write env) recorder0 of
                    (r, recorder, effects) \<Rightarrow> (r, set_recorder recorder effects s))
            else if action = ''replay-save''
            then (case save_replay (ce_write env) recorder0 of
                    (r, recorder, effects) \<Rightarrow> (r, set_recorder recorder effects s))
            else if action = ''set'' then record_set env source_arg s
            else if action = ''settings-reset'' then record_reset env s
            else (Inl (''recorder requires start [source], game-start PROFILE, game-attach PID, ''
                   @ ''xwayland-start WINDOW, replay-start [source], stop, toggle, pause, replay-save, ''
                   @ ''set KEY VALUE, settings-reset, or status''), s)))"

section \<open>Configuration\<close>

fun join_text :: "str \<Rightarrow> str list \<Rightarrow> str" where
  "join_text sep [] = []"
| "join_text sep [x] = x"
| "join_text sep (x # y # xs) = x @ sep @ join_text sep (y # xs)"

text \<open>Devices and keyboard, which a reload reconfigures too, keep no state here.\<close>

definition reload_command :: "command_env \<Rightarrow> shell_state \<Rightarrow> outcome_of" where
  "reload_command env s =
     (let d = ss_desktop s in
      case config_load (ce_toml env) (mc_env (ce_machine env)) (read_files (ss_files s)) of
        Inl e \<Rightarrow> (Inl e, s\<lparr>ss_desktop := d\<lparr>dk_error := Some e\<rparr>\<rparr>)
      | Inr c \<Rightarrow>
          (let errors = ce_output_errors env (cf_outputs c)
           in (Inr (), s\<lparr>ss_desktop := d\<lparr>dk_config := c,
                 dk_error := (if errors = [] then None else Some (join_text ''; '' errors))\<rparr>\<rparr>)))"

definition layout_command :: "str \<Rightarrow> shell_state \<Rightarrow> outcome_of" where
  "layout_command arg s =
     (if arg \<notin> {''master'', ''monocle''} then (Inl ''layout must be master or monocle'', s)
      else (Inr (), with_desktop (\<lambda>d. d\<lparr>dk_config := (dk_config d)
                      \<lparr>cf_layout := (cf_layout (dk_config d))\<lparr>ly_mode := arg\<rparr>\<rparr>\<rparr>) s))"

definition ratio_command :: "str \<Rightarrow> shell_state \<Rightarrow> outcome_of" where
  "ratio_command arg s =
     (case parse_f64 arg of
        None \<Rightarrow> (Inl ''ratio requires a numeric delta'', s)
      | Some delta \<Rightarrow>
          if \<not> is_finite delta then (Inl ''ratio must be finite'', s)
          else (Inr (), with_desktop (\<lambda>d. let cfg = dk_config d; ly = cf_layout cfg in
                  d\<lparr>dk_config := cfg\<lparr>cf_layout := ly\<lparr>ly_master_ratio :=
                      f64_clamp (rnd (1 / 10)) (rnd (9 / 10)) (f64_add (ly_master_ratio ly) delta)\<rparr>\<rparr>\<rparr>) s))"

section \<open>Workspaces\<close>

definition current_output :: "shell_state \<Rightarrow> str" where
  "current_output s = (case active_output s of Some name \<Rightarrow> name | None \<Rightarrow> [])"

text \<open>
  Showing workspace \<open>n\<close> on an output: an output that shows it already takes the other's workspace in
  exchange, and the windows of both move with them.
\<close>

definition move_windows :: "u8 \<Rightarrow> str \<Rightarrow> managed list \<Rightarrow> managed list" where
  "move_windows n name ws = map (\<lambda>w. if mg_workspace w = n then w\<lparr>mg_output := name\<rparr> else w) ws"

definition swap_windows :: "u8 \<Rightarrow> str \<Rightarrow> u8 \<Rightarrow> str \<Rightarrow> managed list \<Rightarrow> managed list" where
  "swap_windows previous other n out ws =
     map (\<lambda>w. if mg_workspace w = previous then w\<lparr>mg_output := other\<rparr>
              else if mg_workspace w = n then w\<lparr>mg_output := out\<rparr> else w) ws"

definition show_workspace :: "str \<Rightarrow> u8 \<Rightarrow> desktop \<Rightarrow> desktop" where
  "show_workspace out n d =
     (let previous = workspace_of d out;
          other = bt_find (\<lambda>o' w. w = n \<and> o' \<noteq> out) (dk_outputs d);
          outputs = (case other of None \<Rightarrow> dk_outputs d | Some o' \<Rightarrow> bt_insert o' previous (dk_outputs d));
          windows = (case other of None \<Rightarrow> dk_windows d
                     | Some o' \<Rightarrow> swap_windows previous o' n out (dk_windows d))
      in d\<lparr>dk_outputs := bt_insert out n outputs, dk_windows := move_windows n out windows\<rparr>)"

text \<open>The images both outputs keep for the transition, in the order they are asked for.\<close>

definition workspace_transitions :: "str \<Rightarrow> u8 \<Rightarrow> desktop \<Rightarrow> (str \<times> u8 \<times> u8) list" where
  "workspace_transitions out n d =
     (let previous = workspace_of d out
      in (out, previous, n)
         # (case bt_find (\<lambda>o' w. w = n \<and> o' \<noteq> out) (dk_outputs d) of
              None \<Rightarrow> [] | Some o' \<Rightarrow> [(o', n, previous)]))"

definition send_window :: "nat \<Rightarrow> str \<Rightarrow> u8 \<Rightarrow> desktop \<Rightarrow> desktop" where
  "send_window i out n d =
     (let owner = (case bt_find (\<lambda>_ w. w = n) (dk_outputs d) of Some o' \<Rightarrow> o' | None \<Rightarrow> out)
      in d\<lparr>dk_windows := (dk_windows d)[i := (dk_windows d ! i)\<lparr>mg_workspace := n, mg_output := owner\<rparr>]\<rparr>)"

definition workspace_command :: "bool \<Rightarrow> str \<Rightarrow> shell_state \<Rightarrow> outcome_of" where
  "workspace_command sending arg s =
     (let (number, target) = (case split_once (CHR '' '') arg of Some p \<Rightarrow> p | None \<Rightarrow> (arg, []));
          d = ss_desktop s
      in case parse_u8 number of
           None \<Rightarrow> (Inl ''workspace must be a number'', s)
         | Some k \<Rightarrow>
             (let n = (of_nat k :: u8); out = (if target = [] then current_output s else target)
              in if target \<noteq> [] \<and> (sending \<or> \<not> bt_contains (dk_outputs d) target)
                 then (Inl ''unknown output or unexpected argument'', s)
                 else if n = 0 \<or> ly_workspaces (cf_layout (dk_config d)) < n
                 then (Inl ''workspace out of range'', s)
                 else if sending
                 then (Inr (), (case focused_index s of
                                  None \<Rightarrow> s | Some i \<Rightarrow> with_desktop (send_window i out n) s))
                 else (Inr (), s\<lparr>ss_desktop := show_workspace out n d,
                                ss_transitions := ss_transitions s @ workspace_transitions out n d\<rparr>)))"

definition scratchpad_command :: "str \<Rightarrow> shell_state \<Rightarrow> outcome_of" where
  "scratchpad_command arg s =
     (let d = ss_desktop s; ws = dk_windows d; out = current_output s
      in if arg = ''send''
         then (Inr (), (case focused_index s of
                          None \<Rightarrow> s
                        | Some i \<Rightarrow> s\<lparr>ss_desktop := d\<lparr>dk_windows := ws[i := (ws ! i)\<lparr>mg_scratchpad := True\<rparr>]\<rparr>\<rparr>))
         else if arg = ''show''
         then (Inr (), (case position mg_scratchpad ws of
                          None \<Rightarrow> s
                        | Some i \<Rightarrow>
                            s\<lparr>ss_desktop := d\<lparr>dk_windows := ws[i := (ws ! i)\<lparr>mg_scratchpad := False,
                               mg_floating := True, mg_workspace := workspace_of d out, mg_output := out\<rparr>]\<rparr>\<rparr>))
         else (Inl ''scratchpad send/show'', s))"

section \<open>Windows\<close>

definition close_command :: "command_env \<Rightarrow> shell_state \<Rightarrow> outcome_of" where
  "close_command env s =
     (case focused_index s of
        None \<Rightarrow> (Inr (), s)
      | Some i \<Rightarrow>
          (let window = mg_window (dk_windows (ss_desktop s) ! i); c = ce_clients env window;
               asked = s\<lparr>ss_closed := ss_closed s @ [window]\<rparr>
           in if cl_x11_window c \<noteq> None
              then (case ce_close_error env window of Some e \<Rightarrow> (Inl e, s) | None \<Rightarrow> (Inr (), asked))
              else if cl_toplevel c then (Inr (), asked)
              else (Inr (), s)))"

definition toggle_command :: "bool \<Rightarrow> shell_state \<Rightarrow> outcome_of" where
  "toggle_command fullscreen s =
     (let d = ss_desktop s; ws = dk_windows d
      in (Inr (), (case focused_index s of
                     None \<Rightarrow> s
                   | Some i \<Rightarrow>
                       (let w = ws ! i;
                            w' = (if fullscreen then w\<lparr>mg_fullscreen := \<not> mg_fullscreen w\<rparr>
                                  else w\<lparr>mg_floating := \<not> mg_floating w\<rparr>)
                        in s\<lparr>ss_desktop := d\<lparr>dk_windows := ws[i := w']\<rparr>\<rparr>))))"

text \<open>The nearest window in a direction, by the squared distance between the centres.\<close>

definition centre :: "rect \<Rightarrow> int \<times> int" where
  "centre r = (wrap32 (rx r + tdiv (rw r) 2), wrap32 (ry r + tdiv (rh r) 2))"

definition in_direction :: "str \<Rightarrow> int \<Rightarrow> int \<Rightarrow> bool" where
  "in_direction arg dx dy \<longleftrightarrow>
     arg = ''left'' \<and> dx < 0 \<or> arg = ''right'' \<and> 0 < dx \<or> arg = ''up'' \<and> dy < 0 \<or> arg = ''down'' \<and> 0 < dy"

definition neighbours :: "str \<Rightarrow> nat \<Rightarrow> shell_state \<Rightarrow> (nat \<times> int) list" where
  "neighbours arg i s =
     (let ws = dk_windows (ss_desktop s);
          a = centre (case mg_rect (ws ! i) of Some r \<Rightarrow> r | None \<Rightarrow> \<lparr>rx = 0, ry = 0, rw = 1, rh = 1\<rparr>)
      in concat (map (\<lambda>j. case mg_rect (ws ! j) of
                            None \<Rightarrow> []
                          | Some b \<Rightarrow>
                              (let dx = wrap32 (wrap32 (rx b + tdiv (rw b) 2) - fst a);
                                   dy = wrap32 (wrap32 (ry b + tdiv (rh b) 2) - snd a)
                               in if in_direction arg dx dy then [(j, wrap64 (dx ^ 2 + dy ^ 2))] else []))
           (filter (\<lambda>j. j \<noteq> i \<and> element_location s (mg_window (ws ! j)) \<noteq> None) [0..<length ws])))"

definition nearest :: "str \<Rightarrow> nat \<Rightarrow> shell_state \<Rightarrow> nat option" where
  "nearest arg i s = map_option fst (min_by_key snd (neighbours arg i s))"

definition swap_at :: "nat \<Rightarrow> nat \<Rightarrow> 'a list \<Rightarrow> 'a list" where
  "swap_at i j xs = xs[i := xs ! j, j := xs ! i]"

text \<open>
  Focusing a window by its number shows its workspace first, with a maintenance pass; the window's
  index is taken before the pass. No result stands for the panic of an index that is out of range.
\<close>

definition focus_command :: "command_env \<Rightarrow> bool \<Rightarrow> str \<Rightarrow> shell_state \<Rightarrow> shell_state option" where
  "focus_command env moving arg s =
     (let d = ss_desktop s; ws = dk_windows d in
      case parse_u64 arg of
        Some n \<Rightarrow>
          (case position (\<lambda>w. mg_id w = n) ws of
             None \<Rightarrow> Some s
           | Some i \<Rightarrow>
               (let w = ws ! i;
                    s' = maintain_desktop (ce_pass env)
                      (s\<lparr>ss_desktop := d\<lparr>dk_outputs := bt_insert (mg_output w) (mg_workspace w) (dk_outputs d)\<rparr>\<rparr>)
                in if i < length (dk_windows (ss_desktop s')) then Some (focus_window i s') else None))
      | None \<Rightarrow>
          (case focused_index s of
             None \<Rightarrow> Some s
           | Some i \<Rightarrow>
               (case nearest arg i s of
                  None \<Rightarrow> Some s
                | Some j \<Rightarrow>
                    Some (if moving then s\<lparr>ss_desktop := d\<lparr>dk_windows := swap_at i j ws\<rparr>\<rparr>
                          else focus_window j s))))"

section \<open>The command\<close>

definition spawn_sibling :: "command_env \<Rightarrow> str \<Rightarrow> str \<Rightarrow> shell_state \<Rightarrow> outcome_of" where
  "spawn_sibling env name option' s =
     (case mc_current_exe (ce_machine env) of
        Inl e \<Rightarrow> (Inl e, s)
      | Inr exe \<Rightarrow> spawn_app (ce_spawn env) [with_file_name exe name, option'] s)"

definition spawn_parsed :: "command_env \<Rightarrow> (str list, str) result \<Rightarrow> shell_state \<Rightarrow> outcome_of" where
  "spawn_parsed env args s = (case args of Inl e \<Rightarrow> (Inl e, s) | Inr a \<Rightarrow> spawn_app (ce_spawn env) a s)"

definition is_session_query :: "str \<Rightarrow> bool" where
  "is_session_query cmd \<longleftrightarrow> cmd = ''status'' \<or> cmd = ''performance status''"

definition desktop_command :: "command_env \<Rightarrow> str \<Rightarrow> shell_state \<Rightarrow> outcome_of option" where
  "desktop_command env cmd s =
     (if ss_locked s \<and> \<not> is_session_query cmd then Some (Inl ''session is locked'', s)
      else
        (let (v, arg) = (case split_once (CHR '' '') cmd of Some p \<Rightarrow> p | None \<Rightarrow> (cmd, [])) in
         if v = ''status'' then Some (Inr (), s)
         else if v = ''performance'' then Some (performance_command arg s)
         else if v = ''terminal'' then Some (spawn_app (ce_spawn env) (cf_terminal (dk_config (ss_desktop s))) s)
         else if v = ''launcher'' then Some (spawn_sibling env (shell_name (ss_desktop s)) ''--launcher'' s)
         else if v = ''recorder'' \<and> arg = [] then Some (spawn_sibling env ''wm-shell-sctk'' ''--recorder'' s)
         else if v = ''recorder'' then Some (recorder_command env arg s)
         else if v = ''exec''
         then Some (spawn_parsed env
                (ok_or ''exec requires a JSON array of executable and arguments'' (ce_json env arg)) s)
         else if v = ''launch'' then Some (spawn_parsed env (launch_args (ce_shlex env) arg) s)
         else if v = ''screenshot'' then Some (spawn_app (ce_spawn env) screenshot_copy_command s)
         else if v = ''quit'' then Some (Inr (), s\<lparr>ss_running := False\<rparr>)
         else if v = ''lock''
         then Some (if \<not> ss_supports_lock s
                    then (Inl ''session locking is unavailable on this nested compositor backend'', s)
                    else spawn_parsed env (session_lock_command (ce_machine env)) s)
         else if v = ''focus'' \<or> v = ''move''
         then map_option (\<lambda>s'. mark_dirty True (Inr (), s')) (focus_command env (v = ''move'') arg s)
         else Some (mark_dirty True
           (if v = ''reload'' then reload_command env s
            else if v = ''workspace'' \<or> v = ''send'' then workspace_command (v = ''send'') arg s
            else if v = ''layout'' then layout_command arg s
            else if v = ''ratio'' then ratio_command arg s
            else if v = ''close'' then close_command env s
            else if v = ''fullscreen'' \<or> v = ''floating'' then toggle_command (v = ''fullscreen'') s
            else if v = ''scratchpad'' then scratchpad_command arg s
            else (Inl (''unknown command: '' @ v), s)))))"

end
