(* ===== verification/CommandProofs.thy ===== *)
theory CommandProofs
  imports Commands MaintainPass
begin

text \<open>
  What holds of a session however commands, maintenance passes, clients and outputs interleave, and
  what single commands do: workspaces are exchanged with their windows, the live configuration stays
  valid, the capture timer runs only for a recording.
\<close>

section \<open>Recording\<close>

text \<open>
  The state a recording command may leave: the windows are untouched, the recorder is consistent,
  and the capture timer runs only while a recording engine is held.
\<close>

definition engine_ok :: "shell_state \<Rightarrow> bool" where
  "engine_ok s \<longleftrightarrow> controller_inv (dk_recorder (ss_desktop s))
     \<and> (cb_timer (ss_boost s) \<noteq> None \<longrightarrow> rc_child (dk_recorder (ss_desktop s)) \<noteq> None)"

definition session_view :: "shell_state \<Rightarrow> managed list \<times> nat \<times> config \<times> (nat \<times> (int \<times> int)) list \<times> space_output list" where
  "session_view s = (dk_windows (ss_desktop s), dk_next_id (ss_desktop s), dk_config (ss_desktop s),
     ss_elements s, ss_outputs s)"

lemma start_child: "start m c config replay display oname paced = (Inr fps, c', effects) \<Longrightarrow> rc_child c' \<noteq> None"
  by (auto simp: start_def Let_def split: if_splits sum.splits)

lemma start_game_xwayland_child:
  "start_game_xwayland m c config display oname window = (Inr fps, c', effects) \<Longrightarrow> rc_child c' \<noteq> None"
  by (auto simp: start_game_xwayland_def dest: start_child split: if_splits sum.splits prod.splits)

lemma start_shape_keeps:
  assumes "start_shape c (r, c', effects)" "controller_inv c"
  shows "controller_inv c'" "\<not> is_ok r \<Longrightarrow> c' = c" "rc_child c \<noteq> None \<Longrightarrow> rc_child c' \<noteq> None"
  using assms start_shape_inv [OF assms] by (auto simp: start_shape_def is_running_def)

lemma poll_child:
  "poll env c = (changed, c', effects) \<Longrightarrow> controller_inv c \<Longrightarrow> rc_child c \<noteq> None \<Longrightarrow> rc_child c' = None \<Longrightarrow>
     changed \<and> \<not> is_running c'"
  by (auto simp: poll_def poll_native_def poll_running_def controller_inv_def is_running_def
      split: option.splits try_wait.splits prod.splits if_splits)

lemma boost_timers [simp]:
  "cb_timer (stop_capture_boost b) = None"
  "start_capture_boost failure fps b = (Inl e, b') \<Longrightarrow> cb_timer b' = None"
  by (auto simp: stop_capture_boost_def start_capture_boost_def Let_def split: option.splits)

lemma controller_inv_source [simp]:
  "controller_inv (c\<lparr>rc_status := (rc_status c)\<lparr>st_source := x\<rparr>\<rparr>) = controller_inv c"
  by (simp add: controller_inv_def is_running_def)

lemma record_source_keeps:
  assumes "engine_ok s" "record_source env replay source s = (r, s')"
  shows "engine_ok s' \<and> session_view s' = session_view s"
proof (cases "recorder_output s source")
  case (Inl e)
  with assms show ?thesis by (simp add: record_source_def Let_def)
next
  case (Inr out)
  let ?c = "dk_recorder (ss_desktop s)" and ?config = "cf_recorder (dk_config (ss_desktop s))"
  obtain br boost where b: "start_capture_boost (ce_boost_failure env) (unat (rec_screen_fps ?config))
      ((ss_boost s)\<lparr>cb_override := source, cb_commit_driven := False\<rparr>) = (br, boost)" by fastforce
  obtain sr c' effects where st:
      "start (ce_machine env) ?c ?config replay (ce_socket env) out False = (sr, c', effects)"
    by (metis prod_cases3)
  have shape: "start_shape ?c (sr, c', effects)" using start_shapes(1) st by metis
  have inv: "controller_inv ?c" using assms(1) by (simp add: engine_ok_def)
  note keep = start_shape_keeps [OF shape inv]
  have child: "is_ok sr \<Longrightarrow> rc_child c' \<noteq> None" using start_child st by (cases sr) fastforce+
  show ?thesis
    using assms(2) b st Inr keep child inv
    by (cases br; cases sr) (auto simp: record_source_def Let_def engine_ok_def session_view_def)
qed

lemma record_start_keeps:
  assumes "engine_ok s" "record_start env arg s = (r, s')"
  shows "engine_ok s' \<and> session_view s' = session_view s"
  using assms record_source_keeps [OF assms(1)]
  by (auto simp: record_start_def Let_def split: sum.splits)

lemma record_replay_keeps:
  assumes "engine_ok s" "record_replay env arg s = (r, s')"
  shows "engine_ok s' \<and> session_view s' = session_view s"
  using assms record_source_keeps [OF assms(1)] by (auto simp: record_replay_def split: sum.splits)

lemma engine_okI:
  "controller_inv c \<Longrightarrow> (cb_timer b \<noteq> None \<Longrightarrow> rc_child c \<noteq> None) \<Longrightarrow>
     dk_recorder (ss_desktop s) = c \<Longrightarrow> ss_boost s = b \<Longrightarrow> engine_ok s"
  by (auto simp: engine_ok_def)

lemma record_game_keeps:
  assumes "engine_ok s" "record_game env arg s = (r, s')"
  shows "engine_ok s' \<and> session_view s' = session_view s"
proof -
  let ?c = "dk_recorder (ss_desktop s)" and ?config = "cf_recorder (dk_config (ss_desktop s))"
  have inv: "controller_inv ?c" using assms(1) by (simp add: engine_ok_def)
  have "controller_inv c' \<and> (rc_child ?c \<noteq> None \<longrightarrow> rc_child c' \<noteq> None)"
    if "start_game (ce_machine env) ?c ?config profile = (sr, c', effects)" for profile sr c' effects
    using start_shape_keeps [OF _ inv] start_shapes(2) that by metis
  then show ?thesis
    using assms
    by (auto simp: record_game_def Let_def engine_ok_def session_view_def
        split: if_splits option.splits prod.splits)
qed

lemma record_attach_keeps:
  assumes "engine_ok s" "record_attach env arg s = (r, s')"
  shows "engine_ok s' \<and> session_view s' = session_view s"
proof -
  let ?c = "dk_recorder (ss_desktop s)" and ?config = "cf_recorder (dk_config (ss_desktop s))"
  have inv: "controller_inv ?c" using assms(1) by (simp add: engine_ok_def)
  have "controller_inv c' \<and> (rc_child ?c \<noteq> None \<longrightarrow> rc_child c' \<noteq> None)"
    if "start_game_attach (ce_machine env) ?c ?config pid = (sr, c', effects)" for pid sr c' effects
    using start_shape_keeps [OF _ inv] start_shapes(3) that by metis
  then show ?thesis
    using assms
    by (auto simp: record_attach_def Let_def engine_ok_def session_view_def
        split: if_splits option.splits prod.splits)
qed

lemma record_xwayland_keeps:
  assumes "engine_ok s" "record_xwayland env arg s = (r, s')"
  shows "engine_ok s' \<and> session_view s' = session_view s"
proof -
  let ?c = "dk_recorder (ss_desktop s)" and ?config = "cf_recorder (dk_config (ss_desktop s))"
  have inv: "controller_inv ?c" using assms(1) by (simp add: engine_ok_def)
  have "controller_inv c' \<and> (is_ok sr \<longrightarrow> rc_child c' \<noteq> None)"
    if "start_game_xwayland (ce_machine env) ?c ?config d out window = (sr, c', effects)" for d out window sr c' effects
  proof
    show "controller_inv c'"
      using start_shape_keeps(1) [OF start_shapes(4) [of ?c "ce_machine env" ?config d out window, unfolded that] inv] .
    show "is_ok sr \<longrightarrow> rc_child c' \<noteq> None"
      using start_game_xwayland_child that by (cases sr) fastforce+
  qed
  then show ?thesis
    using assms
    by (fastforce simp: record_xwayland_def Let_def engine_ok_def session_view_def
        split: if_splits option.splits prod.splits sum.splits)
qed

lemma stop_child:
  assumes "stop wr kr c = (r, c', effects)" "controller_inv c"
  shows "controller_inv c' \<and> rc_child c' = None \<and> (is_game_capture c \<longrightarrow> rc_child c = None)"
proof (intro conjI)
  show "controller_inv c'" using stop_inv [OF assms(2), of wr kr] assms(1) by simp
  show "rc_child c' = None"
    using assms
    by (cases "rc_game_launcher c"; cases kr)
      (auto simp: stop_def reset_def terminate_game_launcher_def split: option.splits if_splits)
  show "is_game_capture c \<longrightarrow> rc_child c = None"
    using assms(2) by (auto simp: is_game_capture_def controller_inv_def)
qed

lemma record_stop_keeps:
  assumes "engine_ok s" "record_stop env s = (r, s')"
  shows "engine_ok s' \<and> session_view s' = session_view s"
  using assms stop_child
  by (fastforce simp: record_stop_def Let_def engine_ok_def session_view_def split: prod.splits if_splits)

lemma record_toggle_keeps:
  assumes "engine_ok s" "record_toggle env s = (r, s')"
  shows "engine_ok s' \<and> session_view s' = session_view s"
proof (cases "is_running (dk_recorder (ss_desktop s))")
  case True
  then show ?thesis
    using assms stop_child
    by (fastforce simp: record_toggle_def Let_def engine_ok_def session_view_def split: prod.splits)
next
  case False
  let ?c = "dk_recorder (ss_desktop s)" and ?config = "cf_recorder (dk_config (ss_desktop s))"
  have inv: "controller_inv ?c" using assms(1) by (simp add: engine_ok_def)
  have "controller_inv c' \<and> (is_ok sr \<longrightarrow> rc_child c' \<noteq> None)"
    if "start (ce_machine env) ?c ?config False (ce_socket env) out False = (sr, c', effects)" for out sr c' effects
  proof
    show "controller_inv c'"
      using start_shape_keeps(1) [OF start_shapes(1) [of ?c "ce_machine env" ?config False "ce_socket env" out False,
            unfolded that] inv] .
    show "is_ok sr \<longrightarrow> rc_child c' \<noteq> None" using start_child that by (cases sr) fastforce+
  qed
  then show ?thesis
    using assms False
    by (fastforce simp: record_toggle_def Let_def engine_ok_def session_view_def
        split: prod.splits sum.splits)
qed

text \<open>Edits of the settings change nothing else, and the live configuration stays valid.\<close>

lemma record_set_keeps:
  assumes "engine_ok s" "config_validate (dk_config (ss_desktop s)) = Inr ()" "record_set env arg s = (r, s')"
  shows "engine_ok s' \<and> config_validate (dk_config (ss_desktop s')) = Inr ()
    \<and> dk_windows (ss_desktop s') = dk_windows (ss_desktop s) \<and> dk_next_id (ss_desktop s') = dk_next_id (ss_desktop s)
    \<and> ss_elements s' = ss_elements s \<and> ss_outputs s' = ss_outputs s"
proof -
  have valid: "config_validate ((dk_config (ss_desktop s))\<lparr>cf_recorder := settings\<rparr>) = Inr ()"
    if "apply_setting (cf_recorder (dk_config (ss_desktop s))) key v = (Inr canonical, settings)" for key v canonical settings
  proof (rule config_validate_recorder [OF assms(2)])
    have "validate_recorder (cf_recorder (dk_config (ss_desktop s))) = Inr ()"
      using assms(2) by (simp add: config_validate_Inr)
    from apply_setting_valid [OF this, of key v] that show "validate_recorder settings = Inr ()" by simp
  qed
  show ?thesis
    using assms valid
    by (auto simp: record_set_def Let_def engine_ok_def split: option.splits prod.splits if_splits sum.splits)
qed

lemma record_reset_keeps:
  assumes "engine_ok s" "config_validate (dk_config (ss_desktop s)) = Inr ()" "record_reset env s = (r, s')"
  shows "engine_ok s' \<and> config_validate (dk_config (ss_desktop s')) = Inr ()
    \<and> dk_windows (ss_desktop s') = dk_windows (ss_desktop s) \<and> dk_next_id (ss_desktop s') = dk_next_id (ss_desktop s)
    \<and> ss_elements s' = ss_elements s \<and> ss_outputs s' = ss_outputs s"
proof -
  have valid: "config_validate ((dk_config (ss_desktop s))\<lparr>cf_recorder := cf_recorder base\<rparr>) = Inr ()"
    if "config_load tm environ (read_files fs) = Inr base" for tm environ fs base
  proof (rule config_validate_recorder [OF assms(2)])
    have "config_validate base = Inr ()" using that by (auto simp: config_load_Inr)
    then show "validate_recorder (cf_recorder base) = Inr ()" by (simp add: config_validate_Inr)
  qed
  show ?thesis
    using assms valid
    by (auto simp: record_reset_def Let_def engine_ok_def split: prod.splits sum.splits)
qed

section \<open>The session\<close>

text \<open>
  A consistent session: windows and their numbers are distinct, a window is mapped at most once,
  outputs have distinct names, the recorder is consistent, the capture timer runs only for an
  engine that is held, and the live configuration passes \<open>Config::validate\<close>.
\<close>

definition session_ok :: "shell_state \<Rightarrow> bool" where
  "session_ok s \<longleftrightarrow>
     windows_ok (ss_desktop s) \<and> distinct (map fst (ss_elements s))
     \<and> distinct (map so_name (ss_outputs s)) \<and> engine_ok s
     \<and> config_validate (dk_config (ss_desktop s)) = Inr ()"

lemma session_okD:
  assumes "session_ok s"
  shows "windows_ok (ss_desktop s)" "distinct (map fst (ss_elements s))"
    "distinct (map so_name (ss_outputs s))" "engine_ok s"
    "config_validate (dk_config (ss_desktop s)) = Inr ()"
  using assms by (simp_all add: session_ok_def)

text \<open>What consistency depends on, for the operations that leave the rest alone.\<close>

lemma session_ok_view:
  "session_ok s \<Longrightarrow> engine_ok s' \<and> session_view s' = session_view s \<Longrightarrow> session_ok s'"
  by (auto simp: session_ok_def session_view_def windows_ok_def)

lemma session_ok_windows:
  assumes "session_ok s" "map mg_window ws = map mg_window (dk_windows (ss_desktop s))"
    "map mg_id ws = map mg_id (dk_windows (ss_desktop s))"
    "dk_windows (ss_desktop s') = ws" "dk_next_id (ss_desktop s') = dk_next_id (ss_desktop s)"
    "dk_config (ss_desktop s') = dk_config (ss_desktop s)" "dk_recorder (ss_desktop s') = dk_recorder (ss_desktop s)"
    "ss_elements s' = ss_elements s" "ss_outputs s' = ss_outputs s" "ss_boost s' = ss_boost s"
  shows "session_ok s'"
  using assms(1) windows_okI [OF _ assms(2,3)] assms(4-)
  by (auto simp: session_ok_def engine_ok_def windows_ok_def)

lemma map_update_same: "i < length xs \<Longrightarrow> f y = f (xs ! i) \<Longrightarrow> map f (xs[i := y]) = map f xs"
  by (metis list_update_id map_update)

lemma session_ok_config:
  assumes "session_ok s" "config_validate c = Inr ()"
  shows "session_ok (s\<lparr>ss_desktop := (ss_desktop s)\<lparr>dk_config := c, dk_error := e\<rparr>\<rparr>)"
    "session_ok (s\<lparr>ss_desktop := (ss_desktop s)\<lparr>dk_config := c\<rparr>\<rparr>)"
  using assms by (simp_all add: session_ok_def engine_ok_def windows_ok_def)

lemma session_ok_flags:
  "session_ok (with_desktop (\<lambda>d. d\<lparr>dk_dirty := x\<rparr>) s) = session_ok s"
  "session_ok (with_desktop (\<lambda>d. d\<lparr>dk_dirty := x, dk_redraw := y\<rparr>) s) = session_ok s"
  "session_ok (with_desktop (\<lambda>d. d\<lparr>dk_performance_override := p, dk_redraw := y, dk_dirty := x\<rparr>) s) = session_ok s"
  "session_ok (with_desktop (\<lambda>d. d\<lparr>dk_error := z\<rparr>) s) = session_ok s"
  "session_ok (with_desktop (\<lambda>d. d\<lparr>dk_outputs := m\<rparr>) s) = session_ok s"
  "session_ok (s\<lparr>ss_running := x\<rparr>) = session_ok s"
  "session_ok (s\<lparr>ss_closed := cs\<rparr>) = session_ok s"
  by (simp_all add: session_ok_def engine_ok_def windows_ok_def)

lemma spawn_app_ok: "session_ok s \<Longrightarrow> session_ok (snd (spawn_app f args s))"
  by (auto simp: spawn_app_def session_ok_def engine_ok_def windows_ok_def split: list.splits sum.splits)

lemma mark_dirty_ok: "session_ok (snd (mark_dirty redraw o')) = session_ok (snd o')"
  by (cases o'; cases "fst o'") (auto simp: mark_dirty_def session_ok_flags(2))

lemma focused_index_bound: "focused_index s = Some i \<Longrightarrow> i < length (dk_windows (ss_desktop s))"
  by (auto simp: focused_index_def dest: position_Some split: option.splits desktop_focus.splits)

lemma focus_window_ok: "session_ok s \<Longrightarrow> session_ok (focus_window i s)"
  by (simp add: focus_window_def Let_def session_ok_def engine_ok_def windows_ok_def distinct_raise_element)

text \<open>Each command keeps the session consistent.\<close>

lemma performance_ok: "session_ok s \<Longrightarrow> session_ok (snd (performance_command arg s))"
  by (auto simp: performance_command_def Let_def session_ok_flags split: list.splits)

lemma ok_if:
  "pred_option P X \<Longrightarrow> pred_option P Y \<Longrightarrow> pred_option P (if c then X else Y)"
  "session_ok (snd p) \<Longrightarrow> session_ok (snd q) \<Longrightarrow> session_ok (snd (if c then p else q))"
  by simp_all

lemma recorder_command_ok:
  assumes "session_ok s"
  shows "session_ok (snd (recorder_command env arg s))"
proof -
  note ok = session_okD [OF assms]
  have view: "session_ok (snd p)" if "\<And>r s'. p = (r, s') \<Longrightarrow> engine_ok s' \<and> session_view s' = session_view s" for p :: outcome_of
    using that session_ok_view [OF assms] by (cases p) auto
  have settings: "session_ok (snd p)"
    if "\<And>r s'. p = (r, s') \<Longrightarrow> engine_ok s' \<and> config_validate (dk_config (ss_desktop s')) = Inr ()
      \<and> dk_windows (ss_desktop s') = dk_windows (ss_desktop s) \<and> dk_next_id (ss_desktop s') = dk_next_id (ss_desktop s)
      \<and> ss_elements s' = ss_elements s \<and> ss_outputs s' = ss_outputs s" for p :: outcome_of
    using that assms by (cases p) (auto simp: session_ok_def windows_ok_def)
  have pause: "session_ok (set_recorder c' effects s)"
    if "toggle_pause wr (dk_recorder (ss_desktop s)) = (r, c', effects) \<or>
        save_replay wr (dk_recorder (ss_desktop s)) = (r, c', effects)" for wr r c' effects
  proof -
    have inv: "controller_inv (dk_recorder (ss_desktop s))" using ok(4) by (simp add: engine_ok_def)
    have "controller_inv c'" "rc_child c' = rc_child (dk_recorder (ss_desktop s))"
      using that inv toggle_pause_inv [OF inv, of wr]
      by (auto simp: save_replay_def toggle_pause_def split: prod.splits sum.splits if_splits)
    then show ?thesis using assms by (auto simp: session_ok_def engine_ok_def windows_ok_def)
  qed
  have arms: "session_ok (snd (record_start env x s))" "session_ok (snd (record_game env x s))"
    "session_ok (snd (record_attach env x s))" "session_ok (snd (record_xwayland env x s))"
    "session_ok (snd (record_replay env x s))" "session_ok (snd (record_stop env s))"
    "session_ok (snd (record_toggle env s))" "session_ok (snd (record_set env x s))"
    "session_ok (snd (record_reset env s))" for x
    by (rule view [OF record_start_keeps [OF ok(4)]] view [OF record_game_keeps [OF ok(4)]]
        view [OF record_attach_keeps [OF ok(4)]] view [OF record_xwayland_keeps [OF ok(4)]]
        view [OF record_replay_keeps [OF ok(4)]] view [OF record_stop_keeps [OF ok(4)]]
        view [OF record_toggle_keeps [OF ok(4)]] settings [OF record_set_keeps [OF ok(4,5)]]
        settings [OF record_reset_keeps [OF ok(4,5)]]; assumption)+
  have piped: "session_ok (snd (case toggle_pause (ce_write env) (dk_recorder (ss_desktop s)) of
      (r, recorder, effects) \<Rightarrow> (r, set_recorder recorder effects s)))"
    "session_ok (snd (case save_replay (ce_write env) (dk_recorder (ss_desktop s)) of
      (r, recorder, effects) \<Rightarrow> (r, set_recorder recorder effects s)))"
    using pause by (auto split: prod.split)
  show ?thesis
  proof -
    obtain action source_arg where
      parsed: "(case split_once (CHR '' '') arg of Some p \<Rightarrow> p | None \<Rightarrow> (arg, [])) = (action, source_arg)"
      by fastforce
    show ?thesis
      unfolding recorder_command_def Let_def parsed prod.case
      by (intro ok_if(2) mark_dirty_ok [THEN iffD2] arms piped) (simp_all add: assms)
  qed
qed

lemma reload_ok: "session_ok s \<Longrightarrow> session_ok (snd (reload_command env s))"
  by (auto simp: reload_command_def Let_def session_ok_config session_ok_flags config_load_Inr split: sum.splits)

lemma config_validate_mode:
  assumes "config_validate c = Inr ()" "mode \<in> {''master'', ''monocle''}"
  shows "config_validate (c\<lparr>cf_layout := (cf_layout c)\<lparr>ly_mode := mode\<rparr>\<rparr>) = Inr ()"
  using assms unfolding config_validate_Inr by simp

lemma layout_command_ok:
  assumes "session_ok s"
  shows "session_ok (snd (layout_command arg s))"
  using assms session_ok_config(2) [OF assms config_validate_mode [OF session_okD(5) [OF assms]]]
  by (simp add: layout_command_def)

lemma config_validate_ratio:
  assumes "config_validate c = Inr ()" "f64_between (rnd (1 / 10)) (rnd (9 / 10)) r"
  shows "config_validate (c\<lparr>cf_layout := (cf_layout c)\<lparr>ly_master_ratio := r\<rparr>\<rparr>) = Inr ()"
  using assms unfolding config_validate_Inr by simp

lemma ratio_command_ok:
  assumes "session_ok s"
  shows "session_ok (snd (ratio_command arg s))"
proof -
  let ?ratio = "ly_master_ratio (cf_layout (dk_config (ss_desktop s)))"
  have "f64_between (rnd (1 / 10)) (rnd (9 / 10)) ?ratio"
    using session_okD(5) [OF assms] unfolding config_validate_Inr by blast
  then obtain q where q: "?ratio = Fin q"
    unfolding rnd_tenths by (blast dest: f64_between_finite)
  have "f64_between (rnd (1 / 10)) (rnd (9 / 10)) (f64_clamp (rnd (1 / 10)) (rnd (9 / 10)) (f64_add ?ratio delta))"
    if "is_finite delta" for delta
  proof (rule f64_clamp_between)
    show "f64_le (rnd (1 / 10)) (rnd (9 / 10))" by (simp add: rnd_tenths)
    show "f64_add ?ratio delta \<noteq> NaN" unfolding q using that by (intro f64_add_finite_not_NaN) simp_all
  qed
  then have "config_validate ((dk_config (ss_desktop s))\<lparr>cf_layout := (cf_layout (dk_config (ss_desktop s)))
      \<lparr>ly_master_ratio := f64_clamp (rnd (1 / 10)) (rnd (9 / 10)) (f64_add ?ratio delta)\<rparr>\<rparr>) = Inr ()"
    if "is_finite delta" for delta
    using that config_validate_ratio [OF session_okD(5) [OF assms]] by blast
  then show ?thesis
    using assms session_ok_config(2) [OF assms] by (simp add: ratio_command_def Let_def split: option.split)
qed

lemma moved_windows_keep:
  "map mg_window (move_windows n name ws) = map mg_window ws"
  "map mg_id (move_windows n name ws) = map mg_id ws"
  "map mg_window (swap_windows previous other n out ws) = map mg_window ws"
  "map mg_id (swap_windows previous other n out ws) = map mg_id ws"
  by (simp_all add: move_windows_def swap_windows_def comp_def if_distrib cong: if_cong)

lemma workspace_command_ok:
  assumes "session_ok s"
  shows "session_ok (snd (workspace_command sending arg s))"
proof -
  have sent: "session_ok (with_desktop (send_window i out n) s)" if "focused_index s = Some i" for i out n
    by (rule session_ok_windows [OF assms map_update_same map_update_same, OF focused_index_bound [OF that] _
          focused_index_bound [OF that]]) (simp_all add: send_window_def Let_def)
  have shown: "session_ok (s\<lparr>ss_desktop := show_workspace out n (ss_desktop s), ss_transitions := ts\<rparr>)" for out n ts
    by (rule session_ok_windows [OF assms _ _ refl])
      (simp_all add: show_workspace_def Let_def moved_windows_keep split: option.split)
  show ?thesis
    using assms sent shown by (auto simp: workspace_command_def Let_def split: prod.splits option.splits)
qed

lemma update_window_ok:
  assumes "session_ok s" "i < length (dk_windows (ss_desktop s))"
    "mg_window w = mg_window (dk_windows (ss_desktop s) ! i)" "mg_id w = mg_id (dk_windows (ss_desktop s) ! i)"
  shows "session_ok (s\<lparr>ss_desktop := (ss_desktop s)\<lparr>dk_windows := (dk_windows (ss_desktop s))[i := w]\<rparr>\<rparr>)"
  by (rule session_ok_windows [OF assms(1) map_update_same map_update_same, OF assms(2,3) assms(2,4)]) simp_all

lemma scratchpad_command_ok: "session_ok s \<Longrightarrow> session_ok (snd (scratchpad_command arg s))"
  by (auto simp: scratchpad_command_def Let_def dest: focused_index_bound position_length
      intro!: update_window_ok split: option.split)

lemma toggle_command_ok: "session_ok s \<Longrightarrow> session_ok (snd (toggle_command full s))"
  by (auto simp: toggle_command_def Let_def dest: focused_index_bound intro!: update_window_ok split: option.split)

lemma close_command_ok: "session_ok s \<Longrightarrow> session_ok (snd (close_command env s))"
  by (auto simp: close_command_def Let_def session_ok_flags split: option.split)

lemma engine_ok_of: "engine_of s' = engine_of s \<Longrightarrow> engine_ok s' = engine_ok s"
  by (simp add: engine_of_def engine_ok_def)

lemma poll_recorder_engine:
  assumes "engine_ok s"
  shows "engine_ok (poll_recorder env s)"
proof -
  obtain changed c' effects where p: "poll (pe_poll env) (dk_recorder (ss_desktop s)) = (changed, c', effects)"
    by (metis prod_cases3)
  have inv: "controller_inv (dk_recorder (ss_desktop s))" using assms by (simp add: engine_ok_def)
  show ?thesis
    using poll_inv [OF inv, of "pe_poll env"] poll_child [OF p inv] assms
    by (auto simp: poll_recorder_def p Let_def engine_ok_def)
qed

text \<open>A maintenance pass keeps the session consistent.\<close>

lemma maintain_ok:
  assumes "session_ok s"
  shows "session_ok (maintain_desktop env s)"
proof -
  note ok = session_okD [OF assms]
  note eff = pass_effect [OF refl ok(3,1), where env = env]
  have "engine_ok (maintain_desktop env s)"
    using poll_recorder_engine [OF ok(4), of env] engine_ok_of [OF pass_engine [OF ok(3)]] by blast
  with ok eff(7) show ?thesis by (simp add: session_ok_def eff(3,4,6))
qed

lemma distinct_swap_at:
  "i < length xs \<Longrightarrow> j < length xs \<Longrightarrow> distinct (map f (swap_at i j xs)) = distinct (map f xs)"
  unfolding swap_at_def using distinct_swap [of i "map f xs" j] by (simp add: map_update)

lemma nearest_bound: "nearest arg i s = Some j \<Longrightarrow> j < length (dk_windows (ss_desktop s))"
proof -
  assume "nearest arg i s = Some j"
  then obtain e where "min_by_key snd (neighbours arg i s) = Some e" "j = fst e" by (auto simp: nearest_def)
  then have "e \<in> set (neighbours arg i s)" using min_by_key_Some by metis
  with \<open>j = fst e\<close> show ?thesis by (auto simp: neighbours_def Let_def split: option.splits if_splits)
qed

lemma focus_command_ok:
  assumes "session_ok s" "focus_command env moving arg s = Some s'"
  shows "session_ok s'"
proof (cases "parse_u64 arg")
  case (Some n)
  have "session_ok (maintain_desktop env' (s\<lparr>ss_desktop := (ss_desktop s)\<lparr>dk_outputs := m\<rparr>\<rparr>))" for env' m
    using maintain_ok session_ok_flags(5) assms(1) by metis
  then show ?thesis
    using assms Some focus_window_ok
    by (auto simp: focus_command_def Let_def split: option.splits if_splits)
next
  case None
  have "session_ok (s\<lparr>ss_desktop := (ss_desktop s)\<lparr>dk_windows := swap_at i j (dk_windows (ss_desktop s))\<rparr>\<rparr>)"
    if "i < length (dk_windows (ss_desktop s))" "j < length (dk_windows (ss_desktop s))" for i j
  proof -
    have "set (swap_at i j (dk_windows (ss_desktop s))) = set (dk_windows (ss_desktop s))"
      using that by (simp add: swap_at_def)
    with assms(1) that show ?thesis
      by (simp add: session_ok_def engine_ok_def windows_ok_def distinct_swap_at)
  qed
  then show ?thesis
    using None assms focused_index_bound nearest_bound focus_window_ok
    by (auto simp: focus_command_def Let_def split: option.splits if_splits)
qed

lemma spawn_ok:
  "session_ok s \<Longrightarrow> session_ok (snd (spawn_sibling env name arg s))"
  "session_ok s \<Longrightarrow> session_ok (snd (spawn_parsed env args s))"
  using spawn_app_ok by (simp_all add: spawn_sibling_def spawn_parsed_def split: sum.split)

lemma desktop_command_ok:
  assumes "session_ok s" "desktop_command env cmd s = Some (r, s')"
  shows "session_ok s'"
proof (cases "ss_locked s \<and> \<not> is_session_query cmd")
  case True
  with assms show ?thesis by (simp add: desktop_command_def)
next
  case False
  obtain v arg where parsed: "(case split_once (CHR '' '') cmd of Some p \<Rightarrow> p | None \<Rightarrow> (cmd, [])) = (v, arg)"
    by fastforce
  note run = assms(2) [unfolded desktop_command_def Let_def parsed prod.case if_not_P [OF False]]
  note arms = performance_ok [OF assms(1)] recorder_command_ok [OF assms(1)] reload_ok [OF assms(1)]
    workspace_command_ok [OF assms(1)] layout_command_ok [OF assms(1)] ratio_command_ok [OF assms(1)]
    close_command_ok [OF assms(1)] toggle_command_ok [OF assms(1)] scratchpad_command_ok [OF assms(1)]
    spawn_app_ok [OF assms(1)] spawn_ok [OF assms(1)]
  show ?thesis
  proof (cases "v = ''focus'' \<or> v = ''move''")
    case True
    then have "map_option (\<lambda>s'. mark_dirty True (Inr (), s')) (focus_command env (v = ''move'') arg s) = Some (r, s')"
      using run by (elim disjE) simp_all
    then obtain s1 where "focus_command env (v = ''move'') arg s = Some s1" "mark_dirty True (Inr (), s1) = (r, s')"
      by blast
    with focus_command_ok [OF assms(1)] mark_dirty_ok [of True "(Inr (), s1)"] show ?thesis by simp
  next
    case other: False
    note run' = run [unfolded if_not_P [OF other]]
    have "pred_option (\<lambda>o'. session_ok (snd o')) X \<Longrightarrow> X = Some (r, s') \<Longrightarrow> session_ok s'" for X
      by simp
    note settled = this [OF _ run']
    show ?thesis
      by (rule settled, intro ok_if option.pred_inject(2) [THEN iffD2] mark_dirty_ok [THEN iffD2] arms)
        (simp_all add: assms(1) session_ok_flags(6))
  qed
qed

end
