(* ===== verification/Session.thy ===== *)
theory Session
  imports CommandProofs
begin

text \<open>
  A session as the sequence of what happens to it: commands, maintenance passes, supervision,
  clients that map and unmap windows, outputs that come and go, focus, pointer and lock changes. The
  properties hold for every such sequence, or say what one command does.
\<close>

section \<open>Events\<close>

datatype session_event =
    Command command_env str
  | Pass pass_env
  | Supervise "pid \<Rightarrow> bool" "str list \<Rightarrow> u8 \<Rightarrow> (pid, str) result"
  | Unmapped nat
  | Mapped nat "int \<times> int"
  | Gone nat
  | OutputsChanged "space_output list"
  | FocusChanged "desktop_focus option"
  | PointerMoved "str option" bool
  | LockChanged bool
  | Activated bool

text \<open>Outputs of the space have names of their own; no state stands for a panic.\<close>

definition session_step :: "shell_state \<Rightarrow> session_event \<Rightarrow> shell_state option" where
  "session_step s ev =
     (case ev of
        Command env cmd \<Rightarrow> map_option snd (desktop_command env cmd s)
      | Pass env \<Rightarrow> Some (maintain_desktop env s)
      | Supervise exited os_spawn \<Rightarrow> Some (with_desktop (supervise exited os_spawn) s)
      | Unmapped surface \<Rightarrow> Some (window_unmapped surface s)
      | Mapped w location \<Rightarrow> Some (s\<lparr>ss_elements := map_element w location (ss_elements s)\<rparr>)
      | Gone w \<Rightarrow> Some (s\<lparr>ss_elements := filter (\<lambda>e. fst e \<noteq> w) (ss_elements s)\<rparr>)
      | OutputsChanged os \<Rightarrow> Some (if distinct (map so_name os) then s\<lparr>ss_outputs := os\<rparr> else s)
      | FocusChanged f \<Rightarrow> Some (s\<lparr>ss_focus := f\<rparr>)
      | PointerMoved out grabbed \<Rightarrow> Some (s\<lparr>ss_pointer_output := out, ss_pointer_grabbed := grabbed\<rparr>)
      | LockChanged locked \<Rightarrow> Some (s\<lparr>ss_locked := locked\<rparr>)
      | Activated active \<Rightarrow> Some (with_desktop (\<lambda>d. d\<lparr>dk_active := active, dk_dirty := True\<rparr>) s))"

fun session_run :: "session_event list \<Rightarrow> shell_state \<Rightarrow> shell_state option" where
  "session_run [] s = Some s"
| "session_run (ev # evs) s = (case session_step s ev of None \<Rightarrow> None | Some s' \<Rightarrow> session_run evs s')"

lemma supervise_frame:
  "dk_windows (supervise exited f d) = dk_windows d" "dk_next_id (supervise exited f d) = dk_next_id d"
  "dk_config (supervise exited f d) = dk_config d" "dk_recorder (supervise exited f d) = dk_recorder d"
  by (simp_all add: supervise_def Let_def split: prod.split)

lemma window_unmapped_ok:
  assumes "session_ok s"
  shows "session_ok (window_unmapped surface s)"
proof (cases "position (\<lambda>w. mg_window w = surface) (dk_windows (ss_desktop s))")
  case (Some i)
  note i = position_length [OF Some]
  show ?thesis
    unfolding window_unmapped_def Let_def Some option.case
    by (rule session_ok_windows [OF assms map_update_same map_update_same, OF i _ i]) simp_all
qed (simp add: window_unmapped_def assms)

lemma session_ok_elements:
  "session_ok s \<Longrightarrow> distinct (map fst es) \<Longrightarrow> session_ok (s\<lparr>ss_elements := es\<rparr>)"
  "session_ok s \<Longrightarrow> distinct (map so_name os) \<Longrightarrow> session_ok (s\<lparr>ss_outputs := os\<rparr>)"
  "session_ok (s\<lparr>ss_focus := f\<rparr>) = session_ok s"
  "session_ok (s\<lparr>ss_pointer_output := out, ss_pointer_grabbed := g\<rparr>) = session_ok s"
  "session_ok (s\<lparr>ss_locked := l\<rparr>) = session_ok s"
  "session_ok (with_desktop (\<lambda>d. d\<lparr>dk_active := a, dk_dirty := x\<rparr>) s) = session_ok s"
  "session_ok (with_desktop (supervise exited os_spawn) s) = session_ok s"
  by (simp_all add: session_ok_def engine_ok_def windows_ok_def supervise_frame)

lemma session_step_ok:
  assumes "session_ok s" "session_step s ev = Some s'"
  shows "session_ok s'"
proof (cases ev)
  case (Command env cmd)
  with assms(2) obtain r where "desktop_command env cmd s = Some (r, s')" by (auto simp: session_step_def)
  then show ?thesis by (rule desktop_command_ok [OF assms(1)])
next
  case (Mapped w l)
  with assms show ?thesis
    by (auto simp: session_step_def intro!: session_ok_elements distinct_map_element session_okD(2))
next
  case (Gone w)
  with assms show ?thesis
    by (auto simp: session_step_def intro!: session_ok_elements distinct_map_filter session_okD(2))
qed (use assms in \<open>auto simp: session_step_def maintain_ok window_unmapped_ok session_ok_elements
      split: if_splits\<close>)

lemma session_run_ok: "session_ok s \<Longrightarrow> session_run evs s = Some s' \<Longrightarrow> session_ok s'"
  by (induction evs arbitrary: s) (auto dest: session_step_ok split: option.splits)

text \<open>A session starts with what the configuration files give, and with nothing on screen.\<close>

definition session_starts :: "toml \<Rightarrow> (str \<Rightarrow> str option) \<Rightarrow> files \<Rightarrow> shell_state \<Rightarrow> bool" where
  "session_starts tm environ fs s \<longleftrightarrow>
     ss_desktop s = desktop_default (config_load tm environ (read_files fs))
     \<and> ss_elements s = [] \<and> ss_outputs s = [] \<and> cb_timer (ss_boost s) = None"

lemma session_starts_ok:
  assumes "session_starts tm environ fs s"
  shows "session_ok s"
proof -
  let ?loaded = "config_load tm environ (read_files fs)"
  have "config_validate (dk_config (desktop_default ?loaded)) = Inr ()"
    using default_config_valid config_load_Inr [of tm environ fs]
    by (cases ?loaded) (auto simp: desktop_default_def)
  then show ?thesis
    using assms controller_default_inv
    by (simp add: session_starts_def session_ok_def engine_ok_def windows_ok_def desktop_default_def Let_def
        split: prod.split_asm prod.split)
qed

text \<open>
  C28: whatever commands, clients, outputs and passes do, and in whatever order, a session stays
  consistent: windows and their numbers are distinct and no number is given twice, a window is
  mapped at most once, the live configuration (edited by \<open>set\<close>, \<open>ratio\<close>, \<open>layout\<close>, \<open>reload\<close>,
  \<open>settings-reset\<close>) passes \<open>validate\<close>, the recorder is consistent, and the capture timer only
  runs while a recording engine is held.
\<close>

theorem session_stays_consistent:
  assumes "session_starts tm environ fs s" "session_run evs s = Some s'"
  shows "windows_ok (ss_desktop s') \<and> distinct (map fst (ss_elements s'))
    \<and> config_validate (dk_config (ss_desktop s')) = Inr ()
    \<and> controller_inv (dk_recorder (ss_desktop s'))
    \<and> (cb_timer (ss_boost s') \<noteq> None \<longrightarrow> rc_child (dk_recorder (ss_desktop s')) \<noteq> None)"
  using session_run_ok [OF session_starts_ok [OF assms(1)] assms(2)]
  by (auto simp: session_ok_def engine_ok_def)

section \<open>Workspaces and outputs\<close>

text \<open>Windows of a workspace that an output shows are on that output.\<close>

definition placed :: "desktop \<Rightarrow> bool" where
  "placed d \<longleftrightarrow> (\<forall>w \<in> set (dk_windows d). \<forall>out. bt_get (dk_outputs d) out = Some (mg_workspace w) \<longrightarrow> mg_output w = out)"

text \<open>What \<open>show_workspace\<close> makes of the outputs, given the workspace \<open>p\<close> it replaces.\<close>

definition exchanged :: "str \<Rightarrow> u8 \<Rightarrow> u8 \<Rightarrow> (str \<Rightarrow> u8 option) \<Rightarrow> str \<Rightarrow> u8 option" where
  "exchanged out p n outputs =
     (\<lambda>o'. if o' = out then Some n else if outputs o' = Some n then Some p else outputs o')"

lemma show_workspace_outputs:
  assumes ok: "outputs_ok (dk_outputs d)" and current: "bt_get (dk_outputs d) out = Some p"
  shows "bt_get (dk_outputs (show_workspace out n d)) = exchanged out p n (bt_get (dk_outputs d))"
    and "1 \<le> n \<Longrightarrow> n \<le> 9 \<Longrightarrow> outputs_ok (dk_outputs (show_workspace out n d))"
proof -
  let ?m = "dk_outputs d"
  have wf: "bt_wf ?m" and inj: "inj_map (bt_get ?m)" using ok by (simp_all add: outputs_ok_def)
  have previous: "workspace_of d out = p" by (simp add: workspace_of_def current)
  note one = outputs_okD [OF ok]
  have get: "bt_get (dk_outputs (show_workspace out n d)) = exchanged out p n (bt_get ?m)"
  proof (cases "bt_find (\<lambda>o' w. w = n \<and> o' \<noteq> out) ?m")
    case None
    then have "\<And>o'. bt_get ?m o' = Some n \<Longrightarrow> o' = out" using bt_find_None [OF wf None] by blast
    then show ?thesis
      by (auto simp: show_workspace_def Let_def None bt_get_insert exchanged_def fun_eq_iff)
  next
    case (Some o')
    then have o': "bt_get ?m o' = Some n" "o' \<noteq> out" using bt_find_Some [OF wf Some] by auto
    then have "\<And>o''. bt_get ?m o'' = Some n \<longleftrightarrow> o'' = o'" using one by blast
    with o' show ?thesis
      by (auto simp: show_workspace_def Let_def Some bt_get_insert exchanged_def fun_eq_iff previous)
  qed
  then show "bt_get (dk_outputs (show_workspace out n d)) = exchanged out p n (bt_get ?m)" .
  show "outputs_ok (dk_outputs (show_workspace out n d))" if "1 \<le> n" "n \<le> 9"
  proof -
    have "inj_map (exchanged out p n (bt_get ?m))"
      unfolding inj_map_def exchanged_def using one current by (auto split: if_splits)
    moreover have "exchanged out p n (bt_get ?m) k = Some v \<Longrightarrow> 1 \<le> v \<and> v \<le> 9" for k v
      using that ok current by (auto simp: exchanged_def outputs_ok_def split: if_splits)
    moreover have "bt_wf (dk_outputs (show_workspace out n d))"
      using wf by (simp add: show_workspace_def Let_def bt_wf_insert split: option.split)
    ultimately show ?thesis by (simp add: outputs_ok_def get)
  qed
qed

lemma moved_windows:
  "move_windows n out (swap_windows p other n out ws) =
     map (\<lambda>w. w\<lparr>mg_output := if mg_workspace w = n then out else if mg_workspace w = p then other else mg_output w\<rparr>) ws"
  by (simp add: move_windows_def swap_windows_def)

lemma show_workspace_windows:
  assumes ok: "outputs_ok (dk_outputs d)" and current: "bt_get (dk_outputs d) out = Some p" and placed: "placed d"
  shows "placed (show_workspace out n d)"
    and "map (mg_output_update (\<lambda>_. [])) (dk_windows (show_workspace out n d)) =
      map (mg_output_update (\<lambda>_. [])) (dk_windows d)"
proof -
  let ?m = "dk_outputs d"
  have wf: "bt_wf ?m" using ok by (simp add: outputs_ok_def)
  have previous: "workspace_of d out = p" by (simp add: workspace_of_def current)
  note one = outputs_okD [OF ok]
  show "map (mg_output_update (\<lambda>_. [])) (dk_windows (show_workspace out n d)) =
      map (mg_output_update (\<lambda>_. [])) (dk_windows d)"
    by (simp add: show_workspace_def Let_def move_windows_def swap_windows_def split: option.split)
  show "placed (show_workspace out n d)"
    unfolding placed_def show_workspace_outputs(1) [OF ok current]
  proof (intro ballI allI impI)
    fix w o''
    assume w: "w \<in> set (dk_windows (show_workspace out n d))"
      and at: "exchanged out p n (bt_get ?m) o'' = Some (mg_workspace w)"
    show "mg_output w = o''"
    proof (cases "bt_find (\<lambda>o' w. w = n \<and> o' \<noteq> out) ?m")
      case None
      then have none: "\<And>o'. bt_get ?m o' = Some n \<Longrightarrow> o' = out" using bt_find_None [OF wf None] by blast
      from w obtain w0 where w0: "w0 \<in> set (dk_windows d)" "mg_workspace w = mg_workspace w0"
        and goes: "mg_output w = (if mg_workspace w0 = n then out else mg_output w0)"
        by (auto simp: show_workspace_def Let_def None move_windows_def)
      have "o'' = out \<longrightarrow> mg_workspace w0 = n" "o'' \<noteq> out \<longrightarrow> bt_get ?m o'' = Some (mg_workspace w0)"
        using at none w0 by (auto simp: exchanged_def split: if_splits)
      with placed w0 goes none show ?thesis unfolding placed_def by metis
    next
      case (Some o')
      then have o': "bt_get ?m o' = Some n" "o' \<noteq> out" using bt_find_Some [OF wf Some] by auto
      from w obtain w0 where w0: "w0 \<in> set (dk_windows d)" "mg_workspace w = mg_workspace w0"
        and goes: "mg_output w = (if mg_workspace w0 = n then out else if mg_workspace w0 = p then o' else mg_output w0)"
        by (auto simp: show_workspace_def Let_def Some moved_windows previous)
      have "p \<noteq> n"
      proof
        assume "p = n"
        from one [OF o'(1) current [unfolded this]] o'(2) show False by simp
      qed
      have only: "bt_get ?m o'' = Some n \<Longrightarrow> o'' = o'" "bt_get ?m o'' = Some p \<Longrightarrow> o'' = out"
        by (blast intro: one [OF _ o'(1)] one [OF _ current])+
      consider "mg_workspace w0 = n" | "mg_workspace w0 = p" | "mg_workspace w0 \<noteq> n" "mg_workspace w0 \<noteq> p" by blast
      then show ?thesis
      proof cases
        case 1
        with at w0 goes \<open>p \<noteq> n\<close> show ?thesis by (auto simp: exchanged_def split: if_splits dest: one [OF _ o'(1)])
      next
        case 2
        then have "exchanged out p n (bt_get ?m) o'' = Some p" "mg_output w = o'"
          using at w0 goes \<open>p \<noteq> n\<close> by simp_all
        then have "bt_get ?m o'' = Some n" using \<open>p \<noteq> n\<close> only(2) unfolding exchanged_def by (metis option.inject)
        with only(1) \<open>mg_output w = o'\<close> show ?thesis by blast
      next
        case 3
        with at w0 goes have "bt_get ?m o'' = Some (mg_workspace w0)" by (simp add: exchanged_def split: if_splits)
        with placed w0 goes 3 show ?thesis by (simp add: placed_def)
      qed
    qed
  qed
qed

lemma parsed_number: "parse_u8 number = Some k \<Longrightarrow> CHR '' '' \<notin> set number \<and> k \<le> 255"
  using parse_uint_graphic [of 10 255 number k] parse_uint_radix_le [of 10 255 number k]
  by (auto simp: parse_u8_def list_all_iff ascii_graphic_def)

lemma workspace_shown:
  assumes "parse_u8 number = Some k" "1 \<le> k" "k \<le> unat (ly_workspaces (cf_layout (dk_config (ss_desktop s))))"
    and "arg = number \<and> out = current_output s \<or>
      out \<noteq> [] \<and> bt_contains (dk_outputs (ss_desktop s)) out \<and> arg = number @ '' '' @ out"
  shows "workspace_command False arg s =
    (Inr (), s\<lparr>ss_desktop := show_workspace out (of_nat k) (ss_desktop s),
                ss_transitions := ss_transitions s @ workspace_transitions out (of_nat k) (ss_desktop s)\<rparr>)"
proof -
  note number = parsed_number [OF assms(1)]
  have split: "(case split_once (CHR '' '') arg of Some p \<Rightarrow> p | None \<Rightarrow> (arg, [])) =
      (number, if arg = number then [] else out)"
  proof (cases "arg = number")
    case True
    then have "split_once (CHR '' '') arg = None" using number by (simp add: split_once_None)
    with True show ?thesis by simp
  next
    case False
    then have "split_once (CHR '' '') arg = Some (number, out)" using number assms(4) by (simp add: split_once_Some)
    with False show ?thesis by simp
  qed
  have k: "unat (of_nat k :: u8) = k" using number by (simp add: unat_of_nat take_bit_nat_eq_self)
  then have "(of_nat k :: u8) \<noteq> 0" "\<not> ly_workspaces (cf_layout (dk_config (ss_desktop s))) < of_nat k"
    using assms(2,3) by (auto simp: word_less_nat_alt)
  then show ?thesis
    unfolding workspace_command_def Let_def split prod.case assms(1) option.case
    using assms(4) by auto
qed


text \<open>Windows sent to a workspace, or fetched from the scratchpad, end up where it is shown.\<close>

lemma send_window_placed:
  assumes "outputs_ok (dk_outputs d)" "placed d" "i < length (dk_windows d)"
  shows "placed (send_window i out n d)" "dk_outputs (send_window i out n d) = dk_outputs d"
proof -
  have wf: "bt_wf (dk_outputs d)" using assms(1) by (simp add: outputs_ok_def)
  let ?owner = "case bt_find (\<lambda>_ w. w = n) (dk_outputs d) of Some o' \<Rightarrow> o' | None \<Rightarrow> out"
  have owner: "?owner = o'" if "bt_get (dk_outputs d) o' = Some n" for o'
  proof (cases "bt_find (\<lambda>_ w. w = n) (dk_outputs d)")
    case None
    then show ?thesis using bt_find_None [OF wf None that] by simp
  next
    case (Some o'')
    then show ?thesis using bt_find_Some [OF wf Some] outputs_okD [OF assms(1) _ that] by auto
  qed
  have "mg_output w = o'"
    if "w \<in> set (dk_windows (send_window i out n d))" "bt_get (dk_outputs d) o' = Some (mg_workspace w)" for w o'
  proof -
    from that(1) consider "w \<in> set (dk_windows d)" | "mg_workspace w = n" "mg_output w = ?owner"
      using set_update_subset_insert [of "dk_windows d" i] by (fastforce simp: send_window_def Let_def)
    then show ?thesis
    proof cases
      case 2
      with owner that(2) show ?thesis by simp
    qed (use assms(2) that(2) in \<open>auto simp: placed_def\<close>)
  qed
  then show "placed (send_window i out n d)" by (simp add: placed_def send_window_def Let_def)
  show "dk_outputs (send_window i out n d) = dk_outputs d" by (simp add: send_window_def Let_def)
qed

section \<open>Focusing by number\<close>

lemma sync_outputs_keeps:
  assumes "bt_wf m" "name \<in> set names" "bt_get m name = Some v"
  shows "bt_get (sync_outputs names m) name = Some v"
proof -
  have "bt_get m' name = Some v \<Longrightarrow> bt_get (foldl (\<lambda>m name. assign_output name m) m' todo) name = Some v" for m' todo
  proof (induction todo arbitrary: m')
    case (Cons n todo)
    have "bt_get (assign_output n m') name = Some v"
      using Cons.prems by (auto simp: assign_output_def bt_get_insert bt_contains_def)
    with Cons.IH show ?case by simp
  qed simp
  then show ?thesis using assms by (simp add: sync_outputs_def bt_get_retain)
qed

lemma adopted_windows:
  "\<exists>new. dk_windows (ss_desktop (adopt_windows env s)) = dk_windows (ss_desktop s) @ new"
  "\<forall>e \<in> set (ss_elements s). fst e \<in> mg_window ` set (dk_windows (ss_desktop s)) \<Longrightarrow>
     dk_windows (ss_desktop (adopt_windows env s)) = dk_windows (ss_desktop s)"
proof -
  have "\<exists>new. dk_windows (foldl (\<lambda>d window. adopt_window names active clients window d) d ws) = dk_windows d @ new"
    for names active clients ws d
  proof (induction ws arbitrary: d)
    case (Cons w ws)
    have "\<exists>new. dk_windows (adopt_window names active clients w d) = dk_windows d @ new"
      by (simp add: adopt_window_def split: prod.split)
    with Cons [of "adopt_window names active clients w d"] show ?case by fastforce
  qed simp
  then show "\<exists>new. dk_windows (ss_desktop (adopt_windows env s)) = dk_windows (ss_desktop s) @ new"
    by (simp add: adopt_windows_def Let_def)
  have "\<forall>w \<in> set ws. w \<in> mg_window ` set (dk_windows d) \<Longrightarrow>
      foldl (\<lambda>d window. adopt_window names active clients window d) d ws = d" for names active clients ws d
  proof (induction ws)
    case (Cons w ws)
    then have "adopt_window names active clients w d = d" by (auto simp: adopt_window_def list_ex_iff)
    with Cons show ?case by simp
  qed simp
  from this [of "map fst (ss_elements s)" "ss_desktop s"]
  show "\<forall>e \<in> set (ss_elements s). fst e \<in> mg_window ` set (dk_windows (ss_desktop s)) \<Longrightarrow>
     dk_windows (ss_desktop (adopt_windows env s)) = dk_windows (ss_desktop s)"
    by (auto simp: adopt_windows_def Let_def)
qed

text \<open>The windows a pass keeps.\<close>

definition survivors :: "pass_env \<Rightarrow> shell_state \<Rightarrow> managed list" where
  "survivors env s =
     map (rehome (map so_name (ss_outputs s)))
       (filter (\<lambda>w. cl_alive (pe_clients env (mg_window w))) (dk_windows (ss_desktop s)))"

lemma synced_windows:
  "\<exists>new. dk_windows (ss_desktop (synced env s)) = survivors env s @ new"
  "\<forall>e \<in> set (ss_elements s). fst e \<in> mg_window ` set (survivors env s) \<Longrightarrow>
     dk_windows (ss_desktop (synced env s)) = survivors env s"
proof -
  let ?s = "apply_performance env (sync_desktop env (poll_recorder env s))"
  note polled = viewD [OF poll_recorder_effect(1), of env s]
  note applied = viewD [OF apply_performance_effect(1), of env "sync_desktop env (poll_recorder env s)"]
  have ws: "dk_windows (ss_desktop ?s) = survivors env s"
    using polled applied by (simp add: sync_desktop_def Let_def survivors_def)
  have els: "ss_elements ?s = ss_elements s"
    by (simp add: apply_performance_effect(2) sync_desktop_effect(4) poll_recorder_effect(2))
  show "\<exists>new. dk_windows (ss_desktop (synced env s)) = survivors env s @ new"
    using adopted_windows(1) [of env ?s] by (simp add: synced_def ws)
  show "\<forall>e \<in> set (ss_elements s). fst e \<in> mg_window ` set (survivors env s) \<Longrightarrow>
     dk_windows (ss_desktop (synced env s)) = survivors env s"
    using adopted_windows(2) [of ?s env] by (simp add: synced_def ws els)
qed

lemma focus_number_parsed:
  assumes "\<not> ss_locked s" "n \<le> u64_max"
  shows "desktop_command env (''focus '' @ show_nat n) s =
    map_option (\<lambda>s'. mark_dirty True (Inr (), s')) (focus_command env False (show_nat n) s)"
    and "parse_u64 (show_nat n) = Some n"
  using assms by (simp_all add: desktop_command_def split_once_Some Let_def parse_u64_def parse_show_uint)

lemma focus_by_number_shows:
  fixes s :: shell_state
  assumes "session_ok s" "bt_wf (dk_outputs (ss_desktop s))" "parse_u64 arg = Some n"
    and pos: "position (\<lambda>w. mg_id w = n) (dk_windows (ss_desktop s)) = Some i"
    and w: "w = dk_windows (ss_desktop s) ! i" "mg_output w \<in> so_name ` set (ss_outputs s)"
    and alive: "\<forall>w \<in> set (dk_windows (ss_desktop s)). cl_alive (pe_clients (ce_pass env) (mg_window w))"
  shows "\<exists>s'. focus_command env moving arg s = Some s'
    \<and> ss_focus s' = Some (WindowFocus (mg_window w)) \<and> i < length (dk_windows (ss_desktop s'))
    \<and> mg_key (dk_windows (ss_desktop s') ! i) = mg_key w
    \<and> bt_get (dk_outputs (ss_desktop s')) (mg_output w) = Some (mg_workspace w)
    \<and> (\<not> mg_scratchpad w \<and> (\<forall>o' \<in> set (ss_outputs s'). so_geometry o' \<noteq> None) \<longrightarrow>
        element_location s' (mg_window w) \<noteq> None)"
proof -
  let ?d = "ss_desktop s" and ?env = "ce_pass env"
  let ?s0 = "s\<lparr>ss_desktop := ?d\<lparr>dk_outputs := bt_insert (mg_output w) (mg_workspace w) (dk_outputs ?d)\<rparr>\<rparr>"
  define s1 where "s1 = maintain_desktop ?env ?s0"
  note i = position_length [OF pos]
  have ok: "distinct (map so_name (ss_outputs ?s0))" "windows_ok (ss_desktop ?s0)"
    using session_okD [OF assms(1)] by (simp_all add: windows_ok_def)
  note eff = pass_effect [OF s1_def ok]
  obtain new where new: "dk_windows (ss_desktop (synced ?env ?s0)) = survivors ?env ?s0 @ new"
    using synced_windows(1) by blast
  have all: "survivors ?env ?s0 = map (rehome (map so_name (ss_outputs s))) (dk_windows ?d)"
    using alive by (simp add: survivors_def)
  have len: "i < length (dk_windows (ss_desktop s1))"
    using keys_length [OF eff(1)] i by (simp add: new all)
  have "mg_key (dk_windows (ss_desktop s1) ! i) = mg_key (dk_windows (ss_desktop (synced ?env ?s0)) ! i)"
    by (rule keys_nth [OF eff(1)]) (use i in \<open>simp add: new all\<close>)
  also have "\<dots> = mg_key w"
    unfolding new all using i w by (simp add: nth_append rehome_def)
  finally have key: "mg_key (dk_windows (ss_desktop s1) ! i) = mg_key w" .
  have shown: "bt_get (dk_outputs (ss_desktop s1)) (mg_output w) = Some (mg_workspace w)"
    unfolding eff(2) using assms(2) w(2) by (intro sync_outputs_keeps) (simp_all add: bt_wf_insert bt_get_insert)
  have mapped: "element_location s1 (mg_window w) \<noteq> None"
    if kept: "\<not> mg_scratchpad w" and drawn: "\<forall>o' \<in> set (ss_outputs s1). so_geometry o' \<noteq> None"
  proof -
    have "mg_output w \<in> set (map so_name (ss_outputs s1))" using w(2) by (simp add: eff(4))
    then obtain o' geo where o': "o' \<in> set (ss_outputs s1)" "so_name o' = mg_output w" "so_geometry o' = Some geo"
      using drawn by fastforce
    have "visible_on (so_name o') (workspace_of (ss_desktop s1) (so_name o')) (dk_windows (ss_desktop s1) ! i)"
      using mg_keyD [OF key] kept shown o'(2) by (simp add: visible_on_def workspace_of_def)
    from laid_outD(2) [OF eff(8) o'(1) _ o'(3) len this] w(2) o'(2) mg_keyD [OF key]
    show ?thesis by simp
  qed
  have "focus_command env moving arg s = Some (focus_window i s1)"
    using len by (simp add: focus_command_def Let_def assms(3) pos s1_def w(1))
  then show ?thesis
    using len key shown mapped mg_keyD [OF key]
    by (simp add: focus_window_def Let_def element_location_def map_of_raise_element)
qed

lemma focus_by_number_panics:
  fixes s :: shell_state
  assumes "session_ok s" "parse_u64 arg = Some n"
    and pos: "position (\<lambda>w. mg_id w = n) (dk_windows (ss_desktop s)) = Some i"
    and "length (survivors (ce_pass env) s) \<le> i"
    and "\<forall>e \<in> set (ss_elements s). fst e \<in> mg_window ` set (survivors (ce_pass env) s)"
  shows "focus_command env moving arg s = None"
proof -
  let ?d = "ss_desktop s" and ?env = "ce_pass env" and ?w = "dk_windows (ss_desktop s) ! i"
  let ?s0 = "s\<lparr>ss_desktop := ?d\<lparr>dk_outputs := bt_insert (mg_output ?w) (mg_workspace ?w) (dk_outputs ?d)\<rparr>\<rparr>"
  have ok: "distinct (map so_name (ss_outputs ?s0))" "windows_ok (ss_desktop ?s0)"
    using session_okD [OF assms(1)] by (simp_all add: windows_ok_def)
  have same: "survivors ?env ?s0 = survivors ?env s" by (simp add: survivors_def)
  have "dk_windows (ss_desktop (synced ?env ?s0)) = survivors ?env ?s0"
    by (rule synced_windows(2)) (use assms(5) in \<open>simp add: same\<close>)
  then have "length (dk_windows (ss_desktop (maintain_desktop ?env ?s0))) \<le> i"
    using keys_length [OF pass_effect(1) [OF refl ok]] assms(4) same by simp
  then show ?thesis by (simp add: focus_command_def Let_def assms(2) pos)
qed

text \<open>
  \<open>focus N\<close> gives the keyboard to the window of that number and shows its workspace, with the
  window on screen, provided no client has died since the last pass. The window's index is taken
  before the pass that forgets dead windows: when so many have died that it is out of range, the
  compositor panics.
\<close>

lemma focus_by_number:
  fixes s :: shell_state
  assumes "session_ok s" "\<not> ss_locked s" "n \<le> u64_max"
    and pos: "position (\<lambda>w. mg_id w = n) (dk_windows (ss_desktop s)) = Some i"
    and w: "w = dk_windows (ss_desktop s) ! i"
    and "result = desktop_command env (''focus '' @ show_nat n) s"
  shows "(bt_wf (dk_outputs (ss_desktop s)) \<and> mg_output w \<in> so_name ` set (ss_outputs s)
      \<and> (\<forall>v \<in> set (dk_windows (ss_desktop s)). cl_alive (pe_clients (ce_pass env) (mg_window v))) \<longrightarrow>
      (\<exists>s'. result = Some (Inr (), s') \<and> ss_focus s' = Some (WindowFocus (mg_window w))
        \<and> bt_get (dk_outputs (ss_desktop s')) (mg_output w) = Some (mg_workspace w)
        \<and> (\<not> mg_scratchpad w \<and> (\<forall>o' \<in> set (ss_outputs s'). so_geometry o' \<noteq> None) \<longrightarrow>
            element_location s' (mg_window w) \<noteq> None)))
    \<and> (length (survivors (ce_pass env) s) \<le> i
      \<and> (\<forall>e \<in> set (ss_elements s). fst e \<in> mg_window ` set (survivors (ce_pass env) s)) \<longrightarrow> result = None)"
proof (intro conjI impI; elim conjE)
  note run = focus_number_parsed(1) [OF assms(2,3), where env = env] focus_number_parsed(2) [OF assms(2,3)]
  assume "bt_wf (dk_outputs (ss_desktop s))" "mg_output w \<in> so_name ` set (ss_outputs s)"
    "\<forall>v \<in> set (dk_windows (ss_desktop s)). cl_alive (pe_clients (ce_pass env) (mg_window v))"
  from focus_by_number_shows [OF assms(1) this(1) run(2) pos w this(2,3)]
  obtain s1 where s1: "focus_command env False (show_nat n) s = Some s1" "ss_focus s1 = Some (WindowFocus (mg_window w))"
    "bt_get (dk_outputs (ss_desktop s1)) (mg_output w) = Some (mg_workspace w)"
    "\<not> mg_scratchpad w \<and> (\<forall>o' \<in> set (ss_outputs s1). so_geometry o' \<noteq> None) \<longrightarrow>
      element_location s1 (mg_window w) \<noteq> None" by blast
  then show "\<exists>s'. result = Some (Inr (), s') \<and> ss_focus s' = Some (WindowFocus (mg_window w))
        \<and> bt_get (dk_outputs (ss_desktop s')) (mg_output w) = Some (mg_workspace w)
        \<and> (\<not> mg_scratchpad w \<and> (\<forall>o' \<in> set (ss_outputs s'). so_geometry o' \<noteq> None) \<longrightarrow>
            element_location s' (mg_window w) \<noteq> None)"
    unfolding assms(6) run(1) by (simp add: mark_dirty_def element_location_def)
next
  note run = focus_number_parsed(1) [OF assms(2,3), where env = env] focus_number_parsed(2) [OF assms(2,3)]
  assume "length (survivors (ce_pass env) s) \<le> i"
    "\<forall>e \<in> set (ss_elements s). fst e \<in> mg_window ` set (survivors (ce_pass env) s)"
  from focus_by_number_panics [OF assms(1) run(2) pos this]
  show "result = None" unfolding assms(6) run(1) by simp
qed

section \<open>Starting twice\<close>

text \<open>
  \<open>recorder start\<close> while a recording runs is refused, and the recording goes on; but the
  refusal still stops its capture timer and forgets what it captures: a window or region recording
  captures the whole output from then on.
\<close>

lemma failed_start_redirects_capture:
  fixes s :: shell_state
  assumes "\<not> ss_locked s" "is_running (dk_recorder (ss_desktop s))"
    and "trim arg \<noteq> ''remembered''" "recorder_source (ss_desktop s) arg = Inr source"
    and "recorder_output s source = Inr out" "ce_boost_failure env = None"
  shows "\<exists>s'. desktop_command env (''recorder start '' @ arg) s = Some (Inl ''recorder is already running'', s')
    \<and> dk_recorder (ss_desktop s') = dk_recorder (ss_desktop s) \<and> ss_effects s' = ss_effects s
    \<and> cb_override (ss_boost s') = OutputSource \<and> cb_timer (ss_boost s') = None"
proof -
  have "record_start env arg s = (Inl ''recorder is already running'',
      set_recorder (dk_recorder (ss_desktop s)) [] (s\<lparr>ss_boost := stop_capture_boost (snd (start_capture_boost None
        (unat (rec_screen_fps (cf_recorder (dk_config (ss_desktop s)))))
        ((ss_boost s)\<lparr>cb_override := source, cb_commit_driven := False\<rparr>)))\<rparr>))"
    using assms by (simp add: record_start_def Let_def record_source_def start_capture_boost_def start_def)
  then show ?thesis
    using assms(1)
    by (simp add: desktop_command_def Let_def recorder_command_def mark_dirty_def stop_capture_boost_def)
qed

section \<open>Concrete sessions\<close>

abbreviation sample_command :: command_env where
  "sample_command \<equiv>
     \<lparr>ce_machine = sample_machine, ce_clients = (\<lambda>_. sample_client), ce_spawn = (\<lambda>_. Inr 7), ce_socket = None,
      ce_boost_failure = None, ce_write = None, ce_kill = KillExit True [], ce_lower = id, ce_toml = toy_toml,
      ce_to_toml = (\<lambda>_. Inr ''r''), ce_fault = NoFault, ce_denied = None, ce_json = (\<lambda>_. None),
      ce_shlex = (\<lambda>_. None), ce_close_error = (\<lambda>_. None), ce_output_errors = (\<lambda>_. []), ce_pass = sample_pass\<rparr>"

abbreviation sample_start :: shell_state where
  "sample_start \<equiv> sample_session\<lparr>ss_desktop := desktop_default (Inr config_default), ss_outputs := []\<rparr>"

lemma sample_starts: "session_starts toy_toml home_env (\<lambda>_. None) sample_start"
  by (simp add: session_starts_def first_start_loads sample_session_def)

lemma layout_runs: "desktop_command env ''layout monocle'' s \<noteq> None"
  by (simp add: desktop_command_def Let_def)

theorem session_stays_consistent_witness:
  "\<exists>s'. session_run [OutputsChanged [sample_output ''A'' 0], Mapped 1 (0, 0), Pass sample_pass,
        Command sample_command ''layout monocle''] sample_start = Some s'
    \<and> windows_ok (ss_desktop s') \<and> config_validate (dk_config (ss_desktop s')) = Inr ()"
proof -
  obtain s' where "session_run [OutputsChanged [sample_output ''A'' 0], Mapped 1 (0, 0), Pass sample_pass,
        Command sample_command ''layout monocle''] sample_start = Some s'"
    using layout_runs by (fastforce simp: session_step_def split: option.split)
  with session_stays_consistent [OF sample_starts this] show ?thesis by blast
qed

lemma sample_session_consistent: "session_ok sample_session"
  using sample_session_ok controller_default_inv default_config_valid
  by (simp add: session_ok_def pass_ok_def engine_ok_def sample_session_def desktop_default_def)


text \<open>
  A monitor that is unplugged and plugged in again shows its workspace, but the workspace's windows
  stay assigned to the output they were moved to and are on no screen.
\<close>

abbreviation unplugged :: shell_state where
  "unplugged \<equiv> maintain_desktop sample_pass (sample_session\<lparr>ss_outputs := [sample_output ''A'' 0]\<rparr>)"

abbreviation replugged :: shell_state where
  "replugged \<equiv> maintain_desktop sample_pass
     (unplugged\<lparr>ss_outputs := [sample_output ''A'' 0, sample_output ''B'' 1920]\<rparr>)"

lemma replugged_output_loses_windows:
  "dk_outputs (ss_desktop replugged) = [(''A'', 1), (''B'', 2)]"
  "mg_workspace (dk_windows (ss_desktop replugged) ! 2) = 2 \<and> mg_output (dk_windows (ss_desktop replugged) ! 2) = ''A''"
proof -
  let ?s0 = "sample_session\<lparr>ss_outputs := [sample_output ''A'' 0]\<rparr>"
  let ?s1 = "unplugged\<lparr>ss_outputs := [sample_output ''A'' 0, sample_output ''B'' 1920]\<rparr>"
  have "windows_ok (ss_desktop ?s0)" using sample_session_ok by (simp add: pass_ok_def)
  moreover have "distinct (map so_name (ss_outputs ?s0))" by simp
  ultimately have e1: "windows_ok (ss_desktop unplugged)"
    "dk_outputs (ss_desktop unplugged) = sync_outputs [''A''] (dk_outputs (ss_desktop sample_session))"
    "map mg_key (dk_windows (ss_desktop unplugged)) = map mg_key (dk_windows (ss_desktop (synced sample_pass ?s0)))"
    using pass_effect(1,2,6) [OF refl] by (simp_all add: sample_output_def)
  have "dk_windows (ss_desktop (synced sample_pass ?s0)) = survivors sample_pass ?s0"
    by (rule synced_windows(2)) (simp add: sample_session_def)
  also have "\<dots> = [sample_window 1 1 ''A'' False, sample_window 2 1 ''A'' False, (sample_window 3 2 ''A'' True)]"
    by (simp add: survivors_def sample_session_def sample_window_def sample_pass_def sample_client_def
        sample_output_def rehome_def)
  finally have keys: "map mg_key (dk_windows (ss_desktop unplugged)) =
      map mg_key [sample_window 1 1 ''A'' False, sample_window 2 1 ''A'' False, sample_window 3 2 ''A'' True]"
    by (simp only: e1(3))
  have ok: "windows_ok (ss_desktop ?s1)" "distinct (map so_name (ss_outputs ?s1))"
    using e1(1) by (simp_all add: sample_output_def)
  note e2 = pass_effect [OF refl ok(2,1), where env = sample_pass]
  have "sync_outputs [''A''] [(''A'', 1), (''B'', 2)] = [(''A'', 1)]" by code_simp
  then have one: "sync_outputs [''A''] (dk_outputs (ss_desktop sample_session)) = [(''A'', 1)]"
    by (simp add: sample_session_def)
  have two: "sync_outputs [''A'', ''B''] [(''A'', 1)] = [(''A'', 1), (''B'', 2)]" by code_simp
  have "map so_name (ss_outputs ?s1) = [''A'', ''B'']" by (simp add: sample_output_def)
  moreover have "ss_desktop ?s1 = ss_desktop unplugged" by simp
  ultimately show "dk_outputs (ss_desktop replugged) = [(''A'', 1), (''B'', 2)]"
    using e2(2) by (simp only: e1(2) one two)
  have len: "length (dk_windows (ss_desktop unplugged)) = 3" using keys_length [OF keys] by simp
  obtain w where w: "mg_key w = mg_key (sample_window 3 2 ''A'' True)" "survivors sample_pass ?s1 ! 2 = w"
  proof -
    have "mg_key (dk_windows (ss_desktop unplugged) ! 2) = mg_key (sample_window 3 2 ''A'' True)"
      using keys_nth [OF keys, of 2] by simp
    moreover have "survivors sample_pass ?s1 ! 2 = rehome [''A'', ''B''] (dk_windows (ss_desktop unplugged) ! 2)"
      using len by (simp add: survivors_def sample_pass_def sample_client_def sample_output_def)
    ultimately show thesis
      using mg_keyD [of "dk_windows (ss_desktop unplugged) ! 2" "sample_window 3 2 ''A'' True"]
      by (intro that [of "dk_windows (ss_desktop unplugged) ! 2"]) (simp_all add: rehome_def sample_window_def)
  qed
  obtain new where new: "dk_windows (ss_desktop (synced sample_pass ?s1)) = survivors sample_pass ?s1 @ new"
    using synced_windows(1) by blast
  have three: "length (survivors sample_pass ?s1) = 3"
    using len by (simp add: survivors_def sample_pass_def sample_client_def)
  have "mg_key (dk_windows (ss_desktop replugged) ! 2) = mg_key ((survivors sample_pass ?s1 @ new) ! 2)"
    unfolding new [symmetric] by (rule keys_nth [OF e2(1)]) (simp only: new, use three in simp)
  also have "\<dots> = mg_key (sample_window 3 2 ''A'' True)" using three w by (simp add: nth_append)
  finally have "mg_key (dk_windows (ss_desktop replugged) ! 2) = mg_key (sample_window 3 2 ''A'' True)" .
  from mg_keyD [OF this] show "mg_workspace (dk_windows (ss_desktop replugged) ! 2) = 2
      \<and> mg_output (dk_windows (ss_desktop replugged) ! 2) = ''A''"
    by (simp add: sample_window_def)
qed

end
