(* ===== verification/Transitions.thy ===== *)
theory Transitions
  imports MaintainPass
begin

text \<open>
  The closing images of \<open>crates/compositor/src/transitions.rs\<close>: pictures of windows that close or
  leave with their workspace, kept per output while they fade. The operations, and that the images
  an output keeps never exceed eight nor 128 MiB.
\<close>

section \<open>Retention\<close>

definition max_closing_images :: nat where
  "max_closing_images = 8"

definition max_closing_bytes :: nat where
  "max_closing_bytes = 128 * 1024 * 1024"

text \<open>The loop of \<open>retention_evictions\<close>, with its counter and the bytes it still counts.\<close>

function evict_loop :: "nat list \<Rightarrow> nat \<Rightarrow> nat \<Rightarrow> nat \<Rightarrow> nat" where
  "evict_loop sizes required evictions retained =
     (if evictions < length sizes
         \<and> (max_closing_images \<le> length sizes - evictions \<or> max_closing_bytes < sat64 (retained + required))
      then evict_loop sizes required (evictions + 1) (retained - sizes ! evictions)
      else evictions)"
  by pat_completeness auto
termination
  by (relation "measure (\<lambda>(sizes, _, evictions, _). length sizes - evictions)") auto

declare evict_loop.simps [simp del]

definition retention_evictions :: "nat list \<Rightarrow> nat \<Rightarrow> nat option" where
  "retention_evictions sizes required =
     (if max_closing_bytes < required then None
      else Some (evict_loop sizes required 0 (foldl (\<lambda>a b. sat64 (a + b)) 0 sizes)))"

section \<open>Images\<close>

record closing =
  ci_below :: "nat list" \<comment> \<open>the elements it stays above\<close>
  ci_source_id :: nat
  ci_texture :: "int \<times> int" \<comment> \<open>its size\<close>
  ci_rect :: rect
  ci_alpha :: f32
  ci_started :: instant
  ci_duration :: nat
  ci_workspace :: u8
  ci_source :: "nat option"

text \<open>The images of every output, and the surfaces marked as captured.\<close>

record transitions =
  tn_images :: "str \<Rightarrow> closing list"
  tn_captured :: "nat \<Rightarrow> bool"

text \<open>Four bytes for every pixel.\<close>

definition image_bytes :: "int \<times> int \<Rightarrow> nat" where
  "image_bytes sz = unat (of_int (fst sz) * of_int (snd sz) * 4 :: u64)"

definition retain ::
  "instant \<Rightarrow> int \<times> int \<Rightarrow> rect \<Rightarrow> u32 \<Rightarrow> u8 \<Rightarrow> nat option \<Rightarrow> nat list \<Rightarrow> nat \<Rightarrow> closing list \<Rightarrow> closing list" where
  "retain now texture bounds duration_ms workspace source below source_id images =
     (case retention_evictions (map (image_bytes \<circ> ci_texture) images) (image_bytes texture) of
        None \<Rightarrow> images
      | Some evictions \<Rightarrow>
          drop evictions images
          @ [\<lparr>ci_below = below, ci_source_id = source_id, ci_texture = texture, ci_rect = bounds,
              ci_alpha = Fin 1, ci_started = now, ci_duration = unat duration_ms * 1000000,
              ci_workspace = workspace, ci_source = source\<rparr>])"

definition tick :: "instant \<Rightarrow> bool \<Rightarrow> u8 \<Rightarrow> closing list \<Rightarrow> bool \<times> closing list" where
  "tick now enabled workspace images =
     (let kept = filter (\<lambda>im. enabled \<and> ci_workspace im = workspace
                            \<and> now - ci_started im < ci_duration im) images
      in (kept \<noteq> [], kept))"

text \<open>The arithmetic of \<open>f32\<close>: every result is rounded to it.\<close>

definition as_secs_f32 :: "nat \<Rightarrow> f32" where
  "as_secs_f32 ns =
     f64_to_f32 (f64_add (f64_to_f32 (f64_of_int (int (ns div 1000000000))))
       (f64_to_f32 (f64_div (f64_to_f32 (f64_of_int (int (ns mod 1000000000)))) (Fin 1000000000))))"

definition fading :: "instant \<Rightarrow> closing \<Rightarrow> f32" where
  "fading now im =
     (let progress = f64_to_f32 (f64_div (as_secs_f32 (now - ci_started im))
                       (f64_max (as_secs_f32 (ci_duration im)) (rnd32 (1 / 1000))));
          left = f64_to_f32 (f64_sub (Fin 1) (f64_clamp (Fin 0) (Fin 1) progress))
      in f64_to_f32 (f64_mul left (f64_to_f32 (f64_mul left left))))"

definition elements :: "instant \<Rightarrow> closing list \<Rightarrow> closing list" where
  "elements now images = map (\<lambda>im. im\<lparr>ci_alpha := fading now im\<rparr>) images"

section \<open>Capturing\<close>

text \<open>
  What the captures ask of other code: the surface of a window, the elements it draws (those of its
  title bar included), an identity for a surface and a fresh one, the picture the renderer takes.
\<close>

record transition_env =
  te_now :: instant
  te_surface :: "nat \<Rightarrow> nat option"
  te_ids :: "nat \<Rightarrow> nat list"
  te_surface_id :: "nat \<Rightarrow> nat"
  te_fresh :: "nat \<Rightarrow> nat"
  te_snapshot :: "nat \<Rightarrow> str \<Rightarrow> bool \<Rightarrow> ((int \<times> int) \<times> rect, str) result"

text \<open>What lies below a window: a fullscreen window lies above all the others.\<close>

fun lower_ids :: "(nat \<Rightarrow> nat list) \<Rightarrow> nat \<Rightarrow> bool \<Rightarrow> nat list \<Rightarrow> nat list" where
  "lower_ids ids window fullscreen [] = []"
| "lower_ids ids window fullscreen (lower # ws) =
     (if lower = window then (if fullscreen then lower_ids ids window fullscreen ws else [])
      else ids lower @ lower_ids ids window fullscreen ws)"

definition transitions_enabled :: "shell_state \<Rightarrow> bool" where
  "transitions_enabled s \<longleftrightarrow>
     (let th = cf_theme (dk_config (ss_desktop s))
      in dk_active (ss_desktop s) \<and> \<not> ss_locked s \<and> \<not> th_reduced_motion th \<and> th_animation_ms th \<noteq> 0)"

definition output_geometry :: "shell_state \<Rightarrow> str \<Rightarrow> rect option" where
  "output_geometry s name =
     (case List.find (\<lambda>o'. so_name o' = name) (ss_outputs s) of None \<Rightarrow> None | Some o' \<Rightarrow> so_geometry o')"

text \<open>The picture of a window is taken and kept; whether it was says the second component.\<close>

definition retain_window ::
  "transition_env \<Rightarrow> shell_state \<Rightarrow> str \<Rightarrow> rect \<Rightarrow> nat \<Rightarrow> int \<times> int \<Rightarrow> bool \<Rightarrow> u8 \<Rightarrow> nat option \<Rightarrow> nat
     \<Rightarrow> transitions \<Rightarrow> transitions \<times> bool" where
  "retain_window env s name geometry window location fullscreen workspace source source_id t =
     (case te_snapshot env window name fullscreen of
        Inl e \<Rightarrow> (t, False)
      | Inr (texture, bounds) \<Rightarrow>
          (let bounds' = bounds\<lparr>rx := wrap32 (rx bounds + wrap32 (fst location - rx geometry)),
                               ry := wrap32 (ry bounds + wrap32 (snd location - ry geometry))\<rparr>;
               below = lower_ids (te_ids env) window fullscreen (map fst (ss_elements s))
           in (t\<lparr>tn_images := (tn_images t)(name :=
                  retain (te_now env) texture bounds' (th_animation_ms (cf_theme (dk_config (ss_desktop s))))
                    workspace source below source_id (tn_images t name))\<rparr>, True)))"

definition capture_closing_window ::
  "transition_env \<Rightarrow> shell_state \<Rightarrow> nat \<Rightarrow> transitions \<Rightarrow> transitions" where
  "capture_closing_window env s surface t =
     (if \<not> transitions_enabled s then t
      else
        (case List.find (\<lambda>w. te_surface env (mg_window w) = Some surface) (dk_windows (ss_desktop s)) of
           None \<Rightarrow> t
         | Some w \<Rightarrow>
             if tn_captured t surface then t
             else
               (case (element_location s (mg_window w), output_geometry s (mg_output w)) of
                  (Some location, Some geometry) \<Rightarrow>
                    (case retain_window env s (mg_output w) geometry (mg_window w) location (mg_fullscreen w)
                            (mg_workspace w) (Some surface) (te_surface_id env surface) t of
                       (t', kept) \<Rightarrow>
                         if kept then t'\<lparr>tn_captured := (tn_captured t')(surface := True)\<rparr> else t')
                | _ \<Rightarrow> t)))"

text \<open>A workspace that leaves an output: its windows are kept, or only the fullscreen one.\<close>

definition leaving :: "shell_state \<Rightarrow> str \<Rightarrow> u8 \<Rightarrow> managed \<Rightarrow> bool" where
  "leaving s name workspace w \<longleftrightarrow>
     visible_on name workspace w \<and> element_location s (mg_window w) \<noteq> None"

definition leave_window ::
  "transition_env \<Rightarrow> shell_state \<Rightarrow> str \<Rightarrow> rect \<Rightarrow> u8 \<Rightarrow> transitions \<Rightarrow> managed \<Rightarrow> transitions" where
  "leave_window env s name geometry target_workspace t w =
     (case element_location s (mg_window w) of
        None \<Rightarrow> t
      | Some location \<Rightarrow>
          (let source = te_surface env (mg_window w);
               source_id = (case source of Some v \<Rightarrow> te_surface_id env v | None \<Rightarrow> te_fresh env (mg_window w))
           in fst (retain_window env s name geometry (mg_window w) location (mg_fullscreen w)
                     target_workspace source source_id t)))"

definition capture_workspace_transition ::
  "transition_env \<Rightarrow> shell_state \<Rightarrow> str \<Rightarrow> u8 \<Rightarrow> u8 \<Rightarrow> transitions \<Rightarrow> transitions" where
  "capture_workspace_transition env s name source_workspace target_workspace t =
     (if source_workspace = target_workspace \<or> \<not> transitions_enabled s then t
      else
        (case output_geometry s name of
           None \<Rightarrow> t
         | Some geometry \<Rightarrow>
             (let ws = dk_windows (ss_desktop s);
                  fullscreen = map_option mg_window
                    (List.find (\<lambda>w. leaving s name source_workspace w \<and> mg_fullscreen w) ws);
                  windows = filter (\<lambda>w. leaving s name source_workspace w
                     \<and> (case fullscreen of None \<Rightarrow> True | Some f \<Rightarrow> mg_window w = f)) ws
              in foldl (leave_window env s name geometry target_workspace) t windows)))"

text \<open>A window that appears again takes its closing image away, and stands above the others.\<close>

definition cancel_closing_window :: "shell_state \<Rightarrow> nat \<Rightarrow> transitions \<Rightarrow> transitions" where
  "cancel_closing_window s surface t =
     t\<lparr>tn_images := (\<lambda>name. if name \<in> so_name ` set (ss_outputs s)
                         then filter (\<lambda>im. ci_source im \<noteq> Some surface) (tn_images t name)
                         else tn_images t name),
       tn_captured := (tn_captured t)(surface := False)\<rparr>"

definition raise_above_closing ::
  "transition_env \<Rightarrow> nat \<Rightarrow> shell_state \<Rightarrow> transitions \<Rightarrow> shell_state \<times> transitions" where
  "raise_above_closing env window s t =
     (with_desktop (\<lambda>d. d\<lparr>dk_redraw := True\<rparr>) s,
      t\<lparr>tn_images := (\<lambda>name. if name \<in> so_name ` set (ss_outputs s)
            then map (\<lambda>im. im\<lparr>ci_below := filter (\<lambda>i. i \<notin> set (te_ids env window)) (ci_below im)\<rparr>)
                   (tn_images t name)
            else tn_images t name)\<rparr>)"

section \<open>Retention is bounded\<close>

text \<open>What an output may keep once another image of \<open>required\<close> bytes joins.\<close>

definition fits_with :: "nat \<Rightarrow> nat list \<Rightarrow> bool" where
  "fits_with required sizes \<longleftrightarrow>
     sizes = [] \<or> length sizes < max_closing_images \<and> sum_list sizes + required \<le> max_closing_bytes"

lemma sum_drop: "e < length sizes \<Longrightarrow> sum_list (drop e sizes) - sizes ! e = sum_list (drop (Suc e) (sizes :: nat list))"
  by (simp add: Cons_nth_drop_Suc [symmetric])

lemma evict_loop_least:
  assumes "retained = sum_list (drop e sizes)" "retained \<le> u64_max" "required \<le> max_closing_bytes" "e \<le> length sizes"
  shows "e \<le> evict_loop sizes required e retained \<and> evict_loop sizes required e retained \<le> length sizes
    \<and> fits_with required (drop (evict_loop sizes required e retained) sizes)
    \<and> (\<forall>k. e \<le> k \<and> k < evict_loop sizes required e retained \<longrightarrow> \<not> fits_with required (drop k sizes))"
  using assms
proof (induction sizes required e retained rule: evict_loop.induct)
  case (1 sizes required e retained)
  have sat: "max_closing_bytes < sat64 (retained + required) \<longleftrightarrow> max_closing_bytes < retained + required"
    using "1.prems"(2,3) by (simp add: sat64_def max_closing_bytes_def u64_max_def)
  show ?case
  proof (cases "e < length sizes \<and> (max_closing_images \<le> length sizes - e \<or> max_closing_bytes < sat64 (retained + required))")
    case True
    then have e: "e < length sizes" by simp
    have "\<not> fits_with required (drop e sizes)"
      using True "1.prems"(1) sat by (auto simp: fits_with_def)
    moreover have rest': "retained - sizes ! e = sum_list (drop (e + 1) sizes)"
      using sum_drop [OF e] "1.prems"(1) by simp
    have step: "evict_loop sizes required e retained = evict_loop sizes required (e + 1) (retained - sizes ! e)"
      using True by (subst evict_loop.simps) simp
    have "retained - sizes ! e \<le> u64_max" using "1.prems"(2) by simp
    note ih = "1.IH" [OF True rest' this "1.prems"(3)]
    have "e = k \<or> e + 1 \<le> k" if "e \<le> k" for k using that by auto
    with ih e calculation show ?thesis unfolding step by (auto simp: Suc_le_eq)
  next
    case False
    then have "evict_loop sizes required e retained = e" by (subst evict_loop.simps) (rule if_not_P)
    with False "1.prems" sat show ?thesis by (auto simp: fits_with_def)
  qed
qed

lemma foldl_sat: "a + sum_list xs \<le> u64_max \<Longrightarrow> foldl (\<lambda>a b. sat64 (a + b)) a xs = a + sum_list xs"
  by (induction xs arbitrary: a) (simp_all add: sat64_id)

text \<open>
  C32: the eviction loop is the search for the least number of oldest images whose removal leaves
  room: at most seven others and 128 MiB in all; an image that is larger by itself is never kept.
\<close>

theorem retention_is_least:
  assumes "sum_list sizes \<le> u64_max"
  shows "retention_evictions sizes required =
    (if max_closing_bytes < required then None
     else Some (LEAST e. fits_with required (drop e sizes)))"
proof (cases "max_closing_bytes < required")
  case False
  have sum: "foldl (\<lambda>a b. sat64 (a + b)) 0 sizes = sum_list (drop 0 sizes)" using foldl_sat [of 0 sizes] assms by simp
  note loop = evict_loop_least [OF sum _ _ le0, of required]
  have "(LEAST e. fits_with required (drop e sizes)) = evict_loop sizes required 0 (foldl (\<lambda>a b. sat64 (a + b)) 0 sizes)"
    by (rule Least_equality) (use loop assms False sum in \<open>auto simp: not_less [symmetric]\<close>)
  with False show ?thesis by (simp add: retention_evictions_def)
qed (simp add: retention_evictions_def)

section \<open>Whatever happens\<close>

datatype transition_event =
    CloseWindow transition_env shell_state nat
  | LeaveWorkspace transition_env shell_state str u8 u8
  | CancelClosing shell_state nat
  | RaiseAbove transition_env nat shell_state
  | Tick str instant bool u8
  | Draw str instant

definition transition_step :: "transitions \<Rightarrow> transition_event \<Rightarrow> transitions" where
  "transition_step t ev =
     (case ev of
        CloseWindow env s surface \<Rightarrow> capture_closing_window env s surface t
      | LeaveWorkspace env s name a b \<Rightarrow> capture_workspace_transition env s name a b t
      | CancelClosing s surface \<Rightarrow> cancel_closing_window s surface t
      | RaiseAbove env window s \<Rightarrow> snd (raise_above_closing env window s t)
      | Tick name now enabled workspace \<Rightarrow>
          t\<lparr>tn_images := (tn_images t)(name := snd (tick now enabled workspace (tn_images t name)))\<rparr>
      | Draw name now \<Rightarrow> t\<lparr>tn_images := (tn_images t)(name := elements now (tn_images t name))\<rparr>)"

definition no_transitions :: transitions where
  "no_transitions = \<lparr>tn_images = (\<lambda>_. []), tn_captured = (\<lambda>_. False)\<rparr>"

definition image_sizes :: "closing list \<Rightarrow> nat list" where
  "image_sizes images = map (image_bytes \<circ> ci_texture) images"

definition bounded :: "closing list \<Rightarrow> bool" where
  "bounded images \<longleftrightarrow>
     length images \<le> max_closing_images \<and> sum_list (image_sizes images) \<le> max_closing_bytes"

lemma sum_list_filter: "sum_list (map f (filter P xs)) \<le> sum_list (map f xs :: nat list)"
  by (induction xs) auto

lemma bounded_filter: "bounded images \<Longrightarrow> bounded (filter P images)"
  unfolding bounded_def image_sizes_def
  by (meson length_filter_le order.trans sum_list_filter)

lemma bounded_map:
  "(\<And>im. ci_texture (f im) = ci_texture im) \<Longrightarrow> bounded (map f images) = bounded images"
  by (simp add: bounded_def image_sizes_def comp_def)

lemma bounded_retain:
  assumes "bounded images"
  shows "bounded (retain now texture bounds ms workspace source below source_id images)"
proof (cases "retention_evictions (image_sizes images) (image_bytes texture)")
  case (Some e)
  have "sum_list (image_sizes images) \<le> u64_max"
    using assms by (simp add: bounded_def max_closing_bytes_def u64_max_def)
  from retention_is_least [OF this, of "image_bytes texture"] Some
  have small: "image_bytes texture \<le> max_closing_bytes"
    and e: "e = (LEAST e. fits_with (image_bytes texture) (drop e (image_sizes images)))"
    by (auto split: if_splits)
  have "fits_with (image_bytes texture) (drop (length images) (image_sizes images))"
    by (simp add: fits_with_def image_sizes_def)
  then have "fits_with (image_bytes texture) (drop e (image_sizes images))" unfolding e by (rule LeastI)
  then show ?thesis
    using Some small
    by (auto simp: retain_def bounded_def image_sizes_def fits_with_def drop_map max_closing_images_def)
qed (simp add: retain_def image_sizes_def assms)

definition all_bounded :: "transitions \<Rightarrow> bool" where
  "all_bounded t \<longleftrightarrow> (\<forall>name. bounded (tn_images t name))"

lemma retain_window_bounded:
  "all_bounded t \<Longrightarrow> all_bounded (fst (retain_window env s name geometry window location full workspace source source_id t))"
  by (auto simp: retain_window_def all_bounded_def Let_def bounded_retain split: sum.split)

lemma transition_step_bounded:
  assumes "all_bounded t"
  shows "all_bounded (transition_step t ev)"
proof (cases ev)
  case (CloseWindow env s surface)
  have "all_bounded (t'\<lparr>tn_captured := c\<rparr>) = all_bounded t'" for t' c by (simp add: all_bounded_def)
  with assms CloseWindow retain_window_bounded [OF assms] show ?thesis
    by (simp add: transition_step_def capture_closing_window_def case_prod_beta split: option.split)
next
  case (LeaveWorkspace env s name a b)
  have "all_bounded t \<Longrightarrow> all_bounded (foldl (leave_window env s name geometry b) t windows)" for t geometry windows
    by (induction windows arbitrary: t) (auto simp: leave_window_def Let_def retain_window_bounded split: option.split)
  with assms LeaveWorkspace show ?thesis
    by (simp add: transition_step_def capture_workspace_transition_def Let_def split: option.split)
qed (use assms in \<open>auto simp: transition_step_def all_bounded_def cancel_closing_window_def raise_above_closing_def
      bounded_filter bounded_map tick_def elements_def Let_def\<close>)

text \<open>
  Closing images never take more of the graphics memory than planned: however windows close,
  workspaces change and images fade, an output keeps at most eight of them, of at most 128 MiB.
\<close>

lemma closing_images_bounded:
  "let images = tn_images (foldl transition_step no_transitions events) name
   in length images \<le> 8 \<and> sum_list (map (image_bytes \<circ> ci_texture) images) \<le> 128 * 1024 * 1024"
proof -
  have "all_bounded t \<Longrightarrow> all_bounded (foldl transition_step t events)" for t
    by (induction events arbitrary: t) (simp_all add: transition_step_bounded)
  moreover have "all_bounded no_transitions"
    by (simp add: all_bounded_def bounded_def no_transitions_def image_sizes_def)
  ultimately have "bounded (tn_images (foldl transition_step no_transitions events) name)"
    unfolding all_bounded_def by blast
  then show ?thesis
    by (simp add: bounded_def image_sizes_def max_closing_images_def max_closing_bytes_def)
qed

text \<open>A window is captured once until its surface appears again.\<close>

lemma captured_once:
  "tn_captured t surface \<Longrightarrow> capture_closing_window env s surface t = t"
  by (simp add: capture_closing_window_def split: option.split)

theorem retention_is_least_witness:
  "retention_evictions (replicate 4 (max_closing_bytes div 4)) (max_closing_bytes div 4 * 2) =
     Some (LEAST e. fits_with (max_closing_bytes div 4 * 2) (drop e (replicate 4 (max_closing_bytes div 4))))"
  using retention_is_least [of "replicate 4 (max_closing_bytes div 4)" "max_closing_bytes div 4 * 2"]
  by (simp add: max_closing_bytes_def u64_max_def sum_list_replicate)

end
