(* ===== verification/Ipc.thy ===== *)
theory Ipc
  imports Commands Protocol
begin

text \<open>
  The control socket: the snapshot the policy publishes (\<open>compositor/src/policy.rs\<close>), the server of
  \<open>compositor/src/ipc.rs\<close> with its limits, requests and subscribers, the clients of
  \<open>core/src/lib.rs\<close> and \<open>control/src/main.rs\<close>. The compositor and the connections are threads: what
  they share, the snapshot and the queues of the subscribers, is a state that small steps change.
\<close>

section \<open>Data\<close>

record layer_info =
  li_namespace :: str
  li_output :: str
  li_geometry :: rect
  li_surface_size :: "(int \<times> int) option"

record window_info =
  wi_id :: nat
  wi_x11_window :: "u32 option"
  wi_title :: str
  wi_app_id :: str
  wi_workspace :: u8
  wi_output :: str
  wi_floating :: bool
  wi_fullscreen :: bool
  wi_scratchpad :: bool
  wi_geometry :: "rect option"
  wi_opacity :: f32
  wi_surface_size :: "(int \<times> int) option"

record output_info =
  oi_name :: str
  oi_workspace :: u8
  oi_geometry :: rect
  oi_wallpaper_visible :: bool
  oi_active :: bool

record output_performance =
  op_name :: str
  op_refresh_millihz :: int
  op_vrr_active :: bool
  op_counters :: "u64 list" \<comment> \<open>direct, composed, empty frames, missed deadlines\<close>
  op_percentiles :: "u32 list" \<comment> \<open>render and input-to-submit times: p50, p95, p99\<close>

record performance_status =
  ps_configured_profile :: str
  ps_active_profile :: str
  ps_outputs :: "output_performance list"

record snapshot =
  sn_version :: u32
  sn_windows :: "window_info list"
  sn_outputs :: "output_info list"
  sn_focused :: "nat option"
  sn_error :: "str option"
  sn_layers :: "layer_info list"
  sn_recorder :: recorder_status
  sn_recorder_settings :: recorder
  sn_performance :: performance_status

definition snapshot_default :: snapshot where
  "snapshot_default =
     \<lparr>sn_version = 0, sn_windows = [], sn_outputs = [], sn_focused = None, sn_error = None, sn_layers = [],
      sn_recorder = recorder_status_default, sn_recorder_settings = recorder_default,
      sn_performance = \<lparr>ps_configured_profile = [], ps_active_profile = [], ps_outputs = []\<rparr>\<rparr>"

record request =
  rq_version :: u32
  rq_command :: str

record response =
  rs_version :: u32
  rs_ok :: bool
  rs_error :: "str option"
  rs_state :: snapshot

section \<open>Publishing\<close>

text \<open>
  What the snapshot takes from clients, layer surfaces, the backend and the renderer. The layers of
  an output are those that have a geometry.
\<close>

record snapshot_env =
  se_clients :: clients
  se_surface_size :: "nat \<Rightarrow> (int \<times> int) option"
  se_layers :: "str \<Rightarrow> (str \<times> rect \<times> (int \<times> int) option) list"
  se_performance :: "output_performance list"
  se_covered :: "str \<Rightarrow> bool"

definition window_info_of :: "snapshot_env \<Rightarrow> managed \<Rightarrow> window_info" where
  "window_info_of env w =
     (let c = se_clients env (mg_window w); (app_id, title) = identity c
      in \<lparr>wi_id = mg_id w, wi_x11_window = cl_x11_window c, wi_title = title, wi_app_id = app_id,
          wi_workspace = mg_workspace w, wi_output = mg_output w, wi_floating = mg_floating w,
          wi_fullscreen = mg_fullscreen w, wi_scratchpad = mg_scratchpad w, wi_geometry = mg_rect w,
          wi_opacity = mg_opacity w, wi_surface_size = se_surface_size env (mg_window w)\<rparr>)"

definition output_layers :: "snapshot_env \<Rightarrow> space_output \<Rightarrow> layer_info list" where
  "output_layers env o' =
     map (\<lambda>(namespace, geometry, surface_size).
            \<lparr>li_namespace = namespace, li_output = so_name o', li_geometry = geometry,
             li_surface_size = surface_size\<rparr>) (se_layers env (so_name o'))"

definition output_info_of :: "snapshot_env \<Rightarrow> shell_state \<Rightarrow> space_output \<Rightarrow> output_info list" where
  "output_info_of env s o' =
     (case so_geometry o' of
        None \<Rightarrow> []
      | Some geometry \<Rightarrow>
          (let d = ss_desktop s; name = so_name o'; workspace = workspace_of d name
           in [\<lparr>oi_name = name, oi_workspace = workspace, oi_geometry = geometry,
                oi_wallpaper_visible = (\<not> ss_locked s \<and> \<not> se_covered env name
                  \<and> \<not> list_ex (\<lambda>w. mg_output w = name \<and> mg_workspace w = workspace \<and> mg_fullscreen w)
                        (dk_windows d)),
                oi_active = dk_active d\<rparr>]))"

definition snapshot_of :: "snapshot_env \<Rightarrow> shell_state \<Rightarrow> snapshot" where
  "snapshot_of env s =
     (let d = ss_desktop s; active = (if performance_gaming_outputs s = [] then ''desktop'' else ''gaming'')
      in \<lparr>sn_version = 1, sn_windows = map (window_info_of env) (dk_windows d),
          sn_outputs = concat (map (output_info_of env s) (ss_outputs s)),
          sn_focused = map_option (\<lambda>i. mg_id (dk_windows d ! i)) (focused_index s),
          sn_error = dk_error d, sn_layers = concat (map (output_layers env) (ss_outputs s)),
          sn_recorder = rc_status (dk_recorder d), sn_recorder_settings = cf_recorder (dk_config d),
          sn_performance = \<lparr>ps_configured_profile = configured_performance_profile d,
                            ps_active_profile = active, ps_outputs = se_performance env\<rparr>\<rparr>)"

text \<open>A number that is none is different from itself.\<close>

definition same_window :: "window_info \<Rightarrow> window_info \<Rightarrow> bool" where
  "same_window a b \<longleftrightarrow> a = b \<and> wi_opacity a \<noteq> NaN"

definition same_snapshot_for_immediate_subscribers :: "snapshot \<Rightarrow> snapshot \<Rightarrow> bool" where
  "same_snapshot_for_immediate_subscribers l r \<longleftrightarrow>
     sn_version l = sn_version r
     \<and> list_all2 same_window (sn_windows l) (sn_windows r)
     \<and> sn_outputs l = sn_outputs r \<and> sn_focused l = sn_focused r \<and> sn_error l = sn_error r
     \<and> sn_layers l = sn_layers r
     \<and> st_state (sn_recorder l) = st_state (sn_recorder r)
     \<and> st_source (sn_recorder l) = st_source (sn_recorder r)
     \<and> st_requested_fps (sn_recorder l) = st_requested_fps (sn_recorder r)
     \<and> st_output_path (sn_recorder l) = st_output_path (sn_recorder r)
     \<and> st_error (sn_recorder l) = st_error (sn_recorder r)
     \<and> sn_recorder_settings l = sn_recorder_settings r"

definition update_status_snapshot :: "snapshot \<Rightarrow> snapshot \<Rightarrow> bool \<times> snapshot" where
  "update_status_snapshot current latest =
     (\<not> same_snapshot_for_immediate_subscribers current latest, latest)"

section \<open>Requests\<close>

text \<open>
  What a connection sends before its deadline, and how it ends. \<open>read_line\<close> through \<open>take(65537)\<close>:
  a line with its newline, or all there is at the end of the stream; a longer request is dropped.
\<close>

datatype stream_end = EndOfFile | ReadTimeout

definition read_request :: "bytes \<Rightarrow> stream_end \<Rightarrow> str option" where
  "read_request data ended =
     (let window = take 65537 data; line = takeWhile (\<lambda>b. b \<noteq> 10) window;
          line' = (if length line < length window then line @ [10] else line)
      in if length line = length window \<and> length window < 65537 \<and> ended = ReadTimeout then None
         else if 65536 < length line' then None
         else from_utf8 line')"

text \<open>The compositor's answer: none when its channel is closed, none in two seconds, or a result.\<close>

datatype answer = Gone | Silent | Answered "(unit, str) result"

datatype handled = NoReply | Reply response | Subscribed

definition send_response :: "snapshot \<Rightarrow> (unit, str) result \<Rightarrow> response" where
  "send_response state r =
     \<lparr>rs_version = 1, rs_ok = is_ok r, rs_error = (case r of Inl e \<Rightarrow> Some e | Inr _ \<Rightarrow> None),
      rs_state = state\<rparr>"

definition handle ::
  "(str \<Rightarrow> request option) \<Rightarrow> (str \<Rightarrow> answer) \<Rightarrow> snapshot \<Rightarrow> bytes \<Rightarrow> stream_end \<Rightarrow> handled" where
  "handle json compositor state data ended =
     (case read_request data ended of
        None \<Rightarrow> NoReply
      | Some line \<Rightarrow>
          (case json line of
             None \<Rightarrow> NoReply
           | Some req \<Rightarrow>
               if rq_version req \<noteq> 1
               then Reply (send_response state (Inl ''unsupported protocol version''))
               else if rq_command req = ''subscribe'' then Subscribed
               else (case compositor (rq_command req) of
                       Gone \<Rightarrow> NoReply
                     | Silent \<Rightarrow> Reply (send_response state (Inl ''compositor did not respond''))
                     | Answered r \<Rightarrow> Reply (send_response state r))))"

text \<open>A message of the command channel in the compositor's event loop.\<close>

definition channel_message ::
  "command_env \<Rightarrow> str \<Rightarrow> shell_state \<Rightarrow> ((unit, str) result \<times> shell_state) option" where
  "channel_message env cmd s =
     map_option (\<lambda>(r, s'). (r, maintain_desktop (ce_pass env) s')) (desktop_command env cmd s)"

section \<open>The socket\<close>

text \<open>What is at the socket's path, and who answers there.\<close>

datatype path_kind = Missing | NotSocket | Live | Stale | ConnectFails str | MetadataFails str

datatype socket_effect = RemoveFile str | BindSocket str | RestrictMode str

text \<open>The errors of removing the file, binding and restricting its mode are inputs.\<close>

definition serve ::
  "(str \<Rightarrow> str option) \<Rightarrow> path_kind \<Rightarrow> str option \<Rightarrow> str option \<Rightarrow> str option
     \<Rightarrow> (unit, str) result \<times> socket_effect list" where
  "serve environ kind remove_error bind_error mode_error =
     (case socket_path environ of
        Inl e \<Rightarrow> (Inl e, [])
      | Inr path \<Rightarrow>
          (let listen = (\<lambda>effects.
                 case bind_error of
                   Some e \<Rightarrow> (Inl e, effects)
                 | None \<Rightarrow>
                     (case mode_error of
                        Some e \<Rightarrow> (Inl e, effects @ [BindSocket path])
                      | None \<Rightarrow> (Inr (), effects @ [BindSocket path, RestrictMode path])))
           in case kind of
                NotSocket \<Rightarrow> (Inl (''refusing to replace non-socket '' @ path), [])
              | Live \<Rightarrow> (Inl (''another compositor owns '' @ path), [])
              | ConnectFails e \<Rightarrow> (Inl (path @ '': '' @ e), [])
              | MetadataFails e \<Rightarrow> (Inl e, [])
              | Missing \<Rightarrow> listen []
              | Stale \<Rightarrow> (case remove_error of Some e \<Rightarrow> (Inl e, []) | None \<Rightarrow> listen [RemoveFile path])))"

text \<open>The accept loop: a counter of live connections, and the handlers that run.\<close>

datatype accept_event = Incoming | HandlerDone

definition accept_step :: "nat \<times> nat \<Rightarrow> accept_event \<Rightarrow> nat \<times> nat" where
  "accept_step st ev =
     (case st of (live, running) \<Rightarrow>
        (case ev of
           Incoming \<Rightarrow> if 32 \<le> live then st else (live + 1, running + 1)
         | HandlerDone \<Rightarrow> if running = 0 then st else (live - 1, running - 1)))"

section \<open>Subscribers\<close>

text \<open>
  A subscriber's thread: it waits for a message or its two-second heartbeat, empties its queue,
  reads the shared snapshot and writes it. The first snapshot is read once its queue is registered.
\<close>

datatype phase = Waiting | Draining | Reading | Writing snapshot | Ended

record subscriber =
  sb_queue :: "snapshot list"
  sb_phase :: phase
  sb_written :: "snapshot list"

definition subscriber_new :: subscriber where
  "subscriber_new = \<lparr>sb_queue = [], sb_phase = Reading, sb_written = []\<rparr>"

text \<open>One step; \<open>heartbeat\<close> says that the wait timed out, \<open>writes\<close> that the client still reads.\<close>

definition subscriber_step :: "bool \<Rightarrow> bool \<Rightarrow> snapshot \<Rightarrow> subscriber \<Rightarrow> subscriber" where
  "subscriber_step heartbeat writes current sb =
     (case sb_phase sb of
        Waiting \<Rightarrow>
          (case sb_queue sb of
             [] \<Rightarrow> if heartbeat then sb\<lparr>sb_phase := Draining\<rparr> else sb
           | _ # q \<Rightarrow> sb\<lparr>sb_queue := q, sb_phase := Draining\<rparr>)
      | Draining \<Rightarrow>
          (case sb_queue sb of
             [] \<Rightarrow> sb\<lparr>sb_phase := Reading\<rparr>
           | _ # q \<Rightarrow> sb\<lparr>sb_queue := q\<rparr>)
      | Reading \<Rightarrow> sb\<lparr>sb_phase := Writing current\<rparr>
      | Writing snapshot \<Rightarrow>
          if writes then sb\<lparr>sb_phase := Waiting, sb_written := sb_written sb @ [snapshot]\<rparr>
          else sb\<lparr>sb_phase := Ended\<rparr>
      | Ended \<Rightarrow> sb)"

text \<open>The queue holds eight messages; a full one keeps its subscriber, a closed one loses it.\<close>

definition notify_subscriber :: "snapshot \<Rightarrow> subscriber \<Rightarrow> subscriber option" where
  "notify_subscriber snapshot sb =
     (if sb_phase sb = Ended then None
      else if length (sb_queue sb) < 8 then Some (sb\<lparr>sb_queue := sb_queue sb @ [snapshot]\<rparr>)
      else Some sb)"

record bus =
  bus_snapshot :: snapshot
  bus_subscribers :: "subscriber list"

text \<open>\<open>publish_snapshot\<close> holds the lock of the snapshot until every subscriber is notified.\<close>

definition publish :: "snapshot \<Rightarrow> bus \<Rightarrow> bus" where
  "publish latest b =
     (let (ui_changed, current) = update_status_snapshot (bus_snapshot b) latest
      in b\<lparr>bus_snapshot := current,
           bus_subscribers := (if ui_changed then List.map_filter (notify_subscriber latest) (bus_subscribers b)
                               else bus_subscribers b)\<rparr>)"

datatype bus_event = Publish snapshot | Subscribe | SubscriberStep nat bool bool

definition bus_step :: "bus \<Rightarrow> bus_event \<Rightarrow> bus" where
  "bus_step b ev =
     (case ev of
        Publish latest \<Rightarrow> publish latest b
      | Subscribe \<Rightarrow> b\<lparr>bus_subscribers := bus_subscribers b @ [subscriber_new]\<rparr>
      | SubscriberStep i heartbeat writes \<Rightarrow>
          if i < length (bus_subscribers b)
          then b\<lparr>bus_subscribers := (bus_subscribers b)[i :=
                  subscriber_step heartbeat writes (bus_snapshot b) (bus_subscribers b ! i)]\<rparr>
          else b)"

section \<open>Clients\<close>

text \<open>
  \<open>connect_command\<close>: \<open>exchange\<close> stands for the connection, what it answers to the request written
  as a line, and \<open>json\<close> for \<open>serde_json\<close>.
\<close>

definition connect_command ::
  "(str \<Rightarrow> str option) \<Rightarrow> (request \<Rightarrow> (str, str) result) \<Rightarrow> (str \<Rightarrow> str \<Rightarrow> (str, str) result)
     \<Rightarrow> (str \<Rightarrow> (response, str) result) \<Rightarrow> str \<Rightarrow> (response, str) result" where
  "connect_command environ to_json exchange json command =
     bindR (socket_path environ) (\<lambda>path.
     bindR (to_json \<lparr>rq_version = 1, rq_command = command\<rparr>) (\<lambda>text.
     bindR (exchange path (text @ [CHR 0x0A])) json))"

text \<open>\<open>wmctl\<close>: what it prints, and the error it exits with.\<close>

datatype wmctl_action = Help | ConfigDefault | ConfigCheck | SubscribeTo | Send str

definition wmctl_action_of :: "str list \<Rightarrow> wmctl_action" where
  "wmctl_action_of args =
     (let command = join_text '' '' args
      in if command \<in> {[], ''--help'', ''help''} then Help
         else if command = ''config-default'' then ConfigDefault
         else if command = ''config-check'' then ConfigCheck
         else if command = ''subscribe'' then SubscribeTo
         else Send command)"

definition wmctl_send ::
  "(str \<Rightarrow> (response, str) result) \<Rightarrow> (snapshot \<Rightarrow> str) \<Rightarrow> str \<Rightarrow> (str, str) result" where
  "wmctl_send connect pretty command =
     bindR (connect command) (\<lambda>r.
       if rs_ok r then Inr (pretty (rs_state r))
       else Inl (case rs_error r of Some e \<Rightarrow> e | None \<Rightarrow> []))"

section \<open>Properties\<close>

text \<open>
  What a subscriber has been told or is about to be told, against the current snapshot: nothing of
  the user interface is missing, or a message waits in its queue.
\<close>

definition up_to_date :: "snapshot \<Rightarrow> snapshot \<Rightarrow> bool" where
  "up_to_date v current \<longleftrightarrow> v = current \<or> same_snapshot_for_immediate_subscribers v current"

definition informed :: "snapshot \<Rightarrow> subscriber \<Rightarrow> bool" where
  "informed current sb \<longleftrightarrow>
     length (sb_queue sb) \<le> 8
     \<and> (sb_queue sb = [] \<longrightarrow>
          (case sb_phase sb of
             Waiting \<Rightarrow> sb_written sb \<noteq> [] \<and> up_to_date (last (sb_written sb)) current
           | Writing v \<Rightarrow> up_to_date v current
           | _ \<Rightarrow> True))"

lemma same_window_trans: "same_window a b \<Longrightarrow> same_window b c \<Longrightarrow> same_window a c"
  by (auto simp: same_window_def)

lemma same_snapshot_trans:
  assumes "same_snapshot_for_immediate_subscribers a b" "same_snapshot_for_immediate_subscribers b c"
  shows "same_snapshot_for_immediate_subscribers a c"
  using assms list_all2_trans [of same_window same_window same_window, OF same_window_trans]
  by (auto simp: same_snapshot_for_immediate_subscribers_def)

lemma up_to_date_step:
  "up_to_date v current \<Longrightarrow> same_snapshot_for_immediate_subscribers current latest \<Longrightarrow> up_to_date v latest"
  using same_snapshot_trans by (auto simp: up_to_date_def)

lemma informed_publish:
  assumes "\<forall>sb \<in> set (bus_subscribers b). informed (bus_snapshot b) sb"
    and "sb \<in> set (bus_subscribers (publish latest b))"
  shows "informed (bus_snapshot (publish latest b)) sb"
proof (cases "same_snapshot_for_immediate_subscribers (bus_snapshot b) latest")
  case True
  with assms have "informed (bus_snapshot b) sb" by (simp add: publish_def update_status_snapshot_def)
  with up_to_date_step [OF _ True] show ?thesis
    by (auto simp: publish_def update_status_snapshot_def informed_def split: phase.splits)
next
  case False
  with assms(2) obtain sb0 where sb0: "sb0 \<in> set (bus_subscribers b)" "notify_subscriber latest sb0 = Some sb"
    by (auto simp: publish_def update_status_snapshot_def List.map_filter_def)
  then have "sb_queue sb \<noteq> []" "length (sb_queue sb) \<le> 8"
    using assms(1) by (auto simp: notify_subscriber_def informed_def split: if_splits)
  then show ?thesis by (simp add: informed_def)
qed

lemma informed_step: "informed current sb \<Longrightarrow> informed current (subscriber_step heartbeat writes current sb)"
  by (auto simp: informed_def subscriber_step_def up_to_date_def split: phase.splits list.splits)

lemma bus_informed:
  assumes "\<forall>sb \<in> set (bus_subscribers b). informed (bus_snapshot b) sb"
  shows "\<forall>sb \<in> set (bus_subscribers (bus_step b ev)). informed (bus_snapshot (bus_step b ev)) sb"
proof (cases ev)
  case (Publish latest)
  with informed_publish [OF assms] show ?thesis by (simp add: bus_step_def)
next
  case Subscribe
  with assms show ?thesis by (auto simp: bus_step_def informed_def subscriber_new_def)
next
  case (SubscriberStep i heartbeat writes)
  have "informed (bus_snapshot b) x"
    if "x \<in> set ((bus_subscribers b)[i := subscriber_step heartbeat writes (bus_snapshot b) (bus_subscribers b ! i)])"
      "i < length (bus_subscribers b)" for x
    using set_update_subset_insert [of "bus_subscribers b" i] that assms informed_step nth_mem by fastforce
  with assms SubscriberStep show ?thesis by (auto simp: bus_step_def)
qed



text \<open>Only a socket nobody listens on is removed, and nothing is bound over anything else.\<close>

lemma socket_of_live_session_kept:
  "serve environ kind re be me = (r, effects) \<Longrightarrow> RemoveFile path \<in> set effects \<Longrightarrow> kind = Stale"
  "serve environ kind re be me = (r, effects) \<Longrightarrow> kind \<notin> {Missing, Stale} \<Longrightarrow> \<exists>e. r = Inl e \<and> effects = []"
  by (auto simp: serve_def Let_def split: sum.splits path_kind.splits option.splits)

lemma served_socket_is_private:
  "serve environ kind re be me = (Inr (), effects) \<Longrightarrow> \<exists>path. socket_path environ = Inr path
     \<and> effects \<in> {[BindSocket path, RestrictMode path], [RemoveFile path, BindSocket path, RestrictMode path]}"
  by (auto simp: serve_def Let_def split: sum.splits path_kind.splits option.splits)

lemma connections_bounded:
  "fst st = snd st \<and> snd st \<le> 32 \<Longrightarrow>
     fst (foldl accept_step st events) = snd (foldl accept_step st events) \<and> snd (foldl accept_step st events) \<le> 32"
proof (induction events arbitrary: st)
  case (Cons ev events)
  have "fst (accept_step st ev) = snd (accept_step st ev) \<and> snd (accept_step st ev) \<le> 32"
    using Cons.prems by (cases st) (auto simp: accept_step_def split: accept_event.split)
  from Cons.IH [OF this] show ?case by simp
qed simp

lemma long_request_dropped:
  assumes "65536 < length data" "10 \<notin> set (take 65536 data)"
  shows "handle json compositor state data ended = NoReply"
proof -
  let ?line = "takeWhile (\<lambda>b. b \<noteq> 10) (take 65537 data)"
  have "take 65537 data = take 65536 data @ [data ! 65536]" using take_Suc_conv_app_nth [OF assms(1)] by simp
  moreover have "takeWhile (\<lambda>b. b \<noteq> 10) (take 65536 data) = take 65536 data"
    using assms(2) by (auto simp: takeWhile_eq_all_conv)
  ultimately have "65536 \<le> length ?line"
    using assms(1) assms(2) by (subst \<open>take 65537 data = _\<close>) (subst takeWhile_append2, auto)
  moreover have "length (take 65537 data) = 65537" using assms(1) by simp
  ultimately have "read_request data ended = None" by (auto simp: read_request_def Let_def)
  then show ?thesis by (simp add: handle_def)
qed

text \<open>Without a subscription, a request gets exactly one reply, with the result of its command.\<close>

lemma wmctl_result:
  "wmctl_send connect pretty command = Inr text \<longleftrightarrow> (\<exists>r. connect command = Inr r \<and> rs_ok r \<and> text = pretty (rs_state r))"
  by (cases "connect command") (auto simp: wmctl_send_def)

end
