(* ===== verification/ShellText.thy ===== *)
theory ShellText
  imports Ipc
begin

text \<open>
  What the parts of the shell, \<open>crates/shell-sctk/src/main.rs\<close>, share: the characters of a string
  (strings are their UTF-8 bytes), saturating \<open>u32\<close> arithmetic, rectangles, pointer coordinates.
\<close>

section \<open>Characters\<close>

definition continuation_byte :: "char \<Rightarrow> bool" where
  "continuation_byte c \<longleftrightarrow> (let n = of_char c :: nat in 0x80 \<le> n \<and> n < 0xC0)"

text \<open>\<open>String::pop\<close>: the last character and the bytes that continue it.\<close>

definition pop_char :: "str \<Rightarrow> str" where
  "pop_char s = rev (tl (dropWhile continuation_byte (rev s)))"

text \<open>\<open>str::chars\<close>: every character as its bytes.\<close>

function utf8_chars :: "str \<Rightarrow> str list" where
  "utf8_chars [] = []"
| "utf8_chars (c # s) = (c # takeWhile continuation_byte s) # utf8_chars (dropWhile continuation_byte s)"
  by pat_completeness auto
termination
  by (relation "measure length") (auto simp: le_imp_less_Suc length_dropWhile_le)

definition take_chars :: "nat \<Rightarrow> str \<Rightarrow> str" where
  "take_chars n s = concat (take n (utf8_chars s))"

text \<open>\<open>str::replace\<close>: every occurrence, from the left, without overlap.\<close>

function replace_all :: "str \<Rightarrow> str \<Rightarrow> str \<Rightarrow> str" where
  "replace_all old new [] = []"
| "replace_all old new (c # s) =
     (if old \<noteq> [] \<and> starts_with (c # s) old then new @ replace_all old new (drop (length old) (c # s))
      else c # replace_all old new s)"
  by pat_completeness auto
termination
  by (relation "measure (\<lambda>(_, _, s). length s)") (auto simp: neq_Nil_conv)

section \<open>Numbers\<close>

definition sat_add32 :: "u32 \<Rightarrow> u32 \<Rightarrow> u32" where
  "sat_add32 a b = (if a + b < a then - 1 else a + b)"

definition sat_sub32 :: "u32 \<Rightarrow> u32 \<Rightarrow> u32" where
  "sat_sub32 a b = (if a \<le> b then 0 else a - b)"

definition sat_mul32 :: "u32 \<Rightarrow> u32 \<Rightarrow> u32" where
  "sat_mul32 a b = (if unat a * unat b < 2 ^ 32 then a * b else - 1)"

definition f64_of_u32 :: "u32 \<Rightarrow> f64" where
  "f64_of_u32 a = Fin (of_nat (unat a))"

definition f64_to_u32 :: "f64 \<Rightarrow> u32" where
  "f64_to_u32 x = of_int (f64_to_int 0 4294967295 x)"

text \<open>Rectangles are their origin and size.\<close>

type_synonym urect = "u32 \<times> u32 \<times> u32 \<times> u32"

definition nth_opt :: "'a list \<Rightarrow> nat \<Rightarrow> 'a option" where
  "nth_opt xs i = (if i < length xs then Some (xs ! i) else None)"

section \<open>Lemmas\<close>

lemma concat_utf8_chars: "concat (utf8_chars s) = s"
  by (induction s rule: utf8_chars.induct) simp_all

lemma unat_sat_add32: "unat (sat_add32 a b) = min (unat a + unat b) (2 ^ 32 - 1)"
proof (cases "unat a + unat b < 2 ^ 32")
  case True
  then have "unat (a + b) = unat a + unat b" by (simp add: unat_word_ariths)
  with True show ?thesis by (auto simp: sat_add32_def word_less_nat_alt)
next
  case False
  have below: "unat x < 2 ^ 32" for x :: u32 using unsigned_less [of x, where 'a = nat] by simp
  have "unat (a + b) = unat a + unat b - 2 ^ 32"
    using False below [of a] below [of b] by (simp add: unat_word_ariths mod_if)
  with False have "a + b < a" using below [of b] by (simp add: word_less_nat_alt)
  moreover have "unat (- 1 :: u32) = 2 ^ 32 - 1" by (simp add: unsigned_minus_1_eq_mask mask_eq_exp_minus_1)
  ultimately show ?thesis using False by (simp add: sat_add32_def)
qed

lemma unat_sat_sub32: "unat (sat_sub32 a b) = unat a - unat b"
  by (auto simp: sat_sub32_def word_le_nat_alt unat_sub_if')

lemma length_utf8_chars_take: "length (take n (utf8_chars s)) \<le> n"
  by simp

lemma below32: "unat (x :: u32) < 2 ^ 32"
  using unsigned_less [of x, where 'a = nat] by simp

lemma unat_half: "unat (x div 2 :: u32) = unat x div 2"
  by (simp add: unat_div)

lemma unat_plus_small: "unat a + unat b < 2 ^ 32 \<Longrightarrow> unat (a + b :: u32) = unat a + unat b"
  by (simp add: unat_word_ariths)

lemma found_in: "List.find P xs = Some x \<Longrightarrow> x \<in> set xs \<and> P x"
  by (induction xs) (auto split: if_splits)

end
