(* ===== verification/RecorderPanel.thy ===== *)
theory RecorderPanel
  imports ShellText
begin

text \<open>
  The recorder panel of the shell, \<open>crates/shell-sctk/src/main.rs\<close>: its settings rows and what
  adjusting one sends, the selection of a source, the command that starts a recording, the geometry
  its clicks are resolved with, its keyboard. The compositor is behind the commands; the processes
  that can be captured are an input, read anew wherever the source reads \<open>/proc\<close>.
\<close>

section \<open>Modes, views, tabs\<close>

datatype panel_mode = Screen | XwaylandDirect | OpenGlInject | OpenGlGame | VulkanGame

definition all_capture_modes :: "panel_mode list" where
  "all_capture_modes = [Screen, XwaylandDirect, OpenGlInject, OpenGlGame, VulkanGame]"

fun capture_mode_label :: "panel_mode \<Rightarrow> str" where
  "capture_mode_label Screen = ''Screen (low-lag)''"
| "capture_mode_label XwaylandDirect = ''Xwayland Zero-Copy''"
| "capture_mode_label OpenGlInject = ''OpenGL API Inject''"
| "capture_mode_label OpenGlGame = ''OpenGL Launch Profile''"
| "capture_mode_label VulkanGame = ''Vulkan API Layer''"

text \<open>The neighbour in a list that wraps around; an element that is not listed panics.\<close>

definition cycle_in :: "'a list \<Rightarrow> bool \<Rightarrow> 'a \<Rightarrow> 'a option" where
  "cycle_in all forward x =
     map_option (\<lambda>i. all ! ((if forward then i + 1 else i + length all - 1) mod length all))
       (position (\<lambda>y. y = x) all)"

definition capture_mode_cycle :: "bool \<Rightarrow> panel_mode \<Rightarrow> panel_mode" where
  "capture_mode_cycle forward mode =
     (case cycle_in all_capture_modes forward mode of Some m \<Rightarrow> m | None \<Rightarrow> mode)"

datatype recorder_view = Controls | Settings

datatype settings_tab = OutputTab | CaptureTab | VideoTab | AudioTab | ReplayTab

definition all_tabs :: "settings_tab list" where
  "all_tabs = [OutputTab, CaptureTab, VideoTab, AudioTab, ReplayTab]"

fun tab_label :: "settings_tab \<Rightarrow> str" where
  "tab_label OutputTab = ''Output''"
| "tab_label CaptureTab = ''Capture''"
| "tab_label VideoTab = ''Video''"
| "tab_label AudioTab = ''Audio''"
| "tab_label ReplayTab = ''Replay''"

definition tab_cycle :: "bool \<Rightarrow> settings_tab \<Rightarrow> settings_tab" where
  "tab_cycle forward tab = (case cycle_in all_tabs forward tab of Some t \<Rightarrow> t | None \<Rightarrow> tab)"

datatype row_kind = Cycle | Step | Toggle | Path | Identity | Action | Info

record row_display =
  rd_label :: str
  rd_value :: str
  rd_kind :: row_kind

datatype row_part = Dec | Value | Inc

datatype recorder_hit =
    StartStop | PauseHit | ReplaySave | SettingsHit | TabHit nat | RowHit nat row_part | CloseSettings
  | ResetSettings

section \<open>The rows\<close>

definition recorder_capture_mode_label :: "recorder \<Rightarrow> str" where
  "recorder_capture_mode_label r =
     (if rec_capture_mode r = ''xwayland'' then ''Xwayland window''
      else if rec_capture_mode r = ''inject'' then ''OpenGL inject''
      else if rec_capture_mode r = ''opengl'' then ''OpenGL profile''
      else if rec_capture_mode r = ''vulkan'' then ''Vulkan profile''
      else ''Screen'')"

text \<open>The middle dot, in UTF-8.\<close>

definition middle_dot :: str where
  "middle_dot = [CHR 0xC2, CHR 0xB7]"

definition recorder_window_identity_label :: "recorder \<Rightarrow> str" where
  "recorder_window_identity_label r =
     (if rec_window_app_id r = [] \<and> rec_window_title r = [] then ''None''
      else if rec_window_title r = [] then rec_window_app_id r
      else if rec_window_app_id r = [] then rec_window_title r
      else rec_window_app_id r @ '' '' @ middle_dot @ '' '' @ rec_window_title r)"

definition recorder_remembered_target_label :: "recorder \<Rightarrow> str" where
  "recorder_remembered_target_label r =
     (let mode = rec_capture_mode r
      in if mode = ''screen'' \<or> mode = ''xwayland'' then recorder_window_identity_label r
         else if mode = ''inject''
         then (if rec_inject_process r = [] then ''None'' else rec_inject_process r)
         else if mode = ''opengl'' \<or> mode = ''vulkan''
         then (if rec_game_profile r = [] then ''None'' else rec_game_profile r)
         else ''None'')"

definition recorder_window_identity_placeholder :: "recorder \<Rightarrow> str" where
  "recorder_window_identity_placeholder r =
     (if rec_window_app_id r = [] \<and> rec_window_title r = [] then [] else rec_window_app_id r)"

definition audio_source_label :: "str \<Rightarrow> str \<Rightarrow> str" where
  "audio_source_label v default_name =
     (if v = [] \<or> v = ''disabled'' then ''Disabled''
      else if v = default_name then ''Default ('' @ v @ '')''
      else v)"

definition on_off :: "bool \<Rightarrow> str" where
  "on_off b = (if b then ''On'' else ''Off'')"

abbreviation row :: "str \<Rightarrow> str \<Rightarrow> row_kind \<Rightarrow> row_display" where
  "row label v kind \<equiv> \<lparr>rd_label = label, rd_value = v, rd_kind = kind\<rparr>"

text \<open>\<open>upper\<close> is \<open>str::to_uppercase\<close>.\<close>

definition recorder_settings_rows :: "(str \<Rightarrow> str) \<Rightarrow> recorder \<Rightarrow> settings_tab \<Rightarrow> row_display list" where
  "recorder_settings_rows upper r tab =
     (case tab of
        OutputTab \<Rightarrow>
          [row ''Encoder'' (upper (recorder.rec_codec r) @ '' (NVENC)'') Cycle,
           row ''Quality (CQ)'' (show_nat (unat (rec_quality r))) Step,
           row ''HDR (10-bit PQ)'' (on_off (rec_hdr r)) Toggle,
           row ''Capture cursor'' (on_off (rec_cursor r)) Toggle,
           row ''Container'' ''MP4 (fragmented, streamable)'' Info,
           row ''Recording path'' (rec_output_directory r) Path]
      | CaptureTab \<Rightarrow>
          [row ''Method'' (recorder_capture_mode_label r) Cycle,
           row ''Remembered target'' (recorder_remembered_target_label r) Identity,
           row ''Remember current'' ''Save the selection below'' Action,
           row ''Method note'' ''Changed sources take effect now'' Info]
      | VideoTab \<Rightarrow>
          [row ''Screen capture FPS'' (show_nat (unat (rec_screen_fps r))) Step,
           row ''Injection FPS (attach)'' (show_nat (unat (rec_fps r))) Step,
           row ''Output width'' (show_nat (unat (rec_output_width r))) Step,
           row ''Output height'' (show_nat (unat (rec_output_height r))) Step,
           row ''HDR note'' ''HDR needs the HEVC encoder'' Info]
      | AudioTab \<Rightarrow>
          [row ''Desktop audio'' (audio_source_label (rec_desktop_audio r) ''default_output'') Cycle,
           row ''Microphone'' (audio_source_label (rec_microphone r) ''default_input'') Cycle,
           row ''Program mix'' (''Opus 256 kbit '' @ middle_dot @ '' 48 kHz stereo'') Info]
      | ReplayTab \<Rightarrow>
          [row ''Replay duration (s)'' (show_nat (unat (rec_replay_seconds r))) Step,
           row ''Replay buffer (MiB)'' (show_nat (unat (rec_replay_max_mib r))) Step,
           row ''Save replay'' ''Super+F8 during a recording'' Info])"

section \<open>Adjusting a row\<close>

text \<open>The closure \<open>step\<close>: saturating, and kept within its limits.\<close>

definition step_value :: "bool \<Rightarrow> nat \<Rightarrow> nat \<Rightarrow> nat \<Rightarrow> nat \<Rightarrow> str" where
  "step_value forward current lo hi amount =
     show_nat (if forward then min (sat64 (current + amount)) hi else max (current - amount) lo)"

definition bool_text :: "bool \<Rightarrow> str" where
  "bool_text b = (if b then ''true'' else ''false'')"

definition next_capture_mode :: "bool \<Rightarrow> str \<Rightarrow> str" where
  "next_capture_mode forward mode =
     (let modes = [''screen'', ''xwayland'', ''inject'', ''opengl'', ''vulkan''];
          current = (case position (\<lambda>m. m = mode) modes of Some i \<Rightarrow> i | None \<Rightarrow> 0)
      in modes ! ((if forward then current + 1 else current + length modes - 1) mod length modes))"

type_synonym edits = "(str \<times> str) list"

text \<open>The commands of one row, before they are checked.\<close>

definition row_edits :: "recorder \<Rightarrow> settings_tab \<Rightarrow> nat \<Rightarrow> bool \<Rightarrow> (edits, str) result" where
  "row_edits r tab i forward =
     (case tab of
        OutputTab \<Rightarrow>
          if i = 0
          then (let codec = (if recorder.rec_codec r = ''h264'' then ''hevc'' else ''h264'')
                in Inr ((if codec = ''h264'' \<and> rec_hdr r then [(''hdr'', ''false'')] else []) @ [(''codec'', codec)]))
          else if i = 1 then Inr [(''quality'', step_value forward (unat (rec_quality r)) 1 51 1)]
          else if i = 2 then Inr [(''hdr'', bool_text (\<not> rec_hdr r))]
          else if i = 3 then Inr [(''cursor'', bool_text (\<not> rec_cursor r))]
          else if i = 4 then Inl ''the container is fixed to fragmented MP4''
          else if i = 5 then Inl ''press Enter to edit the recording path''
          else Inl ''settings row is out of range''
      | CaptureTab \<Rightarrow>
          if i = 0 then Inr [(''capture_mode'', next_capture_mode forward (rec_capture_mode r))]
          else if i = 1 then Inl ''press Enter to edit the remembered target''
          else if i = 2 then Inl ''press Enter to remember the current selection''
          else if i = 3 then Inr []
          else Inl ''settings row is out of range''
      | VideoTab \<Rightarrow>
          if i = 0 then Inr [(''screen_fps'', step_value forward (unat (rec_screen_fps r)) 30 480 30)]
          else if i = 1 then Inr [(''fps'', step_value forward (unat (rec_fps r)) 30 480 30)]
          else if i = 2 then Inr [(''output_width'', step_value forward (unat (rec_output_width r)) 2 16384 2)]
          else if i = 3 then Inr [(''output_height'', step_value forward (unat (rec_output_height r)) 2 16384 2)]
          else Inr []
      | AudioTab \<Rightarrow>
          if i = 0 then Inr [(''desktop_audio'',
                 if rec_desktop_audio r = ''default_output'' then ''disabled'' else ''default_output'')]
          else if i = 1 then Inr [(''microphone'',
                 if rec_microphone r = ''default_input'' then ''disabled'' else ''default_input'')]
          else Inr []
      | ReplayTab \<Rightarrow>
          if i = 0 then Inr [(''replay_seconds'', step_value forward (unat (rec_replay_seconds r)) 2 3600 5)]
          else if i = 1 then Inr [(''replay_max_mib'', step_value forward (unat (rec_replay_max_mib r)) 64 8192 64)]
          else Inr [])"

text \<open>The check against the compositor's rules: each edit is applied to a copy.\<close>

fun check_edits :: "recorder \<Rightarrow> edits \<Rightarrow> (recorder, str) result" where
  "check_edits candidate [] = Inr candidate"
| "check_edits candidate ((key, v) # es) =
     (case apply_setting candidate key v of
        (Inl e, _) \<Rightarrow> Inl (key @ '': '' @ e)
      | (Inr _, candidate') \<Rightarrow> check_edits candidate' es)"

definition adjust_recorder_setting ::
  "(str \<Rightarrow> str) \<Rightarrow> recorder \<Rightarrow> settings_tab \<Rightarrow> nat \<Rightarrow> int \<Rightarrow> (edits, str) result" where
  "adjust_recorder_setting upper r tab i direction =
     (if direction = 0 then Inr []
      else if length (recorder_settings_rows upper r tab) \<le> i then Inl ''settings row is out of range''
      else bindR (row_edits r tab i (0 < direction)) (\<lambda>edits.
           bindR (check_edits r edits) (\<lambda>_. Inr edits)))"

section \<open>Sources\<close>

text \<open>\<open>lower\<close> is \<open>str::to_lowercase\<close>.\<close>

definition window_matches_settings :: "(str \<Rightarrow> str) \<Rightarrow> window_info \<Rightarrow> recorder \<Rightarrow> bool" where
  "window_matches_settings lower w r \<longleftrightarrow>
     (let app_id = lower (wi_app_id w); title = lower (wi_title w);
          remembered_app = lower (rec_window_app_id r); remembered_title = lower (rec_window_title r)
      in remembered_app \<noteq> []
           \<and> (app_id \<noteq> [] \<and> contains app_id remembered_app \<or> app_id = [] \<and> contains title remembered_app)
         \<or> remembered_title \<noteq> [] \<and> contains title remembered_title)"

definition recorder_start_blocker_for ::
  "panel_mode \<Rightarrow> recorder \<Rightarrow> bool \<Rightarrow> bool \<Rightarrow> nat \<Rightarrow> bool \<Rightarrow> str option" where
  "recorder_start_blocker_for mode r has_xwayland_window has_attach_target profile_count has_selected_profile =
     (if \<not> rec_enabled r then Some ''RECORDER DISABLED IN SETTINGS''
      else
        (case mode of
           Screen \<Rightarrow> None
         | XwaylandDirect \<Rightarrow> if has_xwayland_window then None else Some ''NO XWAYLAND WINDOW OPEN''
         | OpenGlInject \<Rightarrow> if has_attach_target then None else Some ''NO RUNNING OPENGL PROCESS FOUND''
         | _ \<Rightarrow> if profile_count = 0 \<or> \<not> has_selected_profile
                then Some ''NO MATCHING API PROFILE CONFIGURED'' else None))"

text \<open>
  A process of \<open>/proc\<close> as the picker sees it: its number, whether its directory is the user's, the
  mapped files, its name.
\<close>

record proc_entry =
  pr_name :: str
  pr_own :: bool
  pr_maps :: "str option"
  pr_comm :: "str option"

record attach_target =
  at_pid :: nat
  at_comm :: str
  at_api :: str

definition opengl_maps :: "str \<Rightarrow> bool" where
  "opengl_maps maps \<longleftrightarrow>
     list_ex (\<lambda>line. contains line ''/libGL.so'' \<or> contains line ''/libGLX.so''
        \<or> contains line ''/libOpenGL.so'' \<or> contains line ''/libEGL.so'') (split_at (CHR 0x0A) maps)"

definition attach_target_of :: "nat \<Rightarrow> proc_entry \<Rightarrow> attach_target option" where
  "attach_target_of own_pid p =
     (case (parse_u32 (pr_name p), pr_own p, pr_maps p) of
        (Some pid, True, Some maps) \<Rightarrow>
          if \<not> opengl_maps maps \<or> pid = own_pid then None
          else (let comm = (case pr_comm p of
                              None \<Rightarrow> ''java''
                            | Some v \<Rightarrow> if trim v = [] then ''java'' else trim v)
                in if comm \<in> {''wm'', ''wm-shell'', ''wm-shell-sctk''} then None
                   else Some \<lparr>at_pid = pid, at_comm = comm, at_api = ''OpenGL''\<rparr>)
      | _ \<Rightarrow> None)"

text \<open>No entries when \<open>/proc\<close> cannot be read; the sort is stable.\<close>

definition recorder_attach_targets :: "nat \<Rightarrow> proc_entry list option \<Rightarrow> attach_target list" where
  "recorder_attach_targets own_pid entries =
     (case entries of
        None \<Rightarrow> []
      | Some es \<Rightarrow> sort_key at_pid (List.map_filter (attach_target_of own_pid) es))"

section \<open>The panel\<close>

text \<open>
  The fields of \<open>App\<close> the recorder panel uses. What it sends is listed: commands by themselves, and
  lists of edits that are sent one after the other until one fails. \<open>pn_reports\<close> says whether the
  results of edits are reported back.
\<close>

record panel =
  pn_snapshot :: snapshot
  pn_selected :: nat
  pn_mode :: panel_mode
  pn_profile_selected :: nat
  pn_attach_selected :: nat
  pn_xwayland_selected :: nat
  pn_view :: recorder_view
  pn_tab :: settings_tab
  pn_row :: nat
  pn_edit :: "str option"
  pn_feedback :: "(str \<times> bool) option"
  pn_reports :: bool
  pn_restored :: bool
  pn_exit :: bool
  pn_commands :: "str list"
  pn_edits :: "edits list"

text \<open>What the panel reads besides: string cases, processes.\<close>

record panel_env =
  pv_upper :: "str \<Rightarrow> str"
  pv_lower :: "str \<Rightarrow> str"
  pv_targets :: "attach_target list"

abbreviation pn_settings :: "panel \<Rightarrow> recorder" where
  "pn_settings p \<equiv> sn_recorder_settings (pn_snapshot p)"

definition run_command :: "str \<Rightarrow> panel \<Rightarrow> panel" where
  "run_command cmd p = p\<lparr>pn_commands := pn_commands p @ [cmd]\<rparr>"

definition send_recorder_commands :: "edits \<Rightarrow> panel \<Rightarrow> panel" where
  "send_recorder_commands edits p =
     (let p' = p\<lparr>pn_feedback := None\<rparr>
      in if pn_reports p then p'\<lparr>pn_edits := pn_edits p @ [edits]\<rparr> else p')"

text \<open>With or without a report the command is run.\<close>

definition send_recorder_command_string :: "str \<Rightarrow> panel \<Rightarrow> panel" where
  "send_recorder_command_string cmd p = run_command cmd (p\<lparr>pn_feedback := None\<rparr>)"

definition apply_recorder_adjustment :: "panel_env \<Rightarrow> int \<Rightarrow> panel \<Rightarrow> panel" where
  "apply_recorder_adjustment env direction p =
     (case adjust_recorder_setting (pv_upper env) (pn_settings p) (pn_tab p) (pn_row p) direction of
        Inr edits \<Rightarrow> if edits = [] then p else send_recorder_commands edits p
      | Inl e \<Rightarrow> p\<lparr>pn_feedback := Some (e, True)\<rparr>)"

definition current_rows :: "panel_env \<Rightarrow> panel \<Rightarrow> row_display list" where
  "current_rows env p = recorder_settings_rows (pv_upper env) (pn_settings p) (pn_tab p)"

definition recorder_editable_row_kind :: "panel_env \<Rightarrow> panel \<Rightarrow> row_kind option" where
  "recorder_editable_row_kind env p =
     (case nth_opt (current_rows env p) (pn_row p) of
        None \<Rightarrow> None
      | Some r \<Rightarrow> if rd_kind r \<in> {Path, Identity, Action} then Some (rd_kind r) else None)"

definition commit_recorder_text_edit :: "panel_env \<Rightarrow> panel \<Rightarrow> panel" where
  "commit_recorder_text_edit env p =
     (case pn_edit p of
        None \<Rightarrow> p
      | Some text \<Rightarrow>
          (let p = p\<lparr>pn_edit := None\<rparr>; buffer = trim text; mode = rec_capture_mode (pn_settings p)
           in if recorder_editable_row_kind env p = Some Identity
              then (if buffer = []
                    then p\<lparr>pn_feedback := Some (''Remembered target cannot be empty'', True)\<rparr>
                    else if mode = ''screen'' \<or> mode = ''xwayland''
                    then send_recorder_commands [(''window_match'', buffer)] p
                    else if mode = ''inject'' then send_recorder_commands [(''inject_process'', buffer)] p
                    else if mode = ''opengl'' \<or> mode = ''vulkan''
                    then send_recorder_commands [(''game_profile'', buffer)] p
                    else p)
              else if buffer = []
              then p\<lparr>pn_feedback := Some (''Recording path cannot be empty'', True)\<rparr>
              else send_recorder_commands [(''output_directory'', buffer)] p))"

section \<open>Selections\<close>

definition mode_api :: "panel_mode \<Rightarrow> str option" where
  "mode_api mode = (case mode of OpenGlGame \<Rightarrow> Some ''opengl'' | VulkanGame \<Rightarrow> Some ''vulkan'' | _ \<Rightarrow> None)"

definition mode_profiles :: "panel \<Rightarrow> game_capture_profile list" where
  "mode_profiles p =
     (case mode_api (pn_mode p) of
        None \<Rightarrow> []
      | Some api \<Rightarrow> filter (\<lambda>g. gp_api g = api) (rec_game_profiles (pn_settings p)))"

definition recorder_game_profile_count :: "panel \<Rightarrow> nat" where
  "recorder_game_profile_count p = length (mode_profiles p)"

definition selected_recorder_game_profile :: "panel \<Rightarrow> game_capture_profile option" where
  "selected_recorder_game_profile p = nth_opt (mode_profiles p) (pn_profile_selected p)"

definition xwayland_windows :: "panel \<Rightarrow> window_info list" where
  "xwayland_windows p = filter (\<lambda>w. wi_x11_window w \<noteq> None) (sn_windows (pn_snapshot p))"

definition selected_recorder_xwayland_window :: "panel \<Rightarrow> window_info option" where
  "selected_recorder_xwayland_window p = nth_opt (xwayland_windows p) (pn_xwayland_selected p)"

definition selected_recorder_attach_target :: "panel_env \<Rightarrow> panel \<Rightarrow> attach_target option" where
  "selected_recorder_attach_target env p = nth_opt (pv_targets env) (pn_attach_selected p)"

definition cycle_recorder_capture_mode :: "panel_env \<Rightarrow> bool \<Rightarrow> panel \<Rightarrow> panel" where
  "cycle_recorder_capture_mode env forward p =
     (let p = p\<lparr>pn_mode := capture_mode_cycle forward (pn_mode p)\<rparr>
      in p\<lparr>pn_profile_selected := min (pn_profile_selected p) (recorder_game_profile_count p - 1),
           pn_attach_selected := min (pn_attach_selected p) (length (pv_targets env) - 1),
           pn_xwayland_selected := min (pn_xwayland_selected p) (length (xwayland_windows p) - 1)\<rparr>)"

definition window_index_for_settings :: "panel_env \<Rightarrow> panel \<Rightarrow> nat" where
  "window_index_for_settings env p =
     (let r = pn_settings p
      in if rec_window_app_id r = [] \<and> rec_window_title r = [] then 0
         else (case position (\<lambda>w. window_matches_settings (pv_lower env) w r) (sn_windows (pn_snapshot p)) of
                 Some i \<Rightarrow> i + 1 | None \<Rightarrow> 0))"

definition or_zero :: "nat option \<Rightarrow> nat" where
  "or_zero x = (case x of Some n \<Rightarrow> n | None \<Rightarrow> 0)"

definition remembered_mode :: "recorder \<Rightarrow> panel_mode" where
  "remembered_mode r =
     (let mode = rec_capture_mode r
      in if mode = ''xwayland'' then XwaylandDirect else if mode = ''inject'' then OpenGlInject
         else if mode = ''opengl'' then OpenGlGame else if mode = ''vulkan'' then VulkanGame else Screen)"

definition restore_recorder_selection :: "panel_env \<Rightarrow> panel \<Rightarrow> panel" where
  "restore_recorder_selection env p0 =
     (let r = pn_settings p0; p = p0\<lparr>pn_mode := remembered_mode r\<rparr>; lower = pv_lower env;
          p1 = (case pn_mode p of
                  Screen \<Rightarrow> p\<lparr>pn_selected := window_index_for_settings env p\<rparr>
                | XwaylandDirect \<Rightarrow>
                    p\<lparr>pn_xwayland_selected :=
                        or_zero (position (\<lambda>w. window_matches_settings lower w r) (xwayland_windows p))\<rparr>
                | OpenGlInject \<Rightarrow>
                    p\<lparr>pn_attach_selected := or_zero (position (\<lambda>t. rec_inject_process r \<noteq> []
                        \<and> contains (lower (at_comm t)) (lower (rec_inject_process r))) (pv_targets env))\<rparr>
                | _ \<Rightarrow>
                    p\<lparr>pn_profile_selected :=
                        or_zero (position (\<lambda>g. gp_name g = rec_game_profile r) (mode_profiles p))\<rparr>)
      in cycle_recorder_capture_mode env False (cycle_recorder_capture_mode env True p1))"

definition clamp_down :: "nat \<Rightarrow> bool \<Rightarrow> nat \<Rightarrow> nat" where
  "clamp_down count forward i =
     (if count = 0 then 0 else if forward then min (i + 1) (count - 1) else i - 1)"

definition move_recorder_selection :: "panel_env \<Rightarrow> bool \<Rightarrow> panel \<Rightarrow> panel" where
  "move_recorder_selection env forward p =
     (case pn_mode p of
        Screen \<Rightarrow>
          p\<lparr>pn_selected := (if forward then min (pn_selected p + 1) (length (sn_windows (pn_snapshot p)))
                             else pn_selected p - 1)\<rparr>
      | XwaylandDirect \<Rightarrow>
          p\<lparr>pn_xwayland_selected := clamp_down (length (xwayland_windows p)) forward (pn_xwayland_selected p)\<rparr>
      | OpenGlInject \<Rightarrow>
          p\<lparr>pn_attach_selected := clamp_down (length (pv_targets env)) forward (pn_attach_selected p)\<rparr>
      | _ \<Rightarrow>
          p\<lparr>pn_profile_selected := clamp_down (recorder_game_profile_count p) forward (pn_profile_selected p)\<rparr>)"

text \<open>The window of the picker: the first one when the picker is on the monitor.\<close>

definition picked_window :: "panel \<Rightarrow> window_info option" where
  "picked_window p =
     (if pn_mode p = XwaylandDirect then selected_recorder_xwayland_window p
      else nth_opt (sn_windows (pn_snapshot p)) (pn_selected p - 1))"

definition recorder_selected_window_identity :: "panel \<Rightarrow> str option" where
  "recorder_selected_window_identity p =
     (case picked_window p of
        None \<Rightarrow> None
      | Some w \<Rightarrow> if trim (wi_app_id w) \<noteq> [] then Some (wi_app_id w)
                  else if trim (wi_title w) \<noteq> [] then Some (wi_title w)
                  else None)"

definition recorder_identity_edit_seed :: "panel_env \<Rightarrow> panel \<Rightarrow> str" where
  "recorder_identity_edit_seed env p =
     (let r = pn_settings p; mode = rec_capture_mode r
      in if mode = ''screen'' \<or> mode = ''xwayland''
         then (case recorder_selected_window_identity p of
                 Some v \<Rightarrow> v | None \<Rightarrow> recorder_window_identity_placeholder r)
         else if mode = ''inject''
         then (case selected_recorder_attach_target env p of Some t \<Rightarrow> at_comm t | None \<Rightarrow> rec_inject_process r)
         else if mode = ''opengl'' \<or> mode = ''vulkan''
         then (case selected_recorder_game_profile p of Some g \<Rightarrow> gp_name g | None \<Rightarrow> rec_game_profile r)
         else [])"

definition mode_setting :: "panel_mode \<Rightarrow> str" where
  "mode_setting mode =
     (case mode of Screen \<Rightarrow> ''screen'' | XwaylandDirect \<Rightarrow> ''xwayland'' | OpenGlInject \<Rightarrow> ''inject''
      | OpenGlGame \<Rightarrow> ''opengl'' | VulkanGame \<Rightarrow> ''vulkan'')"

definition remember_current_recorder_source :: "panel_env \<Rightarrow> panel \<Rightarrow> panel" where
  "remember_current_recorder_source env p =
     (let method = (''capture_mode'', mode_setting (pn_mode p));
          complain = (\<lambda>msg. p\<lparr>pn_feedback := Some (msg, True)\<rparr>)
      in case pn_mode p of
           OpenGlInject \<Rightarrow>
             (case selected_recorder_attach_target env p of
                None \<Rightarrow> complain ''Select a process on the Controls page first''
              | Some t \<Rightarrow> send_recorder_commands [method, (''inject_process'', at_comm t)] p)
         | OpenGlGame \<Rightarrow>
             (case selected_recorder_game_profile p of
                None \<Rightarrow> complain ''Select a profile on the Controls page first''
              | Some g \<Rightarrow> send_recorder_commands [method, (''game_profile'', gp_name g)] p)
         | VulkanGame \<Rightarrow>
             (case selected_recorder_game_profile p of
                None \<Rightarrow> complain ''Select a profile on the Controls page first''
              | Some g \<Rightarrow> send_recorder_commands [method, (''game_profile'', gp_name g)] p)
         | _ \<Rightarrow>
             (case picked_window p of
                None \<Rightarrow> complain ''Select a source on the Controls page first''
              | Some w \<Rightarrow>
                  (let found = (if trim (wi_app_id w) \<noteq> [] then [(''window_match'', wi_app_id w)] else [])
                             @ (if trim (wi_title w) \<noteq> [] then [(''window_title'', wi_title w)] else [])
                   in if found = [] then complain ''That window has no app_id or title to remember''
                      else send_recorder_commands (method # found) p)))"

text \<open>A new panel, a snapshot, and the end of a worker's edits. The panel restores once.\<close>

definition panel_new :: panel where
  "panel_new =
     \<lparr>pn_snapshot = snapshot_default, pn_selected = 0, pn_mode = Screen, pn_profile_selected = 0,
      pn_attach_selected = 0, pn_xwayland_selected = 0, pn_view = Controls, pn_tab = OutputTab, pn_row = 0,
      pn_edit = None, pn_feedback = None, pn_reports = True, pn_restored = False, pn_exit = False, pn_commands = [],
      pn_edits = []\<rparr>"

definition snapshot_arrives :: "panel_env \<Rightarrow> snapshot \<Rightarrow> panel \<Rightarrow> panel" where
  "snapshot_arrives env sn p0 =
     (if pn_snapshot p0 = sn then p0
      else
        (let p = p0\<lparr>pn_snapshot := sn, pn_selected := min (pn_selected p0) (length (sn_windows sn))\<rparr>;
             p = p\<lparr>pn_row := min (pn_row p) (length (current_rows env p) - 1)\<rparr>
         in if pn_restored p then p else (restore_recorder_selection env p)\<lparr>pn_restored := True\<rparr>))"

definition settings_outcome :: "str option \<Rightarrow> panel \<Rightarrow> panel" where
  "settings_outcome outcome p =
     p\<lparr>pn_feedback := Some (case outcome of None \<Rightarrow> (''Saved'', False) | Some e \<Rightarrow> (e, True))\<rparr>"

section \<open>Starting\<close>

definition recorder_source_label :: "panel \<Rightarrow> str" where
  "recorder_source_label p =
     (case (if pn_selected p = 0 then None else nth_opt (sn_windows (pn_snapshot p)) (pn_selected p - 1)) of
        Some w \<Rightarrow> ''Window '' @ show_nat (wi_id w) @ '': '' @ wi_title w
      | None \<Rightarrow> ''Monitor / region portal picker'')"

definition recorder_selection_heading :: "panel \<Rightarrow> str" where
  "recorder_selection_heading p =
     (case pn_mode p of Screen \<Rightarrow> ''SOURCE'' | XwaylandDirect \<Rightarrow> ''WINDOW'' | OpenGlInject \<Rightarrow> ''PROCESS''
      | _ \<Rightarrow> ''PROFILE'')"

definition dotted :: "str \<Rightarrow> str \<Rightarrow> str" where
  "dotted a b = a @ ''  '' @ middle_dot @ ''  '' @ b"

definition recorder_selection_label :: "panel_env \<Rightarrow> panel \<Rightarrow> str" where
  "recorder_selection_label env p =
     (case pn_mode p of
        Screen \<Rightarrow> recorder_source_label p
      | XwaylandDirect \<Rightarrow>
          (case selected_recorder_xwayland_window p of
             None \<Rightarrow> ''No Xwayland window found''
           | Some w \<Rightarrow> dotted (''XID 0x'' @ hex_digits (unat (case wi_x11_window w of Some x \<Rightarrow> x | None \<Rightarrow> 0)))
                         (wi_title w))
      | OpenGlInject \<Rightarrow>
          (case selected_recorder_attach_target env p of
             None \<Rightarrow> ''No running OpenGL process found''
           | Some t \<Rightarrow> dotted (''PID '' @ show_nat (at_pid t)) (dotted (at_comm t) (at_api t)))
      | _ \<Rightarrow>
          (case selected_recorder_game_profile p of
             None \<Rightarrow> ''No matching game profile configured''
           | Some g \<Rightarrow> dotted (gp_name g) (show_nat (unat (gp_fps g)) @ '' FPS'')))"

definition recorder_capture_note :: "panel \<Rightarrow> str" where
  "recorder_capture_note p =
     (case pn_mode p of
        Screen \<Rightarrow> ''GAME CAPTURE  inject into a running graphics process or launch a profile''
      | XwaylandDirect \<Rightarrow> ''XWAYLAND  commit-paced compositor DMA-BUF copy; no injection or CPU pixels''
      | OpenGlInject \<Rightarrow> ''OPENGL INJECT  hooks resolved GLX/EGL presents; stopping leaves the game running''
      | OpenGlGame \<Rightarrow> ''OPENGL  starts the selected Luma launch profile and game hook''
      | VulkanGame \<Rightarrow> ''VULKAN  launches through a DMA-BUF present layer and external GPU encoder'')"

definition panel_idle :: "panel \<Rightarrow> bool" where
  "panel_idle p \<longleftrightarrow> st_state (sn_recorder (pn_snapshot p)) \<in> {Idle, Error}"

definition recorder_start_blocker :: "panel_env \<Rightarrow> panel \<Rightarrow> str option" where
  "recorder_start_blocker env p =
     (if \<not> panel_idle p then None
      else recorder_start_blocker_for (pn_mode p) (pn_settings p)
             (selected_recorder_xwayland_window p \<noteq> None) (selected_recorder_attach_target env p \<noteq> None)
             (recorder_game_profile_count p) (selected_recorder_game_profile p \<noteq> None))"

definition recorder_can_start :: "panel_env \<Rightarrow> panel \<Rightarrow> bool" where
  "recorder_can_start env p \<longleftrightarrow> panel_idle p \<and> recorder_start_blocker env p = None"

definition remembered_screen_command :: "panel_env \<Rightarrow> str \<Rightarrow> panel \<Rightarrow> str" where
  "remembered_screen_command env action p =
     (let r = pn_settings p; windows = sn_windows (pn_snapshot p)
      in if (rec_window_app_id r \<noteq> [] \<or> rec_window_title r \<noteq> [])
            \<and> list_ex (\<lambda>w. window_matches_settings (pv_lower env) w r) windows
         then ''recorder '' @ action @ '' remembered''
         else (case (if pn_selected p = 0 then None else nth_opt windows (pn_selected p - 1)) of
                 Some w \<Rightarrow> ''recorder '' @ action @ '' window '' @ show_nat (wi_id w)
               | None \<Rightarrow> ''recorder '' @ action @ '' output''))"

definition recorder_start_command :: "panel_env \<Rightarrow> panel \<Rightarrow> str option" where
  "recorder_start_command env p =
     (if \<not> panel_idle p then Some ''recorder stop''
      else
        (case pn_mode p of
           Screen \<Rightarrow> Some (remembered_screen_command env ''start'' p)
         | XwaylandDirect \<Rightarrow>
             (case selected_recorder_xwayland_window p of
                None \<Rightarrow> None
              | Some w \<Rightarrow> map_option (\<lambda>x. ''recorder xwayland-start '' @ show_nat (unat x)) (wi_x11_window w))
         | OpenGlInject \<Rightarrow>
             map_option (\<lambda>t. ''recorder game-attach '' @ show_nat (at_pid t)) (selected_recorder_attach_target env p)
         | _ \<Rightarrow> map_option (\<lambda>g. ''recorder game-start '' @ gp_name g) (selected_recorder_game_profile p)))"

definition recorder_display_fps :: "panel \<Rightarrow> u32" where
  "recorder_display_fps p =
     (let r = pn_settings p
      in case pn_mode p of
           Screen \<Rightarrow> rec_screen_fps r
         | XwaylandDirect \<Rightarrow> rec_fps r
         | OpenGlInject \<Rightarrow> rec_fps r
         | _ \<Rightarrow> (case selected_recorder_game_profile p of Some g \<Rightarrow> gp_fps g | None \<Rightarrow> rec_fps r))"

section \<open>Geometry\<close>

text \<open>Rectangles are their origin and size, in \<open>u32\<close>; they are relative to the panel.\<close>

definition recorder_panel :: "u32 \<Rightarrow> u32 \<Rightarrow> urect" where
  "recorder_panel width height =
     (let panel_w = min width 720; panel_h = min height 500
      in ((width - panel_w) div 2, (height - panel_h) div 2, panel_w, panel_h))"

definition recorder_control_button_rects :: "u32 \<Rightarrow> (urect \<times> recorder_hit) list" where
  "recorder_control_button_rects panel_w =
     (let settings_w = 150; start_x = 24 + settings_w + 8; half = (panel_w - 56) div 2
      in [((24, 370, settings_w, 42), SettingsHit),
          ((start_x, 370, sat_sub32 panel_w (start_x + 24), 42), StartStop),
          ((24, 420, half, 38), PauseHit),
          ((24 + half + 8, 420, sat_sub32 panel_w (24 + half + 8 + 24), 38), ReplaySave)])"

definition recorder_settings_tab_rect :: "nat \<Rightarrow> urect" where
  "recorder_settings_tab_rect i = (24, 104 + of_nat i * 46, 196, 42)"

definition recorder_settings_reset_rect :: urect where
  "recorder_settings_reset_rect = (24, 420, 196, 40)"

definition recorder_settings_close_rect :: "u32 \<Rightarrow> urect" where
  "recorder_settings_close_rect panel_w = (sat_sub32 panel_w 56, 26, 30, 30)"

definition recorder_settings_row_rect :: "nat \<Rightarrow> u32 \<Rightarrow> urect" where
  "recorder_settings_row_rect i panel_w =
     (let content_x = 244 in (content_x, 104 + of_nat i * 52, sat_sub32 panel_w (content_x + 24), 46))"

definition recorder_settings_widget_rects :: "urect \<Rightarrow> urect \<times> urect \<times> urect" where
  "recorder_settings_widget_rects r =
     (case r of (x, y, w, h) \<Rightarrow>
        (let widget_w = 240; wx = x + sat_sub32 w widget_w; wy = y + sat_sub32 h 34 div 2
         in ((wx, wy, 34, 34), (wx + 42, wy, sat_sub32 widget_w 84, 34), (wx + sat_sub32 widget_w 34, wy, 34, 34))))"

definition inside :: "u32 \<times> u32 \<Rightarrow> u32 \<times> u32 \<Rightarrow> urect \<Rightarrow> bool" where
  "inside origin pointer r \<longleftrightarrow>
     (case (origin, pointer, r) of ((px, py), (x, y), (rx', ry', rw', rh')) \<Rightarrow>
        sat_add32 px rx' \<le> x \<and> x < sat_add32 px (sat_add32 rx' rw')
        \<and> sat_add32 py ry' \<le> y \<and> y < sat_add32 py (sat_add32 ry' rh'))"

text \<open>A click on the panel; \<open>surface\<close> is the size of the recorder's surface, if there is one.\<close>

definition settings_hit :: "panel_env \<Rightarrow> (urect \<Rightarrow> bool) \<Rightarrow> u32 \<Rightarrow> panel \<Rightarrow> recorder_hit option" where
  "settings_hit env hit panel_w p =
     (if hit (recorder_settings_close_rect panel_w) then Some CloseSettings
      else (case List.find (\<lambda>i. hit (recorder_settings_tab_rect i)) [0..<length all_tabs] of
              Some i \<Rightarrow> Some (TabHit i)
            | None \<Rightarrow>
                if hit recorder_settings_reset_rect then Some ResetSettings
                else (let rows = current_rows env p
                      in case List.find (\<lambda>i. hit (recorder_settings_row_rect i panel_w)) [0..<length rows] of
                           None \<Rightarrow> None
                         | Some i \<Rightarrow>
                             (case recorder_settings_widget_rects (recorder_settings_row_rect i panel_w) of
                                (dec, _, inc) \<Rightarrow>
                                  if rd_kind (rows ! i) \<in> {Cycle, Step}
                                  then Some (RowHit i (if hit dec then Dec else if hit inc then Inc else Value))
                                  else Some (RowHit i Value)))))"

definition recorder_hit_at :: "panel_env \<Rightarrow> (u32 \<times> u32) option \<Rightarrow> u32 \<times> u32 \<Rightarrow> panel \<Rightarrow> recorder_hit option" where
  "recorder_hit_at env surface pointer p =
     (case surface of
        None \<Rightarrow> None
      | Some (width, height) \<Rightarrow>
          (case recorder_panel width height of
             (px, py, panel_w, _) \<Rightarrow>
               if pn_view p = Settings then settings_hit env (inside (px, py) pointer) panel_w p
               else map_option snd (List.find (\<lambda>(r, _). inside (px, py) pointer r) (recorder_control_button_rects panel_w))))"

section \<open>Clicks and keys\<close>

definition start_or_stop :: "panel_env \<Rightarrow> panel \<Rightarrow> panel" where
  "start_or_stop env p =
     (if \<not> panel_idle p then (run_command ''recorder stop'' p)\<lparr>pn_exit := True\<rparr>
      else if recorder_can_start env p
      then (case recorder_start_command env p of
              Some cmd \<Rightarrow> (run_command cmd p)\<lparr>pn_exit := True\<rparr>
            | None \<Rightarrow> p)
      else p)"

definition clamp_row :: "panel_env \<Rightarrow> panel \<Rightarrow> panel" where
  "clamp_row env p = p\<lparr>pn_row := min (pn_row p) (length (current_rows env p) - 1)\<rparr>"

definition activate_row :: "panel_env \<Rightarrow> nat \<Rightarrow> row_part \<Rightarrow> panel \<Rightarrow> panel" where
  "activate_row env i part p0 =
     (let rows = current_rows env p0; p = p0\<lparr>pn_row := i\<rparr>
      in if length rows \<le> i then p\<lparr>pn_row := length rows - 1\<rparr>
         else (case rd_kind (rows ! i) of
                 Toggle \<Rightarrow> apply_recorder_adjustment env 1 p
               | Path \<Rightarrow> p\<lparr>pn_edit := Some (rec_output_directory (pn_settings p))\<rparr>
               | Identity \<Rightarrow> p\<lparr>pn_edit := Some (recorder_identity_edit_seed env p)\<rparr>
               | Action \<Rightarrow> remember_current_recorder_source env p
               | Info \<Rightarrow> p
               | _ \<Rightarrow> apply_recorder_adjustment env (if part = Dec then - 1 else 1) p))"

definition activate_recorder_hit :: "panel_env \<Rightarrow> recorder_hit option \<Rightarrow> panel \<Rightarrow> panel" where
  "activate_recorder_hit env hit p =
     (case hit of
        None \<Rightarrow> p
      | Some StartStop \<Rightarrow> start_or_stop env p
      | Some PauseHit \<Rightarrow> if \<not> panel_idle p then run_command ''recorder pause'' p else p
      | Some ReplaySave \<Rightarrow> if \<not> panel_idle p then run_command ''recorder replay-save'' p else p
      | Some SettingsHit \<Rightarrow> p\<lparr>pn_view := Settings\<rparr>
      | Some CloseSettings \<Rightarrow> p\<lparr>pn_view := Controls\<rparr>
      | Some ResetSettings \<Rightarrow> send_recorder_command_string ''recorder settings-reset'' p
      | Some (TabHit i) \<Rightarrow>
          (case nth_opt all_tabs i of
             None \<Rightarrow> p
           | Some tab \<Rightarrow> (clamp_row env (p\<lparr>pn_tab := tab\<rparr>))\<lparr>pn_edit := None\<rparr>)
      | Some (RowHit i part) \<Rightarrow> activate_row env i part p)"

text \<open>The keys the panel knows, and any other key with the text it types.\<close>

datatype keysym = Escape | Tab | Up | Down | Left | Right | Return | BackSpace | Space | Other "str option"

definition settings_key :: "panel_env \<Rightarrow> keysym \<Rightarrow> panel \<Rightarrow> panel" where
  "settings_key env key p =
     (case key of
        Escape \<Rightarrow> if pn_edit p = None then p\<lparr>pn_view := Controls\<rparr> else p\<lparr>pn_edit := None\<rparr>
      | Tab \<Rightarrow> (clamp_row env (p\<lparr>pn_tab := tab_cycle True (pn_tab p)\<rparr>))\<lparr>pn_edit := None\<rparr>
      | Up \<Rightarrow> p\<lparr>pn_row := pn_row p - 1, pn_edit := None\<rparr>
      | Down \<Rightarrow> (clamp_row env (p\<lparr>pn_row := pn_row p + 1\<rparr>))\<lparr>pn_edit := None\<rparr>
      | Left \<Rightarrow> apply_recorder_adjustment env (- 1) p
      | Right \<Rightarrow> apply_recorder_adjustment env 1 p
      | Return \<Rightarrow>
          if pn_edit p \<noteq> None then commit_recorder_text_edit env p
          else (case recorder_editable_row_kind env p of
                  Some Path \<Rightarrow> p\<lparr>pn_edit := Some (rec_output_directory (pn_settings p))\<rparr>
                | Some Identity \<Rightarrow> p\<lparr>pn_edit := Some (recorder_identity_edit_seed env p)\<rparr>
                | Some Action \<Rightarrow> remember_current_recorder_source env p
                | _ \<Rightarrow> apply_recorder_adjustment env 1 p)
      | BackSpace \<Rightarrow> p\<lparr>pn_edit := map_option pop_char (pn_edit p)\<rparr>
      | Space \<Rightarrow> p
      | Other typed \<Rightarrow>
          (case (pn_edit p, typed) of
             (Some buffer, Some text) \<Rightarrow> p\<lparr>pn_edit := Some (buffer @ text)\<rparr>
           | _ \<Rightarrow> p))"

definition controls_key :: "panel_env \<Rightarrow> keysym \<Rightarrow> panel \<Rightarrow> panel" where
  "controls_key env key p =
     (case key of
        Escape \<Rightarrow> p\<lparr>pn_exit := True\<rparr>
      | Tab \<Rightarrow> clamp_row env (p\<lparr>pn_view := Settings\<rparr>)
      | Return \<Rightarrow> start_or_stop env p
      | Left \<Rightarrow> cycle_recorder_capture_mode env False p
      | Right \<Rightarrow> cycle_recorder_capture_mode env True p
      | Up \<Rightarrow> move_recorder_selection env False p
      | Down \<Rightarrow> move_recorder_selection env True p
      | Space \<Rightarrow> run_command ''recorder pause'' p
      | _ \<Rightarrow> p)"

definition recorder_key :: "panel_env \<Rightarrow> keysym \<Rightarrow> panel \<Rightarrow> panel" where
  "recorder_key env key p = (if pn_view p = Settings then settings_key env key p else controls_key env key p)"

end
