(* ===== verification/PanelProofs.thy ===== *)
theory PanelProofs
  imports RecorderPanel Session
begin

text \<open>
  The recorder panel and the compositor behind it: an adjustment the panel accepts is the one the
  compositor makes, on every row; what the panel restores of a remembered source; what it starts.
\<close>

section \<open>Commands that carry an edit\<close>

lemma ws_len_rev_blank: "ws_len_rev r = 0 \<Longrightarrow> r \<noteq> [] \<Longrightarrow> ws_len_rev (r @ CHR '' '' # t) = 0"
proof -
  assume fixed: "ws_len_rev r = 0" and ne: "r \<noteq> []"
  have blank: "x = [CHR '' '']" if "is_ws x" "CHR '' '' \<in> set x" for x
    using that by (auto simp: is_ws_def)
  have "\<not> is_ws (rev (take k (r @ CHR '' '' # t)))" if "\<not> is_ws (rev (take k r))" for k
  proof (cases "k \<le> length r")
    case True
    with that show ?thesis by simp
  next
    case False
    then obtain j where "k = Suc (length r + j)" using less_imp_Suc_add [of "length r" k] by auto
    then have "rev (take k (r @ CHR '' '' # t)) = rev (take j t) @ CHR '' '' # rev r" by simp
    moreover have "\<not> is_ws (rev (take j t) @ CHR '' '' # rev r)"
      using blank [of "rev (take j t) @ CHR '' '' # rev r"] ne by (auto simp: append_eq_Cons_conv)
    ultimately show ?thesis by (simp only: not_False_eq_True)
  qed
  with fixed show ?thesis by (auto simp: ws_len_rev_def split: if_splits)
qed

lemma trimmed_end: "trim v = v \<Longrightarrow> ws_len_rev (rev v) = 0"
  by (metis rev_rev_ident trim_def trim_end_def trim_rev_fixed)

lemma trim_edit:
  "list_all ascii_graphic key \<Longrightarrow> key \<noteq> [] \<Longrightarrow> trim v = v \<Longrightarrow> v \<noteq> []
   \<Longrightarrow> trim (key @ CHR '' '' # v) = key @ CHR '' '' # v"
proof -
  assume key: "list_all ascii_graphic key" "key \<noteq> []" and v: "trim v = v" "v \<noteq> []"
  have "ws_len (key @ CHR '' '' # v) = 0" using key by (cases key) (simp_all add: ws_len_graphic_hd)
  moreover have "ws_len_rev (rev (key @ CHR '' '' # v)) = 0"
    using ws_len_rev_blank [OF trimmed_end [OF v(1)]] v(2) by simp
  ultimately show ?thesis by (simp add: trim_def trim_start_id trim_end_id)
qed

text \<open>An edit as the panel sends it: a known key, and a value without blanks around it.\<close>

definition edit_ok :: "str \<times> str \<Rightarrow> bool" where
  "edit_ok e \<longleftrightarrow> fst e \<in> set setting_keys \<and> snd e \<noteq> [] \<and> trim (snd e) = snd e"

lemma setting_key_graphic: "key \<in> set setting_keys \<Longrightarrow> list_all ascii_graphic key \<and> key \<noteq> []"
  by (auto simp: setting_keys_def ascii_graphic_def)

lemma blank_not_in_key: "list_all ascii_graphic key \<Longrightarrow> CHR '' '' \<notin> set key"
  by (auto simp: list_all_iff ascii_graphic_def)

section \<open>The worker that sends the edits\<close>

text \<open>
  The thread of \<open>send_recorder_commands\<close> with the compositor behind the socket: one command after
  the other, until one fails.
\<close>

fun run_edits :: "command_env \<Rightarrow> edits \<Rightarrow> shell_state \<Rightarrow> ((unit, str) result \<times> shell_state) option" where
  "run_edits env [] s = Some (Inr (), s)"
| "run_edits env ((key, v) # es) s =
     (case channel_message env (''recorder set '' @ key @ '' '' @ v) s of
        None \<Rightarrow> None
      | Some (Inl e, s') \<Rightarrow> Some (Inl e, s')
      | Some (Inr _, s') \<Rightarrow> run_edits env es s')"

abbreviation live_settings :: "shell_state \<Rightarrow> recorder" where
  "live_settings s \<equiv> cf_recorder (dk_config (ss_desktop s))"

text \<open>The compositor can store settings: no write fails, and the settings have a text.\<close>

definition stores :: "command_env \<Rightarrow> bool" where
  "stores env \<longleftrightarrow> ce_fault env = NoFault \<and> (\<forall>r. is_ok (ce_to_toml env r))"

lemma record_set_edit:
  assumes "edit_ok (key, v)" "stores env"
  shows "\<exists>s'. record_set env (key @ CHR '' '' # v) s
      = (map_sum id (\<lambda>_. ()) (fst (apply_setting (live_settings s) key v)), s')
    \<and> live_settings s' = snd (apply_setting (live_settings s) key v) \<and> ss_locked s' = ss_locked s"
proof -
  from assms(1) have key: "list_all ascii_graphic key" "key \<noteq> []" and v: "trim v = v" "v \<noteq> []"
    using setting_key_graphic by (auto simp: edit_ok_def)
  have parsed: "split_once (CHR '' '') (trim (key @ CHR '' '' # v)) = Some (key, v)"
    by (simp add: trim_edit [OF key v] split_once_Some blank_not_in_key [OF key(1)])
  have stored: "\<exists>files. write_recorder_settings (ce_to_toml env) (ce_fault env) path r fs = (Inr (), files)" for path r fs
    using assms(2) by (auto simp: stores_def write_recorder_settings_def Let_def is_ok_def split: sum.splits)
  consider (rejected) e where "apply_setting (live_settings s) key v = (Inl e, live_settings s)"
    | (accepted) r' c where "apply_setting (live_settings s) key v = (Inr c, r')"
    by (cases rule: apply_setting_cases [of "live_settings s" key v]) blast+
  then show ?thesis
  proof cases
    case rejected
    then show ?thesis by (simp add: record_set_def parsed key v trim_graphic)
  next
    case accepted
    obtain files where "write_recorder_settings (ce_to_toml env) (ce_fault env)
        (recorder_settings_path (mc_env (ce_machine env))) r' (ss_files s) = (Inr (), files)"
      using stored by blast
    with accepted show ?thesis by (simp add: record_set_def parsed key v trim_graphic Let_def)
  qed
qed

lemma split_word: "CHR '' '' \<notin> set w \<Longrightarrow> split_once (CHR '' '') (w @ CHR '' '' # x) = Some (w, x)"
  by (simp add: split_once_Some)

lemma edit_arrives:
  "\<not> ss_locked s \<Longrightarrow> desktop_command env (''recorder set '' @ key @ '' '' @ v) s
     = Some (mark_dirty False (record_set env (key @ CHR '' '' # v) s))"
proof -
  assume unlocked: "\<not> ss_locked s"
  have outer: "split_once (CHR '' '') (''recorder set '' @ key @ '' '' @ v) = Some (''recorder'', ''set '' @ key @ '' '' @ v)"
    by (simp add: split_once_Some)
  have inner: "split_once (CHR '' '') (''set '' @ key @ '' '' @ v) = Some (''set'', key @ CHR '' '' # v)"
    by (simp add: split_once_Some)
  have verb: "''recorder'' \<noteq> ''status''" "''recorder'' \<noteq> ''performance''" "''recorder'' \<noteq> ''terminal''"
    "''recorder'' \<noteq> ''launcher''" "''set '' @ key @ '' '' @ v \<noteq> []"
    "''set'' \<noteq> ''status''" "''set'' \<noteq> ''start''" "''set'' \<noteq> ''game-start''" "''set'' \<noteq> ''game-attach''"
    "''set'' \<noteq> ''xwayland-start''" "''set'' \<noteq> ''replay-start''" "''set'' \<noteq> ''stop''" "''set'' \<noteq> ''toggle''"
    "''set'' \<noteq> ''pause''" "''set'' \<noteq> ''replay-save''"
    by simp_all
  have "recorder_command env (''set '' @ key @ '' '' @ v) s = mark_dirty False (record_set env (key @ CHR '' '' # v) s)"
    unfolding recorder_command_def inner Let_def
    by (simp only: verb simp_thms prod.case option.case if_True if_False)
  then show ?thesis
    unfolding desktop_command_def outer Let_def
    by (simp only: unlocked verb simp_thms prod.case option.case if_True if_False)
qed

lemma mark_dirty_result: "mark_dirty b (map_sum id (\<lambda>_. ()) x, s')
    = (map_sum id (\<lambda>_. ()) x, if is_ok x then with_desktop (\<lambda>d. d\<lparr>dk_dirty := True, dk_redraw := dk_redraw d \<or> b\<rparr>) s' else s')"
  by (cases x) (simp_all add: mark_dirty_def is_ok_def)

lemma edit_command:
  assumes "session_ok s" "\<not> ss_locked s" "edit_ok (key, v)" "stores env"
  shows "\<exists>s'. channel_message env (''recorder set '' @ key @ '' '' @ v) s
      = Some (map_sum id (\<lambda>_. ()) (fst (apply_setting (live_settings s) key v)), s')
    \<and> live_settings s' = snd (apply_setting (live_settings s) key v) \<and> session_ok s' \<and> \<not> ss_locked s'"
proof -
  obtain s1 where set: "record_set env (key @ CHR '' '' # v) s
      = (map_sum id (\<lambda>_. ()) (fst (apply_setting (live_settings s) key v)), s1)"
    and s1: "live_settings s1 = snd (apply_setting (live_settings s) key v)" "ss_locked s1 = ss_locked s"
    using record_set_edit [OF assms(3,4)] by blast
  define s2 where "s2 = snd (mark_dirty False (record_set env (key @ CHR '' '' # v) s))"
  have dispatched: "desktop_command env (''recorder set '' @ key @ '' '' @ v) s
      = Some (map_sum id (\<lambda>_. ()) (fst (apply_setting (live_settings s) key v)), s2)"
    by (simp add: edit_arrives [OF assms(2), simplified] s2_def set mark_dirty_result)
  have s2: "session_ok s2" by (rule desktop_command_ok [OF assms(1) dispatched])
  have same: "live_settings s2 = live_settings s1" "ss_locked s2 = ss_locked s1"
    by (simp_all add: s2_def set mark_dirty_result)
  note ok = session_okD [OF s2]
  note eff = pass_effect [OF refl ok(3,1), where env = "ce_pass env"]
  show ?thesis
    using dispatched maintain_ok [OF s2, of "ce_pass env"] s1 same assms(2)
    by (simp add: channel_message_def eff(3,5))
qed

text \<open>The compositor's run of the edits decides what the panel's check decides.\<close>

lemma run_edits_checked:
  "session_ok s \<Longrightarrow> \<not> ss_locked s \<Longrightarrow> stores env \<Longrightarrow> list_all edit_ok es \<Longrightarrow>
   \<exists>r s'. run_edits env es s = Some (r, s') \<and> session_ok s' \<and> \<not> ss_locked s' \<and>
     (case check_edits (live_settings s) es of
        Inr settings \<Rightarrow> r = Inr () \<and> live_settings s' = settings
      | Inl e \<Rightarrow> \<exists>key reason. r = Inl reason \<and> e = key @ '': '' @ reason)"
proof (induction es arbitrary: s)
  case Nil
  then show ?case by simp
next
  case (Cons e es)
  obtain key v where e: "e = (key, v)" by fastforce
  with Cons.prems(4) have "edit_ok (key, v)" "list_all edit_ok es" by simp_all
  then obtain s1 where s1: "channel_message env (''recorder set '' @ key @ '' '' @ v) s
      = Some (map_sum id (\<lambda>_. ()) (fst (apply_setting (live_settings s) key v)), s1)"
      "live_settings s1 = snd (apply_setting (live_settings s) key v)" "session_ok s1" "\<not> ss_locked s1"
    using edit_command [OF Cons.prems(1,2) _ Cons.prems(3)] by blast
  show ?case
  proof (cases "apply_setting (live_settings s) key v")
    case (Pair a r')
    show ?thesis
    proof (cases a)
      case (Inl reason)
      with Pair s1 show ?thesis by (simp add: e)
    next
      case (Inr c)
      with Pair s1 have "live_settings s1 = r'" by simp
      with Cons.IH [OF s1(3,4) Cons.prems(3) \<open>list_all edit_ok es\<close>] Inr Pair s1(1)
      show ?thesis by (simp add: e)
    qed
  qed
qed

section \<open>Every row\<close>

text \<open>Edits that are well formed and that the panel's check accepts.\<close>

definition accepted_edits :: "recorder \<Rightarrow> edits \<Rightarrow> bool" where
  "accepted_edits r es \<longleftrightarrow> list_all edit_ok es \<and> is_ok (check_edits r es)"

lemma accepted_Nil: "accepted_edits r []"
  by (simp add: accepted_edits_def is_ok_def)

lemma accepted_Cons:
  "key \<in> set setting_keys \<Longrightarrow> v \<noteq> [] \<Longrightarrow> trim v = v \<Longrightarrow> assign r key v = Inr (r', c) \<Longrightarrow>
   validate_recorder r' = Inr () \<Longrightarrow> accepted_edits r' es \<Longrightarrow> accepted_edits r ((key, v) # es)"
  by (simp add: accepted_edits_def edit_ok_def apply_setting_def)

lemma trim_shown: "trim (show_nat n) = show_nat n"
  by (rule trim_graphic) (auto simp: list_all_iff dest!: show_nat_digits intro: to_digit_graphic)

lemma step_value_cases:
  assumes "lo \<le> current" "current \<le> hi" "hi \<le> u64_max"
  obtains n where "step_value forward current lo hi amount = show_nat n" "lo \<le> n" "n \<le> hi"
    "even current \<Longrightarrow> even amount \<Longrightarrow> even lo \<Longrightarrow> even hi \<Longrightarrow> even n"
proof
  let ?n = "if forward then min (sat64 (current + amount)) hi else max (current - amount) lo"
  show "step_value forward current lo hi amount = show_nat ?n" by (simp add: step_value_def)
  show "lo \<le> ?n" "?n \<le> hi" using assms by (auto simp: sat64_def)
  show "even ?n" if "even current" "even amount" "even lo" "even hi"
    using that assms by (auto simp: sat64_def min_def max_def)
qed

lemma parse_ranged_shown: "lo \<le> n \<Longrightarrow> n \<le> hi \<Longrightarrow> hi \<le> u64_max \<Longrightarrow> parse_ranged (show_nat n) name lo hi = Inr n"
  by (simp add: parse_ranged_Inr parse_u64_def parse_show_uint)

lemma accepted_step:
  assumes "lo \<le> current" "current \<le> hi" "hi \<le> u64_max" "key \<in> set setting_keys"
    and "\<And>v. assign r key v = map_sum id (\<lambda>n. (upd n, trim v)) (parse_ranged v name lo hi)"
    and "\<And>n. lo \<le> n \<Longrightarrow> n \<le> hi \<Longrightarrow> (even current \<Longrightarrow> even amount \<Longrightarrow> even lo \<Longrightarrow> even hi \<Longrightarrow> even n)
           \<Longrightarrow> validate_recorder (upd n) = Inr ()"
  shows "accepted_edits r [(key, step_value forward current lo hi amount)]"
proof -
  obtain n where n: "step_value forward current lo hi amount = show_nat n" "lo \<le> n" "n \<le> hi"
    "even current \<Longrightarrow> even amount \<Longrightarrow> even lo \<Longrightarrow> even hi \<Longrightarrow> even n"
    using step_value_cases [OF assms(1-3)] by blast
  have "assign r key (show_nat n) = Inr (upd n, trim (show_nat n))"
    by (simp add: assms(5) parse_ranged_shown [OF n(2,3) assms(3)])
  from accepted_Cons [OF assms(4) show_nat_ne trim_shown this assms(6) [OF n(2-4)] accepted_Nil]
  show ?thesis by (simp add: n(1))
qed

lemma validate_recorder_iff:
  "validate_recorder r = Inr () \<longleftrightarrow> \<not> recorder_limits_broken r \<and> game_profiles_ok [] (rec_game_profiles r)"
  by (simp add: validate_recorder_def)

lemma key_known:
  "''quality'' \<in> set setting_keys" "''screen_fps'' \<in> set setting_keys" "''fps'' \<in> set setting_keys"
  "''output_width'' \<in> set setting_keys" "''output_height'' \<in> set setting_keys"
  "''replay_seconds'' \<in> set setting_keys" "''replay_max_mib'' \<in> set setting_keys"
  "''hdr'' \<in> set setting_keys" "''cursor'' \<in> set setting_keys" "''codec'' \<in> set setting_keys"
  "''capture_mode'' \<in> set setting_keys" "''desktop_audio'' \<in> set setting_keys" "''microphone'' \<in> set setting_keys"
  by (simp_all add: setting_keys_def)

lemma word_limits:
  "n \<le> 16384 \<Longrightarrow> unat (of_nat n :: u32) = n" "n \<le> 51 \<Longrightarrow> unat (of_nat n :: u8) = n"
  by (simp_all add: unat_of_nat take_bit_nat_eq_self_iff)

lemma word_not_zero: "n \<le> 16384 \<Longrightarrow> (of_nat n :: u32) = 0 \<longleftrightarrow> n = 0"
proof -
  assume n: "n \<le> 16384"
  have "(of_nat n :: u32) = 0 \<longleftrightarrow> unat (of_nat n :: u32) = 0" by (rule unat_eq_zero [symmetric])
  then show ?thesis by (simp only: word_limits(1) [OF n])
qed

lemmas limits = word_not_zero validate_recorder_iff recorder_limits_broken_def word_le_nat_alt word_less_nat_alt word_limits
  unat_eq_zero

lemma steps_accepted:
  assumes "validate_recorder r = Inr ()"
  shows "accepted_edits r [(''quality'', step_value f (unat (rec_quality r)) 1 51 1)]"
    and "accepted_edits r [(''screen_fps'', step_value f (unat (rec_screen_fps r)) 30 480 30)]"
    and "accepted_edits r [(''fps'', step_value f (unat (rec_fps r)) 30 480 30)]"
    and "accepted_edits r [(''output_width'', step_value f (unat (rec_output_width r)) 2 16384 2)]"
    and "accepted_edits r [(''output_height'', step_value f (unat (rec_output_height r)) 2 16384 2)]"
    and "accepted_edits r [(''replay_seconds'', step_value f (unat (rec_replay_seconds r)) 2 3600 5)]"
    and "accepted_edits r [(''replay_max_mib'', step_value f (unat (rec_replay_max_mib r)) 64 8192 64)]"
proof -
  from assms have ok: "\<not> recorder_limits_broken r" "game_profiles_ok [] (rec_game_profiles r)"
    by (simp_all add: validate_recorder_iff)
  note lim = ok(1) [unfolded recorder_limits_broken_def word_le_nat_alt word_less_nat_alt]
  have big: "51 \<le> u64_max" "480 \<le> u64_max" "16384 \<le> u64_max" "3600 \<le> u64_max" "8192 \<le> u64_max"
    by (simp_all add: u64_max_def)
  have wide: "2 \<le> unat (rec_output_width r)" "2 \<le> unat (rec_output_height r)"
    using lim by (auto simp: unat_eq_zero [symmetric])
  show "accepted_edits r [(''quality'', step_value f (unat (rec_quality r)) 1 51 1)]"
    by (rule accepted_step [OF _ _ big(1) key_known(1) assign_simps(6)]) (use lim ok in \<open>auto simp: limits\<close>)
  show "accepted_edits r [(''screen_fps'', step_value f (unat (rec_screen_fps r)) 30 480 30)]"
    by (rule accepted_step [OF _ _ big(2) key_known(2) assign_simps(4)]) (use lim ok in \<open>auto simp: limits\<close>)
  show "accepted_edits r [(''fps'', step_value f (unat (rec_fps r)) 30 480 30)]"
    by (rule accepted_step [OF _ _ big(2) key_known(3) assign_simps(5)]) (use lim ok in \<open>auto simp: limits\<close>)
  show "accepted_edits r [(''output_width'', step_value f (unat (rec_output_width r)) 2 16384 2)]"
    by (rule accepted_step [OF _ _ big(3) key_known(4) assign_simps(7)]) (use lim ok wide in \<open>auto simp: limits\<close>)
  show "accepted_edits r [(''output_height'', step_value f (unat (rec_output_height r)) 2 16384 2)]"
    by (rule accepted_step [OF _ _ big(3) key_known(5) assign_simps(8)]) (use lim ok wide in \<open>auto simp: limits\<close>)
  show "accepted_edits r [(''replay_seconds'', step_value f (unat (rec_replay_seconds r)) 2 3600 5)]"
    by (rule accepted_step [OF _ _ big(4) key_known(6) assign_simps(9)]) (use lim ok in \<open>auto simp: limits\<close>)
  show "accepted_edits r [(''replay_max_mib'', step_value f (unat (rec_replay_max_mib r)) 64 8192 64)]"
    by (rule accepted_step [OF _ _ big(5) key_known(7) assign_simps(10)]) (use lim ok in \<open>auto simp: limits\<close>)
qed

text \<open>The rows that are not adjusted this way: the text fields, and HDR without HEVC.\<close>

definition refused_row :: "recorder \<Rightarrow> settings_tab \<Rightarrow> nat \<Rightarrow> bool" where
  "refused_row r tab i \<longleftrightarrow>
     tab = OutputTab \<and> (i = 4 \<or> i = 5 \<or> i = 2 \<and> \<not> rec_hdr r \<and> recorder.rec_codec r = ''h264'')
     \<or> tab = CaptureTab \<and> (i = 1 \<or> i = 2)"

lemma bool_texts: "trim ''true'' = ''true''" "trim ''false'' = ''false''" "parse_bool ''true'' = Inr True" "parse_bool ''false'' = Inr False"
  by (simp_all add: trim_graphic ascii_graphic_def parse_bool_def parse_bool_str_def)

lemma audio_texts: "trim ''disabled'' = ''disabled''" "trim ''default_output'' = ''default_output''"
  "trim ''default_input'' = ''default_input''"
  by (rule trim_graphic, simp add: ascii_graphic_def)+

lemma switches_accepted:
  assumes "validate_recorder r = Inr ()"
  shows "accepted_edits r [(''cursor'', bool_text b)]"
    and "b = False \<or> recorder.rec_codec r = ''hevc'' \<Longrightarrow> accepted_edits r [(''hdr'', bool_text b)]"
    and "b \<Longrightarrow> recorder.rec_codec r = ''h264'' \<Longrightarrow> \<not> is_ok (check_edits r [(''hdr'', bool_text b)])"
    and "accepted_edits r [(''codec'', ''hevc'')]"
    and "\<not> rec_hdr r \<Longrightarrow> accepted_edits r [(''codec'', ''h264'')]"
    and "accepted_edits r [(''hdr'', ''false''), (''codec'', ''h264'')]"
    and "accepted_edits r [(''desktop_audio'', if on then ''disabled'' else ''default_output'')]"
    and "accepted_edits r [(''microphone'', if on then ''disabled'' else ''default_input'')]"
proof -
  from assms have ok: "\<not> recorder_limits_broken r" "game_profiles_ok [] (rec_game_profiles r)"
    by (simp_all add: validate_recorder_iff)
  note sim = accepted_edits_def edit_ok_def apply_setting_def key_known bool_texts audio_texts literal_trims
    assign_simps bool_text_def is_ok_def validate_recorder_def recorder_limits_broken_def
  note all = ok [unfolded recorder_limits_broken_def]
  show "accepted_edits r [(''cursor'', bool_text b)]" using all by (cases b) (simp_all add: sim)
  show "accepted_edits r [(''hdr'', bool_text b)]" if "b = False \<or> recorder.rec_codec r = ''hevc''"
    using all that by (cases b) (simp_all add: sim)
  show "\<not> is_ok (check_edits r [(''hdr'', bool_text b)])" if "b" "recorder.rec_codec r = ''h264''"
    using that by (simp add: apply_setting_def assign_simps bool_text_def bool_texts validate_recorder_def
        recorder_limits_broken_def is_ok_def)
  show "accepted_edits r [(''codec'', ''hevc'')]" using all by (simp add: sim)
  show "accepted_edits r [(''codec'', ''h264'')]" if "\<not> rec_hdr r" using all that by (simp add: sim)
  show "accepted_edits r [(''hdr'', ''false''), (''codec'', ''h264'')]" using all by (simp add: sim)
  show "accepted_edits r [(''desktop_audio'', if on then ''disabled'' else ''default_output'')]"
    using all by (cases on) (simp_all add: sim)
  show "accepted_edits r [(''microphone'', if on then ''disabled'' else ''default_input'')]"
    using all by (cases on) (simp_all add: sim)
qed

lemma mode_accepted:
  assumes "validate_recorder r = Inr ()"
  shows "accepted_edits r [(''capture_mode'', next_capture_mode f mode)]"
proof -
  from assms have ok: "\<not> recorder_limits_broken r" "game_profiles_ok [] (rec_game_profiles r)"
    by (simp_all add: validate_recorder_iff)
  let ?modes = "[''screen'', ''xwayland'', ''inject'', ''opengl'', ''vulkan'']"
  have "next_capture_mode f mode \<in> set ?modes"
    unfolding next_capture_mode_def Let_def by (rule nth_mem) simp
  then have known: "next_capture_mode f mode \<in> set capture_modes"
    by (auto simp: capture_modes_def)
  have "assign r ''capture_mode'' (next_capture_mode f mode)
      = Inr (r\<lparr>rec_capture_mode := next_capture_mode f mode\<rparr>, trim (next_capture_mode f mode))"
    by (simp add: assign_simps known)
  moreover have "validate_recorder (r\<lparr>rec_capture_mode := next_capture_mode f mode\<rparr>) = Inr ()"
    using ok known by (simp add: validate_recorder_iff recorder_limits_broken_def)
  moreover have "next_capture_mode f mode \<noteq> []" using known by (auto simp: capture_modes_def)
  ultimately show ?thesis
    using accepted_Cons [OF key_known(11) _ capture_mode_trim [OF known]] accepted_Nil by blast
qed

definition row_count :: "settings_tab \<Rightarrow> nat" where
  "row_count tab = (case tab of OutputTab \<Rightarrow> 6 | CaptureTab \<Rightarrow> 4 | VideoTab \<Rightarrow> 5 | AudioTab \<Rightarrow> 3 | ReplayTab \<Rightarrow> 3)"

lemma length_rows [simp]: "length (recorder_settings_rows upper r tab) = row_count tab"
  by (cases tab) (simp_all add: recorder_settings_rows_def row_count_def)

text \<open>What is to be shown of the edits of a row.\<close>

definition settled :: "recorder \<Rightarrow> settings_tab \<Rightarrow> nat \<Rightarrow> (edits, str) result \<Rightarrow> bool" where
  "settled r tab i es \<longleftrightarrow>
     (case es of
        Inl _ \<Rightarrow> refused_row r tab i
      | Inr es \<Rightarrow> if refused_row r tab i then \<not> is_ok (check_edits r es) else accepted_edits r es)"

lemma settledI:
  "\<not> refused_row r tab i \<Longrightarrow> accepted_edits r es \<Longrightarrow> settled r tab i (Inr es)"
  "refused_row r tab i \<Longrightarrow> settled r tab i (Inl e)"
  "refused_row r tab i \<Longrightarrow> \<not> is_ok (check_edits r es) \<Longrightarrow> settled r tab i (Inr es)"
  by (simp_all add: settled_def)

lemma output_rows_settled:
  assumes "validate_recorder r = Inr ()" "i < row_count OutputTab"
  shows "settled r OutputTab i (row_edits r OutputTab i f)"
proof -
  from assms(1) have codec: "recorder.rec_codec r = ''hevc'' \<or> recorder.rec_codec r = ''h264'' \<and> \<not> rec_hdr r"
    by (auto simp: validate_recorder_iff recorder_limits_broken_def)
  note sw = switches_accepted [OF assms(1)] and steps = steps_accepted [OF assms(1)]
  have i: "i = 0 \<or> i = 1 \<or> i = 2 \<or> i = 3 \<or> i = 4 \<or> i = 5" using assms(2) by (auto simp: row_count_def)
  have "settled r OutputTab 0 (row_edits r OutputTab 0 f)"
    using codec sw(4-6) by (auto simp: row_edits_def Let_def refused_row_def intro!: settledI(1))
  moreover have "settled r OutputTab 1 (row_edits r OutputTab 1 f)"
    using steps(1) by (simp add: row_edits_def refused_row_def settledI(1))
  moreover have "settled r OutputTab 2 (row_edits r OutputTab 2 f)"
    using codec sw(2) [of "\<not> rec_hdr r"] sw(3) [of "\<not> rec_hdr r"]
    by (auto simp: row_edits_def refused_row_def settled_def simp del: check_edits.simps)
  moreover have "settled r OutputTab 3 (row_edits r OutputTab 3 f)"
    using sw(1) by (simp add: row_edits_def refused_row_def settledI(1))
  moreover have "settled r OutputTab 4 (row_edits r OutputTab 4 f)" "settled r OutputTab 5 (row_edits r OutputTab 5 f)"
    by (simp_all add: row_edits_def refused_row_def settledI(2))
  ultimately show ?thesis using i by blast
qed

lemma rows_settled:
  assumes "validate_recorder r = Inr ()" "i < row_count tab"
  shows "settled r tab i (row_edits r tab i f)"
proof (cases tab)
  case OutputTab
  with assms output_rows_settled show ?thesis by simp
next
  case CaptureTab
  then have "i = 0 \<or> i = 1 \<or> i = 2 \<or> i = 3" using assms(2) by (auto simp: row_count_def)
  with CaptureTab mode_accepted [OF assms(1)] show ?thesis
    by (auto simp: row_edits_def refused_row_def accepted_Nil settled_def)
next
  case VideoTab
  with steps_accepted(2-5) [OF assms(1)] show ?thesis
    by (auto simp: row_edits_def refused_row_def accepted_Nil intro!: settledI(1))
next
  case AudioTab
  with switches_accepted(7) [OF assms(1), of "rec_desktop_audio r = ''default_output''"]
    switches_accepted(8) [OF assms(1), of "rec_microphone r = ''default_input''"] show ?thesis
    by (auto simp: row_edits_def refused_row_def accepted_Nil intro!: settledI(1) simp del: if_split)
next
  case ReplayTab
  with steps_accepted(6,7) [OF assms(1)] show ?thesis
    by (auto simp: row_edits_def refused_row_def accepted_Nil intro!: settledI(1))
qed

lemma adjustment_settled:
  assumes "validate_recorder r = Inr ()" "i < row_count tab" "direction \<noteq> 0"
  shows "is_ok (adjust_recorder_setting upper r tab i direction) \<longleftrightarrow> \<not> refused_row r tab i"
    and "adjust_recorder_setting upper r tab i direction = Inr es \<Longrightarrow> accepted_edits r es"
  using rows_settled [OF assms(1,2), of "0 < direction"] assms(2,3)
  by (auto simp: adjust_recorder_setting_def settled_def accepted_edits_def is_ok_def bindR_def split: sum.splits if_splits)

section \<open>Properties of the panel\<close>

lemma session_settings_valid: "session_ok s \<Longrightarrow> validate_recorder (live_settings s) = Inr ()"
  using session_okD(5) [of s] by (simp add: config_validate_Inr)

lemma snapshot_settings [simp]: "sn_recorder_settings (snapshot_of senv s) = live_settings s"
  by (simp add: snapshot_of_def Let_def)

text \<open>
  C30: an adjustment in the panel refines the compositor's own rules. On every row of every tab the
  panel either refuses, which it does for the text fields and for HDR without HEVC only, or it sends
  edits that the compositor accepts one by one; the settings it then publishes are those the panel
  had computed on its copy, and they are valid.
\<close>

theorem panel_adjustments_reach_the_recorder:
  assumes "session_ok s" "\<not> ss_locked s" "stores env"
    and "pn_snapshot p = snapshot_of senv s" "pn_reports p" "pn_row p < length (current_rows penv p)" "direction \<noteq> 0"
  shows "if refused_row (live_settings s) (pn_tab p) (pn_row p)
    then \<exists>e. apply_recorder_adjustment penv direction p = p\<lparr>pn_feedback := Some (e, True)\<rparr>
    else \<exists>edits s'. pn_edits (apply_recorder_adjustment penv direction p)
          = pn_edits p @ (if edits = [] then [] else [edits])
        \<and> run_edits env edits s = Some (Inr (), s')
        \<and> check_edits (pn_settings p) edits = Inr (sn_recorder_settings (snapshot_of senv s'))
        \<and> validate_recorder (sn_recorder_settings (snapshot_of senv s')) = Inr ()"
proof -
  let ?r = "live_settings s" and ?adjusted = "adjust_recorder_setting (pv_upper penv) (live_settings s) (pn_tab p) (pn_row p) direction"
  have settings: "pn_settings p = ?r" by (simp add: assms(4))
  have row: "pn_row p < row_count (pn_tab p)" using assms(6) by (simp add: current_rows_def)
  note settled = adjustment_settled [OF session_settings_valid [OF assms(1)] row assms(7), where upper = "pv_upper penv"]
  show ?thesis
  proof (cases ?adjusted)
    case (Inl e)
    then have "apply_recorder_adjustment penv direction p = p\<lparr>pn_feedback := Some (e, True)\<rparr>"
      by (simp add: apply_recorder_adjustment_def settings)
    with Inl settled(1) show ?thesis by (auto simp: is_ok_def)
  next
    case (Inr edits)
    with settled have "\<not> refused_row ?r (pn_tab p) (pn_row p)" "accepted_edits ?r edits" by (simp_all add: is_ok_def)
    moreover from this(2) have "list_all edit_ok edits" "is_ok (check_edits ?r edits)" by (simp_all add: accepted_edits_def)
    moreover from run_edits_checked [OF assms(1-3) this(1)] this(2) obtain s' where
      "run_edits env edits s = Some (Inr (), s')" "session_ok s'" "check_edits ?r edits = Inr (live_settings s')"
      by (fastforce simp: is_ok_def split: sum.splits)
    ultimately show ?thesis
      using Inr assms(5) session_settings_valid
      by (auto simp: apply_recorder_adjustment_def settings send_recorder_commands_def Let_def)
  qed
qed

lemma mode_cycles:
  "capture_mode_cycle True VulkanGame = Screen" "capture_mode_cycle False Screen = VulkanGame"
  by (simp_all add: capture_mode_cycle_def cycle_in_def all_capture_modes_def)

lemma cycle_recorder_capture_mode_frame [simp]:
  "pn_snapshot (cycle_recorder_capture_mode env f p) = pn_snapshot p"
  "pn_mode (cycle_recorder_capture_mode env f p) = capture_mode_cycle f (pn_mode p)"
  "pn_profile_selected (cycle_recorder_capture_mode env f p) = min (pn_profile_selected p)
     (recorder_game_profile_count (p\<lparr>pn_mode := capture_mode_cycle f (pn_mode p)\<rparr>) - 1)"
  by (simp_all add: cycle_recorder_capture_mode_def Let_def)

lemma restored_vulkan:
  assumes "rec_capture_mode (pn_settings p) = ''vulkan''"
  shows "pn_snapshot (restore_recorder_selection env p) = pn_snapshot p"
    and "pn_mode (restore_recorder_selection env p) = VulkanGame"
    and "pn_profile_selected (restore_recorder_selection env p) = 0"
proof -
  have none: "recorder_game_profile_count (q\<lparr>pn_mode := Screen\<rparr>) = 0" for q
    by (simp add: recorder_game_profile_count_def mode_profiles_def mode_api_def)
  have mode: "remembered_mode (pn_settings p) = VulkanGame" by (simp add: remembered_mode_def assms)
  show "pn_snapshot (restore_recorder_selection env p) = pn_snapshot p"
    "pn_mode (restore_recorder_selection env p) = VulkanGame"
    "pn_profile_selected (restore_recorder_selection env p) = 0"
    by (simp_all add: restore_recorder_selection_def Let_def mode mode_cycles none)
qed

text \<open>
  When a Vulkan launch profile is the remembered source, the panel opens on the first Vulkan
  profile, and starts it, whichever profile was remembered: the clamping at the end of the restore
  passes through the screen mode, which has no profiles.
\<close>

lemma remembered_profile_not_restored:
  assumes "rec_capture_mode (pn_settings p) = ''vulkan''" "panel_idle p"
    and "filter (\<lambda>g. gp_api g = ''vulkan'') (rec_game_profiles (pn_settings p)) = g # gs"
  shows "recorder_start_command env (restore_recorder_selection env p) = Some (''recorder game-start '' @ gp_name g)"
proof -
  let ?p = "restore_recorder_selection env p"
  note restored = restored_vulkan [OF assms(1), of env]
  have "mode_profiles ?p = g # gs" using assms(3) by (simp add: mode_profiles_def mode_api_def restored)
  then show ?thesis
    using assms(2) by (simp add: recorder_start_command_def panel_idle_def restored selected_recorder_game_profile_def nth_opt_def)
qed

text \<open>The button and its label agree: whatever may be started has a command to start it.\<close>

lemma startable_has_command: "recorder_can_start env p \<Longrightarrow> recorder_start_command env p \<noteq> None"
  by (cases "pn_mode p")
    (auto simp: recorder_can_start_def recorder_start_blocker_def recorder_start_blocker_for_def
      recorder_start_command_def Let_def selected_recorder_xwayland_window_def nth_opt_def xwayland_windows_def
      dest!: nth_mem split: if_splits)

text \<open>
  A click on another row leaves the text edit open, and Return then stores the text of the
  remembered target as the recording path.
\<close>

lemma text_edit_follows_the_row:
  assumes "pn_tab p = CaptureTab" "pn_row p = 1" "pn_edit p = Some buffer" "trim buffer \<noteq> []"
    and "pn_view p = Settings" "pn_reports p"
  shows "pn_edits (recorder_key env Return (activate_recorder_hit env (Some (RowHit 3 Value)) p))
    = pn_edits p @ [[(''output_directory'', trim buffer)]]"
  using assms
  by (simp add: recorder_key_def activate_recorder_hit_def activate_row_def settings_key_def current_rows_def
      recorder_settings_rows_def row_count_def commit_recorder_text_edit_def recorder_editable_row_kind_def nth_opt_def
      send_recorder_commands_def Let_def)

text \<open>With the monitor selected the first window is remembered.\<close>

lemma monitor_remembers_a_window:
  assumes "pn_mode p = Screen" "pn_selected p = 0" "sn_windows (pn_snapshot p) = w # ws" "trim (wi_app_id w) \<noteq> []"
    and "pn_reports p"
  shows "\<exists>es. pn_edits (remember_current_recorder_source env p)
    = pn_edits p @ [(''capture_mode'', ''screen'') # (''window_match'', wi_app_id w) # es]"
  using assms
  by (simp add: remember_current_recorder_source_def Let_def picked_window_def nth_opt_def send_recorder_commands_def
      mode_setting_def)

text \<open>A window with a title only is remembered beside the application remembered before.\<close>

lemma remembered_identities_mix:
  assumes "trim title \<noteq> []" "trim title \<noteq> ''none''" "lower (rec_window_app_id r) \<noteq> []"
    and "check_edits r [(''window_title'', title)] = Inr r'" "lower (wi_app_id w) = lower (rec_window_app_id r)"
  shows "window_matches_settings lower w r'"
proof -
  from assms(1,2,4) have "rec_window_app_id r' = rec_window_app_id r"
    by (auto simp: apply_setting_def assign_simps split: sum.splits)
  with assms(3,5) show ?thesis
    by (auto simp: window_matches_settings_def Let_def contains_iff) (metis append_Nil append_Nil2)+
qed

section \<open>Concrete panels\<close>

abbreviation sample_panel :: "snapshot \<Rightarrow> panel" where
  "sample_panel sn \<equiv>
     \<lparr>pn_snapshot = sn, pn_selected = 0, pn_mode = Screen, pn_profile_selected = 0, pn_attach_selected = 0,
      pn_xwayland_selected = 0, pn_view = Settings, pn_tab = OutputTab, pn_row = 0, pn_edit = None, pn_feedback = None,
      pn_reports = True, pn_restored = True, pn_exit = False, pn_commands = [], pn_edits = []\<rparr>"

abbreviation sample_panel_env :: panel_env where
  "sample_panel_env \<equiv> \<lparr>pv_upper = id, pv_lower = id, pv_targets = []\<rparr>"

abbreviation sample_snapshot_env :: snapshot_env where
  "sample_snapshot_env \<equiv>
     \<lparr>se_clients = (\<lambda>_. sample_client), se_surface_size = (\<lambda>_. None), se_layers = (\<lambda>_. []), se_performance = [],
      se_covered = (\<lambda>_. False)\<rparr>"

theorem panel_adjustments_reach_the_recorder_witness:
  "\<exists>edits s'. pn_edits (apply_recorder_adjustment sample_panel_env 1 (sample_panel (snapshot_of sample_snapshot_env sample_session)))
      = (if edits = [] then [] else [edits])
    \<and> run_edits sample_command edits sample_session = Some (Inr (), s')
    \<and> validate_recorder (sn_recorder_settings (snapshot_of sample_snapshot_env s')) = Inr ()"
proof -
  define p where "p = sample_panel (snapshot_of sample_snapshot_env sample_session)"
  have fields: "pn_snapshot p = snapshot_of sample_snapshot_env sample_session" "pn_reports p" "pn_tab p = OutputTab"
    "pn_row p = 0" "pn_edits p = []" by (simp_all add: p_def)
  have settings: "live_settings sample_session = recorder_default"
    by (simp add: sample_session_def desktop_default_def config_default_def)
  have adjusted: "\<not> refused_row (live_settings sample_session) (pn_tab p) (pn_row p)"
    by (simp add: refused_row_def fields)
  have "\<not> ss_locked sample_session" "stores sample_command" "pn_row p < length (current_rows sample_panel_env p)" "(1::int) \<noteq> 0"
    by (simp_all add: sample_session_def stores_def is_ok_def current_rows_def row_count_def fields)
  note result = panel_adjustments_reach_the_recorder [OF sample_session_consistent this(1,2) fields(1,2) this(3,4),
      unfolded if_not_P [OF adjusted] fields(5) append_Nil]
  then show ?thesis unfolding p_def by blast
qed

abbreviation sample_profile :: "str \<Rightarrow> game_capture_profile" where
  "sample_profile name \<equiv> game_capture_profile_default\<lparr>gp_name := name, gp_api := ''vulkan''\<rparr>"

abbreviation vulkan_settings :: recorder where
  "vulkan_settings \<equiv> recorder_default\<lparr>rec_capture_mode := ''vulkan'', rec_game_profile := ''two'',
     rec_game_profiles := [sample_profile ''one'', sample_profile ''two'']\<rparr>"

end
