(* ===== verification/Notifications.thy ===== *)
theory Notifications
  imports ShellText
begin

text \<open>
  The notification centre of the shell, \<open>crates/shell-sctk/src/main.rs\<close>: the D-Bus server that
  numbers notifications, the queue of events between it and the bar, their timers, what clicks and
  the wheel do, what is drawn. That the list is bounded, keeps its numbers distinct and lets nothing
  outlive its time; who is told that a notification is gone, and who is not.
\<close>

section \<open>Data\<close>

record notification =
  nt_id :: u32
  nt_icon :: "bytes option" \<comment> \<open>the decoded picture\<close>
  nt_summary :: str
  nt_body :: str
  nt_actions :: "(str \<times> str) list"
  nt_expires_at :: "instant option"
  nt_critical :: bool

definition CONFIG_ERROR_NOTIFICATION_ID :: u32 where
  "CONFIG_ERROR_NOTIFICATION_ID = - 1"

definition NOTIFICATION_LIFETIME :: nat where
  "NOTIFICATION_LIFETIME = 5000000000"

text \<open>The text of a body: tags are dropped, entities replaced, 2048 characters kept.\<close>

fun strip_tags :: "nat \<Rightarrow> bool \<Rightarrow> str list \<Rightarrow> str" where
  "strip_tags count in_tag [] = []"
| "strip_tags count in_tag (c # cs) =
     (let (in_tag', kept) = (if c = ''<'' then (True, False) else if c = ''>'' \<and> in_tag then (False, False)
                             else (in_tag, \<not> in_tag));
          count' = (if kept then count + 1 else count)
      in (if kept then c else []) @ (if 2048 \<le> count' then [] else strip_tags count' in_tag' cs))"

definition unescape :: "str \<Rightarrow> str" where
  "unescape s =
     replace_all ''&#39;'' [CHR 0x27] (replace_all ''&quot;'' [CHR 0x22] (replace_all ''&gt;'' ''>''
       (replace_all ''&lt;'' ''<'' (replace_all ''&amp;'' ''&'' s))))"

definition notification_body_text :: "str \<Rightarrow> str" where
  "notification_body_text body = take_chars 2048 (unescape (strip_tags 0 False (utf8_chars body)))"

definition notification_summary_text :: "str \<Rightarrow> str" where
  "notification_summary_text summary = take_chars 256 (notification_body_text summary)"

definition notification_text_x :: "notification \<Rightarrow> u32" where
  "notification_text_x n = (if nt_icon n \<noteq> None then 60 else 18)"

definition config_error_notification :: "str \<Rightarrow> notification" where
  "config_error_notification error =
     \<lparr>nt_id = CONFIG_ERROR_NOTIFICATION_ID, nt_icon = None, nt_summary = ''Configuration warning'',
      nt_body = notification_body_text error, nt_actions = [], nt_expires_at = None, nt_critical = True\<rparr>"

datatype notification_event = Upsert notification | CloseIt u32 nat | Dismiss u32

datatype notification_signal = ActionSignal u32 str | ClosedSignal u32 nat

section \<open>The state\<close>

text \<open>
  The bar's notifications, oldest first; the timers of the event loop by number, with their
  deadlines (a timer is in the loop as long as its token is in the map); the queue of events; the
  signals sent; the server's counter.
\<close>

record centre =
  nc_list :: "notification list"
  nc_timers :: "u32 \<Rightarrow> instant option"
  nc_offset :: nat
  nc_muted :: bool
  nc_queue :: "notification_event list"
  nc_signals :: "notification_signal list"
  nc_next_id :: u32
  nc_shown :: bool \<comment> \<open>the popup surface has its full size\<close>

definition centre_new :: "bool \<Rightarrow> centre" where
  "centre_new muted =
     \<lparr>nc_list = [], nc_timers = (\<lambda>_. None), nc_offset = 0, nc_muted = muted, nc_queue = [], nc_signals = [],
      nc_next_id = 0, nc_shown = False\<rparr>"

definition clamp_offset :: "centre \<Rightarrow> centre" where
  "clamp_offset c = c\<lparr>nc_offset := min (nc_offset c) (length (nc_list c) - 1)\<rparr>"

definition sync_surface :: "centre \<Rightarrow> centre" where
  "sync_surface c = c\<lparr>nc_shown := list_ex (\<lambda>n. nt_critical n \<or> \<not> nc_muted c) (nc_list c)\<rparr>"

definition remove_id :: "u32 \<Rightarrow> centre \<Rightarrow> centre" where
  "remove_id i c = c\<lparr>nc_list := filter (\<lambda>n. nt_id n \<noteq> i) (nc_list c)\<rparr>"

definition drop_timer :: "u32 \<Rightarrow> centre \<Rightarrow> centre" where
  "drop_timer i c = c\<lparr>nc_timers := (nc_timers c)(i := None)\<rparr>"

definition signal :: "notification_signal list \<Rightarrow> centre \<Rightarrow> centre" where
  "signal s c = c\<lparr>nc_signals := nc_signals c @ s\<rparr>"

section \<open>The server\<close>

text \<open>\<open>chunks_exact(2).take(4)\<close>: pairs of keys and labels, cut to 128 characters.\<close>

fun pairs_of :: "str list \<Rightarrow> (str \<times> str) list" where
  "pairs_of (a # b # r) = (take_chars 128 a, take_chars 128 b) # pairs_of r"
| "pairs_of _ = []"

definition notify ::
  "(str \<Rightarrow> bytes option) \<Rightarrow> instant \<Rightarrow> u32 \<Rightarrow> str \<Rightarrow> str \<Rightarrow> str \<Rightarrow> str list \<Rightarrow> centre \<Rightarrow> u32 \<times> centre" where
  "notify load_icon now replaces_id app_icon summary body actions c =
     (let (i, next_id) = (if replaces_id = 0 then (max (nc_next_id c + 1) 1, nc_next_id c + 1)
                          else (replaces_id, nc_next_id c));
          n = \<lparr>nt_id = i, nt_icon = load_icon app_icon, nt_summary = notification_summary_text summary,
               nt_body = notification_body_text body, nt_actions = take 4 (pairs_of actions),
               nt_expires_at = Some (now + NOTIFICATION_LIFETIME), nt_critical = False\<rparr>
      in (i, c\<lparr>nc_next_id := next_id, nc_queue := nc_queue c @ [Upsert n]\<rparr>))"

definition close_notification :: "u32 \<Rightarrow> centre \<Rightarrow> centre" where
  "close_notification i c = c\<lparr>nc_queue := nc_queue c @ [CloseIt i 3]\<rparr>"

text \<open>The error of the configuration in a new snapshot.\<close>

definition config_error_changed :: "str option \<Rightarrow> str option \<Rightarrow> centre \<Rightarrow> centre" where
  "config_error_changed old new c =
     (if old = new then c
      else c\<lparr>nc_queue := nc_queue c @ [case new of Some e \<Rightarrow> Upsert (config_error_notification e)
                                             | None \<Rightarrow> CloseIt CONFIG_ERROR_NOTIFICATION_ID 3]\<rparr>)"

section \<open>The bar\<close>

fun replace_first :: "notification \<Rightarrow> notification list \<Rightarrow> notification list option" where
  "replace_first n [] = None"
| "replace_first n (x # xs) =
     (if nt_id x = nt_id n then Some (n # xs) else map_option (Cons x) (replace_first n xs))"

text \<open>The loop that keeps a hundred: the oldest go, with their timers.\<close>

fun shrink :: "notification list \<Rightarrow> (u32 \<Rightarrow> instant option) \<Rightarrow> notification list \<times> (u32 \<Rightarrow> instant option)" where
  "shrink [] timers = ([], timers)"
| "shrink (x # xs) timers =
     (if 100 < length (x # xs) then shrink xs (timers(nt_id x := None)) else (x # xs, timers))"

text \<open>\<open>registered\<close> says whether the event loop takes the timer.\<close>

definition upsert :: "bool \<Rightarrow> notification \<Rightarrow> centre \<Rightarrow> centre" where
  "upsert registered n c0 =
     (let c = drop_timer (nt_id n) c0;
          ns = (case replace_first n (nc_list c) of Some ns \<Rightarrow> ns | None \<Rightarrow> nc_list c @ [n]);
          (ns, timers) = shrink ns (nc_timers c);
          timers = (case nt_expires_at n of
                      Some expiry \<Rightarrow> if registered then timers(nt_id n \<mapsto> expiry) else timers
                    | None \<Rightarrow> timers)
      in c\<lparr>nc_list := ns, nc_timers := timers, nc_offset := 0\<rparr>)"

definition handle_event :: "bool \<Rightarrow> notification_event \<Rightarrow> centre \<Rightarrow> centre" where
  "handle_event registered ev c =
     sync_surface
       (case ev of
          Upsert n \<Rightarrow> upsert registered n c
        | CloseIt i reason \<Rightarrow> signal [ClosedSignal i reason] (clamp_offset (remove_id i (drop_timer i c)))
        | Dismiss i \<Rightarrow> clamp_offset (remove_id i (drop_timer i c)))"

definition expired :: "instant \<Rightarrow> notification \<Rightarrow> bool" where
  "expired now n \<longleftrightarrow> (case nt_expires_at n of Some expiry \<Rightarrow> expiry \<le> now | None \<Rightarrow> False)"

definition expire_notifications :: "instant \<Rightarrow> centre \<Rightarrow> centre" where
  "expire_notifications now c =
     signal (map (\<lambda>n. ClosedSignal (nt_id n) 1) (filter (expired now) (nc_list c)))
       (c\<lparr>nc_list := filter (\<lambda>n. \<not> expired now n) (nc_list c)\<rparr>)"

text \<open>The offset and the popup follow when something expired; both the timers and the clock do it.\<close>

definition expire_and_sync :: "instant \<Rightarrow> centre \<Rightarrow> centre" where
  "expire_and_sync now c =
     (let c' = expire_notifications now c
      in if length (nc_list c') \<noteq> length (nc_list c) then sync_surface (clamp_offset c') else c')"

definition timer_fires :: "u32 \<Rightarrow> instant \<Rightarrow> centre \<Rightarrow> centre" where
  "timer_fires i now c = expire_and_sync now (drop_timer i c)"

text \<open>What is drawn: the newest first, three of them; while muted only the critical ones.\<close>

definition drawn_rows :: "centre \<Rightarrow> notification list" where
  "drawn_rows c =
     take 3 (drop (nc_offset c) (filter (\<lambda>n. \<not> nc_muted c \<or> nt_critical n) (rev (nc_list c))))"

text \<open>The action under the pointer; \<open>text_width\<close> is the width of a label in the bar's font.\<close>

fun action_at :: "(str \<Rightarrow> u32) \<Rightarrow> f64 \<Rightarrow> u32 \<Rightarrow> (str \<times> str) list \<Rightarrow> str option" where
  "action_at text_width x action_x [] = None"
| "action_at text_width x action_x ((key, label) # r) =
     (let width = text_width label + 12
      in if f64_le (f64_of_u32 action_x) x \<and> f64_lt x (f64_of_u32 (action_x + width)) then Some key
         else action_at text_width x (sat_add32 action_x (width + 12)) r)"

definition dismissed :: "notification list \<Rightarrow> centre \<Rightarrow> centre" where
  "dismissed ns c =
     c\<lparr>nc_signals := nc_signals c @ map (\<lambda>n. ClosedSignal (nt_id n) 2) ns,
       nc_queue := nc_queue c @ map (\<lambda>n. Dismiss (nt_id n)) ns\<rparr>"

definition click_left :: "(str \<Rightarrow> u32) \<Rightarrow> f64 \<Rightarrow> f64 \<Rightarrow> centre \<Rightarrow> centre" where
  "click_left text_width x y c =
     (if f64_lt y (Fin 32) then c
      else
        (let row = unat (f64_to_u32 (f64_max y (Fin 32)) - 32) div 88
         in sync_surface
           (case nth_opt (rev (nc_list c)) (nc_offset c + row) of
              None \<Rightarrow> c
            | Some n \<Rightarrow>
                (let local_y = sat_sub32 (f64_to_u32 (f64_max y (Fin 0))) (32 + of_nat row * 88);
                     action = (if 39 \<le> local_y \<and> local_y < 57
                               then action_at text_width x (notification_text_x n) (take 4 (nt_actions n)) else None);
                     c = (case action of None \<Rightarrow> c | Some key \<Rightarrow> signal [ActionSignal (nt_id n) key] c)
                 in clamp_offset (remove_id (nt_id n) (dismissed [n] c))))))"

definition click_notification :: "(str \<Rightarrow> u32) \<Rightarrow> f64 \<Rightarrow> f64 \<Rightarrow> nat \<Rightarrow> centre \<Rightarrow> centre" where
  "click_notification text_width x y button c =
     (if button = 0x111 then sync_surface ((dismissed (nc_list c) c)\<lparr>nc_list := [], nc_offset := 0\<rparr>)
      else if button = 0x110 then click_left text_width x y c
      else c)"

definition scroll_notifications :: "int \<Rightarrow> centre \<Rightarrow> centre" where
  "scroll_notifications steps c =
     (if steps = 0 then c
      else c\<lparr>nc_offset := min (if steps < 0 then nc_offset c + nat (- steps) else nc_offset c - nat steps)
                             (length (nc_list c) - 1)\<rparr>)"

text \<open>The controls panel and the bar: mute, and clear; a new configuration sets the mute.\<close>

definition set_muted :: "bool \<Rightarrow> centre \<Rightarrow> centre" where
  "set_muted muted c = sync_surface (c\<lparr>nc_muted := muted\<rparr>)"

definition clear_notifications :: "centre \<Rightarrow> centre" where
  "clear_notifications c =
     sync_surface (c\<lparr>nc_signals := nc_signals c @ map (\<lambda>n. ClosedSignal (nt_id n) 2) (nc_list c),
                     nc_list := [], nc_offset := 0\<rparr>)"

definition notifications_bar_label :: "centre \<Rightarrow> str" where
  "notifications_bar_label c =
     (if nc_muted c then ''DND'' else ''NOT '' @ show_nat (length (nc_list c)))"

text \<open>
  The next turn of the clock: to the minute, to the battery's next reading, to the next expiry, and
  at least a millisecond.
\<close>

definition next_bar_maintenance_delay :: "nat \<Rightarrow> instant \<Rightarrow> instant \<Rightarrow> centre \<Rightarrow> nat" where
  "next_bar_maintenance_delay second next_battery now c =
     (let until_clock = (max (60 - second) 1) * 1000000000; until_battery = next_battery - now;
          until_notification = map (\<lambda>expiry. expiry - now) (List.map_filter nt_expires_at (nc_list c))
      in max (foldl min until_clock (until_battery # until_notification)) 1000000)"

section \<open>Runs\<close>

datatype centre_event =
    Notified instant u32 str str str "str list"
  | CloseRequested u32
  | ErrorChanged "str option" "str option"
  | Handled bool
  | TimerFires u32 instant
  | ClockTick instant
  | Clicked f64 f64 nat
  | Scrolled int
  | SetMuted bool
  | Cleared

definition centre_step :: "(str \<Rightarrow> bytes option) \<Rightarrow> (str \<Rightarrow> u32) \<Rightarrow> centre \<Rightarrow> centre_event \<Rightarrow> centre" where
  "centre_step icon text_width c ev =
     (case ev of
        Notified now replaces_id app_icon summary body actions \<Rightarrow>
          snd (notify icon now replaces_id app_icon summary body actions c)
      | CloseRequested i \<Rightarrow> close_notification i c
      | ErrorChanged old new \<Rightarrow> config_error_changed old new c
      | Handled registered \<Rightarrow>
          (case nc_queue c of [] \<Rightarrow> c | e # q \<Rightarrow> handle_event registered e (c\<lparr>nc_queue := q\<rparr>))
      | TimerFires i now \<Rightarrow>
          (case nc_timers c i of Some deadline \<Rightarrow> if deadline \<le> now then timer_fires i now c else c | None \<Rightarrow> c)
      | ClockTick now \<Rightarrow> expire_and_sync now c
      | Clicked x y button \<Rightarrow> click_notification text_width x y button c
      | Scrolled steps \<Rightarrow> scroll_notifications steps c
      | SetMuted muted \<Rightarrow> set_muted muted c
      | Cleared \<Rightarrow> clear_notifications c)"

section \<open>The list stays consistent\<close>

definition list_ok :: "centre \<Rightarrow> bool" where
  "list_ok c \<longleftrightarrow> distinct (map nt_id (nc_list c)) \<and> length (nc_list c) \<le> 100
     \<and> nc_offset c \<le> length (nc_list c) - 1
     \<and> nc_shown c = list_ex (\<lambda>n. nt_critical n \<or> \<not> nc_muted c) (nc_list c)"

definition presentable :: "centre \<Rightarrow> notification \<Rightarrow> bool" where
  "presentable c n \<longleftrightarrow> nt_critical n \<or> \<not> nc_muted c"

definition timed :: "centre \<Rightarrow> bool" where
  "timed c \<longleftrightarrow> (\<forall>n \<in> set (nc_list c). nt_expires_at n \<noteq> None \<longrightarrow> nc_timers c (nt_id n) = nt_expires_at n)"

lemma replace_first_ids:
  "replace_first n ns = Some ns' \<Longrightarrow> map nt_id ns' = map nt_id ns \<and> set ns' \<subseteq> insert n (set ns)
     \<and> (distinct (map nt_id ns) \<longrightarrow> (\<forall>m \<in> set ns'. nt_id m = nt_id n \<longrightarrow> m = n))"
proof (induction ns arbitrary: ns')
  case (Cons x xs)
  show ?case
  proof (cases "nt_id x = nt_id n")
    case True
    with Cons.prems have ns': "ns' = n # xs" by simp
    have "m = n" if "distinct (map nt_id (x # xs))" "m \<in> set (n # xs)" "nt_id m = nt_id n" for m
      using that True by auto (metis image_eqI)
    with True ns' show ?thesis by auto
  next
    case False
    with Cons show ?thesis by fastforce
  qed
qed simp

lemma replace_first_None: "replace_first n ns = None \<longleftrightarrow> nt_id n \<notin> nt_id ` set ns"
  by (induction ns) auto

lemma shrink_spec:
  "shrink ns timers = (ns', timers') \<Longrightarrow> ns' = drop (length ns - 100) ns
     \<and> timers' = (\<lambda>i. if i \<in> nt_id ` set (take (length ns - 100) ns) then None else timers i)"
proof (induction ns timers arbitrary: ns' timers' rule: shrink.induct)
  case (2 x xs timers)
  show ?case
  proof (cases "100 < length (x # xs)")
    case True
    then have n: "length (x # xs) - 100 = Suc (length xs - 100)" by simp
    from True "2.prems" have "shrink xs (timers(nt_id x := None)) = (ns', timers')" by simp
    from "2.IH" [OF True this] show ?thesis unfolding n by (auto simp: fun_eq_iff)
  next
    case False
    with "2.prems" have "ns' = x # xs" "timers' = timers" by simp_all
    with False show ?thesis by simp
  qed
qed simp

lemma sync_surface_fields [simp]:
  "nc_list (sync_surface c) = nc_list c" "nc_timers (sync_surface c) = nc_timers c"
  "nc_offset (sync_surface c) = nc_offset c" "nc_muted (sync_surface c) = nc_muted c"
  "nc_signals (sync_surface c) = nc_signals c" "nc_queue (sync_surface c) = nc_queue c"
  "nc_next_id (sync_surface c) = nc_next_id c"
  "nc_shown (sync_surface c) = list_ex (\<lambda>n. nt_critical n \<or> \<not> nc_muted c) (nc_list c)"
  by (simp_all add: sync_surface_def)

text \<open>An update keeps numbers distinct and the list short; its timer is that of the notification.\<close>

lemma upsert_effect:
  assumes "distinct (map nt_id (nc_list c))" "length (nc_list c) \<le> 100"
  shows "distinct (map nt_id (nc_list (upsert registered n c)))" "length (nc_list (upsert registered n c)) \<le> 100"
    and "timed c \<Longrightarrow> registered \<Longrightarrow> timed (upsert registered n c)"
    and "n \<in> set (nc_list (upsert registered n c))"
proof -
  define ns where "ns = (case replace_first n (nc_list c) of Some ns \<Rightarrow> ns | None \<Rightarrow> nc_list c @ [n])"
  define k where "k = length ns - 100"
  have all: "distinct (map nt_id ns) \<and> length ns \<le> 101 \<and> set ns \<subseteq> insert n (set (nc_list c))
    \<and> (\<forall>m \<in> set ns. nt_id m = nt_id n \<longrightarrow> m = n) \<and> (k = 0 \<and> n \<in> set ns \<or> ns = nc_list c @ [n])"
  proof (cases "replace_first n (nc_list c)")
    case (Some xs)
    note spec = replace_first_ids [OF Some]
    have "length xs = length (nc_list c)" using arg_cong [OF conjunct1 [OF spec], of length] by simp
    moreover have "n \<in> set xs"
      using spec replace_first_None [of n "nc_list c"] Some assms(1)
      by (metis imageE list.set_map option.simps(3))
    ultimately show ?thesis using spec Some assms by (auto simp: ns_def k_def)
  next
    case None
    then have ns: "ns = nc_list c @ [n]" and fresh: "nt_id n \<notin> nt_id ` set (nc_list c)"
      by (simp_all add: ns_def replace_first_None [symmetric])
    then have "\<forall>m \<in> set (nc_list c). nt_id m \<noteq> nt_id n" by (metis imageI)
    with ns fresh show ?thesis using assms by auto
  qed
  note ns = conjunct1 [OF all] conjunct1 [OF conjunct2 [OF all]] conjunct1 [OF conjunct2 [OF conjunct2 [OF all]]]
  note same = bspec [OF conjunct1 [OF conjunct2 [OF conjunct2 [OF conjunct2 [OF all]]]], THEN mp]
  note place = conjunct2 [OF conjunct2 [OF conjunct2 [OF conjunct2 [OF all]]]]
  obtain ns' timers where eq: "shrink ns ((nc_timers c)(nt_id n := None)) = (ns', timers)"
    by (cases "shrink ns ((nc_timers c)(nt_id n := None))")
  then have cut: "ns' = drop k ns"
    and timers: "timers = (\<lambda>i. if i \<in> nt_id ` set (take k ns) then None else ((nc_timers c)(nt_id n := None)) i)"
    using shrink_spec [OF eq] by (simp_all only: k_def)
  from eq cut have "shrink ns ((nc_timers c)(nt_id n := None)) = (drop k ns, timers)" by simp
  then have list: "nc_list (upsert registered n c) = drop k ns"
    and new: "nc_timers (upsert registered n c) = (case nt_expires_at n of
      Some expiry \<Rightarrow> if registered then timers(nt_id n \<mapsto> expiry) else timers | None \<Rightarrow> timers)"
    by (cases "replace_first n (nc_list c)"; simp add: upsert_def Let_def drop_timer_def ns_def)+
  show "distinct (map nt_id (nc_list (upsert registered n c)))" using ns(1) by (simp add: list drop_map [symmetric])
  show "length (nc_list (upsert registered n c)) \<le> 100" using ns(2) by (simp add: list k_def)
  show "n \<in> set (nc_list (upsert registered n c))"
    using place assms(2) by (auto simp: list k_def)
  show "timed (upsert registered n c)" if timed: "timed c" and registered
    unfolding timed_def list
  proof (intro ballI impI)
    fix m assume m: "m \<in> set (drop k ns)" "nt_expires_at m \<noteq> None"
    then have "m \<in> set ns" by (meson in_set_dropD)
    show "nc_timers (upsert registered n c) (nt_id m) = nt_expires_at m"
    proof (cases "nt_id m = nt_id n")
      case True
      with same [OF \<open>m \<in> set ns\<close>] have "m = n" by simp
      with m(2) \<open>registered\<close> show ?thesis unfolding new by auto
    next
      case False
      have "nt_id m \<notin> nt_id ` set (take k ns)"
        using ns(1) m(1) distinct_append [of "map nt_id (take k ns)" "map nt_id (drop k ns)"]
        by (auto simp flip: map_append)
      moreover have "m \<in> set (nc_list c)" using \<open>m \<in> set ns\<close> ns(3) False by blast
      ultimately show ?thesis using False timed m(2) unfolding new timers timed_def by (auto split: option.split)
    qed
  qed
qed

lemma filter_ids:
  "distinct (map nt_id ns) \<Longrightarrow> distinct (map nt_id (filter P ns))"
  by (rule distinct_map_filter)

text \<open>Shorter lists, timers that do not change for what is left: nothing else is needed of most steps.\<close>

lemma list_ok_sync:
  "distinct (map nt_id (nc_list c)) \<Longrightarrow> length (nc_list c) \<le> 100 \<Longrightarrow> nc_offset c \<le> length (nc_list c) - 1
   \<Longrightarrow> list_ok (sync_surface c)"
  by (simp add: list_ok_def)

lemma list_okD:
  assumes "list_ok c"
  shows "distinct (map nt_id (nc_list c))" "length (nc_list c) \<le> 100" "nc_offset c \<le> length (nc_list c) - 1"
    "nc_shown c = list_ex (\<lambda>n. nt_critical n \<or> \<not> nc_muted c) (nc_list c)"
  using assms by (simp_all add: list_ok_def)

lemma shorter: "length (filter P xs) \<le> length xs" "length xs \<le> 100 \<Longrightarrow> length (filter P xs) \<le> 100"
  by (rule length_filter_le) (erule order_trans [OF length_filter_le])

lemma handle_event_ok:
  assumes "list_ok c"
  shows "list_ok (handle_event registered ev c)" and "timed c \<Longrightarrow> registered \<Longrightarrow> timed (handle_event registered ev c)"
proof -
  note ok = list_okD [OF assms]
  show "list_ok (handle_event registered ev c)"
    using ok upsert_effect(1,2) [OF ok(1,2)] unfolding handle_event_def
    by (intro list_ok_sync)
      (auto simp: remove_id_def drop_timer_def clamp_offset_def signal_def filter_ids shorter upsert_def Let_def
        split: notification_event.split prod.split)
  show "timed (handle_event registered ev c)" if "timed c" "registered"
    using that upsert_effect(3) [OF ok(1,2) that]
    by (cases ev) (auto simp: handle_event_def timed_def remove_id_def drop_timer_def clamp_offset_def signal_def)
qed

lemma expire_ok:
  assumes "list_ok c"
  shows "list_ok (expire_and_sync now c)" and "timed c \<Longrightarrow> timed (expire_and_sync now c)"
    and "\<forall>n \<in> set (nc_list (expire_and_sync now c)). \<not> expired now n"
proof -
  note ok = list_okD [OF assms]
  show "list_ok (expire_and_sync now c)"
  proof (cases "length (nc_list (expire_notifications now c)) = length (nc_list c)")
    case True
    then have "nc_list (expire_notifications now c) = nc_list c"
      by (simp add: expire_notifications_def signal_def) (metis length_filter_less filter_True less_irrefl)
    with True assms show ?thesis by (simp add: expire_and_sync_def list_ok_def expire_notifications_def signal_def)
  next
    case False
    with ok show ?thesis
      by (simp add: expire_and_sync_def Let_def)
        (intro list_ok_sync; simp add: clamp_offset_def expire_notifications_def signal_def filter_ids shorter)
  qed
  show "timed (expire_and_sync now c)" if "timed c"
    using that by (auto simp: expire_and_sync_def Let_def timed_def clamp_offset_def expire_notifications_def signal_def)
  show "\<forall>n \<in> set (nc_list (expire_and_sync now c)). \<not> expired now n"
    by (auto simp: expire_and_sync_def Let_def clamp_offset_def expire_notifications_def signal_def)
qed

text \<open>A timer that fires takes its own notification with it, so the others keep their timers.\<close>

lemma timer_fires_ok:
  assumes "list_ok c" "nc_timers c i = Some deadline" "deadline \<le> now"
  shows "list_ok (timer_fires i now c)" and "timed c \<Longrightarrow> timed (timer_fires i now c)"
proof -
  have dropped: "list_ok (drop_timer i c)" using assms(1) by (simp add: list_ok_def drop_timer_def)
  show "list_ok (timer_fires i now c)" unfolding timer_fires_def by (rule expire_ok(1) [OF dropped])
  show "timed (timer_fires i now c)" if timed: "timed c"
    unfolding timed_def
  proof (intro ballI impI)
    fix n assume n: "n \<in> set (nc_list (timer_fires i now c))" "nt_expires_at n \<noteq> None"
    then have alive: "\<not> expired now n" "n \<in> set (nc_list c)"
      by (auto simp: timer_fires_def expire_and_sync_def Let_def clamp_offset_def expire_notifications_def signal_def
          drop_timer_def split: if_splits)
    with timed n(2) have "nc_timers c (nt_id n) = nt_expires_at n" by (simp add: timed_def)
    moreover from this alive(1) assms(2,3) have "nt_id n \<noteq> i" by (cases "nt_expires_at n") (auto simp: expired_def)
    ultimately show "nc_timers (timer_fires i now c) (nt_id n) = nt_expires_at n"
      by (simp add: timer_fires_def expire_and_sync_def Let_def clamp_offset_def expire_notifications_def signal_def
          drop_timer_def)
  qed
qed

lemma click_ok:
  assumes "list_ok c"
  shows "list_ok (click_notification text_width x y button c)"
    and "timed c \<Longrightarrow> timed (click_notification text_width x y button c)"
proof -
  note ok = list_okD [OF assms]
  have left: "list_ok (click_left text_width x y c)"
    using ok assms unfolding click_left_def Let_def
    by (auto intro!: list_ok_sync simp: clamp_offset_def remove_id_def dismissed_def signal_def filter_ids shorter
        split: option.split)
  then show "list_ok (click_notification text_width x y button c)"
    using assms by (auto simp: click_notification_def intro!: list_ok_sync)
  show "timed (click_notification text_width x y button c)" if "timed c"
    using that by (auto simp: click_notification_def click_left_def Let_def timed_def clamp_offset_def remove_id_def
        dismissed_def signal_def split: option.split)
qed

lemma centre_step_ok:
  assumes "list_ok c"
  shows "list_ok (centre_step icon text_width c ev)"
    and "timed c \<Longrightarrow> ev \<noteq> Handled False \<Longrightarrow> timed (centre_step icon text_width c ev)"
proof -
  note ok = list_okD [OF assms]
  have queued: "list_ok (c\<lparr>nc_queue := q\<rparr>)" "timed (c\<lparr>nc_queue := q\<rparr>) = timed c" for q
    using assms by (simp_all add: list_ok_def timed_def)
  show "list_ok (centre_step icon text_width c ev)"
    using assms handle_event_ok(1) [OF queued(1)] expire_ok(1) [OF assms] timer_fires_ok(1) [OF assms] click_ok(1) [OF assms]
    by (cases ev)
      (auto simp: centre_step_def notify_def Let_def close_notification_def config_error_changed_def queued
        scroll_notifications_def set_muted_def clear_notifications_def list_ok_def split: list.split option.split)
  show "timed (centre_step icon text_width c ev)" if "timed c" "ev \<noteq> Handled False"
    using that handle_event_ok(2) [OF queued(1)] expire_ok(2) [OF assms] timer_fires_ok(2) [OF assms] click_ok(2) [OF assms]
    by (cases ev)
      (auto simp: centre_step_def notify_def Let_def close_notification_def config_error_changed_def queued
        scroll_notifications_def set_muted_def clear_notifications_def timed_def split: list.split option.split)
qed

definition centre_run :: "(str \<Rightarrow> bytes option) \<Rightarrow> (str \<Rightarrow> u32) \<Rightarrow> bool \<Rightarrow> centre_event list \<Rightarrow> centre" where
  "centre_run icon text_width muted evs = foldl (centre_step icon text_width) (centre_new muted) evs"

interpretation centre_life: invariant_machine "centre_step icon text_width" list_ok for icon text_width
  by unfold_locales (rule centre_step_ok(1))

lemma centre_run_ok: "list_ok (centre_run icon text_width muted evs)"
  unfolding centre_run_def by (rule centre_life.run_inv) (simp add: list_ok_def centre_new_def)

lemma centre_run_timed:
  "Handled False \<notin> set evs \<Longrightarrow> timed (centre_run icon text_width muted evs)"
  unfolding centre_run_def
proof (induction evs rule: rev_induct)
  case Nil
  show ?case by (simp add: timed_def centre_new_def)
next
  case (snoc ev evs)
  then show ?case
    using centre_step_ok(2) [OF centre_run_ok [unfolded centre_run_def]] by auto
qed

section \<open>Properties\<close>

text \<open>
  C33: whatever applications, the user and the clock do, and in whatever order, the notifications
  have distinct numbers, there are at most a hundred, the wheel's offset names one of them, and the
  popup is open exactly while a notification may be shown.
\<close>

theorem notifications_stay_consistent:
  "let c = centre_run icon text_width muted evs
   in distinct (map nt_id (nc_list c)) \<and> length (nc_list c) \<le> 100 \<and> nc_offset c \<le> length (nc_list c) - 1
      \<and> (nc_shown c \<longleftrightarrow> list_ex (presentable c) (nc_list c))"
  using centre_run_ok [of icon text_width muted evs] by (simp add: Let_def list_ok_def presentable_def [abs_def])

text \<open>A turn of the clock removes all that has expired, whether or not a timer was taken for it.\<close>

lemma clock_removes_expired:
  "\<forall>n \<in> set (nc_list (centre_step icon text_width (centre_run icon text_width muted evs) (ClockTick now))). \<not> expired now n"
  using expire_ok(3) [OF centre_run_ok] by (simp add: centre_step_def)

text \<open>
  No application notification outlives its five seconds: as long as the event loop takes the
  timers, once those that are due have fired nothing that has expired is left.
\<close>

lemma expired_notifications_are_gone:
  assumes "Handled False \<notin> set evs"
    and "\<And>i deadline. nc_timers (centre_run icon text_width muted evs) i = Some deadline \<Longrightarrow> now < deadline"
  shows "list_all (\<lambda>n. \<not> expired now n) (nc_list (centre_run icon text_width muted evs))"
  unfolding list_all_iff
proof
  fix n assume n: "n \<in> set (nc_list (centre_run icon text_width muted evs))"
  show "\<not> expired now n"
  proof (cases "nt_expires_at n")
    case (Some deadline)
    with n centre_run_timed [OF assms(1), of icon text_width muted]
    have "nc_timers (centre_run icon text_width muted evs) (nt_id n) = Some deadline" by (simp add: timed_def)
    from assms(2) [OF this] Some show ?thesis by (simp add: expired_def)
  qed (simp add: expired_def)
qed

text \<open>The first row of the popup.\<close>

lemma first_row:
  "f64_to_u32 (f64_max (Fin 40) (Fin 32)) = 40" "f64_to_u32 (f64_max (Fin 40) (Fin 0)) = 40" "sat_sub32 40 32 = 8"
  by (simp_all add: f64_to_u32_def f64_max_def trunc_def clamp_def sat_sub32_def)

lemma distinct_map_append_new:
  assumes "distinct (map f (xs @ [x]))" "y \<in> set xs"
  shows "f y \<noteq> f x"
proof -
  have "f y \<in> f ` set xs" using assms(2) by (rule imageI)
  moreover have "f x \<notin> f ` set xs" using assms(1) by simp
  ultimately show ?thesis by (cases "f y = f x") (simp_all only: simp_thms)
qed

text \<open>
  Under Do Not Disturb a click is resolved against the notifications that are not drawn: when
  the newest is an ordinary one and a critical one is on the screen, a click on the first row closes
  the hidden one, and the sender is told that the user dismissed it.
\<close>

lemma muted_click_closes_hidden_notification:
  assumes "nc_muted c" "nc_list c = ns @ [n]" "\<not> nt_critical n" "\<exists>m \<in> set ns. nt_critical m"
    and "nc_offset c = 0" "distinct (map nt_id (nc_list c))"
  shows "drawn_rows c \<noteq> [] \<and> n \<notin> set (drawn_rows c)
    \<and> nc_list (click_notification text_width x (Fin 40) 0x110 c) = ns
    \<and> nc_signals (click_notification text_width x (Fin 40) 0x110 c) = nc_signals c @ [ClosedSignal (nt_id n) 2]"
proof -
  have others: "filter (\<lambda>m. nt_id m \<noteq> nt_id n) ns = ns"
  proof (rule filter_True, rule ballI)
    fix m assume "m \<in> set ns"
    with distinct_map_append_new [OF assms(6) [unfolded assms(2)]] show "nt_id m \<noteq> nt_id n" .
  qed
  have drawn: "drawn_rows c = take 3 (filter nt_critical (rev ns))"
    using assms(1-3,5) by (simp add: drawn_rows_def)
  have "drawn_rows c \<noteq> []" using assms(4) by (auto simp: drawn filter_empty_conv)
  moreover have "n \<notin> set (drawn_rows c)"
    using assms(3) in_set_takeD [of n 3 "filter nt_critical (rev ns)"] by (auto simp: drawn)
  ultimately show ?thesis
    using others assms(2,5)
    by (simp add: click_notification_def click_left_def Let_def first_row nth_opt_def clamp_offset_def remove_id_def dismissed_def)
qed

text \<open>
  A notification that replaces another while the user dismisses it is lost: the click queues its
  own removal behind the replacement, which is taken off the list unread, and no signal says so.
\<close>

lemma replacement_is_lost:
  assumes "nc_list c = [n]" "nc_queue c = [Upsert n']" "nt_id n' = nt_id n" "nc_offset c = 0"
    and "c1 = click_notification text_width x (Fin 40) 0x110 c"
    and "c2 = centre_step icon text_width c1 (Handled registered)"
    and "c3 = centre_step icon text_width c2 (Handled registered)"
  shows "nc_list c2 = [n'] \<and> nc_list c3 = []
    \<and> nc_signals c3 = nc_signals c1 \<and> nc_signals c1 = nc_signals c @ [ClosedSignal (nt_id n) 2]"
proof -
  have c1: "nc_list c1 = []" "nc_queue c1 = [Upsert n', Dismiss (nt_id n)]"
    "nc_signals c1 = nc_signals c @ [ClosedSignal (nt_id n) 2]"
    using assms(1,2,4)
    by (simp_all add: assms(5) click_notification_def click_left_def Let_def first_row nth_opt_def clamp_offset_def
        remove_id_def dismissed_def)
  then have c2: "nc_list c2 = [n']" "nc_queue c2 = [Dismiss (nt_id n)]" "nc_signals c2 = nc_signals c1"
    by (simp_all add: assms(6) centre_step_def handle_event_def upsert_def Let_def drop_timer_def)
  then show ?thesis
    using assms(3) c1(3)
    by (simp add: assms(7) centre_step_def handle_event_def clamp_offset_def remove_id_def drop_timer_def)
qed

text \<open>The hundredth other notification takes the configuration warning away, and no one is told.\<close>

lemma warning_is_discarded:
  assumes "nc_list c = w # ns" "length ns = 99" "nt_id n \<notin> nt_id ` set (nc_list c)"
  shows "nc_list (handle_event registered (Upsert n) c) = ns @ [n]"
    and "nc_signals (handle_event registered (Upsert n) c) = nc_signals c"
proof -
  have fresh: "replace_first n (nc_list c) = None" using assms(3) by (simp add: replace_first_None)
  obtain ns' timers where cut: "shrink (nc_list c @ [n]) ((nc_timers c)(nt_id n := None)) = (ns', timers)"
    by (cases "shrink (nc_list c @ [n]) ((nc_timers c)(nt_id n := None))")
  with shrink_spec [OF cut] assms(1,2) have "ns' = ns @ [n]" by simp
  with cut fresh show "nc_list (handle_event registered (Upsert n) c) = ns @ [n]"
    "nc_signals (handle_event registered (Upsert n) c) = nc_signals c"
    by (simp_all add: handle_event_def upsert_def Let_def drop_timer_def)
qed

text \<open>A number an application chose is given to the next notification of another one.\<close>

lemma chosen_number_is_reused:
  "fst (notify icon now 0 a b d as (snd (notify icon now 1 a' b' d' as' (centre_new muted)))) = 1"
  by (simp add: notify_def Let_def centre_new_def)

text \<open>Entities are replaced twice: an escaped entity becomes the character.\<close>

lemma entity_unescaped_twice: "notification_body_text ''&amp;lt;'' = ''<''"
  by (simp add: notification_body_text_def unescape_def continuation_byte_def Let_def starts_with_def take_chars_def)

end
