(* ===== verification/Launcher.thy ===== *)
theory Launcher
  imports RecorderPanel Commands BTreeMap
begin

text \<open>
  The launcher of the shell, \<open>crates/shell-sctk/src/main.rs\<close>: the desktop entries it reads, the
  categories of a query and what it lists for them, the geometry of its panel, clicks and keys, and
  the commands it sends. The JSON and \<open>shlex\<close> crates are parameters.
\<close>

section \<open>Desktop entries\<close>

record desktop_entry =
  de_name :: str
  de_exec :: "str list"

text \<open>The pairs of the \<open>[Desktop Entry]\<close> group, in the order of the file: the first of a key counts.\<close>

fun entry_pairs :: "bool \<Rightarrow> str list \<Rightarrow> (str \<times> str) list" where
  "entry_pairs in_entry [] = []"
| "entry_pairs in_entry (l # ls) =
     (let line = trim l
      in if starts_with line ''['' then entry_pairs (line = ''[Desktop Entry]'') ls
         else if \<not> in_entry \<or> starts_with line ''#'' then entry_pairs in_entry ls
         else (case split_once (CHR ''='') line of
                 Some p \<Rightarrow> p # entry_pairs in_entry ls
               | None \<Rightarrow> entry_pairs in_entry ls))"

definition exec_arguments :: "str list \<Rightarrow> str list" where
  "exec_arguments args =
     map (replace_all ''%%'' ''%'') (filter (\<lambda>a. a = ''%%'' \<or> \<not> starts_with a ''%'') args)"

definition parse_desktop_entry_text :: "(str \<Rightarrow> str list option) \<Rightarrow> str \<Rightarrow> desktop_entry option" where
  "parse_desktop_entry_text shlex text =
     (let values = map_of (entry_pairs False (split_at (CHR 0x0A) text))
      in if values ''Type'' \<noteq> Some ''Application'' \<or> values ''NoDisplay'' = Some ''true'' \<or> values ''Hidden'' = Some ''true''
         then None
         else
           (case (values ''Name'', values ''Exec'') of
              (Some name, Some exec) \<Rightarrow>
                (case shlex (trim exec) of
                   None \<Rightarrow> None
                 | Some args \<Rightarrow>
                     if trim name \<noteq> [] \<and> exec_arguments args \<noteq> []
                     then Some \<lparr>de_name = trim name, de_exec = exec_arguments args\<rparr> else None)
            | _ \<Rightarrow> None))"

definition desktop_extension :: "str \<Rightarrow> bool" where
  "desktop_extension file \<longleftrightarrow> 8 < length file \<and> drop (length file - 8) file = ''.desktop''"

text \<open>
  A directory is the files it lists, with their texts where they can be read; a directory that
  cannot be read is skipped. Entries are keyed by their name in lower case; the first one stays.
\<close>

type_synonym directory = "(str \<times> str option) list option"

definition add_entry :: "(str \<Rightarrow> str) \<Rightarrow> (str, desktop_entry) btree \<Rightarrow> desktop_entry \<Rightarrow> (str, desktop_entry) btree" where
  "add_entry lower m e = (if bt_get m (lower (de_name e)) = None then bt_insert (lower (de_name e)) e m else m)"

definition directory_entries :: "(str \<Rightarrow> str list option) \<Rightarrow> directory \<Rightarrow> desktop_entry list" where
  "directory_entries shlex d =
     (case d of
        None \<Rightarrow> []
      | Some files \<Rightarrow>
          List.map_filter (\<lambda>(file, text).
            if desktop_extension file then Option.bind text (parse_desktop_entry_text shlex) else None) files)"

definition load_desktop_entries ::
  "(str \<Rightarrow> str) \<Rightarrow> (str \<Rightarrow> str list option) \<Rightarrow> directory option \<Rightarrow> directory \<Rightarrow> directory \<Rightarrow> desktop_entry list" where
  "load_desktop_entries lower shlex home usr_share usr_local =
     (let directories = (case home of Some d \<Rightarrow> [d] | None \<Rightarrow> []) @ [usr_share, usr_local]
      in map snd (foldl (add_entry lower) [] (concat (map (directory_entries shlex) directories))))"

section \<open>Categories\<close>

datatype launcher_category = Apps | Windows | Commands | Power

datatype launcher_item = AppItem nat | WindowItem nat | CommandItem str | ActionItem str

datatype launcher_hit = CategoryHit launcher_category | ResultHit nat

text \<open>The first character of the query; the prefixes are ASCII.\<close>

definition launcher_category_for_query :: "str \<Rightarrow> launcher_category" where
  "launcher_category_for_query query =
     (let q = trim_start query
      in if starts_with q ''@'' then Windows else if starts_with q ''>'' then Commands
         else if starts_with q '':'' then Power else Apps)"

definition launcher_term :: "str \<Rightarrow> str" where
  "launcher_term query =
     (let q = trim_start query
      in trim_start (case strip_prefix ''@'' q of Some t \<Rightarrow> t | None \<Rightarrow>
                     (case strip_prefix ''>'' q of Some t \<Rightarrow> t | None \<Rightarrow>
                      (case strip_prefix '':'' q of Some t \<Rightarrow> t | None \<Rightarrow> q))))"

definition launcher_query_for_category :: "launcher_category \<Rightarrow> str \<Rightarrow> str" where
  "launcher_query_for_category category query =
     (let term = launcher_term query
      in case category of Apps \<Rightarrow> term | Windows \<Rightarrow> ''@'' @ term | Commands \<Rightarrow> ''> '' @ term | Power \<Rightarrow> '':'' @ term)"

section \<open>The launcher\<close>

record launcher =
  lc_snapshot :: snapshot
  lc_apps :: "desktop_entry list"
  lc_loaded :: bool
  lc_query :: str
  lc_selected :: nat
  lc_exit :: bool
  lc_commands :: "str list"

text \<open>\<open>run\<close> in launcher mode: only the desktop entries arrive, no subscription is made.\<close>

definition launcher_new :: launcher where
  "launcher_new =
     \<lparr>lc_snapshot = snapshot_default, lc_apps = [], lc_loaded = False, lc_query = [], lc_selected = 0,
      lc_exit = False, lc_commands = []\<rparr>"

record launcher_env =
  le_lower :: "str \<Rightarrow> str"
  le_json :: "str list \<Rightarrow> str"

definition launcher_actions :: "str list" where
  "launcher_actions = [''Lock session'', ''Quit Luma'']"

definition app_items :: "launcher_env \<Rightarrow> str \<Rightarrow> desktop_entry list \<Rightarrow> launcher_item list" where
  "app_items env query apps =
     take 8 (map (\<lambda>(i, _). AppItem i)
       (filter (\<lambda>(_, app). query = [] \<or> contains (le_lower env (de_name app)) query) (enumerate 0 apps)))"

definition launcher_items :: "launcher_env \<Rightarrow> launcher \<Rightarrow> launcher_item list" where
  "launcher_items env l =
     (let query = trim (lc_query l); lower = le_lower env
      in case strip_prefix ''>'' query of
           Some command \<Rightarrow> if trim command \<noteq> [] then [CommandItem (trim command)] else []
         | None \<Rightarrow>
             (case strip_prefix ''@'' query of
                Some q \<Rightarrow>
                  (let q = lower (trim q)
                   in take 8 (map (\<lambda>w. WindowItem (wi_id w))
                        (filter (\<lambda>w. q = [] \<or> contains (lower (wi_title w)) q \<or> contains (lower (wi_app_id w)) q)
                           (sn_windows (lc_snapshot l)))))
              | None \<Rightarrow>
                  (case strip_prefix '':'' query of
                     Some q \<Rightarrow>
                       (let q = lower (trim q)
                        in map ActionItem (filter (\<lambda>a. q = [] \<or> contains (lower a) q) launcher_actions))
                   | None \<Rightarrow> app_items env (lower query) (lc_apps l))))"

definition em_dash :: str where
  "em_dash = [CHR 0xE2, CHR 0x80, CHR 0x94]"

text \<open>An application that is not there panics.\<close>

fun item_label :: "desktop_entry list \<Rightarrow> snapshot \<Rightarrow> launcher_item \<Rightarrow> str option" where
  "item_label apps sn (AppItem i) = map_option de_name (nth_opt apps i)"
| "item_label apps sn (WindowItem i) =
     Some (case List.find (\<lambda>w. wi_id w = i) (sn_windows sn) of
             Some w \<Rightarrow> wi_title w @ ''  '' @ em_dash @ ''  '' @ wi_app_id w
           | None \<Rightarrow> ''Closed window'')"
| "item_label apps sn (CommandItem c) = Some (''> '' @ c)"
| "item_label apps sn (ActionItem a) = Some a"

definition launcher_rows :: "launcher_env \<Rightarrow> launcher \<Rightarrow> str option list" where
  "launcher_rows env l = map (item_label (lc_apps l) (lc_snapshot l)) (launcher_items env l)"

definition item_command :: "launcher_env \<Rightarrow> launcher \<Rightarrow> launcher_item \<Rightarrow> str option" where
  "item_command env l item =
     (case item of
        AppItem i \<Rightarrow> Some (''exec '' @ le_json env (de_exec (lc_apps l ! i)))
      | WindowItem i \<Rightarrow> Some (''focus '' @ show_nat i)
      | CommandItem c \<Rightarrow> Some (''exec '' @ le_json env [''sh'', ''-lc'', c])
      | ActionItem a \<Rightarrow> if a = ''Lock session'' then Some ''lock''
                        else if a = ''Quit Luma'' then Some ''quit'' else None)"

definition activate_launcher_item :: "launcher_env \<Rightarrow> launcher \<Rightarrow> launcher" where
  "activate_launcher_item env l =
     (case nth_opt (launcher_items env l) (lc_selected l) of
        None \<Rightarrow> l
      | Some item \<Rightarrow>
          (case item_command env l item of
             None \<Rightarrow> l
           | Some cmd \<Rightarrow> l\<lparr>lc_commands := lc_commands l @ [cmd], lc_exit := True\<rparr>))"

definition entries_loaded :: "launcher_env \<Rightarrow> desktop_entry list \<Rightarrow> launcher \<Rightarrow> launcher" where
  "entries_loaded env entries l0 =
     (let l = l0\<lparr>lc_apps := entries, lc_loaded := True\<rparr>
      in l\<lparr>lc_selected := min (lc_selected l) (length (launcher_items env l) - 1)\<rparr>)"

text \<open>A key, with the text it types.\<close>

definition launcher_key :: "launcher_env \<Rightarrow> keysym \<Rightarrow> str option \<Rightarrow> launcher \<Rightarrow> launcher" where
  "launcher_key env key typed l =
     (case key of
        Escape \<Rightarrow> l\<lparr>lc_exit := True\<rparr>
      | BackSpace \<Rightarrow> l\<lparr>lc_query := pop_char (lc_query l), lc_selected := 0\<rparr>
      | Up \<Rightarrow> l\<lparr>lc_selected := lc_selected l - 1\<rparr>
      | Down \<Rightarrow>
          (let count = length (launcher_items env l)
           in if 0 < count then l\<lparr>lc_selected := min (lc_selected l + 1) (count - 1)\<rparr> else l)
      | Return \<Rightarrow> activate_launcher_item env l
      | _ \<Rightarrow>
          (case typed of
             Some text \<Rightarrow> l\<lparr>lc_query := lc_query l @ text, lc_selected := 0\<rparr>
           | None \<Rightarrow> l))"

section \<open>Geometry\<close>

definition category_chips :: "(launcher_category \<times> str \<times> u32) list" where
  "category_chips = [(Apps, ''APPS'', 47), (Windows, ''@ WINDOWS'', 79), (Commands, ''> COMMANDS'', 91), (Power, '': POWER'', 67)]"

definition launcher_panel_rect :: "u32 \<Rightarrow> u32 \<Rightarrow> urect" where
  "launcher_panel_rect width height =
     (let panel_w = min width 680; panel_h = min height 420
      in ((width - panel_w) div 2, (height - panel_h) div 2, panel_w, panel_h))"

fun chip_rects :: "u32 \<Rightarrow> u32 \<Rightarrow> (launcher_category \<times> str \<times> u32) list \<Rightarrow> (launcher_category \<times> str \<times> urect) list" where
  "chip_rects x y [] = []"
| "chip_rects x y ((category, label, chip_width) # chips) =
     (category, label, (x, y, chip_width, 20)) # chip_rects (sat_add32 x (chip_width + 6)) y chips"

definition launcher_category_regions :: "u32 \<Rightarrow> u32 \<Rightarrow> (launcher_category \<times> str \<times> urect) list" where
  "launcher_category_regions width height =
     (case launcher_panel_rect width height of
        (panel_x, panel_y, _, _) \<Rightarrow> chip_rects (panel_x + 92) (panel_y + 140) category_chips)"

definition launcher_result_row_rect :: "u32 \<Rightarrow> u32 \<Rightarrow> nat \<Rightarrow> urect option" where
  "launcher_result_row_rect width height i =
     (case launcher_panel_rect width height of
        (panel_x, panel_y, panel_w, panel_h) \<Rightarrow>
          (let row_offset = sat_mul32 (if i < 2 ^ 32 then of_nat i else - 1) 35;
               row_y = sat_add32 (sat_add32 panel_y 185) row_offset;
               list_bottom = panel_y + sat_sub32 panel_h 48
           in if sat_add32 row_y 30 \<le> list_bottom then Some (panel_x + 20, row_y, sat_sub32 panel_w 40, 30) else None))"

definition launcher_rect_contains :: "f64 \<Rightarrow> f64 \<Rightarrow> urect \<Rightarrow> bool" where
  "launcher_rect_contains px py r \<longleftrightarrow>
     (case r of (x, y, w, h) \<Rightarrow>
        is_finite px \<and> is_finite py \<and> f64_le (f64_of_u32 x) px \<and> f64_lt px (f64_of_u32 (sat_add32 x w))
        \<and> f64_le (f64_of_u32 y) py \<and> f64_lt py (f64_of_u32 (sat_add32 y h)))"

definition launcher_pointer_hit :: "u32 \<Rightarrow> u32 \<Rightarrow> f64 \<Rightarrow> f64 \<Rightarrow> nat \<Rightarrow> launcher_hit option" where
  "launcher_pointer_hit width height px py result_count =
     (case List.find (\<lambda>(_, _, r). launcher_rect_contains px py r) (launcher_category_regions width height) of
        Some (category, _, _) \<Rightarrow> Some (CategoryHit category)
      | None \<Rightarrow>
          map_option ResultHit (List.find (\<lambda>i. case launcher_result_row_rect width height i of
             Some r \<Rightarrow> launcher_rect_contains px py r | None \<Rightarrow> False) [0..<result_count]))"

definition click_launcher :: "launcher_env \<Rightarrow> (u32 \<times> u32) option \<Rightarrow> f64 \<Rightarrow> f64 \<Rightarrow> launcher \<Rightarrow> launcher" where
  "click_launcher env surface px py l =
     (case surface of
        None \<Rightarrow> l
      | Some (width, height) \<Rightarrow>
          (case launcher_pointer_hit width height px py (length (launcher_items env l)) of
             Some (CategoryHit category) \<Rightarrow>
               l\<lparr>lc_query := launcher_query_for_category category (lc_query l), lc_selected := 0\<rparr>
           | Some (ResultHit i) \<Rightarrow> activate_launcher_item env (l\<lparr>lc_selected := i\<rparr>)
           | None \<Rightarrow> l))"

end
