(* ===== verification/LauncherProofs.thy ===== *)
theory LauncherProofs
  imports Launcher PanelProofs
begin

text \<open>
  The launcher: whatever is typed and clicked, its selection is one of its items and every item can
  be shown; a click hits the region it is in and no other; its categories keep the term; what it
  sends is what the compositor starts. It never learns of a window.
\<close>

section \<open>Runs\<close>

datatype launcher_event =
    EntriesLoaded "desktop_entry list"
  | KeyTyped keysym "str option"
  | LauncherClick "(u32 \<times> u32) option" f64 f64

definition launcher_step :: "launcher_env \<Rightarrow> launcher \<Rightarrow> launcher_event \<Rightarrow> launcher" where
  "launcher_step env l ev =
     (case ev of
        EntriesLoaded entries \<Rightarrow> entries_loaded env entries l
      | KeyTyped key typed \<Rightarrow> launcher_key env key typed l
      | LauncherClick surface px py \<Rightarrow> click_launcher env surface px py l)"

definition launcher_run :: "launcher_env \<Rightarrow> launcher_event list \<Rightarrow> launcher" where
  "launcher_run env evs = foldl (launcher_step env) launcher_new evs"

definition launcher_ok :: "launcher_env \<Rightarrow> launcher \<Rightarrow> bool" where
  "launcher_ok env l \<longleftrightarrow> lc_snapshot l = snapshot_default \<and> lc_selected l \<le> length (launcher_items env l) - 1"

lemma items_depend:
  "lc_snapshot l' = lc_snapshot l \<Longrightarrow> lc_apps l' = lc_apps l \<Longrightarrow> lc_query l' = lc_query l
   \<Longrightarrow> launcher_items env l' = launcher_items env l"
  by (simp only: launcher_items_def)

lemma activate_fields [simp]:
  "lc_snapshot (activate_launcher_item env l) = lc_snapshot l" "lc_apps (activate_launcher_item env l) = lc_apps l"
  "lc_query (activate_launcher_item env l) = lc_query l" "lc_selected (activate_launcher_item env l) = lc_selected l"
  by (simp_all add: activate_launcher_item_def split: option.split)

lemma activate_items [simp]: "launcher_items env (activate_launcher_item env l) = launcher_items env l"
  by (rule items_depend) simp_all

lemma updates_items [simp]:
  "launcher_items env (l\<lparr>lc_selected := n\<rparr>) = launcher_items env l"
  "launcher_items env (l\<lparr>lc_exit := b\<rparr>) = launcher_items env l"
  "launcher_items env (l\<lparr>lc_selected := n, lc_exit := b\<rparr>) = launcher_items env l"
  by (rule items_depend; simp)+

lemma find_Some_less: "List.find P [0..<n] = Some i \<Longrightarrow> i < n \<and> P i"
  by (auto simp: find_Some_iff)

lemma hit_within: "launcher_pointer_hit width height px py n = Some (ResultHit i) \<Longrightarrow> i < n"
  by (auto simp: launcher_pointer_hit_def split: option.splits dest!: find_Some_less)

lemma launcher_step_ok: "launcher_ok env l \<Longrightarrow> launcher_ok env (launcher_step env l ev)"
proof (cases ev)
  case (EntriesLoaded entries)
  moreover have "launcher_ok env (entries_loaded env entries l)" if "launcher_ok env l"
    using that by (simp add: launcher_ok_def entries_loaded_def Let_def)
  ultimately show "launcher_ok env l \<Longrightarrow> launcher_ok env (launcher_step env l ev)" by (simp add: launcher_step_def)
next
  case (KeyTyped key typed)
  then show "launcher_ok env l \<Longrightarrow> launcher_ok env (launcher_step env l ev)"
    by (auto simp: launcher_step_def launcher_ok_def launcher_key_def Let_def split: keysym.split option.split)
next
  case (LauncherClick surface px py)
  then show "launcher_ok env l \<Longrightarrow> launcher_ok env (launcher_step env l ev)"
    using hit_within
    by (fastforce simp: launcher_step_def launcher_ok_def click_launcher_def
        split: option.split launcher_hit.split prod.split)
qed

interpretation launcher_life: invariant_machine "launcher_step env" "launcher_ok env" for env
  by unfold_locales (rule launcher_step_ok)

lemma launcher_run_ok: "launcher_ok env (launcher_run env evs)"
  unfolding launcher_run_def by (rule launcher_life.run_inv) (simp add: launcher_ok_def launcher_new_def)

lemma listed_apps_exist: "AppItem i \<in> set (launcher_items env l) \<Longrightarrow> i < length (lc_apps l)"
  unfolding launcher_items_def Let_def app_items_def
  by (auto split: option.splits if_splits dest!: in_set_takeD simp: in_set_enumerate_eq)

section \<open>Properties\<close>

text \<open>
  Whatever is typed, clicked and loaded, in whatever order, the launcher can show every item it
  lists (no index of an application is out of range) and its selection is one of them.
\<close>

lemma launcher_never_panics:
  "let l = launcher_run env evs
   in None \<notin> set (launcher_rows env l)
      \<and> (launcher_items env l = [] \<or> lc_selected l < length (launcher_items env l))"
proof -
  let ?l = "launcher_run env evs"
  have "item_label (lc_apps ?l) (lc_snapshot ?l) item \<noteq> None" if "item \<in> set (launcher_items env ?l)" for item
  proof (cases item)
    case (AppItem i)
    with that have "i < length (lc_apps ?l)" by (simp add: listed_apps_exist)
    with AppItem show ?thesis by (simp add: nth_opt_def)
  qed simp_all
  then have "None \<notin> set (launcher_rows env ?l)" by (force simp: launcher_rows_def)
  moreover have "lc_selected ?l \<le> length (launcher_items env ?l) - 1"
    using launcher_run_ok by (simp add: launcher_ok_def)
  ultimately show ?thesis by (cases "launcher_items env ?l") (simp_all add: Let_def le_imp_less_Suc)
qed

text \<open>
  The launcher's window search finds nothing, whatever windows are open: it never subscribes to
  the compositor, and lists the windows of the empty snapshot.
\<close>

lemma launcher_lists_no_windows:
  assumes "starts_with (trim (lc_query (launcher_run env evs))) ''@''"
  shows "launcher_items env (launcher_run env evs) = []"
proof -
  let ?l = "launcher_run env evs"
  obtain q where q: "trim (lc_query ?l) = CHR ''@'' # q"
    using assms by (cases "trim (lc_query ?l)") (simp_all add: starts_with_def)
  have "lc_snapshot ?l = snapshot_default" using launcher_run_ok by (simp add: launcher_ok_def)
  then show ?thesis unfolding launcher_items_def q Let_def by (simp add: strip_prefix_def snapshot_default_def)
qed

section \<open>Categories\<close>

lemma trim_start_idem: "trim_start (trim_start s) = trim_start s"
  by (rule trim_start_id [OF trim_start_fixed])

lemma trim_start_graphic: "ascii_graphic c \<Longrightarrow> trim_start (c # s) = c # s"
  by (rule trim_start_id [OF ws_len_graphic_hd])

lemma blank_trimmed: "trim_start (CHR '' '' # s) = trim_start s"
proof -
  have "ws_len (CHR '' '' # s) = 1" by (simp add: ws_len_def is_ws_def)
  then show ?thesis by (subst trim_start.simps) simp
qed

lemma prefix_graphic: "ascii_graphic (CHR ''@'')" "ascii_graphic (CHR ''>'')" "ascii_graphic (CHR '':'')"
  by (simp_all add: ascii_graphic_def)

lemma term_fixed: "trim_start (launcher_term query) = launcher_term query"
  unfolding launcher_term_def Let_def by (rule trim_start_idem)

text \<open>
  A click on a category chip switches to that category and keeps the search term. For the
  applications this asks that the term does not start with a prefix of its own.
\<close>

lemma category_click_keeps_term:
  assumes "category = Apps \<Longrightarrow> launcher_category_for_query (launcher_term query) = Apps"
  shows "launcher_category_for_query (launcher_query_for_category category query) = category
    \<and> launcher_term (launcher_query_for_category category query) = launcher_term query"
proof (cases category)
  case Apps
  let ?t = "launcher_term query"
  have plain: "\<not> starts_with ?t ''@''" "\<not> starts_with ?t ''>''" "\<not> starts_with ?t '':''"
    using assms [OF Apps] term_fixed [of query] by (auto simp: launcher_category_for_query_def Let_def split: if_splits)
  have "launcher_term ?t = ?t"
    using plain by (subst launcher_term_def) (simp add: term_fixed strip_prefix_def starts_with_def)
  with Apps assms [OF Apps] show ?thesis by (simp add: launcher_query_for_category_def)
next
  case Windows
  then show ?thesis
    by (simp add: launcher_query_for_category_def launcher_category_for_query_def Let_def trim_start_graphic prefix_graphic
        starts_with_def launcher_term_def [of "CHR ''@'' # _"] strip_prefix_def term_fixed)
next
  case Commands
  then show ?thesis
    by (simp add: launcher_query_for_category_def launcher_category_for_query_def Let_def trim_start_graphic prefix_graphic
        starts_with_def launcher_term_def [of "CHR ''>'' # _"] strip_prefix_def blank_trimmed term_fixed)
next
  case Power
  then show ?thesis
    by (simp add: launcher_query_for_category_def launcher_category_for_query_def Let_def trim_start_graphic prefix_graphic
        starts_with_def launcher_term_def [of "CHR '':'' # _"] strip_prefix_def term_fixed)
qed

lemma doubled_prefix_stays:
  "launcher_category_for_query (launcher_query_for_category Apps ''@@x'') = Windows"
  by (simp add: launcher_query_for_category_def launcher_term_def launcher_category_for_query_def Let_def
      trim_start_graphic prefix_graphic strip_prefix_def starts_with_def)

section \<open>What is sent is what is started\<close>

text \<open>
  An item of the launcher is what the compositor starts, provided \<open>serde_json\<close> reads what it
  wrote: an application with the arguments of its entry, a command by a shell, with no quoting lost
  between the two.
\<close>

lemma launched_item_is_started:
  assumes "ce_json cenv (le_json env args) = Some args" "\<not> ss_locked s"
    and "item = AppItem i \<and> args = de_exec (lc_apps l ! i) \<or> item = CommandItem c \<and> args = [''sh'', ''-lc'', c]"
  shows "\<exists>cmd. item_command env l item = Some cmd
    \<and> desktop_command cenv cmd s = Some (spawn_app (ce_spawn cenv) args s)"
proof -
  have cmd: "item_command env l item = Some (''exec '' @ le_json env args)"
    using assms(3) by (auto simp: item_command_def)
  have parsed: "split_once (CHR '' '') (''exec '' @ le_json env args) = Some (''exec'', le_json env args)"
    by (simp add: split_once_Some)
  have "desktop_command cenv (''exec '' @ le_json env args) s = Some (spawn_app (ce_spawn cenv) args s)"
    unfolding desktop_command_def parsed Let_def
    using assms(1,2) by (simp add: spawn_parsed_def ok_or_def)
  with cmd show ?thesis by blast
qed

section \<open>Geometry\<close>

lemma contains_bounds:
  assumes "launcher_rect_contains px py (x, y, w, h)"
  obtains a b where "px = Fin a" "py = Fin b" "of_nat (unat x) \<le> a" "a < of_nat (unat x + unat w)"
    "of_nat (unat y) \<le> b" "b < of_nat (unat y + unat h)"
proof -
  from assms obtain a b where fin: "px = Fin a" "py = Fin b"
    by (cases px; cases py) (auto simp: launcher_rect_contains_def)
  have le: "(of_nat (unat (sat_add32 u v)) :: rat) \<le> of_nat (unat u + unat v)" for u v
    by (simp only: of_nat_le_iff unat_sat_add32)
  have "a < of_nat (unat x + unat w)" "b < of_nat (unat y + unat h)"
    using assms fin le [of x w] le [of y h] by (auto simp: launcher_rect_contains_def f64_of_u32_def simp del: of_nat_add)
  with that [OF fin] assms fin show thesis by (auto simp: launcher_rect_contains_def f64_of_u32_def)
qed

text \<open>Rectangles that are apart in one direction have no point in common.\<close>

lemma apart_x:
  assumes "launcher_rect_contains px py (x, y, w, h)" "launcher_rect_contains px py (x', y', w', h')"
  shows "unat x' < unat x + unat w"
proof -
  from contains_bounds [OF assms(1)] obtain a where "px = Fin a" "a < of_nat (unat x + unat w)" by metis
  moreover from contains_bounds [OF assms(2)] obtain a' where "px = Fin a'" "of_nat (unat x') \<le> a'" by metis
  ultimately have "of_nat (unat x') < (of_nat (unat x + unat w) :: rat)" by simp
  then show ?thesis by (simp only: of_nat_less_iff)
qed

lemma apart_y:
  assumes "launcher_rect_contains px py (x, y, w, h)" "launcher_rect_contains px py (x', y', w', h')"
  shows "unat y' < unat y + unat h"
proof -
  from contains_bounds [OF assms(1)] obtain b where "py = Fin b" "b < of_nat (unat y + unat h)" by metis
  moreover from contains_bounds [OF assms(2)] obtain b' where "py = Fin b'" "of_nat (unat y') \<le> b'" by metis
  ultimately have "of_nat (unat y') < (of_nat (unat y + unat h) :: rat)" by simp
  then show ?thesis by (simp only: of_nat_less_iff)
qed

lemma panel_bounds:
  assumes "launcher_panel_rect width height = (px, py, pw, ph)"
  shows "unat px \<le> 2 ^ 31" "unat py + unat ph \<le> unat height" "unat ph \<le> 420" "unat py \<le> 2 ^ 31"
proof -
  have half: "unat ((n - min n c) div 2) = (unat n - unat (min n c)) div 2" for n c :: u32
    by (simp only: unat_half) (simp add: unat_sub_if' word_le_nat_alt min_def)
  from assms have eq: "unat px = (unat width - unat (min width 680)) div 2" "unat ph = unat (min height 420)"
    "unat py = (unat height - unat (min height 420)) div 2"
    by (auto simp: launcher_panel_rect_def Let_def half)
  have small: "unat (min height 420) \<le> unat height" "unat (min height 420) \<le> 420"
    by (auto simp: min_def word_le_nat_alt)
  show "unat px \<le> 2 ^ 31" using below32 [of width] by (simp add: eq)
  show "unat ph \<le> 420" using small by (simp add: eq)
  show "unat py \<le> 2 ^ 31" using below32 [of height] by (simp add: eq)
  show "unat py + unat ph \<le> unat height" using small by (simp add: eq)
qed

text \<open>A row that is shown is at its place: nothing saturates.\<close>

lemma row_place:
  assumes "launcher_panel_rect width height = (px, py, pw, ph)"
    and "launcher_result_row_rect width height i = Some (x, y, w, h)"
  shows "unat y = unat py + 185 + 35 * i" "h = 30"
proof -
  note b = panel_bounds [OF assms(1)]
  let ?o = "sat_mul32 (if i < 2 ^ 32 then of_nat i else - 1) 35"
  let ?y = "sat_add32 (sat_add32 py 185) ?o"
  from assms(2) have y: "y = ?y" and shown: "sat_add32 ?y 30 \<le> py + sat_sub32 ph 48" and h: "h = 30"
    by (auto simp: launcher_result_row_rect_def assms(1) Let_def split: if_splits)
  have top: "unat (- 1 :: u32) = 2 ^ 32 - 1" by (simp add: unsigned_minus_1_eq_mask mask_eq_exp_minus_1)
  have offset: "unat ?o = min (35 * i) (2 ^ 32 - 1) \<or> 2 ^ 32 - 1 \<le> unat ?o"
    by (auto simp: sat_mul32_def top unat_of_nat take_bit_nat_eq_self_iff unat_word_ariths min_def)
  have "unat (sat_sub32 ph 48) = unat ph - 48" by (simp add: unat_sat_sub32)
  then have bottom: "unat (py + sat_sub32 ph 48) = unat py + (unat ph - 48)"
    using b(2) below32 [of height] by (subst unat_plus_small) auto
  have start: "unat (sat_add32 py 185) = unat py + 185" using b(4) by (simp add: unat_sat_add32)
  have "min (unat ?y + 30) (2 ^ 32 - 1) \<le> unat py + (unat ph - 48)"
    using shown bottom by (simp add: word_le_nat_alt unat_sat_add32)
  then have "unat ?y + 30 \<le> unat py + (unat ph - 48)"
    using b(3,4) by (simp add: min_def split: if_splits)
  moreover have "unat ?y = min (unat py + 185 + unat ?o) (2 ^ 32 - 1)"
    using start by (simp add: unat_sat_add32)
  ultimately have "unat ?y = unat py + 185 + unat ?o" "unat ?o < 420"
    using b(3,4) by (auto simp: min_def split: if_splits)
  with offset show "unat y = unat py + 185 + 35 * i" unfolding y by (auto simp: min_def split: if_splits)
  show "h = 30" by (rule h)
qed

definition region_of :: "u32 \<Rightarrow> u32 \<Rightarrow> launcher_hit \<Rightarrow> urect option" where
  "region_of width height hit =
     (case hit of
        CategoryHit category \<Rightarrow>
          map_option (\<lambda>(_, _, r). r) (List.find (\<lambda>(c, _, _). c = category) (launcher_category_regions width height))
      | ResultHit i \<Rightarrow> launcher_result_row_rect width height i)"

lemma chips_place:
  assumes "launcher_panel_rect width height = (px, py, pw, ph)"
  obtains x1 x2 x3 x4 y where
    "launcher_category_regions width height =
       [(Apps, ''APPS'', (x1, y, 47, 20)), (Windows, ''@ WINDOWS'', (x2, y, 79, 20)),
        (Commands, ''> COMMANDS'', (x3, y, 91, 20)), (Power, '': POWER'', (x4, y, 67, 20))]"
    "unat x2 = unat x1 + 53" "unat x3 = unat x2 + 85" "unat x4 = unat x3 + 97" "unat y = unat py + 140"
proof -
  note b = panel_bounds [OF assms]
  have x1: "unat (px + 92) = unat px + 92" using b(1) by (simp add: unat_word_ariths)
  have y: "unat (py + 140) = unat py + 140" using b(4) by (simp add: unat_word_ariths)
  have "unat (sat_add32 (px + 92) 53) = unat (px + 92) + 53" using b(1) x1 by (simp add: unat_sat_add32)
  moreover from this have "unat (sat_add32 (sat_add32 (px + 92) 53) 85) = unat (sat_add32 (px + 92) 53) + 85"
    using b(1) x1 by (simp add: unat_sat_add32)
  moreover from calculation
  have "unat (sat_add32 (sat_add32 (sat_add32 (px + 92) 53) 85) 97) = unat (sat_add32 (sat_add32 (px + 92) 53) 85) + 97"
    using b(1) x1 by (simp add: unat_sat_add32)
  ultimately show thesis
    using that [OF _ _ _ _ y] by (simp add: launcher_category_regions_def assms category_chips_def)
qed

lemma regions_apart:
  assumes "region_of width height h1 = Some r1" "region_of width height h2 = Some r2"
    and "launcher_rect_contains px py r1" "launcher_rect_contains px py r2"
  shows "h1 = h2"
proof -
  obtain qx qy qw qh where panel: "launcher_panel_rect width height = (qx, qy, qw, qh)" by (metis prod_cases4)
  obtain x1 x2 x3 x4 y where
    chips: "launcher_category_regions width height =
       [(Apps, ''APPS'', (x1, y, 47, 20)), (Windows, ''@ WINDOWS'', (x2, y, 79, 20)),
        (Commands, ''> COMMANDS'', (x3, y, 91, 20)), (Power, '': POWER'', (x4, y, 67, 20))]"
    and xs: "unat x2 = unat x1 + 53" "unat x3 = unat x2 + 85" "unat x4 = unat x3 + 97" and y: "unat y = unat qy + 140"
    by (rule chips_place [OF panel])
  have rows: "\<exists>a y' u. r = (a, y', u, 30) \<and> unat y' = unat qy + 185 + 35 * i"
    if "region_of width height (ResultHit i) = Some r" for i r
    using that row_place [OF panel, of i] by (cases r) (auto simp: region_of_def)
  have chip: "\<exists>x w. r = (x, y, w, 20) \<and> (c, x, w) \<in> {(Apps, x1, 47), (Windows, x2, 79), (Commands, x3, 91), (Power, x4, 67)}"
    if "region_of width height (CategoryHit c) = Some r" for c r
    using that by (cases c) (simp_all add: region_of_def chips)
  show ?thesis
  proof (cases h1; cases h2)
    fix i j assume hits: "h1 = ResultHit i" "h2 = ResultHit j"
    obtain a b u v y1 y2 where r: "r1 = (a, y1, u, 30)" "r2 = (b, y2, v, 30)"
      and "unat y1 = unat qy + 185 + 35 * i" "unat y2 = unat qy + 185 + 35 * j"
      using rows [OF assms(1) [unfolded hits(1)]] rows [OF assms(2) [unfolded hits(2)]] by blast
    moreover have "unat y2 < unat y1 + unat (30 :: u32)" "unat y1 < unat y2 + unat (30 :: u32)"
      using apart_y assms(3,4) r by blast+
    ultimately show ?thesis using hits by simp
  next
    fix c j assume hits: "h1 = CategoryHit c" "h2 = ResultHit j"
    obtain a u where r1: "r1 = (a, y, u, 20)" using chip [OF assms(1) [unfolded hits(1)]] by blast
    obtain b v y2 where r2: "r2 = (b, y2, v, 30)" "unat y2 = unat qy + 185 + 35 * j"
      using rows [OF assms(2) [unfolded hits(2)]] by blast
    have "unat y2 < unat y + unat (20 :: u32)" using apart_y assms(3,4) r1 r2(1) by blast
    with y r2(2) show ?thesis by simp
  next
    fix i c assume hits: "h1 = ResultHit i" "h2 = CategoryHit c"
    obtain a u where r1: "r2 = (a, y, u, 20)" using chip [OF assms(2) [unfolded hits(2)]] by blast
    obtain b v y2 where r2: "r1 = (b, y2, v, 30)" "unat y2 = unat qy + 185 + 35 * i"
      using rows [OF assms(1) [unfolded hits(1)]] by blast
    have "unat y2 < unat y + unat (20 :: u32)" using apart_y assms(3,4) r1 r2(1) by blast
    with y r2(2) show ?thesis by simp
  next
    fix c d assume hits: "h1 = CategoryHit c" "h2 = CategoryHit d"
    obtain a u b v where r: "r1 = (a, y, u, 20)" "r2 = (b, y, v, 20)"
      and places: "(c, a, u) \<in> {(Apps, x1, 47), (Windows, x2, 79), (Commands, x3, 91), (Power, x4, 67)}"
        "(d, b, v) \<in> {(Apps, x1, 47), (Windows, x2, 79), (Commands, x3, 91), (Power, x4, 67)}"
      using chip [OF assms(1) [unfolded hits(1)]] chip [OF assms(2) [unfolded hits(2)]] by blast
    have "unat b < unat a + unat u" "unat a < unat b + unat v" using apart_x assms(3,4) r by blast+
    with places xs have "c = d" by auto
    with hits show ?thesis by simp
  qed
qed

lemma find_unique:
  assumes "\<And>x y. x \<in> set xs \<Longrightarrow> y \<in> set xs \<Longrightarrow> P x \<Longrightarrow> P y \<Longrightarrow> x = y"
  shows "List.find P xs = Some x \<longleftrightarrow> x \<in> set xs \<and> P x"
proof -
  have "List.find P xs = Some x" if "x \<in> set xs" "P x"
  proof (cases "List.find P xs")
    case None
    with that show ?thesis by (simp add: find_None_iff)
  next
    case (Some y)
    from found_in [OF Some] have "y \<in> set xs" "P y" by blast+
    with assms that Some show ?thesis by blast
  qed
  with found_in [of P xs x] show ?thesis by blast
qed

lemma category_regions:
  "(category, label, r) \<in> set (launcher_category_regions width height) \<Longrightarrow>
     region_of width height (CategoryHit category) = Some r"
proof -
  obtain px py pw ph where panel: "launcher_panel_rect width height = (px, py, pw, ph)" by (metis prod_cases4)
  show "(category, label, r) \<in> set (launcher_category_regions width height) \<Longrightarrow>
      region_of width height (CategoryHit category) = Some r"
    by (rule chips_place [OF panel]) (auto simp: region_of_def)
qed

text \<open>
  C40: a click of the launcher hits exactly the region it is in: a category chip, or a row that is
  listed and fits in the panel; no point is in two of them, whatever the size of the surface (small
  ones, and sizes at which the coordinates saturate, included).
\<close>

theorem launcher_click_hits_its_region:
  "launcher_pointer_hit width height px py n = Some hit \<longleftrightarrow>
     (\<exists>r. region_of width height hit = Some r \<and> launcher_rect_contains px py r)
     \<and> (case hit of ResultHit i \<Rightarrow> i < n | CategoryHit _ \<Rightarrow> True)"
proof -
  let ?chip = "\<lambda>(_ :: launcher_category, _ :: str, r). launcher_rect_contains px py r"
  let ?row = "\<lambda>i. case launcher_result_row_rect width height i of Some r \<Rightarrow> launcher_rect_contains px py r | None \<Rightarrow> False"
  let ?chips = "launcher_category_regions width height"
  have row: "?row i \<longleftrightarrow> (\<exists>r. region_of width height (ResultHit i) = Some r \<and> launcher_rect_contains px py r)" for i
    by (simp add: region_of_def split: option.split)
  have chip: "(\<exists>r. region_of width height (CategoryHit c) = Some r \<and> launcher_rect_contains px py r)
      \<longleftrightarrow> (\<exists>label r. (c, label, r) \<in> set ?chips \<and> launcher_rect_contains px py r)" for c
    using category_regions by (auto simp: region_of_def find_Some_iff) (metis nth_mem)+
  have rows: "List.find ?row [0..<n] = Some i \<longleftrightarrow> i < n \<and> ?row i" for i
  proof -
    have "i = j" if "?row i" "?row j" for i j
      using that regions_apart unfolding row by blast
    from find_unique [of "[0..<n]" ?row, OF this] show ?thesis by simp
  qed
  show ?thesis
  proof (cases "List.find ?chip ?chips")
    case None
    then have none: "\<not> (\<exists>label r. (c, label, r) \<in> set ?chips \<and> launcher_rect_contains px py r)" for c
      by (auto simp: find_None_iff)
    have no_chip: "\<not> (\<exists>r. region_of width height (CategoryHit c) = Some r \<and> launcher_rect_contains px py r)" for c
      using none [of c] by (simp only: chip not_False_eq_True)
    show ?thesis
    proof (cases hit)
      case (CategoryHit c)
      with None no_chip [of c] show ?thesis by (simp add: launcher_pointer_hit_def)
    next
      case (ResultHit i)
      with None rows [of i] row [of i] show ?thesis by (auto simp: launcher_pointer_hit_def)
    qed
  next
    case (Some e)
    obtain c label r where e: "e = (c, label, r)" by (rule prod_cases3)
    from Some have "e \<in> set ?chips \<and> ?chip e" by (rule found_in)
    then have "(c, label, r) \<in> set ?chips" "launcher_rect_contains px py r" by (simp_all add: e)
    then have here: "region_of width height (CategoryHit c) = Some r" "launcher_rect_contains px py r"
      using category_regions by blast+
    then have "(\<exists>r. region_of width height hit = Some r \<and> launcher_rect_contains px py r) \<longleftrightarrow> hit = CategoryHit c"
      using regions_apart by blast
    with Some show ?thesis by (auto simp: launcher_pointer_hit_def e)
  qed
qed

text \<open>An entry the user hides is listed from the system's directory all the same.\<close>

lemma hidden_entry_is_listed:
  assumes "parse_desktop_entry_text shlex hidden = None" "parse_desktop_entry_text shlex text = Some e"
    and "desktop_extension file"
  shows "load_desktop_entries lower shlex (Some (Some [(file, Some hidden)])) (Some [(file, Some text)]) None = [e]"
  using assms
  by (simp add: load_desktop_entries_def directory_entries_def add_entry_def bt_get_def List.map_filter_simps)

text \<open>Blanks around the equals sign are kept in the key, so the line does not count.\<close>

lemma spaced_key_ignored:
  "map_of (entry_pairs True [''Name = x'']) ''Name'' = None"
proof -
  have "trim ''Name = x'' = ''Name = x''"
    using trim_edit [of "''Name''" "''= x''"] trim_edit [of "''=''" "''x''"]
    by (simp add: ascii_graphic_def trim_graphic)
  then show ?thesis by (simp add: Let_def starts_with_def)
qed

end
