(* ===== verification/Tray.thy ===== *)
theory Tray
  imports ShellText
begin

text \<open>
  The tray of the bar, \<open>crates/shell-sctk/src/main.rs\<close>: the watcher that applications register with,
  the threads that follow their items, the pictures of the items, the menus of the items. What an
  application answers over D-Bus and the pictures on the disk are inputs; what the bar asks of
  applications is a list of effects. A picture is its size and its pixels, row by row.
\<close>

section \<open>Items\<close>

type_synonym pixel = "u8 \<times> u8 \<times> u8 \<times> u8"

record rgba_image =
  im_width :: nat
  im_height :: nat
  im_pixels :: "pixel list"

record tray_item =
  ti_id :: str
  ti_service :: str
  ti_path :: str
  ti_icon :: "rgba_image option"
  ti_visible :: bool
  ti_menu_path :: "str option"

definition has_visible_icon :: "tray_item \<Rightarrow> bool" where
  "has_visible_icon item \<longleftrightarrow> ti_visible item \<and> ti_icon item \<noteq> None"

datatype tray_event = TrayUpsert tray_item | TrayRemove str

section \<open>Pictures\<close>

text \<open>Pixels in network byte order: alpha first.\<close>

fun argb_pixels :: "bytes \<Rightarrow> pixel list" where
  "argb_pixels (a # r # g # b # px) = (r, g, b, a) # argb_pixels px"
| "argb_pixels _ = []"

text \<open>The usable picture whose size is nearest to 24.\<close>

definition tray_pixmap :: "(int \<times> int \<times> bytes) list \<Rightarrow> rgba_image option" where
  "tray_pixmap pixmaps =
     map_option (\<lambda>(w, h, px). \<lparr>im_width = nat w, im_height = nat h, im_pixels = argb_pixels px\<rparr>)
       (min_by_key (\<lambda>(w, h, _). nat \<bar>w - 24\<bar> + nat \<bar>h - 24\<bar>)
         (filter (\<lambda>(w, h, px). 0 < w \<and> 0 < h \<and> w \<le> 256 \<and> h \<le> 256 \<and> length px = nat w * nat h * 4) pixmaps))"

definition tray_icon_name_ok :: "str \<Rightarrow> bool" where
  "tray_icon_name_ok name \<longleftrightarrow>
     name \<noteq> [] \<and> length name \<le> 128 \<and> list_all (\<lambda>c. is_ascii_alphanumeric c \<or> c \<in> set ''-_.'') name"

definition tray_icon_roots :: "str option \<Rightarrow> str option \<Rightarrow> str list" where
  "tray_icon_roots home theme_paths =
     (case home of Some h \<Rightarrow> [path_join h ''.local/share/icons''] | None \<Rightarrow> [])
     @ (case theme_paths of
          Some paths \<Rightarrow> filter (\<lambda>p. starts_with p ''/'') (take 16 (split_at (CHR '':'') paths))
        | None \<Rightarrow> [])
     @ [''/usr/share/icons'', ''/usr/share/pixmaps'']"

definition tray_icon_candidates :: "str \<Rightarrow> str \<Rightarrow> str list" where
  "tray_icon_candidates name theme =
     path_join theme (name @ ''.png'')
     # map (\<lambda>dir. path_join (path_join theme dir) (name @ ''.png''))
         [''hicolor/16x16/status'', ''hicolor/16x16/apps'', ''hicolor/24x24/status'', ''hicolor/24x24/apps'',
          ''hicolor/32x32/status'', ''hicolor/32x32/apps'']"

text \<open>\<open>open_image\<close> is the picture a file decodes to.\<close>

definition load_named_tray_icon ::
  "(str \<Rightarrow> rgba_image option) \<Rightarrow> str option \<Rightarrow> str \<Rightarrow> str option \<Rightarrow> rgba_image option" where
  "load_named_tray_icon open_image home name theme_paths =
     (if \<not> tray_icon_name_ok name then None
      else List.find (\<lambda>im. im_width im \<le> 256 \<and> im_height im \<le> 256)
        (List.map_filter open_image (concat (map (tray_icon_candidates name) (tray_icon_roots home theme_paths)))))"

text \<open>The colour and the opacity of a translucent pixel over another, as \<open>u32\<close> values cut to \<open>u8\<close>.\<close>

definition over_alpha :: "nat \<Rightarrow> nat \<Rightarrow> nat" where
  "over_alpha alpha base_alpha = alpha + base_alpha * (255 - alpha) div 255"

definition over_channel :: "nat \<Rightarrow> nat \<Rightarrow> nat \<Rightarrow> nat \<Rightarrow> nat" where
  "over_channel alpha base_alpha foreground background =
     (if over_alpha alpha base_alpha = 0 then 0
      else (foreground * alpha * 255 + background * base_alpha * (255 - alpha)) div (over_alpha alpha base_alpha * 255))"

definition over_pixel :: "pixel \<Rightarrow> pixel \<Rightarrow> pixel" where
  "over_pixel p base =
     (case (p, base) of ((r, g, b, a), (r', g', b', a')) \<Rightarrow>
        (let channel = (\<lambda>x y. of_nat (over_channel (unat a) (unat a') (unat x) (unat y)))
         in (channel r r', channel g g', channel b b', of_nat (over_alpha (unat a) (unat a')))))"

text \<open>The overlay, in the lower right corner.\<close>

definition put_over :: "rgba_image \<Rightarrow> nat \<Rightarrow> nat \<Rightarrow> pixel list \<Rightarrow> nat \<times> nat \<Rightarrow> pixel list" where
  "put_over overlay icon_width offset px rc =
     (case rc of (row, column) \<Rightarrow>
        (let p = im_pixels overlay ! (row * im_width overlay + column);
             i = offset + row * icon_width + column
         in if snd (snd (snd p)) \<noteq> 0 then px[i := over_pixel p (px ! i)] else px))"

definition overlay_tray_icon :: "rgba_image \<Rightarrow> rgba_image option \<Rightarrow> rgba_image" where
  "overlay_tray_icon icon overlay =
     (case overlay of
        None \<Rightarrow> icon
      | Some over \<Rightarrow>
          (let width = min (im_width over) (im_width icon); height = min (im_height over) (im_height icon);
               x = im_width icon - width; y = im_height icon - height
           in icon\<lparr>im_pixels := foldl (put_over over (im_width icon) (y * im_width icon + x)) (im_pixels icon)
                     (List.product [0..<height] [0..<width])\<rparr>))"

section \<open>Reading an item\<close>

text \<open>What an application answers; \<open>None\<close> where it has no such property.\<close>

record item_proxy =
  ip_status :: "str option"
  ip_theme_path :: "str option"
  ip_pixmap :: "str \<Rightarrow> (int \<times> int \<times> bytes) list option"
  ip_name :: "str \<Rightarrow> str option"
  ip_menu :: "str option"

definition pixmap_or_name :: "(str \<Rightarrow> rgba_image option) \<Rightarrow> str option \<Rightarrow> item_proxy \<Rightarrow> str \<Rightarrow> str \<Rightarrow> rgba_image option" where
  "pixmap_or_name open_image home p pixmap name =
     (case tray_pixmap (case ip_pixmap p pixmap of Some px \<Rightarrow> px | None \<Rightarrow> []) of
        Some im \<Rightarrow> Some im
      | None \<Rightarrow> Option.bind (ip_name p name) (\<lambda>n. load_named_tray_icon open_image home n (ip_theme_path p)))"

definition load_tray_item ::
  "(str \<Rightarrow> rgba_image option) \<Rightarrow> str option \<Rightarrow> item_proxy option \<Rightarrow> str \<Rightarrow> str \<Rightarrow> str \<Rightarrow> tray_item" where
  "load_tray_item open_image home proxy i service path =
     (case proxy of
        None \<Rightarrow> \<lparr>ti_id = i, ti_service = service, ti_path = path, ti_icon = None, ti_visible = True, ti_menu_path = None\<rparr>
      | Some p \<Rightarrow>
          (let status = (case ip_status p of Some s \<Rightarrow> s | None \<Rightarrow> ''Active'');
               picture = pixmap_or_name open_image home p;
               normal = picture ''IconPixmap'' ''IconName'';
               icon = (if status = ''NeedsAttention''
                       then (case picture ''AttentionIconPixmap'' ''AttentionIconName'' of Some im \<Rightarrow> Some im | None \<Rightarrow> normal)
                       else normal);
               overlay = picture ''OverlayIconPixmap'' ''OverlayIconName''
           in \<lparr>ti_id = i, ti_service = service, ti_path = path,
               ti_icon = map_option (\<lambda>im. overlay_tray_icon im overlay) icon,
               ti_visible = (status \<noteq> ''Passive''),
               ti_menu_path = (case ip_menu p of Some m \<Rightarrow> if m \<noteq> ''/'' then Some m else None | None \<Rightarrow> None)\<rparr>))"

definition tray_service_owner_lost :: "str \<Rightarrow> str \<Rightarrow> str \<Rightarrow> str \<Rightarrow> str \<Rightarrow> bool" where
  "tray_service_owner_lost name old_owner new_owner service owner \<longleftrightarrow>
     name = service \<and> old_owner = owner \<and> new_owner \<noteq> owner"

definition tray_signal_needs_refresh :: "str option \<Rightarrow> bool" where
  "tray_signal_needs_refresh member \<longleftrightarrow>
     member \<in> Some ` set [''PropertiesChanged'', ''NewIcon'', ''NewAttentionIcon'', ''NewOverlayIcon'', ''NewStatus'',
       ''NewIconThemePath'']"

section \<open>The watcher\<close>

text \<open>
  The list of registered items is shared by the D-Bus server and the threads that follow the items;
  the events they send wait in a channel; \<open>tw_reading\<close> are the items that a thread has read anew and
  not sent yet.
\<close>

record tray_watch =
  tw_items :: "str list"
  tw_reading :: "tray_item list"
  tw_queue :: "tray_event list"
  tw_tray :: "tray_item list"

definition item_address :: "str \<Rightarrow> str option \<Rightarrow> (str \<times> str) option" where
  "item_address registered sender =
     (let name = take_chars 256 registered
      in if starts_with name ''/'' then map_option (\<lambda>s. (s, name)) sender else Some (name, ''/StatusNotifierItem''))"

definition register_status_notifier_item ::
  "(str \<times> str \<Rightarrow> tray_item) \<Rightarrow> str \<Rightarrow> str option \<Rightarrow> tray_watch \<Rightarrow> tray_watch" where
  "register_status_notifier_item load registered sender w =
     (case item_address registered sender of
        None \<Rightarrow> w
      | Some (service, path) \<Rightarrow>
          (let i = service @ path
           in if i \<in> set (tw_items w) then w
              else w\<lparr>tw_items := tw_items w @ [i], tw_queue := tw_queue w @ [TrayUpsert (load (service, path))]\<rparr>))"

definition remove_tray_item :: "str \<Rightarrow> tray_watch \<Rightarrow> tray_watch" where
  "remove_tray_item i w =
     (case position (\<lambda>known. known = i) (tw_items w) of
        None \<Rightarrow> w
      | Some n \<Rightarrow> w\<lparr>tw_items := take n (tw_items w) @ drop (Suc n) (tw_items w), tw_queue := tw_queue w @ [TrayRemove i]\<rparr>)"

text \<open>The bar takes an event: the first item of the number is replaced, or the item is appended.\<close>

fun replace_item :: "tray_item \<Rightarrow> tray_item list \<Rightarrow> tray_item list" where
  "replace_item item [] = [item]"
| "replace_item item (x # xs) = (if ti_id x = ti_id item then item # xs else x # replace_item item xs)"

fun tray_event_received :: "tray_item list \<Rightarrow> tray_event \<Rightarrow> tray_item list" where
  "tray_event_received tray (TrayUpsert item) = replace_item item tray"
| "tray_event_received tray (TrayRemove i) = filter (\<lambda>item. ti_id item \<noteq> i) tray"

text \<open>
  What happens: a registration, a thread that reads a registered item, a thread that sends what it has
  read, a service that disappears, the bar that takes an event.
\<close>

datatype watch_event =
    Registered str "str option" "item_proxy option"
  | ItemRead str str "item_proxy option"
  | ItemSent nat
  | OwnerLost str
  | Taken

definition load_item :: "(str \<Rightarrow> rgba_image option) \<Rightarrow> str option \<Rightarrow> item_proxy option \<Rightarrow> str \<times> str \<Rightarrow> tray_item" where
  "load_item open_image home proxy address =
     load_tray_item open_image home proxy (fst address @ snd address) (fst address) (snd address)"

definition watch_step :: "(str \<Rightarrow> rgba_image option) \<Rightarrow> str option \<Rightarrow> tray_watch \<Rightarrow> watch_event \<Rightarrow> tray_watch" where
  "watch_step open_image home w ev =
     (case ev of
        Registered registered sender proxy \<Rightarrow>
          register_status_notifier_item (load_item open_image home proxy) registered sender w
      | ItemRead service path proxy \<Rightarrow>
          if service @ path \<in> set (tw_items w)
          then w\<lparr>tw_reading := tw_reading w @ [load_item open_image home proxy (service, path)]\<rparr> else w
      | ItemSent n \<Rightarrow>
          if n < length (tw_reading w)
          then w\<lparr>tw_reading := take n (tw_reading w) @ drop (Suc n) (tw_reading w),
                 tw_queue := tw_queue w @ [TrayUpsert (tw_reading w ! n)]\<rparr>
          else w
      | OwnerLost i \<Rightarrow> remove_tray_item i w
      | Taken \<Rightarrow>
          (case tw_queue w of [] \<Rightarrow> w | e # q \<Rightarrow> w\<lparr>tw_queue := q, tw_tray := tray_event_received (tw_tray w) e\<rparr>))"

definition watch_new :: tray_watch where
  "watch_new = \<lparr>tw_items = [], tw_reading = [], tw_queue = [], tw_tray = []\<rparr>"

section \<open>Menus\<close>

text \<open>A value of D-Bus, as far as the menus use it.\<close>

datatype dvalue = VStr str | VBool bool | VInt int | VOther

type_synonym properties = "str \<Rightarrow> dvalue option"

record tray_menu_row =
  mr_id :: int
  mr_label :: str
  mr_enabled :: bool
  mr_separator :: bool
  mr_submenu :: bool
  mr_toggle_state :: "int option"

text \<open>\<open>char::is_control\<close>.\<close>

definition is_control :: "str \<Rightarrow> bool" where
  "is_control c \<longleftrightarrow>
     (case map of_char c :: nat list of
        [a] \<Rightarrow> a < 0x20 \<or> a = 0x7F
      | [a, b] \<Rightarrow> a = 0xC2 \<and> 0x80 \<le> b \<and> b < 0xA0
      | _ \<Rightarrow> False)"

definition tray_menu_property_string :: "properties \<Rightarrow> str \<Rightarrow> str" where
  "tray_menu_property_string properties key =
     concat (map (\<lambda>c. if is_control c then '' '' else c)
       (take 256 (utf8_chars (case properties key of Some (VStr s) \<Rightarrow> s | _ \<Rightarrow> []))))"

definition property_bool :: "properties \<Rightarrow> str \<Rightarrow> bool" where
  "property_bool properties key = (case properties key of Some (VBool b) \<Rightarrow> b | _ \<Rightarrow> True)"

definition menu_row :: "int \<Rightarrow> properties \<Rightarrow> tray_menu_row" where
  "menu_row i properties =
     \<lparr>mr_id = i, mr_label = tray_menu_property_string properties ''label'',
      mr_enabled = property_bool properties ''enabled'',
      mr_separator = (tray_menu_property_string properties ''type'' = ''separator''),
      mr_submenu = (tray_menu_property_string properties ''children-display'' = ''submenu''),
      mr_toggle_state = (case properties ''toggle-state'' of Some (VInt n) \<Rightarrow> Some n | _ \<Rightarrow> None)\<rparr>"

text \<open>A child that is not a menu item is \<open>None\<close>.\<close>

fun menu_rows :: "int \<Rightarrow> int list \<Rightarrow> (int \<times> properties) option list \<Rightarrow> tray_menu_row list option" where
  "menu_rows parent seen [] = Some []"
| "menu_rows parent seen (None # cs) = None"
| "menu_rows parent seen (Some (i, properties) # cs) =
     (if i = parent \<or> i \<in> set seen then None
      else map_option (\<lambda>rows. if property_bool properties ''visible'' then menu_row i properties # rows else rows)
             (menu_rows parent (i # seen) cs))"

definition parse_tray_menu_layout ::
  "int \<times> (int \<times> properties) option list \<Rightarrow> int \<Rightarrow> tray_menu_row list option" where
  "parse_tray_menu_layout layout parent =
     (case layout of (page, children) \<Rightarrow>
        if page \<noteq> parent \<or> 128 < length children then None else menu_rows parent [] children)"

text \<open>What the bar asks of others.\<close>

datatype bar_effect =
    CallItem str str str int int
  | ScrollItem str str int str
  | LoadPage str str int
  | ClickEntry str str int
  | Wm str
  | Pactl "str list"
  | Player str
  | Wireless bool
  | Networking bool
  | BluetoothPower bool
  | BluetoothDiscovery bool
  | Tool str
  | Systemctl str

record tray_menu =
  tm_service :: str
  tm_path :: str
  tm_menu_path :: str
  tm_output :: nat
  tm_local_x :: int
  tm_action_position :: "int \<times> int"
  tm_parents :: "int list"
  tm_rows :: "tray_menu_row list"

record tray_app =
  ta_menu :: "tray_menu option"
  ta_effects :: "bar_effect list"

definition emit :: "bar_effect \<Rightarrow> 'a tray_app_scheme \<Rightarrow> 'a tray_app_scheme" where
  "emit e a = a\<lparr>ta_effects := ta_effects a @ [e]\<rparr>"

definition close_tray_menu :: "'a tray_app_scheme \<Rightarrow> 'a tray_app_scheme" where
  "close_tray_menu a = a\<lparr>ta_menu := None\<rparr>"

definition round_i32 :: "f64 \<Rightarrow> f64 \<Rightarrow> f64 \<Rightarrow> int" where
  "round_i32 lo hi x = f64_to_i32 (f64_clamp lo hi (f64_round x))"

text \<open>False when the item has no menu, or the surface no output: nothing is opened.\<close>

definition request_tray_menu ::
  "tray_item \<Rightarrow> nat option \<Rightarrow> f64 \<Rightarrow> int \<times> int \<Rightarrow> 'a tray_app_scheme \<Rightarrow> bool \<times> 'a tray_app_scheme" where
  "request_tray_menu item out local_x action_position a =
     (case (ti_menu_path item, out) of
        (Some menu_path, Some output) \<Rightarrow>
          (True, emit (LoadPage (ti_service item) menu_path 0)
             (a\<lparr>ta_menu := Some
                \<lparr>tm_service = ti_service item, tm_path = ti_path item, tm_menu_path = menu_path, tm_output = output,
                 tm_local_x = round_i32 (Fin 0) (Fin 2147483647) local_x, tm_action_position = action_position,
                 tm_parents = [0], tm_rows = []\<rparr>\<rparr>))
      | _ \<Rightarrow> (False, a))"

definition tray_menu_loaded ::
  "str \<Rightarrow> str \<Rightarrow> int \<Rightarrow> tray_menu_row list option \<Rightarrow> 'a tray_app_scheme \<Rightarrow> 'a tray_app_scheme" where
  "tray_menu_loaded service menu_path parent rows a =
     (case ta_menu a of
        None \<Rightarrow> a
      | Some m \<Rightarrow>
          if tm_service m \<noteq> service \<or> tm_menu_path m \<noteq> menu_path \<or> tm_parents m = [] \<or> last (tm_parents m) \<noteq> parent then a
          else (case rows of
                  Some rs \<Rightarrow> a\<lparr>ta_menu := Some (m\<lparr>tm_rows := rs\<rparr>)\<rparr>
                | None \<Rightarrow>
                    emit (CallItem (tm_service m) (tm_path m) ''ContextMenu'' (fst (tm_action_position m)) (snd (tm_action_position m)))
                      (close_tray_menu a)))"

text \<open>The row under the pointer; the first is the way back in a submenu.\<close>

definition menu_row_at :: "f64 \<Rightarrow> nat" where
  "menu_row_at y = unat (f64_to_u32 (f64_max y (Fin 0))) div 28"

definition open_page :: "tray_menu \<Rightarrow> 'a tray_app_scheme \<Rightarrow> 'a tray_app_scheme" where
  "open_page m a =
     emit (LoadPage (tm_service m) (tm_menu_path m) (if tm_parents m = [] then 0 else last (tm_parents m)))
       (a\<lparr>ta_menu := Some (m\<lparr>tm_rows := []\<rparr>)\<rparr>)"

definition click_tray_menu :: "f64 \<Rightarrow> nat \<Rightarrow> 'a tray_app_scheme \<Rightarrow> 'a tray_app_scheme" where
  "click_tray_menu y button a =
     (if button \<noteq> 0x110 then close_tray_menu a
      else case ta_menu a of
        None \<Rightarrow> a
      | Some m \<Rightarrow>
          (let row = menu_row_at y; offset = (if 1 < length (tm_parents m) then 1 else 0)
           in if 1 < length (tm_parents m) \<and> row = 0 then open_page (m\<lparr>tm_parents := butlast (tm_parents m)\<rparr>) a
              else case (if offset \<le> row then nth_opt (tm_rows m) (row - offset) else None) of
                None \<Rightarrow> close_tray_menu a
              | Some item \<Rightarrow>
                  if mr_separator item \<or> \<not> mr_enabled item then a
                  else if mr_submenu item \<and> length (tm_parents m) < 16
                  then open_page (m\<lparr>tm_parents := tm_parents m @ [mr_id item]\<rparr>) a
                  else close_tray_menu (emit (ClickEntry (tm_service m) (tm_menu_path m) (mr_id item)) a)))"

text \<open>The height of the popup, and its distance from the left edge of an output of the width.\<close>

definition tray_menu_height :: "tray_menu \<Rightarrow> u32" where
  "tray_menu_height m =
     (let rows = length (tm_rows m) + (if 1 < length (tm_parents m) then 1 else 0)
      in min (of_nat (max rows 1) * 28 + 12) 480)"

definition tray_menu_left :: "int option \<Rightarrow> tray_menu \<Rightarrow> int" where
  "tray_menu_left logical_width m =
     (let output_width = max (case logical_width of Some w \<Rightarrow> w | None \<Rightarrow> 280) 280
      in clamp 0 (output_width - 280) (tm_local_x m - 264))"

end
