(* ===== verification/Bar.thy ===== *)
theory Bar
  imports Notifications Launcher Tray
begin

text \<open>
  The bar of the shell, \<open>crates/shell-sctk/src/main.rs\<close>: what it says, where its chips are, what its
  clicks and its wheel do, the panels the chips open, the player of a video wallpaper. The width of a
  text in the bar's font and the names of outputs are inputs; what the bar asks of others is the list
  of effects of \<open>Tray\<close>; the surface of a click is its output and its size.
\<close>

section \<open>What the bar says\<close>

text \<open>Blanks are collapsed and control characters dropped.\<close>

fun label_chars :: "nat \<Rightarrow> str \<Rightarrow> bool \<Rightarrow> nat \<Rightarrow> str list \<Rightarrow> str" where
  "label_chars maximum label pending_space count [] = label"
| "label_chars maximum label pending_space count (c # cs) =
     (if is_control c \<or> is_ws c then label_chars maximum label (label \<noteq> []) count cs
      else (let label = (if pending_space then label @ '' '' else label) @ c
            in if maximum \<le> count + 1 then label else label_chars maximum label False (count + 1) cs))"

definition bar_label_text :: "str \<Rightarrow> nat \<Rightarrow> str" where
  "bar_label_text v maximum = (if maximum = 0 then [] else label_chars maximum [] False 0 (utf8_chars v))"

definition compact_network_bar_label :: "str \<Rightarrow> str" where
  "compact_network_bar_label label =
     (if label = ''NET OFF'' then ''NET OFF'' else if starts_with label ''WIFI'' then ''WIFI'' else ''NET'')"

definition bluetooth_label :: "bool option \<Rightarrow> nat \<Rightarrow> str" where
  "bluetooth_label powered devices =
     (if powered = Some False then ''BT OFF'' else if devices = 0 then ''BT'' else ''BT '' @ show_nat devices)"

text \<open>BlueZ's objects: the power of an adapter, and whether a device is connected.\<close>

definition read_bluetooth_state :: "bool \<Rightarrow> (bool option \<times> bool option) list option \<Rightarrow> str \<times> bool option" where
  "read_bluetooth_state active objects =
     (if \<not> active then (''BT '' @ em_dash, None)
      else (let os = (case objects of Some os \<Rightarrow> os | None \<Rightarrow> []);
                powered = (case List.map_filter fst os of p # _ \<Rightarrow> Some p | [] \<Rightarrow> None);
                devices = length (filter (\<lambda>(_, connected'). connected' = Some True) os)
            in (bluetooth_label powered devices, powered)))"

text \<open>What \<open>pactl\<close> prints: the volume and the mute, \<open>None\<close> when it fails.\<close>

definition strip_percent :: "str \<Rightarrow> str option" where
  "strip_percent word = (if word \<noteq> [] \<and> last word = CHR ''%'' then Some (butlast word) else None)"

definition read_audio_label :: "str option \<Rightarrow> str option \<Rightarrow> str" where
  "read_audio_label volume_text mute_text =
     (let volume = Option.bind volume_text (\<lambda>text.
            case List.map_filter strip_percent (split_whitespace text) of
              v # _ \<Rightarrow> parse_uint_radix 10 65535 v | [] \<Rightarrow> None);
          muted = (case mute_text of Some text \<Rightarrow> contains (map ascii_lower text) ''yes'' | None \<Rightarrow> False)
      in case volume of
           None \<Rightarrow> ''AUDIO '' @ em_dash
         | Some v \<Rightarrow> if muted then ''MUTED'' else ''VOL '' @ show_nat v @ ''%'')"

text \<open>NetworkManager's answers: its switches, and the type and name of every active connection.\<close>

fun first_connection :: "(str option \<times> str option) option list \<Rightarrow> str option" where
  "first_connection [] = None"
| "first_connection (None # cs) = first_connection cs"
| "first_connection (Some (kind, name) # cs) =
     (let i = bar_label_text (case name of Some n \<Rightarrow> n | None \<Rightarrow> []) 64
      in if i = [] then first_connection cs
         else Some ((if kind = Some ''802-11-wireless'' then ''WIFI'' else ''NET'') @ '' '' @ i))"

definition read_network_state ::
  "bool option \<Rightarrow> bool option \<Rightarrow> (str option \<times> str option) option list \<Rightarrow> str \<times> bool \<times> bool" where
  "read_network_state networking wireless active =
     (let wireless_on = (wireless = Some True)
      in if networking \<noteq> Some True then (''NET OFF'', False, False)
         else case first_connection active of
                Some label \<Rightarrow> (label, True, wireless_on)
              | None \<Rightarrow> (if wireless_on then ''WIFI'' else ''NET'', True, wireless_on))"

text \<open>A player: its status and the title of its track.\<close>

definition mpris :: str where
  "mpris = ''org.mpris.MediaPlayer2.''"

definition media_label :: "str \<Rightarrow> str option \<Rightarrow> str" where
  "media_label name title =
     ''MEDIA '' @ bar_label_text (case title of
        Some t \<Rightarrow> if trim t \<noteq> [] then t else trim_start_matches mpris name
      | None \<Rightarrow> trim_start_matches mpris name) 96"

fun media_of :: "(str \<times> str option \<times> str option) list \<Rightarrow> str option \<Rightarrow> str" where
  "media_of [] fallback = (case fallback of Some l \<Rightarrow> l | None \<Rightarrow> ''MEDIA '' @ em_dash)"
| "media_of ((name, status, title) # players) fallback =
     (if status = Some ''Playing'' then media_label name title
      else media_of players (case fallback of Some l \<Rightarrow> Some l | None \<Rightarrow> Some (media_label name title)))"

definition read_media_state :: "(str \<times> str option \<times> str option) list option \<Rightarrow> str" where
  "read_media_state names =
     (case names of
        None \<Rightarrow> ''MEDIA '' @ em_dash
      | Some ns \<Rightarrow> media_of (filter (\<lambda>(name, _). starts_with name mpris) ns) None)"

text \<open>A power supply: its type, capacity and status files.\<close>

fun battery_of :: "(str option \<times> str option \<times> str option) list \<Rightarrow> str option \<times> bool" where
  "battery_of [] = (None, False)"
| "battery_of ((kind, capacity, status) # supplies) =
     (if map_option trim kind \<noteq> Some ''Battery'' then battery_of supplies
      else case Option.bind capacity (\<lambda>c. parse_u8 (trim c)) of
             None \<Rightarrow> battery_of supplies
           | Some c \<Rightarrow>
               (let st = trim (case status of Some s \<Rightarrow> s | None \<Rightarrow> [])
                in (Some (''BAT '' @ show_nat c @ ''%'' @ (if st = ''Charging'' then ''+'' else [])), st = ''Discharging'')))"

definition battery_state :: "(str option \<times> str option \<times> str option) list option \<Rightarrow> str option \<times> bool" where
  "battery_state supplies = (case supplies of None \<Rightarrow> (None, False) | Some ss \<Rightarrow> battery_of ss)"

definition focused_window :: "snapshot \<Rightarrow> window_info option" where
  "focused_window sn = Option.bind (sn_focused sn) (\<lambda>i. List.find (\<lambda>w. wi_id w = i) (sn_windows sn))"

definition focused_bar_identity :: "snapshot \<Rightarrow> (nat \<times> str \<times> str) option" where
  "focused_bar_identity sn = map_option (\<lambda>w. (wi_id w, wi_title w, wi_app_id w)) (focused_window sn)"

definition visible_bar_title :: "snapshot \<Rightarrow> u8 \<Rightarrow> str option \<Rightarrow> str" where
  "visible_bar_title sn workspace out =
     (case focused_window sn of
        Some w \<Rightarrow>
          (let title = bar_label_text (wi_title w) 128
           in if wi_workspace w = workspace \<and> (out = None \<or> out = Some (wi_output w)) \<and> title \<noteq> [] then title else ''Luma'')
      | None \<Rightarrow> ''Luma'')"

definition bar_snapshot_changed :: "snapshot \<Rightarrow> snapshot \<Rightarrow> bool" where
  "bar_snapshot_changed previous current \<longleftrightarrow>
     focused_bar_identity previous \<noteq> focused_bar_identity current
     \<or> length (sn_outputs previous) \<noteq> length (sn_outputs current)
     \<or> list_ex (\<lambda>old. case List.find (\<lambda>new. oi_name new = oi_name old) (sn_outputs current) of
          None \<Rightarrow> True
        | Some new \<Rightarrow> oi_workspace new \<noteq> oi_workspace old \<or> oi_active new \<noteq> oi_active old) (sn_outputs previous)"

section \<open>The state\<close>

datatype control_panel = AudioPanel | NetworkPanel | BluetoothPanel | MediaPanel | NotificationsPanel | PowerPanel

datatype power_action = LogOut | Reboot | Shutdown

record bar = tray_app +
  ba_config :: config
  ba_snapshot :: snapshot
  ba_battery :: "str option"
  ba_clock :: str
  ba_audio :: str
  ba_network :: str
  ba_networking :: bool
  ba_wireless :: bool
  ba_media :: str
  ba_bluetooth :: str
  ba_powered :: "bool option"
  ba_tray :: "tray_item list"
  ba_centre :: centre
  ba_panel :: "control_panel option"
  ba_pending :: "power_action option"

record bar_surface =
  sf_output :: "nat option"
  sf_width :: u32
  sf_height :: u32

record bar_env =
  be_text_width :: "str \<Rightarrow> u32"
  be_output_name :: "nat \<Rightarrow> str option"

definition has_module :: "bar \<Rightarrow> str \<Rightarrow> bool" where
  "has_module b name \<longleftrightarrow> name \<in> set (sh_modules (cf_shell (ba_config b)))"

definition recorder_bar_label :: "bar \<Rightarrow> str option" where
  "recorder_bar_label b =
     (case st_state (sn_recorder (ba_snapshot b)) of
        Recording \<Rightarrow> Some (''REC '' @ show_nat (unat (st_requested_fps (sn_recorder (ba_snapshot b)))))
      | Starting \<Rightarrow> Some (''REC '' @ show_nat (unat (st_requested_fps (sn_recorder (ba_snapshot b)))))
      | Paused \<Rightarrow> Some ''REC PAUSED''
      | Replay \<Rightarrow> Some ''REPLAY''
      | Error \<Rightarrow> Some ''REC ERR''
      | Idle \<Rightarrow> None)"

definition chip :: "str \<Rightarrow> bool \<Rightarrow> str \<Rightarrow> (str \<times> str) list" where
  "chip md present v = (if present then [(md, v)] else [])"

definition opt_chip :: "str \<Rightarrow> str option \<Rightarrow> (str \<times> str) list" where
  "opt_chip md v = (case v of Some text \<Rightarrow> [(md, text)] | None \<Rightarrow> [])"

definition bar_right_modules :: "bar \<Rightarrow> (str \<times> str) list" where
  "bar_right_modules b =
     (if has_module b ''battery'' then opt_chip ''battery'' (ba_battery b) else [])
     @ chip ''media'' (has_module b ''media'' \<and> ba_media b \<noteq> ''MEDIA '' @ em_dash) ''MEDIA''
     @ chip ''bluetooth'' (has_module b ''bluetooth'') (ba_bluetooth b)
     @ chip ''tray'' (has_module b ''tray'' \<and> list_ex has_visible_icon (ba_tray b))
         (''TRAY '' @ show_nat (length (ba_tray b)))
     @ chip ''notifications'' (has_module b ''notifications'') (notifications_bar_label (ba_centre b))
     @ chip ''network'' (has_module b ''network'') (compact_network_bar_label (ba_network b))
     @ chip ''audio'' (has_module b ''audio'') (ba_audio b)
     @ chip ''clock'' (has_module b ''clock'') (ba_clock b)
     @ opt_chip ''recorder'' (recorder_bar_label b)
     @ chip ''power'' (has_module b ''power'') ''POWER''"

section \<open>Where the chips are\<close>

text \<open>From the right edge; the layout ends when a chip has no room.\<close>

definition icon_side :: "u32 \<Rightarrow> u32" where
  "icon_side height = clamp 12 24 (sat_sub32 height 12)"

definition tray_chip_width :: "u32 \<Rightarrow> nat \<Rightarrow> u32" where
  "tray_chip_width height tray_count = of_nat tray_count * (icon_side height + 2) + 8"

definition max_content :: "u32 \<Rightarrow> str \<Rightarrow> u32" where
  "max_content tray_width md =
     (if md = ''notifications'' then 180 else if md = ''media'' then 140
      else if md = ''tray'' then max tray_width 40 else 110)"

definition content_width :: "(str \<Rightarrow> u32) \<Rightarrow> u32 \<Rightarrow> str \<times> str \<Rightarrow> u32" where
  "content_width text_width tray_width mv =
     (case mv of (md, v) \<Rightarrow>
        min (max (text_width v) (if md = ''tray'' then tray_width else 0)) (max_content tray_width md))"

fun layout_chips :: "(str \<Rightarrow> u32) \<Rightarrow> u32 \<Rightarrow> u32 \<Rightarrow> u32 \<Rightarrow> (str \<times> str) list \<Rightarrow> (str \<times> u32 \<times> u32) list" where
  "layout_chips text_width tray_width left_guard right [] = []"
| "layout_chips text_width tray_width left_guard right (mv # mvs) =
     (let chip_width = min (sat_add32 (content_width text_width tray_width mv) 20) (sat_sub32 right left_guard);
          left = sat_sub32 right chip_width
      in if chip_width < 24 then []
         else (fst mv, left, right)
              # (if left \<le> left_guard then [] else layout_chips text_width tray_width left_guard (sat_sub32 left 6) mvs))"

definition bar_module_layout ::
  "u32 \<Rightarrow> u32 \<Rightarrow> (str \<Rightarrow> u32) \<Rightarrow> nat \<Rightarrow> u32 \<Rightarrow> (str \<times> str) list \<Rightarrow> (str \<times> u32 \<times> u32) list" where
  "bar_module_layout width height text_width tray_count left_guard values =
     layout_chips text_width (tray_chip_width height tray_count) left_guard (sat_sub32 width 8) (rev values)"

definition visible_icons :: "bar \<Rightarrow> tray_item list" where
  "visible_icons b = take 6 (filter has_visible_icon (ba_tray b))"

definition workspace_count :: "bar \<Rightarrow> u32" where
  "workspace_count b = ucast (ly_workspaces (cf_layout (ba_config b)))"

definition bar_module_rects :: "bar_env \<Rightarrow> u32 \<Rightarrow> u32 \<Rightarrow> bar \<Rightarrow> (str \<times> u32 \<times> u32) list" where
  "bar_module_rects env width height b =
     bar_module_layout width height (be_text_width env) (length (visible_icons b))
       (if has_module b ''workspaces'' then 48 + 26 * workspace_count b + 16 else 72) (bar_right_modules b)"

text \<open>The rectangles the bar paints, which \<open>draw_bar\<close> computes for itself.\<close>

definition drawn_module_rects :: "bar_env \<Rightarrow> u32 \<Rightarrow> u32 \<Rightarrow> bar \<Rightarrow> (str \<times> u32 \<times> u32) list" where
  "drawn_module_rects env width height b =
     (let workspace_end = (if has_module b ''workspaces'' then 48 + 26 * workspace_count b else 48);
          left_end = sat_add32 workspace_end 8
      in bar_module_layout width height (be_text_width env) (length (visible_icons b)) (sat_add32 left_end 8)
           (bar_right_modules b))"

definition bar_module_at :: "bar_env \<Rightarrow> bar_surface \<Rightarrow> f64 \<Rightarrow> bar \<Rightarrow> str option" where
  "bar_module_at env sf x b =
     map_option fst
       (List.find (\<lambda>(_, left, right). f64_le (f64_of_u32 left) x \<and> f64_le x (f64_of_u32 right))
         (bar_module_rects env (sf_width sf) (sf_height sf) b))"

definition tray_item_at :: "bar_env \<Rightarrow> bar_surface \<Rightarrow> f64 \<Rightarrow> bar \<Rightarrow> tray_item option" where
  "tray_item_at env sf x b =
     (if \<not> has_module b ''tray'' then None
      else case List.find (\<lambda>(md, _, _). md = ''tray'') (bar_module_rects env (sf_width sf) (sf_height sf) b) of
             None \<Rightarrow> None
           | Some (_, left, right) \<Rightarrow>
               if f64_lt x (f64_of_u32 left) \<or> f64_le (f64_of_u32 right) x then None
               else nth_opt (visible_icons b)
                      (unat (sat_sub32 (f64_to_u32 x) (sat_add32 left 4) div (icon_side (sf_height sf) + 2))))"

section \<open>Clicks on the bar\<close>

definition tray_action_position :: "bar_env \<Rightarrow> bar_surface \<Rightarrow> f64 \<Rightarrow> f64 \<Rightarrow> bar \<Rightarrow> int \<times> int" where
  "tray_action_position env sf x y b =
     (let geometry = Option.bind (sf_output sf) (\<lambda>out. Option.bind (be_output_name env out) (\<lambda>name.
            map_option oi_geometry (List.find (\<lambda>oi. oi_name oi = name) (sn_outputs (ba_snapshot b)))));
          local_x = round_i32 (Fin (- 2147483648)) (Fin 2147483647) x;
          local_y = round_i32 (Fin (- 2147483648)) (Fin 2147483647) y;
          sat = clamp (- 2147483648) 2147483647
      in case geometry of
           None \<Rightarrow> (local_x, local_y)
         | Some g \<Rightarrow> (sat (rx g + local_x), sat (ry g + local_y)))"

definition show_controls :: "control_panel \<Rightarrow> bar \<Rightarrow> bar" where
  "show_controls panel b = b\<lparr>ba_panel := Some panel, ba_pending := None\<rparr>"

definition hide_controls :: "bar \<Rightarrow> bar" where
  "hide_controls b = b\<lparr>ba_panel := None, ba_pending := None\<rparr>"

definition toggle_muted :: "bar \<Rightarrow> bar" where
  "toggle_muted b = b\<lparr>ba_centre := set_muted (\<not> nc_muted (ba_centre b)) (ba_centre b)\<rparr>"

definition click_tray_item :: "bar_env \<Rightarrow> bar_surface \<Rightarrow> f64 \<Rightarrow> f64 \<Rightarrow> nat \<Rightarrow> tray_item \<Rightarrow> bar \<Rightarrow> bar" where
  "click_tray_item env sf x y button item b =
     (let (ax, ay) = tray_action_position env sf x y b;
          call = (\<lambda>method. emit (CallItem (ti_service item) (ti_path item) method ax ay))
      in if button = 0x110 then call ''Activate'' b
         else if button = 0x111
         then (case request_tray_menu item (sf_output sf) x (ax, ay) b of
                 (True, b') \<Rightarrow> b' | (False, b') \<Rightarrow> call ''ContextMenu'' b')
         else if button = 0x112 then call ''SecondaryActivate'' b
         else b)"

definition click_chip :: "str option \<Rightarrow> nat \<Rightarrow> bar \<Rightarrow> bar" where
  "click_chip md button b =
     (if button = 0x110
      then (case md of
              Some m \<Rightarrow>
                if m = ''audio'' then show_controls AudioPanel b
                else if m = ''network'' then show_controls NetworkPanel b
                else if m = ''bluetooth'' then show_controls BluetoothPanel b
                else if m = ''media'' then show_controls MediaPanel b
                else if m = ''notifications'' then show_controls NotificationsPanel b
                else if m = ''power'' then show_controls PowerPanel b
                else b
            | None \<Rightarrow> b)
      else if button = 0x111 then (if md = Some ''media'' then emit (Player ''Previous'') b else b)
      else if button = 0x112
      then (if md = Some ''media'' then emit (Player ''Next'') b
            else if md = Some ''network'' then emit (Wireless (\<not> ba_wireless b)) b
            else if md = Some ''bluetooth''
            then (case ba_powered b of Some powered \<Rightarrow> emit (BluetoothPower (\<not> powered)) b | None \<Rightarrow> b)
            else if md = Some ''notifications'' then toggle_muted b
            else b)
      else b)"

text \<open>The number of the workspace button at \<open>x\<close>.\<close>

definition workspace_at :: "f64 \<Rightarrow> u8" where
  "workspace_at x = ucast ((f64_to_u32 x - 48) div 26 + 1)"

definition surface_output_name :: "bar_env \<Rightarrow> bar_surface \<Rightarrow> str" where
  "surface_output_name env sf =
     (case Option.bind (sf_output sf) (be_output_name env) of Some name \<Rightarrow> name | None \<Rightarrow> [])"

definition click_bar :: "bar_env \<Rightarrow> bar_surface \<Rightarrow> f64 \<Rightarrow> f64 \<Rightarrow> nat \<Rightarrow> bar \<Rightarrow> bar" where
  "click_bar env sf x y button b0 =
     (let b = (if ta_menu b0 \<noteq> None then close_tray_menu b0 else b0)
      in if f64_lt x (Fin 40) then (if button = 0x110 then emit (Wm ''launcher'') b else b)
         else case tray_item_at env sf x b of
           Some item \<Rightarrow> click_tray_item env sf x y button item b
         | None \<Rightarrow>
             if has_module b ''workspaces'' \<and> f64_le (Fin 48) x \<and> f64_lt x (f64_of_u32 (48 + 26 * workspace_count b))
             then (if button = 0x110
                   then emit (Wm (''workspace '' @ show_nat (unat (workspace_at x)) @ '' '' @ surface_output_name env sf)) b
                   else b)
             else click_chip (bar_module_at env sf x b) button b)"

definition scroll_bar :: "bar_env \<Rightarrow> bar_surface \<Rightarrow> f64 \<Rightarrow> int \<Rightarrow> bar \<Rightarrow> bar" where
  "scroll_bar env sf x steps b =
     (if steps = 0 then b
      else case tray_item_at env sf x b of
        Some item \<Rightarrow> emit (ScrollItem (ti_service item) (ti_path item) steps ''vertical'') b
      | None \<Rightarrow>
          if bar_module_at env sf x b \<noteq> Some ''audio'' then b
          else emit (Pactl [''set-sink-volume'', ''@DEFAULT_SINK@'', if 0 < steps then ''-5%'' else ''+5%'']) b)"

text \<open>
  The steps of a turn of the wheel: discrete, in 120ths, or the sign of the distance, which
  \<open>f64::signum\<close> gives as 1 for zero.
\<close>

type_synonym axis = "int \<times> int \<times> f64"

definition scroll_steps :: "axis \<Rightarrow> int" where
  "scroll_steps axis =
     (case axis of (discrete, value120, absolute) \<Rightarrow>
        if discrete \<noteq> 0 then discrete
        else if value120 \<noteq> 0 then tdiv value120 120
        else if absolute = NaN then 0 else if f64_lt absolute (Fin 0) then - 1 else 1)"

text \<open>The wheel over a surface of the bar's process; \<open>popup\<close> says whether it is the notification popup.\<close>

definition wheel :: "bar_env \<Rightarrow> bool \<Rightarrow> bar_surface \<Rightarrow> f64 \<Rightarrow> axis \<Rightarrow> axis \<Rightarrow> bar \<Rightarrow> bar" where
  "wheel env popup sf x horizontal vertical b0 =
     (let steps = scroll_steps vertical; across = scroll_steps horizontal;
          b = scroll_bar env sf x steps b0;
          b = (if across \<noteq> 0
               then (case tray_item_at env sf x b of
                       Some item \<Rightarrow> emit (ScrollItem (ti_service item) (ti_path item) across ''horizontal'') b
                     | None \<Rightarrow> b)
               else b)
      in if popup then b\<lparr>ba_centre := scroll_notifications steps (ba_centre b)\<rparr> else b)"

section \<open>The panels\<close>

definition control_button :: "u32 \<Rightarrow> f64 \<Rightarrow> bool" where
  "control_button y0 y \<longleftrightarrow> f64_between (f64_of_u32 y0) (f64_of_u32 (y0 + 34)) y"

text \<open>Rust prints the negative zero with its sign; the values of \<open>F64\<close> have one zero.\<close>

definition volume_text :: "f64 \<Rightarrow> str" where
  "volume_text x =
     (let v = f64_round (f64_mul (f64_div (f64_sub x (Fin 24)) (Fin 332)) (Fin 100))
      in if v = Fin 0 \<and> f64_lt x (Fin 24) then ''-0''
         else case f64_clamp (Fin 0) (Fin 100) v of Fin q \<Rightarrow> show_int \<lfloor>q\<rfloor> | _ \<Rightarrow> ''NaN'')"

definition power_effect :: "power_action \<Rightarrow> bar_effect" where
  "power_effect action =
     (case action of LogOut \<Rightarrow> Wm ''quit'' | Reboot \<Rightarrow> Systemctl ''reboot'' | Shutdown \<Rightarrow> Systemctl ''poweroff'')"

definition click_power :: "f64 \<Rightarrow> bar \<Rightarrow> bar" where
  "click_power y b =
     (case ba_pending b of
        Some action \<Rightarrow>
          if control_button 76 y then emit (power_effect action) (hide_controls b)
          else if control_button 120 y then b\<lparr>ba_pending := None\<rparr> else b
      | None \<Rightarrow>
          if control_button 56 y then b\<lparr>ba_pending := Some LogOut\<rparr>
          else if control_button 100 y then b\<lparr>ba_pending := Some Reboot\<rparr>
          else if control_button 144 y then b\<lparr>ba_pending := Some Shutdown\<rparr> else b)"

definition click_controls :: "f64 \<Rightarrow> f64 \<Rightarrow> nat \<Rightarrow> bar \<Rightarrow> bar" where
  "click_controls x y button b =
     (if button \<noteq> 0x110 then hide_controls b
      else case ba_panel b of
        None \<Rightarrow> b
      | Some AudioPanel \<Rightarrow>
          if f64_between (Fin 58) (Fin 92) y
          then emit (Pactl [''set-sink-volume'', ''@DEFAULT_SINK@'', volume_text x @ ''%'']) b
          else if control_button 104 y then emit (Pactl [''set-sink-mute'', ''@DEFAULT_SINK@'', ''toggle'']) b
          else if control_button 152 y then emit (Tool ''pavucontrol'') b else b
      | Some NetworkPanel \<Rightarrow>
          if control_button 56 y then emit (Networking (\<not> ba_networking b)) b
          else if control_button 100 y then emit (Wireless (\<not> ba_wireless b)) b
          else if control_button 152 y then emit (Tool ''nm-connection-editor'') b else b
      | Some BluetoothPanel \<Rightarrow>
          if control_button 56 y
          then (case ba_powered b of Some powered \<Rightarrow> emit (BluetoothPower (\<not> powered)) b | None \<Rightarrow> b)
          else if control_button 100 y then emit (BluetoothDiscovery True) b
          else if control_button 152 y then emit (Tool ''blueman-manager'') b else b
      | Some MediaPanel \<Rightarrow>
          if f64_le (Fin 60) y \<and> f64_lt y (Fin 104)
          then emit (Player (if f64_lt x (Fin 131) then ''Previous'' else if f64_lt x (Fin 249) then ''PlayPause'' else ''Next'')) b
          else if control_button 116 y then emit (Player ''Stop'') b else b
      | Some NotificationsPanel \<Rightarrow>
          if control_button 56 y then toggle_muted b
          else if control_button 100 y then b\<lparr>ba_centre := clear_notifications (ba_centre b)\<rparr> else b
      | Some PowerPanel \<Rightarrow> click_power y b)"

end
