(* ===== verification/TrayProofs.thy ===== *)
theory TrayProofs
  imports Tray
begin

text \<open>
  The tray: the bar shows the registered items in the order of their registration, except that a
  picture read before its application left appears after it; an open menu shows the page it is at,
  and only its rows can be activated; how translucent pictures are laid over each other.
\<close>

section \<open>The watcher\<close>

lemma load_item_id [simp]: "ti_id (load_item open_image home proxy (service, path)) = service @ path"
  by (simp add: load_item_def load_tray_item_def Let_def split: option.split)

lemma replace_item_ids:
  "map ti_id (replace_item item tray) =
     (if ti_id item \<in> ti_id ` set tray then map ti_id tray else map ti_id tray @ [ti_id item])"
  by (induction tray) auto

lemma map_filter_ids: "map ti_id (filter (\<lambda>item. ti_id item \<noteq> i) tray) = filter (\<lambda>j. j \<noteq> i) (map ti_id tray)"
  by (induction tray) auto

lemma remove_nth_filter:
  "distinct xs \<Longrightarrow> position (\<lambda>x. x = i) xs = Some n \<Longrightarrow> take n xs @ drop (Suc n) xs = filter (\<lambda>x. x \<noteq> i) xs"
proof (induction xs arbitrary: n)
  case (Cons x xs)
  show ?case
  proof (cases "x = i")
    case True
    with Cons.prems have "filter (\<lambda>x. x \<noteq> i) xs = xs" by (auto simp: filter_id_conv)
    with True Cons.prems show ?thesis by simp
  next
    case False
    with Cons.prems(2) obtain m where "position (\<lambda>x. x = i) xs = Some m" "n = Suc m" by auto
    with Cons.IH [of m] Cons.prems(1) False show ?thesis by simp
  qed
qed simp

lemma position_None_notin: "position (\<lambda>x. x = i) xs = None \<Longrightarrow> i \<notin> set xs"
  by (induction xs) (auto split: if_splits)

text \<open>What the bar shows once it has taken every waiting event.\<close>

definition settled :: "tray_watch \<Rightarrow> tray_item list" where
  "settled w = foldl tray_event_received (tw_tray w) (tw_queue w)"

definition watch_ok :: "tray_watch \<Rightarrow> bool" where
  "watch_ok w \<longleftrightarrow> distinct (tw_items w) \<and> map ti_id (settled w) = tw_items w
     \<and> (\<forall>r \<in> set (tw_reading w). ti_id r \<in> set (tw_items w))"

text \<open>No application leaves while a thread still holds what it has read of its item.\<close>

fun undisturbed :: "tray_watch \<Rightarrow> watch_event \<Rightarrow> bool" where
  "undisturbed w (OwnerLost i) \<longleftrightarrow> list_all (\<lambda>r. ti_id r \<noteq> i) (tw_reading w)"
| "undisturbed w _ \<longleftrightarrow> True"

fun undisturbed_run :: "(str \<Rightarrow> rgba_image option) \<Rightarrow> str option \<Rightarrow> tray_watch \<Rightarrow> watch_event list \<Rightarrow> bool" where
  "undisturbed_run open_image home w [] \<longleftrightarrow> True"
| "undisturbed_run open_image home w (ev # evs) \<longleftrightarrow>
     undisturbed w ev \<and> undisturbed_run open_image home (watch_step open_image home w ev) evs"

lemma settled_queued: "settled (w\<lparr>tw_queue := tw_queue w @ [e], tw_items := is\<rparr>) = tray_event_received (settled w) e"
  "settled (w\<lparr>tw_items := is, tw_queue := tw_queue w @ [e]\<rparr>) = tray_event_received (settled w) e"
  "settled (w\<lparr>tw_reading := rs, tw_queue := tw_queue w @ [e]\<rparr>) = tray_event_received (settled w) e"
  by (simp_all add: settled_def)

lemma set_ids: "map ti_id tray = is \<Longrightarrow> ti_id ` set tray = set is"
  by (metis list.set_map)

lemma register_ok:
  assumes "watch_ok w" "\<And>service path. ti_id (load (service, path)) = service @ path"
  shows "watch_ok (register_status_notifier_item load registered sender w)"
proof -
  have "ti_id ` set (settled w) = set (tw_items w)" using assms(1) by (intro set_ids) (simp add: watch_ok_def)
  with assms show ?thesis
    by (auto simp: register_status_notifier_item_def Let_def watch_ok_def settled_queued replace_item_ids
        split: option.split)
qed

lemma remove_ok:
  assumes "watch_ok w" "list_all (\<lambda>r. ti_id r \<noteq> i) (tw_reading w)"
  shows "watch_ok (remove_tray_item i w)"
proof (cases "position (\<lambda>known. known = i) (tw_items w)")
  case (Some n)
  have "take n (tw_items w) @ drop (Suc n) (tw_items w) = filter (\<lambda>j. j \<noteq> i) (tw_items w)"
    using assms(1) Some by (intro remove_nth_filter) (simp_all add: watch_ok_def)
  with Some assms show ?thesis
    by (auto simp: remove_tray_item_def watch_ok_def settled_queued map_filter_ids list_all_iff)
qed (use assms(1) in \<open>simp add: remove_tray_item_def\<close>)

lemma watch_step_ok:
  assumes "watch_ok w" "undisturbed w ev"
  shows "watch_ok (watch_step open_image home w ev)"
proof (cases ev)
  case (Registered registered sender proxy)
  then show ?thesis using register_ok [OF assms(1)] by (simp add: watch_step_def)
next
  case (ItemRead service path proxy)
  then show ?thesis using assms(1) by (auto simp: watch_step_def watch_ok_def settled_def)
next
  case (ItemSent n)
  show ?thesis
  proof (cases "n < length (tw_reading w)")
    case True
    then have known: "ti_id (tw_reading w ! n) \<in> set (tw_items w)"
      using assms(1) by (simp add: watch_ok_def)
    have "ti_id ` set (settled w) = set (tw_items w)" using assms(1) by (intro set_ids) (simp add: watch_ok_def)
    with True known assms(1) ItemSent show ?thesis
      by (auto simp: watch_step_def watch_ok_def settled_queued replace_item_ids dest: in_set_takeD in_set_dropD)
  qed (use assms(1) ItemSent in \<open>simp add: watch_step_def\<close>)
next
  case (OwnerLost i)
  then show ?thesis using remove_ok assms by (simp add: watch_step_def)
next
  case Taken
  then show ?thesis using assms(1) by (auto simp: watch_step_def watch_ok_def settled_def split: list.split)
qed

lemma watch_run_ok:
  "watch_ok w \<Longrightarrow> undisturbed_run open_image home w evs \<Longrightarrow> watch_ok (foldl (watch_step open_image home) w evs)"
  by (induction evs arbitrary: w) (auto intro: watch_step_ok)


text \<open>
  Without that, an item that was read before its application left is sent after its removal: it
  stays in the tray for good, because removing it again finds nothing registered.
\<close>

definition gone :: "watch_event list" where
  "gone = [Registered ''org.app'' None None, ItemRead ''org.app'' ''/StatusNotifierItem'' None,
           OwnerLost ''org.app/StatusNotifierItem'', ItemSent 0, Taken, Taken, Taken]"

lemma item_outlives_application:
  "let w = foldl (watch_step open_image home) watch_new gone
   in tw_items w = [] \<and> tw_queue w = [] \<and> map ti_id (tw_tray w) = [''org.app/StatusNotifierItem'']
      \<and> remove_tray_item i w = w"
proof -
  have name: "take_chars 256 ''org.app'' = ''org.app''"
    by (simp add: take_chars_def continuation_byte_def)
  show ?thesis
    by (simp add: gone_def watch_step_def watch_new_def register_status_notifier_item_def item_address_def name Let_def
        starts_with_def remove_tray_item_def)
qed

section \<open>Menus\<close>

datatype menu_event =
    Requested tray_item "nat option" f64 "int \<times> int"
  | MenuLoaded str str int "tray_menu_row list option"
  | MenuClicked f64 nat
  | MenuClosed

fun menu_step :: "tray_app \<Rightarrow> menu_event \<Rightarrow> tray_app" where
  "menu_step a (Requested item out local_x action_position) = snd (request_tray_menu item out local_x action_position a)"
| "menu_step a (MenuLoaded service menu_path parent rows) = tray_menu_loaded service menu_path parent rows a"
| "menu_step a (MenuClicked y button) = click_tray_menu y button a"
| "menu_step a MenuClosed = close_tray_menu a"

definition menu_run :: "menu_event list \<Rightarrow> tray_app" where
  "menu_run evs = foldl menu_step \<lparr>ta_menu = None, ta_effects = []\<rparr> evs"

text \<open>The rows of an open menu are those that were loaded for the page it is at.\<close>

definition shows_its_page :: "menu_event list \<Rightarrow> tray_menu \<Rightarrow> bool" where
  "shows_its_page evs m \<longleftrightarrow>
     tm_parents m \<noteq> [] \<and> hd (tm_parents m) = 0 \<and> length (tm_parents m) \<le> 16
     \<and> (tm_rows m = [] \<or> MenuLoaded (tm_service m) (tm_menu_path m) (last (tm_parents m)) (Some (tm_rows m)) \<in> set evs)"

definition entry_was_listed :: "menu_event list \<Rightarrow> bar_effect \<Rightarrow> bool" where
  "entry_was_listed evs e =
     (case e of
        ClickEntry service menu_path i \<Rightarrow>
          \<exists>parent rows. MenuLoaded service menu_path parent (Some rows) \<in> set evs
            \<and> (\<exists>row. row \<in> set rows \<and> mr_id row = i \<and> mr_enabled row \<and> mr_separator row = False)
      | _ \<Rightarrow> True)"

definition menu_ok :: "menu_event list \<Rightarrow> tray_app \<Rightarrow> bool" where
  "menu_ok evs a \<longleftrightarrow> pred_option (shows_its_page evs) (ta_menu a) \<and> list_all (entry_was_listed evs) (ta_effects a)"

lemma listed_later: "entry_was_listed evs e \<Longrightarrow> entry_was_listed (evs @ [ev]) e"
  by (cases e) (auto simp: entry_was_listed_def)

lemma menu_ok_later: "menu_ok evs a \<Longrightarrow> menu_ok (evs @ [ev]) a"
  by (cases "ta_menu a") (auto simp: menu_ok_def shows_its_page_def list_all_iff listed_later)

lemma entry_listed_other [simp]:
  "entry_was_listed evs (LoadPage service menu_path i)"
  "entry_was_listed evs (CallItem service path method x y)"
  by (simp_all add: entry_was_listed_def)

lemma open_page_ok:
  assumes "menu_ok evs a" "tm_parents m \<noteq> []" "hd (tm_parents m) = 0" "length (tm_parents m) \<le> 16"
  shows "menu_ok evs (open_page m a)"
  using assms by (simp add: menu_ok_def open_page_def emit_def shows_its_page_def)

lemma close_ok: "menu_ok evs a \<Longrightarrow> menu_ok evs (close_tray_menu a)"
  by (simp add: menu_ok_def close_tray_menu_def)

lemma click_menu_ok:
  assumes "menu_ok evs a"
  shows "menu_ok evs (click_tray_menu y button a)"
proof (cases "ta_menu a")
  case None
  then show ?thesis using assms close_ok by (simp add: click_tray_menu_def)
next
  case (Some m)
  have page: "shows_its_page evs m" using assms Some by (simp add: menu_ok_def)
  have backwards: "menu_ok evs (open_page (m\<lparr>tm_parents := butlast (tm_parents m)\<rparr>) a)" if "1 < length (tm_parents m)"
  proof (rule open_page_ok [OF assms])
    show "tm_parents (m\<lparr>tm_parents := butlast (tm_parents m)\<rparr>) \<noteq> []"
      using that by (cases "tm_parents m" rule: rev_cases) auto
    show "hd (tm_parents (m\<lparr>tm_parents := butlast (tm_parents m)\<rparr>)) = 0"
      using that page by (cases "tm_parents m" rule: rev_cases) (auto simp: shows_its_page_def hd_append)
    show "length (tm_parents (m\<lparr>tm_parents := butlast (tm_parents m)\<rparr>)) \<le> 16"
      using page by (auto simp: shows_its_page_def)
  qed
  have sub: "menu_ok evs (open_page (m\<lparr>tm_parents := tm_parents m @ [i]\<rparr>) a)" if "length (tm_parents m) < 16" for i
    using that page by (intro open_page_ok [OF assms]) (auto simp: shows_its_page_def)
  have clicked: "menu_ok evs (close_tray_menu (emit (ClickEntry (tm_service m) (tm_menu_path m) (mr_id item)) a))"
    if "nth_opt (tm_rows m) k = Some item" "\<not> mr_separator item" "mr_enabled item" for item k
  proof -
    from that(1) have item: "item \<in> set (tm_rows m)" by (auto simp: nth_opt_def split: if_splits)
    with page have "MenuLoaded (tm_service m) (tm_menu_path m) (last (tm_parents m)) (Some (tm_rows m)) \<in> set evs"
      by (auto simp: shows_its_page_def)
    with item that have "entry_was_listed evs (ClickEntry (tm_service m) (tm_menu_path m) (mr_id item))"
      by (auto simp: entry_was_listed_def)
    with assms show ?thesis by (simp add: menu_ok_def close_tray_menu_def emit_def)
  qed
  show ?thesis
    using Some assms backwards sub clicked close_ok
    by (auto simp: click_tray_menu_def Let_def split: option.split)
qed

lemma menu_step_ok:
  assumes "menu_ok evs a"
  shows "menu_ok (evs @ [ev]) (menu_step a ev)"
proof (cases ev)
  case (Requested item out local_x action_position)
  then show ?thesis using menu_ok_later [OF assms, of ev]
    by (auto simp: request_tray_menu_def emit_def menu_ok_def shows_its_page_def split: option.split)
next
  case (MenuLoaded service menu_path parent rows)
  then show ?thesis using menu_ok_later [OF assms, of ev]
    by (auto simp: tray_menu_loaded_def emit_def close_tray_menu_def menu_ok_def shows_its_page_def split: option.split)
next
  case (MenuClicked y button)
  then show ?thesis using click_menu_ok [OF menu_ok_later [OF assms]] by simp
next
  case MenuClosed
  then show ?thesis using close_ok [OF menu_ok_later [OF assms]] by simp
qed

lemma menu_run_ok: "menu_ok evs (menu_run evs)"
proof (induction evs rule: rev_induct)
  case Nil
  show ?case by (simp add: menu_run_def menu_ok_def)
next
  case (snoc ev evs)
  from menu_step_ok [OF this, of ev] show ?case by (simp add: menu_run_def)
qed

text \<open>
  C38: however slowly and in whatever order applications answer, an open menu shows rows of the page
  it is at, it is at most sixteen pages deep, and what the bar activates is an enabled entry that the
  application has listed.
\<close>

theorem tray_menu_shows_its_page:
  "let a = menu_run evs
   in pred_option (shows_its_page evs) (ta_menu a) \<and> list_all (entry_was_listed evs) (ta_effects a)"
  using menu_run_ok by (simp add: Let_def menu_ok_def)

text \<open>
  The popup is at most 480 high, and rows that do not fit are not drawn: the eighteenth is not, and
  yet a click on the last four lines of the popup activates it.
\<close>

lemma undrawn_row_is_clicked:
  assumes "ta_menu a = Some m" "tm_parents m = [0]" "length (tm_rows m) = 18" "row = tm_rows m ! 17"
    and "\<not> mr_separator row" "mr_enabled row" "\<not> mr_submenu row"
  shows "tray_menu_height m = 480"
    and "ta_effects (click_tray_menu (Fin 478) 0x110 a) = ta_effects a @ [ClickEntry (tm_service m) (tm_menu_path m) (mr_id row)]"
proof -
  show "tray_menu_height m = 480" using assms by (simp add: tray_menu_height_def)
  have "f64_to_u32 (f64_max (Fin 478) (Fin 0)) = 478" by (simp add: f64_to_u32_def f64_max_def trunc_def clamp_def)
  then have "menu_row_at (Fin 478) = 17" by (simp add: menu_row_at_def)
  with assms show "ta_effects (click_tray_menu (Fin 478) 0x110 a) =
      ta_effects a @ [ClickEntry (tm_service m) (tm_menu_path m) (mr_id row)]"
    by (simp add: click_tray_menu_def nth_opt_def close_tray_menu_def emit_def)
qed

section \<open>Translucent pictures\<close>

lemma length_argb_pixels: "length (argb_pixels px) = length px div 4"
  by (induction px rule: argb_pixels.induct) auto

lemma over_alpha_bound: "alpha \<le> 255 \<Longrightarrow> base_alpha \<le> 255 \<Longrightarrow> over_alpha alpha base_alpha \<le> 255"
proof -
  assume a: "alpha \<le> 255" "base_alpha \<le> 255"
  then have "base_alpha * (255 - alpha) \<le> 255 * (255 - alpha)" by (intro mult_right_mono) auto
  then have "base_alpha * (255 - alpha) div 255 \<le> 255 - alpha" by (metis div_le_mono div_mult_self1_is_m zero_less_numeral)
  with a show ?thesis by (simp add: over_alpha_def)
qed

text \<open>Over an opaque picture a colour stays between the two it is mixed of.\<close>

lemma over_opaque_channel:
  assumes "0 < alpha" "alpha \<le> 255"
  shows "min foreground background \<le> over_channel alpha 255 foreground background"
    and "over_channel alpha 255 foreground background \<le> max foreground background"
proof -
  have alpha: "over_alpha alpha 255 = 255" using assms by (simp add: over_alpha_def)
  define k where "k = 255 - alpha"
  have k: "alpha + k = 255" using assms by (simp add: k_def)
  have channel: "over_channel alpha 255 foreground background = (foreground * alpha + background * k) div 255"
  proof -
    have "foreground * alpha * 255 + background * 255 * k = (foreground * alpha + background * k) * 255"
      by (simp add: algebra_simps)
    then show ?thesis using alpha by (simp add: over_channel_def k_def)
  qed
  have "min foreground background * (alpha + k) \<le> foreground * alpha + background * k"
    by (simp add: distrib_left add_mono mult_right_mono)
  moreover have "foreground * alpha + background * k \<le> max foreground background * (alpha + k)"
    by (simp add: distrib_left add_mono mult_right_mono)
  ultimately show "min foreground background \<le> over_channel alpha 255 foreground background"
    and "over_channel alpha 255 foreground background \<le> max foreground background"
    unfolding channel k by (metis div_le_mono div_mult_self_is_m zero_less_numeral)+
qed

text \<open>
  Over a translucent one it need not: the opacity is rounded down before the colour is divided by
  it, the quotient exceeds 255 and is cut to eight bits. White over white turns black.
\<close>

lemma white_over_white_is_black:
  "over_pixel (255, 255, 255, 128) (255, 255, 255, 128) = (0, 0, 0, 191)"
  by (simp add: over_pixel_def over_channel_def over_alpha_def)

section \<open>Concrete trays\<close>


end
