(* ===== verification/BarProofs.thy ===== *)
theory BarProofs
  imports Bar LauncherProofs TrayProofs
begin

text \<open>
  The bar: its chips never overlap and what is painted is what is clicked; a workspace button asks for
  the workspace it shows, on its output; no power action without a click that requested it.
\<close>

section \<open>Chips\<close>

text \<open>A chip between \<open>left_guard\<close> and \<open>right\<close>, at least 24 wide.\<close>

definition chip_fits :: "u32 \<Rightarrow> u32 \<Rightarrow> str \<times> u32 \<times> u32 \<Rightarrow> bool" where
  "chip_fits left_guard right c =
     (case c of (_, l, r) \<Rightarrow> left_guard \<le> l \<and> unat l + 24 \<le> unat r \<and> r \<le> right)"

definition right_of :: "str \<times> u32 \<times> u32 \<Rightarrow> str \<times> u32 \<times> u32 \<Rightarrow> bool" where
  "right_of c c' = (case (c, c') of ((_, l, _), (_, _, r')) \<Rightarrow> unat r' + 6 \<le> unat l)"

lemma chip_place:
  assumes "chip_width = min w (sat_sub32 right left_guard)" "\<not> chip_width < 24"
  shows "unat (sat_sub32 right chip_width) = unat right - unat chip_width"
    and "unat left_guard + unat chip_width \<le> unat right" and "24 \<le> unat chip_width"
proof -
  have "chip_width \<le> sat_sub32 right left_guard" by (simp add: assms(1))
  then have width: "unat chip_width \<le> unat right - unat left_guard"
    by (simp add: word_le_nat_alt unat_sat_sub32)
  show wide: "24 \<le> unat chip_width" using assms(2) by (simp add: not_less word_le_nat_alt)
  with width show "unat left_guard + unat chip_width \<le> unat right" by arith
  show "unat (sat_sub32 right chip_width) = unat right - unat chip_width" by (simp add: unat_sat_sub32)
qed

lemma chip_fits_earlier:
  assumes "chip_fits left_guard (sat_sub32 l 6) c" "l \<le> right"
  shows "chip_fits left_guard right c" and "right_of (m, l, r) c"
proof -
  obtain m' l' r' where c: "c = (m', l', r')" by (metis prod_cases3)
  from assms(1) have inside: "left_guard \<le> l'" "unat l' + 24 \<le> unat r'" "unat r' \<le> unat l - 6"
    by (simp_all add: c chip_fits_def word_le_nat_alt unat_sat_sub32)
  then show "right_of (m, l, r) c" by (simp add: right_of_def c)
  from inside(3) assms(2) have "r' \<le> right" by (simp add: word_le_nat_alt)
  with inside show "chip_fits left_guard right c" by (simp add: c chip_fits_def)
qed

lemma layout_chips_ok:
  "list_all (chip_fits left_guard right) (layout_chips tw tray left_guard right mvs)
     \<and> sorted_wrt right_of (layout_chips tw tray left_guard right mvs)
     \<and> map fst (layout_chips tw tray left_guard right mvs)
         = take (length (layout_chips tw tray left_guard right mvs)) (map fst mvs)"
proof (induction mvs arbitrary: right)
  case (Cons mv mvs)
  define chip_width where
    "chip_width = min (sat_add32 (content_width tw tray mv) 20) (sat_sub32 right left_guard)"
  define left where "left = sat_sub32 right chip_width"
  show ?case
  proof (cases "chip_width < 24")
    case True
    then show ?thesis by (simp add: chip_width_def Let_def)
  next
    case False
    note place = chip_place [OF chip_width_def False]
    have l: "left \<le> right" "left_guard \<le> left" "unat left + 24 \<le> unat right"
      using place by (simp_all add: left_def word_le_nat_alt)
    have first: "chip_fits left_guard right (fst mv, left, right)" using l by (simp add: chip_fits_def)
    define others where
      "others = (if left \<le> left_guard then [] else layout_chips tw tray left_guard (sat_sub32 left 6) mvs)"
    have unfolded: "layout_chips tw tray left_guard right (mv # mvs) = (fst mv, left, right) # others"
      using False by (simp add: others_def chip_width_def left_def Let_def)
    have others: "list_all (chip_fits left_guard (sat_sub32 left 6)) others" "sorted_wrt right_of others"
      "map fst others = take (length others) (map fst mvs)"
      using Cons.IH [of "sat_sub32 left 6"] by (simp_all add: others_def)
    then have "list_all (chip_fits left_guard right) others" "\<forall>c \<in> set others. right_of (fst mv, left, right) c"
      using chip_fits_earlier [OF _ l(1)] by (auto simp: list_all_iff)
    with first others show ?thesis unfolding unfolded by simp
  qed
qed simp

text \<open>
  Whatever the modules say, and however narrow the bar is: the chips are the last modules, they
  lie between the workspaces and the right edge, each at least 24 wide and six apart from the next.
\<close>

lemma chips_are_apart:
  "let chips = bar_module_layout width height text_width tray_count left_guard values
   in list_all (chip_fits left_guard (sat_sub32 width 8)) chips \<and> sorted_wrt right_of chips
      \<and> map fst chips = take (length chips) (rev (map fst values))"
  using layout_chips_ok by (simp add: bar_module_layout_def Let_def rev_map)

definition over_chip :: "f64 \<Rightarrow> str \<times> u32 \<times> u32 \<Rightarrow> bool" where
  "over_chip x c = (case c of (_, l, r) \<Rightarrow> f64_le (f64_of_u32 l) x \<and> f64_le x (f64_of_u32 r))"

lemma over_chip_unique:
  assumes "right_of c c'" "over_chip x c" "over_chip x c'"
  shows False
proof -
  obtain m l r m' l' r' where c: "c = (m, l, r)" "c' = (m', l', r')" by (metis prod_cases3)
  from assms have "f64_le (f64_of_u32 l) x" "f64_le x (f64_of_u32 r')" "unat r' + 6 \<le> unat l"
    by (simp_all add: c over_chip_def right_of_def)
  then show False by (cases x) (simp_all add: f64_of_u32_def flip: of_nat_le_iff [where 'a = rat])
qed

lemma sorted_unique:
  "sorted_wrt right_of cs \<Longrightarrow> c \<in> set cs \<Longrightarrow> c' \<in> set cs \<Longrightarrow> over_chip x c \<Longrightarrow> over_chip x c' \<Longrightarrow> c = c'"
  by (induction cs) (auto dest: over_chip_unique)

lemma workspace_count_nat: "unat (workspace_count b) = unat (ly_workspaces (cf_layout (ba_config b)))"
proof -
  have "unat (ly_workspaces (cf_layout (ba_config b))) < 2 ^ 8"
    using unsigned_less [of "ly_workspaces (cf_layout (ba_config b))", where 'a = nat] by simp
  then show ?thesis by (simp add: workspace_count_def unsigned_ucast_eq take_bit_nat_eq_self)
qed

lemma workspace_count_small: "unat (workspace_count b) \<le> 255"
  using unsigned_less [of "ly_workspaces (cf_layout (ba_config b))", where 'a = nat] by (simp add: workspace_count_nat)

lemma workspace_end: "unat (48 + 26 * workspace_count b) = 48 + 26 * unat (workspace_count b)"
proof -
  have "unat (26 * workspace_count b) = 26 * unat (workspace_count b)"
    using workspace_count_small [of b] by (simp add: unat_word_ariths)
  then show ?thesis using workspace_count_small [of b] unat_plus_small [of 48 "26 * workspace_count b"] by simp
qed

lemma workspace_guard: "unat (64 + 26 * workspace_count b) = 64 + 26 * unat (workspace_count b)"
  using workspace_end [of b] workspace_count_small [of b] unat_plus_small [of 16 "48 + 26 * workspace_count b"] by simp

lemma drawn_is_hit:
  assumes "has_module b ''workspaces''"
  shows "drawn_module_rects env width height b = bar_module_rects env width height b"
proof -
  have "sat_add32 (sat_add32 (48 + 26 * workspace_count b) 8) 8 = 48 + 26 * workspace_count b + 16"
    using workspace_count_small [of b] workspace_end [of b] workspace_guard [of b]
    by (intro word_unat_eq_iff [THEN iffD2]) (simp add: unat_sat_add32)
  with assms show ?thesis by (simp add: drawn_module_rects_def bar_module_rects_def Let_def)
qed

text \<open>
  C34: on a bar with workspaces the pointer is over the chip that is painted there, and over one
  chip only: the two computations of the layout agree.
\<close>

theorem painted_chips_are_clicked:
  assumes "has_module b ''workspaces''"
  shows "bar_module_at env sf x b = Some md \<longleftrightarrow>
    list_ex (\<lambda>c. fst c = md \<and> over_chip x c) (drawn_module_rects env (sf_width sf) (sf_height sf) b)"
proof -
  let ?cs = "bar_module_rects env (sf_width sf) (sf_height sf) b"
  have sorted: "sorted_wrt right_of ?cs"
    using layout_chips_ok by (simp add: bar_module_rects_def bar_module_layout_def)
  have at_chip: "bar_module_at env sf x b = map_option fst (List.find (over_chip x) ?cs)"
    by (simp add: bar_module_at_def over_chip_def [abs_def])
  have "List.find (over_chip x) ?cs = Some c \<longleftrightarrow> c \<in> set ?cs \<and> over_chip x c" for c
    by (rule find_unique) (rule sorted_unique [OF sorted])
  then show ?thesis unfolding at_chip drawn_is_hit [OF assms] by (simp only: map_option_eq_Some list_ex_iff) blast
qed

text \<open>Without workspaces the bar paints from 64 on and resolves clicks from 72 on.\<close>

lemma painted_chip_is_not_clicked:
  assumes "be_text_width env ''POWER'' = 200" "sh_modules (cf_shell (ba_config b)) = [''power'']"
    and "sn_recorder (ba_snapshot b) = recorder_status_default"
  shows "drawn_module_rects env 100 42 b = [(''power'', 64, 92)]" and "bar_module_rects env 100 42 b = []"
  using assms
  by (simp_all add: drawn_module_rects_def bar_module_rects_def bar_module_layout_def bar_right_modules_def has_module_def
      chip_def opt_chip_def recorder_bar_label_def recorder_status_default_def Let_def content_width_def max_content_def
      sat_add32_def sat_sub32_def min_def)

section \<open>Workspaces\<close>

lemma f64_lt_u32_mono: "f64_lt x (f64_of_u32 a) \<Longrightarrow> unat a \<le> unat b \<Longrightarrow> f64_lt x (f64_of_u32 b)"
proof (cases x)
  case (Fin q)
  assume "f64_lt x (f64_of_u32 a)" "unat a \<le> unat b"
  then have "q < of_nat (unat a)" "(of_nat (unat a) :: rat) \<le> of_nat (unat b)"
    by (simp_all only: Fin f64_of_u32_def f64_lt.simps of_nat_le_iff)
  then have "q < of_nat (unat b)" by (rule less_le_trans)
  then show ?thesis by (simp only: Fin f64_of_u32_def f64_lt.simps)
qed (simp_all add: f64_of_u32_def)

lemma no_item_over_workspaces:
  assumes "has_module b ''workspaces''" "f64_lt x (f64_of_u32 (48 + 26 * workspace_count b))"
  shows "tray_item_at env sf x b = None"
proof (cases "List.find (\<lambda>(md, _, _). md = ''tray'') (bar_module_rects env (sf_width sf) (sf_height sf) b)")
  case (Some c)
  obtain m l r where c: "c = (m, l, r)" by (metis prod_cases3)
  have "list_all (chip_fits (48 + 26 * workspace_count b + 16) (sat_sub32 (sf_width sf) 8))
      (bar_module_rects env (sf_width sf) (sf_height sf) b)"
    using layout_chips_ok assms(1) by (simp add: bar_module_rects_def bar_module_layout_def)
  with found_in [OF Some] have "48 + 26 * workspace_count b + 16 \<le> l"
    by (auto simp: list_all_iff chip_fits_def c)
  then have "unat (48 + 26 * workspace_count b) \<le> unat l"
    using workspace_guard [of b] workspace_end [of b] by (simp add: word_le_nat_alt)
  with assms(2) have "f64_lt x (f64_of_u32 l)" by (rule f64_lt_u32_mono)
  with Some show ?thesis by (simp add: tray_item_at_def c)
qed (simp add: tray_item_at_def)

lemma closed_menu [simp]:
  "has_module (close_tray_menu b) = has_module b" "workspace_count (close_tray_menu b) = workspace_count b"
  "ta_effects (close_tray_menu b) = ta_effects b"
  by (simp_all add: close_tray_menu_def has_module_def [abs_def] workspace_count_def)

lemma workspace_under:
  assumes "1 \<le> n" "n \<le> unat (workspace_count b)"
    and "x = Fin q" "of_nat (48 + 26 * (n - 1)) \<le> q" "q < of_nat (48 + 26 * n)"
  shows "unat (workspace_at x) = n" and "f64_le (Fin 48) x"
    and "f64_lt x (f64_of_u32 (48 + 26 * workspace_count b))"
proof -
  have small: "n \<le> 255" using assms(2) workspace_count_small [of b] by simp
  have q: "0 \<le> q" by (rule order_trans [OF _ assms(4)]) simp
  define m where "m = \<lfloor>q\<rfloor>"
  have m: "int (48 + 26 * (n - 1)) \<le> m" "m < int (48 + 26 * n)"
    using assms(4,5) by (simp_all add: m_def le_floor_iff floor_less_iff)
  then have m_range: "0 \<le> m" "m \<le> 4294967295" using small by linarith+
  have "f64_to_u32 x = of_int m"
    using m_range q by (simp add: assms(3) f64_to_u32_def trunc_def clamp_def m_def)
  then have at_x: "unat (f64_to_u32 x) = nat m" using m_range by (simp add: unat_eq_nat_uint uint_word_of_int)
  have "48 \<le> f64_to_u32 x" using m small by (simp add: word_le_nat_alt at_x)
  then have "unat (f64_to_u32 x - 48) = nat m - 48" by (simp add: unat_sub at_x)
  then have "unat ((f64_to_u32 x - 48) div 26) = (nat m - 48) div 26" by (simp add: unat_div)
  moreover have "(nat m - 48) div 26 = n - 1"
  proof -
    have "26 * (n - 1) \<le> nat m - 48" "nat m - 48 < 26 * (n - 1) + 26" using m assms(1) by auto
    then show ?thesis by (simp add: div_nat_eqI)
  qed
  ultimately have "unat ((f64_to_u32 x - 48) div 26 + 1) = n"
    using assms(1) small unat_plus_small [of "(f64_to_u32 x - 48) div 26" 1] by simp
  then show "unat (workspace_at x) = n"
    using small by (simp add: workspace_at_def unsigned_ucast_eq take_bit_nat_eq_self)
  have "(48 :: rat) \<le> of_nat (48 + 26 * (n - 1))" by simp
  with assms(4) show "f64_le (Fin 48) x" by (simp add: assms(3))
  have "(of_nat (48 + 26 * n) :: rat) \<le> of_nat (unat (48 + 26 * workspace_count b))"
    unfolding workspace_end of_nat_le_iff using assms(2) by simp
  with assms(5) show "f64_lt x (f64_of_u32 (48 + 26 * workspace_count b))"
    by (simp only: assms(3) f64_of_u32_def f64_lt.simps)
qed

text \<open>
  C35: the compositor does what a workspace button of the bar shows: a click on button \<open>n\<close> sends a
  command that switches the output of the bar to workspace \<open>n\<close>, when the compositor knows the output
  and has the number of workspaces the bar was configured with.
\<close>

theorem workspace_button_switches:
  assumes "has_module b ''workspaces''" "1 \<le> n" "n \<le> unat (workspace_count b)"
    and "of_nat (48 + 26 * (n - 1)) \<le> q" "q < of_nat (48 + 26 * n)"
    and "sf_output sf = Some out" "be_output_name env out = Some name" "name \<noteq> []"
    and "bt_contains (dk_outputs (ss_desktop s)) name" "\<not> ss_locked s"
    and "ly_workspaces (cf_layout (dk_config (ss_desktop s))) = ly_workspaces (cf_layout (ba_config b))"
  shows "\<exists>cmd. ta_effects (click_bar env sf (Fin q) y 0x110 b) = ta_effects b @ [Wm cmd]
    \<and> desktop_command cenv cmd s = Some (mark_dirty True (Inr (),
        s\<lparr>ss_desktop := show_workspace name (of_nat n) (ss_desktop s),
          ss_transitions := ss_transitions s @ workspace_transitions name (of_nat n) (ss_desktop s)\<rparr>))"
proof -
  note under = workspace_under [OF assms(2,3) refl assms(4,5)]
  let ?cmd = "''workspace '' @ show_nat n @ '' '' @ name"
  have below: "\<not> f64_lt (Fin q) (Fin 40)" using under(2) by simp
  have clicked: "ta_effects (click_bar env sf (Fin q) y 0x110 b) = ta_effects b @ [Wm ?cmd]"
    using assms(1,6,7) below under no_item_over_workspaces [of b, OF _ under(3)]
      no_item_over_workspaces [of "close_tray_menu b", unfolded closed_menu, OF _ under(3)]
    by (simp add: click_bar_def Let_def emit_def surface_output_name_def)
  have n: "n \<le> 255" using assms(3) workspace_count_small [of b] by simp
  have number: "parse_u8 (show_nat n) = Some n" using n by (simp add: parse_u8_def parse_show_uint)
  have blank: "CHR '' '' \<notin> set (show_nat n)" using parsed_number [OF number] by simp
  have parts: "split_once (CHR '' '') ?cmd = Some (''workspace'', show_nat n @ '' '' @ name)"
    "split_once (CHR '' '') (show_nat n @ '' '' @ name) = Some (show_nat n, name)"
    using blank by (simp_all add: split_once_Some)
  have range: "(of_nat n :: u8) \<noteq> 0" "\<not> ly_workspaces (cf_layout (dk_config (ss_desktop s))) < of_nat n"
    using assms(2,3,11) n workspace_count_nat [of b]
    by (auto simp: word_less_nat_alt unsigned_of_nat take_bit_nat_eq_self word_of_nat_eq_0_iff dest: dvd_imp_le)
  have "workspace_command False (show_nat n @ '' '' @ name) s = (Inr (),
      s\<lparr>ss_desktop := show_workspace name (of_nat n) (ss_desktop s),
        ss_transitions := ss_transitions s @ workspace_transitions name (of_nat n) (ss_desktop s)\<rparr>)"
    unfolding workspace_command_def parts using assms(8,9) number range by (simp add: Let_def)
  then have "desktop_command cenv ?cmd s = Some (mark_dirty True (Inr (),
      s\<lparr>ss_desktop := show_workspace name (of_nat n) (ss_desktop s),
        ss_transitions := ss_transitions s @ workspace_transitions name (of_nat n) (ss_desktop s)\<rparr>))"
    unfolding desktop_command_def parts using assms(10) by simp
  with clicked show ?thesis by blast
qed

section \<open>Power\<close>

datatype control_event = ControlsShown control_panel | ControlsClicked f64 f64 nat

fun control_step :: "bar \<Rightarrow> control_event \<Rightarrow> bar" where
  "control_step b (ControlsShown panel) = show_controls panel b"
| "control_step b (ControlsClicked x y button) = click_controls x y button b"

definition control_run :: "bar \<Rightarrow> control_event list \<Rightarrow> bar" where
  "control_run b evs = foldl control_step b evs"

lemma control_run_snoc: "control_run b (evs @ [ev]) = control_step (control_run b evs) ev"
  by (simp add: control_run_def)

definition power_effects :: "bar \<Rightarrow> bar_effect list" where
  "power_effects b = filter (\<lambda>e. e \<in> set [Wm ''quit'', Systemctl ''reboot'', Systemctl ''poweroff'']) (ta_effects b)"

definition requested_action :: "f64 \<Rightarrow> power_action option" where
  "requested_action y =
     (if control_button 56 y then Some LogOut else if control_button 100 y then Some Reboot
      else if control_button 144 y then Some Shutdown else None)"

text \<open>A click of the open power panel that neither confirms nor cancels.\<close>

fun undecided :: "control_event \<Rightarrow> bool" where
  "undecided (ControlsShown panel) \<longleftrightarrow> False"
| "undecided (ControlsClicked x y button) \<longleftrightarrow> button = 0x110 \<and> \<not> control_button 76 y \<and> \<not> control_button 120 y"

lemma power_effects_simps [simp]:
  "power_effects (emit e b) =
     power_effects b @ (if e \<in> set [Wm ''quit'', Systemctl ''reboot'', Systemctl ''poweroff''] then [e] else [])"
  "power_effects (hide_controls b) = power_effects b" "power_effects (show_controls panel b) = power_effects b"
  "power_effects (toggle_muted b) = power_effects b" "power_effects (b\<lparr>ba_pending := p\<rparr>) = power_effects b"
  "power_effects (b\<lparr>ba_centre := c\<rparr>) = power_effects b"
  by (simp_all add: power_effects_def emit_def hide_controls_def show_controls_def toggle_muted_def)

lemma pending_simps [simp]:
  "ba_pending (emit e b) = ba_pending b" "ba_panel (emit e b) = ba_panel b"
  "ba_pending (hide_controls b) = None" "ba_panel (hide_controls b) = None"
  "ba_pending (show_controls panel b) = None" "ba_panel (show_controls panel b) = Some panel"
  "ba_pending (toggle_muted b) = ba_pending b" "ba_panel (toggle_muted b) = ba_panel b"
  by (simp_all add: emit_def hide_controls_def show_controls_def toggle_muted_def)

lemma power_effect_listed [simp]: "power_effect a \<in> set [Wm ''quit'', Systemctl ''reboot'', Systemctl ''poweroff'']"
  by (cases a) (simp_all add: power_effect_def)

lemma other_panels:
  assumes "button = 0x110" "ba_panel b \<noteq> Some PowerPanel"
  shows "ba_pending (click_controls x y button b) = ba_pending b" "ba_panel (click_controls x y button b) = ba_panel b"
    and "power_effects (click_controls x y button b) = power_effects b"
  using assms by (cases "ba_panel b"; cases "the (ba_panel b)"; simp add: click_controls_def split: option.split)+

lemma power_panel:
  assumes "ba_panel b = Some PowerPanel"
  shows "click_controls x y 0x110 b = click_power y b"
  using assms by (simp add: click_controls_def)

lemma click_power_pending:
  assumes "ba_pending b = Some a"
  shows "ba_pending (click_power y b) = (if control_button 76 y \<or> control_button 120 y then None else Some a)"
    and "power_effects (click_power y b) = power_effects b @ (if control_button 76 y then [power_effect a] else [])"
  using assms power_effect_listed [of a] by (simp_all add: click_power_def)

lemma click_power_idle:
  assumes "ba_pending b = None"
  shows "ba_pending (click_power y b) = requested_action y" "power_effects (click_power y b) = power_effects b"
  using assms by (simp_all add: click_power_def requested_action_def)

lemma click_power_panel: "ba_pending (click_power y b) \<noteq> None \<Longrightarrow> ba_panel (click_power y b) = ba_panel b"
  by (auto simp: click_power_def split: option.splits if_splits)

definition was_requested :: "bar \<Rightarrow> control_event list \<Rightarrow> power_action \<Rightarrow> bool" where
  "was_requested b evs a \<longleftrightarrow>
     (\<exists>us x y vs. evs = us @ ControlsClicked x y 0x110 # vs \<and> ba_panel (control_run b us) = Some PowerPanel
        \<and> requested_action y = Some a \<and> list_all undecided vs)"

lemma was_requested_now:
  "ba_panel (control_run b evs) = Some PowerPanel \<Longrightarrow> requested_action y = Some a \<Longrightarrow>
     was_requested b (evs @ [ControlsClicked x y 0x110]) a"
  unfolding was_requested_def
  by (rule exI [of _ evs], rule exI [of _ x], rule exI [of _ y], rule exI [of _ "[]"]) simp

lemma was_requested_later: "was_requested b evs a \<Longrightarrow> undecided ev \<Longrightarrow> was_requested b (evs @ [ev]) a"
  unfolding was_requested_def
  by (elim exE conjE, rule_tac x = us in exI, rule_tac x = x in exI, rule_tac x = y in exI, rule_tac x = "vs @ [ev]" in exI)
    simp

lemma pending_was_requested:
  assumes "ba_pending b = None"
  shows "ba_pending (control_run b evs) = Some a \<Longrightarrow>
    ba_panel (control_run b evs) = Some PowerPanel \<and> was_requested b evs a"
proof (induction evs rule: rev_induct)
  case Nil
  with assms show ?case by (simp add: control_run_def)
next
  case (snoc ev evs)
  let ?b = "control_run b evs"
  show ?case
  proof (cases ev)
    case (ControlsShown panel)
    with snoc.prems show ?thesis by (simp add: control_run_snoc)
  next
    case (ControlsClicked x y button)
    with snoc.prems have left: "button = 0x110" by (auto simp: control_run_snoc click_controls_def split: if_splits)
    show ?thesis
    proof (cases "ba_panel ?b = Some PowerPanel")
      case False
      with snoc left ControlsClicked show ?thesis by (simp add: control_run_snoc other_panels)
    next
      case True
      then have step: "control_run b (evs @ [ev]) = click_power y ?b"
        using ControlsClicked left by (simp add: control_run_snoc power_panel)
      then have panel: "ba_panel (control_run b (evs @ [ev])) = Some PowerPanel"
        using True click_power_panel [of y ?b] snoc.prems by simp
      have "was_requested b (evs @ [ev]) a"
      proof (cases "ba_pending ?b")
        case None
        then have "requested_action y = Some a" using snoc.prems step by (simp add: click_power_idle)
        then show ?thesis using True ControlsClicked left by (simp add: was_requested_now)
      next
        case (Some a')
        then have "a' = a" "undecided ev"
          using snoc.prems step ControlsClicked left by (auto simp: click_power_pending split: if_splits)
        with snoc.IH Some show ?thesis by (simp add: was_requested_later)
      qed
      with panel show ?thesis by simp
    qed
  qed
qed

text \<open>
  C36: no click of a control panel logs out, reboots or shuts down by itself: whenever one does, an
  earlier click of the power panel has requested exactly that, and nothing in between has
  confirmed, cancelled, closed or reopened it.
\<close>

theorem power_needs_confirmation:
  assumes "ba_pending b = None" "power_effects (control_run b (evs @ [ev])) \<noteq> power_effects (control_run b evs)"
  shows "\<exists>a x y. ev = ControlsClicked x y 0x110 \<and> control_button 76 y \<and> was_requested b evs a
    \<and> power_effects (control_run b (evs @ [ev])) = power_effects (control_run b evs) @ [power_effect a]"
proof -
  let ?b = "control_run b evs"
  show ?thesis
  proof (cases ev)
    case (ControlsShown panel)
    with assms(2) show ?thesis by (simp add: control_run_snoc)
  next
    case (ControlsClicked x y button)
    have left: "button = 0x110"
    proof (rule ccontr)
      assume "button \<noteq> 0x110"
      then have "click_controls x y button ?b = hide_controls ?b" by (simp add: click_controls_def)
      with assms(2) ControlsClicked show False by (simp add: control_run_snoc)
    qed
    have panel: "ba_panel ?b = Some PowerPanel"
      using assms(2) ControlsClicked other_panels(3) [OF left] by (auto simp: control_run_snoc)
    then have step: "control_run b (evs @ [ev]) = click_power y ?b"
      using ControlsClicked left by (simp add: control_run_snoc power_panel)
    show ?thesis
    proof (cases "ba_pending ?b")
      case None
      with assms(2) step show ?thesis by (simp add: click_power_idle)
    next
      case (Some a)
      then have "power_effects (control_run b (evs @ [ev])) = power_effects ?b @ [power_effect a]" "control_button 76 y"
        using assms(2) step by (auto simp: click_power_pending split: if_splits)
      moreover have "was_requested b evs a" using pending_was_requested [OF assms(1) Some] by simp
      ultimately show ?thesis using ControlsClicked left by blast
    qed
  qed
qed

text \<open>
  The button that confirms lies over the buttons that request: a double click on the lower part of
  the first one, or on the upper part of the second, is a request and its confirmation.
\<close>

lemma double_click_logs_out:
  "power_effects (control_run b [ControlsShown PowerPanel, ControlsClicked x (Fin 80) 0x110, ControlsClicked x (Fin 80) 0x110])
     = power_effects b @ [Wm ''quit'']"
  "power_effects (control_run b [ControlsShown PowerPanel, ControlsClicked x (Fin 105) 0x110, ControlsClicked x (Fin 105) 0x110])
     = power_effects b @ [Systemctl ''reboot'']"
  by (simp_all add: control_run_def click_controls_def click_power_def control_button_def f64_between_def f64_of_u32_def
      power_effect_def)

section \<open>The wheel and the label of the recorder\<close>

text \<open>\<open>f64::signum\<close> of zero is one: a wheel that did not turn is a step, so scrolling sideways lowers the volume.\<close>

lemma sideways_wheel_lowers_volume:
  assumes "bar_module_at env sf x b = Some ''audio''" "tray_item_at env sf x b = None"
  shows "ta_effects (wheel env False sf x (1, 0, Fin 0) (0, 0, Fin 0) b) =
    ta_effects b @ [Pactl [''set-sink-volume'', ''@DEFAULT_SINK@'', ''-5%'']]"
proof -
  have "recorder_bar_label (emit e b) = recorder_bar_label b" for e
    by (simp add: recorder_bar_label_def emit_def split: recorder_state.split)
  then have "bar_right_modules (emit e b) = bar_right_modules b" for e
    by (simp add: bar_right_modules_def has_module_def [abs_def]) (simp add: emit_def)
  moreover have "has_module (emit e b) = has_module b" "visible_icons (emit e b) = visible_icons b"
    "workspace_count (emit e b) = workspace_count b" for e
    by (simp_all add: has_module_def [abs_def] visible_icons_def workspace_count_def emit_def)
  ultimately have same: "tray_item_at env sf x (emit e b) = tray_item_at env sf x b" for e
    unfolding tray_item_at_def bar_module_rects_def by presburger
  show ?thesis using assms same by (simp add: wheel_def scroll_steps_def scroll_bar_def Let_def) (simp add: emit_def)
qed

text \<open>The bar is not painted anew when only the recorder changes.\<close>

lemma find_by_name:
  "distinct (map oi_name os) \<Longrightarrow> old \<in> set os \<Longrightarrow> List.find (\<lambda>new. oi_name new = oi_name old) os = Some old"
  by (induction os) auto

lemma recorder_label_stays:
  "distinct (map oi_name (sn_outputs sn)) \<Longrightarrow> \<not> bar_snapshot_changed sn (sn\<lparr>sn_recorder := r\<rparr>)"
  by (auto simp: bar_snapshot_changed_def focused_bar_identity_def focused_window_def list_ex_iff find_by_name)

text \<open>Blanks are not counted.\<close>

lemma blanks_not_counted: "bar_label_text ''a b c'' 3 = ''a b c''"
  by (simp add: bar_label_text_def continuation_byte_def is_control_def is_ws_def)

section \<open>A concrete bar\<close>

definition sample_bar :: bar where
  "sample_bar =
     \<lparr>ta_menu = None, ta_effects = [], ba_config = config_default, ba_snapshot = snapshot_default, ba_battery = None,
      ba_clock = ''Mon 10:00'', ba_audio = ''VOL 40%'', ba_network = ''NET'', ba_networking = True, ba_wireless = False,
      ba_media = ''MEDIA'', ba_bluetooth = ''BT'', ba_powered = None, ba_tray = [], ba_centre = centre_new False,
      ba_panel = None, ba_pending = None\<rparr>"

definition sample_bar_env :: bar_env where
  "sample_bar_env = \<lparr>be_text_width = (\<lambda>s. of_nat (8 * length s)), be_output_name = (\<lambda>_. Some ''DP-1'')\<rparr>"

lemma sample_workspaces: "has_module sample_bar ''workspaces''"
  by (simp add: has_module_def sample_bar_def config_default_def shell_default_def)

theorem painted_chips_are_clicked_witness:
  "bar_module_at sample_bar_env \<lparr>sf_output = Some 0, sf_width = 1920, sf_height = 42\<rparr> (Fin 1900) sample_bar = Some ''power''
   \<longleftrightarrow> list_ex (\<lambda>c. fst c = ''power'' \<and> over_chip (Fin 1900) c) (drawn_module_rects sample_bar_env 1920 42 sample_bar)"
  using painted_chips_are_clicked [OF sample_workspaces, where env = sample_bar_env and md = "''power''" and x = "Fin 1900"
      and sf = "\<lparr>sf_output = Some 0, sf_width = 1920, sf_height = 42\<rparr>"] by simp

theorem power_needs_confirmation_witness:
  "\<exists>a x y. ControlsClicked (Fin 50) (Fin 90) 0x110 = ControlsClicked x y 0x110 \<and> control_button 76 y
    \<and> was_requested sample_bar [ControlsShown PowerPanel, ControlsClicked (Fin 50) (Fin 150) 0x110] a
    \<and> power_effects (control_run sample_bar
        ([ControlsShown PowerPanel, ControlsClicked (Fin 50) (Fin 150) 0x110] @ [ControlsClicked (Fin 50) (Fin 90) 0x110]))
      = power_effects (control_run sample_bar [ControlsShown PowerPanel, ControlsClicked (Fin 50) (Fin 150) 0x110])
        @ [power_effect a]"
  by (rule power_needs_confirmation)
    (simp_all add: sample_bar_def control_run_def click_controls_def click_power_def control_button_def f64_between_def
      f64_of_u32_def power_effect_def power_effects_def emit_def hide_controls_def show_controls_def)

theorem workspace_button_switches_witness:
  "\<exists>cmd. ta_effects (click_bar (sample_bar_env\<lparr>be_output_name := (\<lambda>_. Some ''A'')\<rparr>)
        \<lparr>sf_output = Some 0, sf_width = 1920, sf_height = 42\<rparr> (Fin 80) (Fin 20) 0x110 sample_bar)
      = ta_effects sample_bar @ [Wm cmd]
    \<and> desktop_command sample_command cmd sample_session = Some (mark_dirty True (Inr (),
        sample_session\<lparr>ss_desktop := show_workspace ''A'' (of_nat 2) (ss_desktop sample_session),
          ss_transitions := ss_transitions sample_session @ workspace_transitions ''A'' (of_nat 2) (ss_desktop sample_session)\<rparr>))"
proof -
  have layout: "cf_layout config_default = layout_default" by (simp add: config_default_def)
  have count: "workspace_count sample_bar = 9"
    by (simp add: workspace_count_def sample_bar_def layout layout_default_def)
  have session: "dk_config (ss_desktop sample_session) = config_default" "\<not> ss_locked sample_session"
    "dk_outputs (ss_desktop sample_session) = [(''A'', 1), (''B'', 2)]" "ba_config sample_bar = config_default"
    by (simp_all add: sample_session_def desktop_default_def sample_bar_def)
  show ?thesis
    by (rule workspace_button_switches [OF sample_workspaces, where out = 0])
      (simp_all only: count session, simp_all add: sample_bar_env_def bt_contains_def bt_get_def)
qed

end
