(* ===== verification/Wallpaper.thy ===== *)
theory Wallpaper
  imports ShellText
begin

text \<open>
  The video wallpaper of the shell, \<open>crates/shell-sctk/src/main.rs\<close>: players are threads that stop when
  the shared generation is no longer the one they were started with; they are paused behind fullscreen
  windows and on battery. A thread is its generation, file and frame rate; whether the file can be
  played is not modelled. The generation, a \<open>u64\<close>, is taken not to wrap around.
\<close>

section \<open>The player\<close>

record video =
  vi_wallpaper :: wallpaper
  vi_snapshot :: snapshot
  vi_on_battery :: bool
  vi_generation :: nat
  vi_suspended :: bool
  vi_players :: "(nat \<times> str \<times> u32) list"

definition spawn_video_wallpaper :: "nat \<Rightarrow> video \<Rightarrow> video" where
  "spawn_video_wallpaper expected v =
     (if wp_path (vi_wallpaper v) = [] then v
      else v\<lparr>vi_players := vi_players v @ [(expected, wp_path (vi_wallpaper v), clamp 1 60 (wp_fps (vi_wallpaper v)))]\<rparr>)"

text \<open>The threads that still play.\<close>

definition live_players :: "video \<Rightarrow> (nat \<times> str \<times> u32) list" where
  "live_players v = filter (\<lambda>(g, _). g = vi_generation v) (vi_players v)"

definition video_wallpaper_is_suspended :: "snapshot \<Rightarrow> bool \<Rightarrow> bool \<Rightarrow> bool" where
  "video_wallpaper_is_suspended sn pause_on_battery on_battery \<longleftrightarrow>
     list_ex wi_fullscreen (sn_windows sn) \<or> pause_on_battery \<and> on_battery"

definition should_pause :: "video \<Rightarrow> bool" where
  "should_pause v = video_wallpaper_is_suspended (vi_snapshot v) (wp_pause_on_battery (vi_wallpaper v)) (vi_on_battery v)"

definition update_video_wallpaper_playback :: "video \<Rightarrow> video" where
  "update_video_wallpaper_playback v =
     (if wp_kind (vi_wallpaper v) \<noteq> ''video'' \<or> vi_suspended v = should_pause v then v
      else (let v' = v\<lparr>vi_suspended := should_pause v, vi_generation := vi_generation v + 1\<rparr>
            in if \<not> should_pause v then spawn_video_wallpaper (vi_generation v') v' else v'))"

section \<open>Events\<close>

definition video_new :: "wallpaper \<Rightarrow> bool \<Rightarrow> video" where
  "video_new w on_battery =
     (let v = \<lparr>vi_wallpaper = w, vi_snapshot = snapshot_default, vi_on_battery = on_battery, vi_generation = 0,
               vi_suspended = False, vi_players = []\<rparr>
      in if wp_kind w = ''video'' then spawn_video_wallpaper 0 v else v)"

definition apply_wallpaper :: "wallpaper \<Rightarrow> video \<Rightarrow> video" where
  "apply_wallpaper w v0 =
     (let changed = (wp_path (vi_wallpaper v0) \<noteq> wp_path w \<or> wp_kind (vi_wallpaper v0) \<noteq> wp_kind w
                     \<or> wp_outputs (vi_wallpaper v0) \<noteq> wp_outputs w);
          v = update_video_wallpaper_playback (v0\<lparr>vi_wallpaper := w\<rparr>)
      in if \<not> changed then v
         else (let v' = v\<lparr>vi_generation := vi_generation v + 1\<rparr>
               in if wp_kind w = ''video'' \<and> \<not> vi_suspended v' then spawn_video_wallpaper (vi_generation v') v' else v'))"

definition wallpaper_snapshot :: "snapshot \<Rightarrow> video \<Rightarrow> video" where
  "wallpaper_snapshot sn v =
     (if vi_snapshot v = sn then v else update_video_wallpaper_playback (v\<lparr>vi_snapshot := sn\<rparr>))"

definition battery_read :: "bool \<Rightarrow> video \<Rightarrow> video" where
  "battery_read on_battery v =
     (if vi_on_battery v = on_battery then v else update_video_wallpaper_playback (v\<lparr>vi_on_battery := on_battery\<rparr>))"

datatype video_event = ConfigRead wallpaper | SnapshotRead snapshot | BatteryRead bool

fun video_step :: "video \<Rightarrow> video_event \<Rightarrow> video" where
  "video_step v (ConfigRead w) = apply_wallpaper w v"
| "video_step v (SnapshotRead sn) = wallpaper_snapshot sn v"
| "video_step v (BatteryRead on_battery) = battery_read on_battery v"

definition video_run :: "wallpaper \<Rightarrow> bool \<Rightarrow> video_event list \<Rightarrow> video" where
  "video_run w on_battery evs = foldl video_step (video_new w on_battery) evs"

section \<open>One player, or none\<close>

definition plays :: "video \<Rightarrow> bool" where
  "plays v \<longleftrightarrow> wp_kind (vi_wallpaper v) = ''video'' \<and> wp_path (vi_wallpaper v) \<noteq> [] \<and> \<not> vi_suspended v"

definition video_ok :: "video \<Rightarrow> bool" where
  "video_ok v \<longleftrightarrow>
     list_all (\<lambda>(g, _). g \<le> vi_generation v) (vi_players v)
     \<and> map (\<lambda>(_, path, _). path) (live_players v) = (if plays v then [wp_path (vi_wallpaper v)] else [])
     \<and> (if wp_kind (vi_wallpaper v) = ''video'' then vi_suspended v = should_pause v else True)"

lemma older_players:
  "list_all (\<lambda>(g, _). g \<le> n) ps \<Longrightarrow> filter (\<lambda>(g, _). g = Suc n) ps = []"
  by (induction ps) auto

lemma bound_later: "list_all (\<lambda>(g, _). g \<le> n) ps \<Longrightarrow> list_all (\<lambda>(g, _). g \<le> Suc n) ps"
  by (induction ps) auto

text \<open>Starting over: the generation is raised, and a player is started where one is wanted.\<close>

definition restart :: "video \<Rightarrow> video" where
  "restart v =
     (let v' = v\<lparr>vi_generation := vi_generation v + 1\<rparr>
      in if wp_kind (vi_wallpaper v) = ''video'' \<and> \<not> vi_suspended v then spawn_video_wallpaper (vi_generation v') v' else v')"

lemma restart_ok:
  assumes "list_all (\<lambda>(g, _). g \<le> vi_generation v) (vi_players v)"
    and "wp_kind (vi_wallpaper v) = ''video'' \<Longrightarrow> vi_suspended v = should_pause v"
  shows "video_ok (restart v)"
proof -
  note older = older_players [OF assms(1)] bound_later [OF assms(1)]
  have same: "should_pause (restart v) = should_pause v" "vi_wallpaper (restart v) = vi_wallpaper v"
    "vi_suspended (restart v) = vi_suspended v"
    by (simp_all add: restart_def spawn_video_wallpaper_def should_pause_def Let_def)
  have "map (\<lambda>(_, path, _). path) (live_players (restart v)) = (if plays v then [wp_path (vi_wallpaper v)] else [])"
    using older by (simp add: restart_def spawn_video_wallpaper_def live_players_def plays_def Let_def)
  moreover have "list_all (\<lambda>(g, _). g \<le> vi_generation (restart v)) (vi_players (restart v))"
    using older by (simp add: restart_def spawn_video_wallpaper_def Let_def)
  ultimately show ?thesis using assms(2) same by (simp add: video_ok_def plays_def)
qed

lemma update_restarts:
  "update_video_wallpaper_playback v =
     (if wp_kind (vi_wallpaper v) \<noteq> ''video'' \<or> vi_suspended v = should_pause v then v
      else restart (v\<lparr>vi_suspended := should_pause v\<rparr>))"
  by (simp add: update_video_wallpaper_playback_def restart_def Let_def)

lemma update_ok:
  assumes "list_all (\<lambda>(g, _). g \<le> vi_generation v) (vi_players v)"
    and "map (\<lambda>(_, path, _). path) (live_players v) = (if plays v then [wp_path (vi_wallpaper v)] else [])"
  shows "video_ok (update_video_wallpaper_playback v)"
proof (cases "wp_kind (vi_wallpaper v) \<noteq> ''video'' \<or> vi_suspended v = should_pause v")
  case True
  with assms show ?thesis by (auto simp: update_restarts video_ok_def)
next
  case False
  have "video_ok (restart (v\<lparr>vi_suspended := should_pause v\<rparr>))"
    using assms(1) by (intro restart_ok) (simp_all add: should_pause_def)
  with False show ?thesis by (simp add: update_restarts)
qed

lemma update_wallpaper [simp]: "vi_wallpaper (update_video_wallpaper_playback v) = vi_wallpaper v"
  by (simp add: update_video_wallpaper_playback_def spawn_video_wallpaper_def Let_def)

lemma update_bound:
  assumes "list_all (\<lambda>(g, _). g \<le> vi_generation v) (vi_players v)"
  shows "list_all (\<lambda>(g, _). g \<le> vi_generation (update_video_wallpaper_playback v))
      (vi_players (update_video_wallpaper_playback v))"
    and "wp_kind (vi_wallpaper v) = ''video'' \<Longrightarrow>
      vi_suspended (update_video_wallpaper_playback v) = should_pause (update_video_wallpaper_playback v)"
  using assms bound_later [OF assms]
  by (auto simp: update_video_wallpaper_playback_def spawn_video_wallpaper_def should_pause_def Let_def)

lemma apply_restarts:
  "apply_wallpaper w v =
     (let changed = (wp_path (vi_wallpaper v) \<noteq> wp_path w \<or> wp_kind (vi_wallpaper v) \<noteq> wp_kind w
                     \<or> wp_outputs (vi_wallpaper v) \<noteq> wp_outputs w);
          v' = update_video_wallpaper_playback (v\<lparr>vi_wallpaper := w\<rparr>)
      in if changed then restart v' else v')"
  by (simp add: apply_wallpaper_def restart_def Let_def)

lemma video_step_ok:
  assumes "video_ok v"
  shows "video_ok (video_step v ev)"
proof (cases ev)
  case (ConfigRead w)
  let ?v = "v\<lparr>vi_wallpaper := w\<rparr>"
  have bound: "list_all (\<lambda>(g, _). g \<le> vi_generation ?v) (vi_players ?v)" using assms by (simp add: video_ok_def)
  have "video_ok (restart (update_video_wallpaper_playback ?v))"
    using update_bound [OF bound] by (intro restart_ok) simp_all
  moreover have "video_ok (update_video_wallpaper_playback ?v)"
    if "wp_path (vi_wallpaper v) = wp_path w" "wp_kind (vi_wallpaper v) = wp_kind w"
    using assms that by (intro update_ok [OF bound]) (auto simp: video_ok_def live_players_def plays_def split: if_splits)
  ultimately show ?thesis using ConfigRead by (auto simp: apply_restarts Let_def)
next
  case (SnapshotRead sn)
  have "video_ok (update_video_wallpaper_playback (v\<lparr>vi_snapshot := sn\<rparr>))"
    using assms by (intro update_ok) (auto simp: video_ok_def live_players_def plays_def split: if_splits)
  with SnapshotRead assms show ?thesis by (simp add: wallpaper_snapshot_def)
next
  case (BatteryRead on_battery)
  have "video_ok (update_video_wallpaper_playback (v\<lparr>vi_on_battery := on_battery\<rparr>))"
    using assms by (intro update_ok) (auto simp: video_ok_def live_players_def plays_def split: if_splits)
  with BatteryRead assms show ?thesis by (simp add: battery_read_def)
qed

interpretation video_life: invariant_machine video_step video_ok
  by unfold_locales (rule video_step_ok)


text \<open>A new frame rate alone is not applied: the player keeps the one it was started with.\<close>

lemma new_frame_rate_ignored:
  "vi_suspended v = should_pause v \<Longrightarrow>
     live_players (apply_wallpaper ((vi_wallpaper v)\<lparr>wp_fps := fps\<rparr>) v) = live_players v"
  by (simp add: apply_wallpaper_def update_video_wallpaper_playback_def should_pause_def live_players_def)

section \<open>A concrete wallpaper\<close>


end
