(* ===== verification/Spec2Isabelle.thy ===== *)
theory Spec2Isabelle
  imports CoreLayout CoreConfig Muxer RecController Engine Timeline Release Lock Desktop MaintainPass
    Session Transitions Ipc PanelProofs Notifications LauncherProofs BarProofs Wallpaper
begin

text \<open>
  Verification development for Luma, a tiling Wayland desktop written in Rust (\<open>src/crates/\<close>).

  \<^bold>\<open>The program.\<close> One compositor process (\<open>compositor\<close>, on the Smithay library) keeps the windows, the
  workspaces, the session lock and the recording. Its policy (\<open>policy.rs\<close>) executes text commands, which
  arrive from key bindings and, over a Unix socket (\<open>ipc.rs\<close>), from \<open>wmctl\<close> (\<open>control\<close>) and the shell
  (\<open>shell-sctk\<close>); after every command it runs one maintenance pass and publishes a snapshot of the session
  to its subscribers. A recording is a child process that the compositor starts, polls and stops
  (\<open>recorder.rs\<close>): either the capture engine (\<open>recorder\<close>), which copies capture buffers into an encoder at
  a constant frame rate, or a game with injected hooks, which speaks the protocol of
  \<open>game-capture-protocol\<close> to the muxer (\<open>game-capture-muxer\<close>). \<open>core\<close> has the data all of them share:
  configuration, recorder settings, layout, snapshots.

  \<^bold>\<open>Foundations.\<close>
  \<^item> \<open>Prelude\<close>: results (\<open>Inl\<close> is the error, as in \<open>Result::Err\<close>), saturating and wrapping integers, lists;
    the locale \<open>invariant_machine\<close>, which lifts an invariant of one step to every run, interpreted for the
    settings, the recorder controller, the notification centre, the launcher and the video wallpaper.
  \<^item> \<open>RustStr\<close>: the standard library's string operations; a string is the list of its UTF-8 bytes.
  \<^item> \<open>F64\<close>: \<open>f64\<close> values as rationals rounded to nearest even, infinities and NaN; the two zeros are one value.
  \<^item> \<open>BTreeMap\<close>: ordered maps as sorted association lists; the locales \<open>ordered_map\<close> and \<open>retaining_map\<close> are
    what clients of a \<open>BTreeMap\<close> rely on, interpreted on that implementation.

  \<^bold>\<open>Components and theories.\<close>
  \<^item> \<open>core/src/lib.rs\<close>. \<open>CoreRecorder\<close>: \<open>Recorder\<close>, \<open>assign\<close>, \<open>validate_recorder\<close>, \<open>apply\<close>, the settings file
    with its write-and-rename steps; every edit keeps the settings valid. \<open>CoreLayout\<close>: \<open>tile\<close>,
    \<open>floating_rect\<close>, \<open>select_output_mode\<close>; tiles partition the usable area exactly. \<open>CoreConfig\<close>:
    \<open>Config\<close>, \<open>validate\<close>, \<open>load\<close>; what is loaded is valid, what is written is what is loaded.
  \<^item> \<open>game-capture-protocol\<close>. \<open>Protocol\<close>: messages, frames, channels, the token handshake, with the locales
    \<open>fixed_codec\<close> (big-endian fields) and \<open>framed_receiver\<close> (any sequence-numbered receiver); round
    trips, and that nothing is delivered that was not sent.
  \<^item> \<open>game-capture-muxer\<close>. \<open>Muxer\<close>: options, the identification of the peer, the writer thread, the
    session; who is accepted, what a successful session has written, that a failed one leaves no file.
  \<^item> \<open>compositor/src/recorder.rs\<close>. \<open>RecController\<close>: every operation of \<open>RecorderController\<close>. What an operation
    does to processes is its list of effects; no engine is lost or touched after its release.
  \<^item> \<open>recorder\<close>. \<open>Engine\<close>: options, protocol events, timeline, worker, a turn of the recording loop.
    \<open>Timeline\<close>: buffers never overlap, frames are accounted, a slot that is captured into is free.
    \<open>Release\<close>: the atomics of \<open>BufferRelease\<close> as interleaved steps, on a sequentially consistent
    machine and on one with store buffers; a slot is returned at most once, every run ends, and where
    the two machines differ.
  \<^item> \<open>compositor/src/lock.rs\<close>. \<open>Lock\<close>: lock, unlock, surfaces, presentation, input isolation.
  \<^item> \<open>compositor/src/policy.rs\<close>. \<open>Desktop\<close>: state, queries, supervision of services. \<open>Maintain\<close>: the
    maintenance pass phase by phase; \<open>MaintainProofs\<close>, \<open>MaintainPass\<close>: what holds after it. \<open>Commands\<close>: every
    arm of \<open>desktop_command\<close>; \<open>CommandProofs\<close>, \<open>Session\<close>: what holds however commands, passes, clients
    and hot-plugged outputs interleave, and what single commands do.
  \<^item> \<open>compositor/src/transitions.rs\<close>. \<open>Transitions\<close>: closing images, the eviction loop equals the least
    number of evictions, and the bounds on what is kept.
  \<^item> \<open>compositor/src/ipc.rs\<close>, \<open>control\<close>. \<open>Ipc\<close>: the published snapshot, the socket and its clients; the
    compositor and the subscribers as interleaved steps, in which no subscriber stays stale.
  \<^item> \<open>shell-sctk\<close>. \<open>ShellText\<close>: characters, saturating arithmetic, rectangles. \<open>RecorderPanel\<close>, \<open>PanelProofs\<close>:
    the recorder panel and the command it sends, composed with the compositor that executes it.
    \<open>Notifications\<close>: the D-Bus server, its queue, the list, the popup, timers and clicks. \<open>Launcher\<close>,
    \<open>LauncherProofs\<close>: desktop entries, search, geometry, keys and clicks, composed with \<open>desktop_command\<close>.
    \<open>Tray\<close>, \<open>TrayProofs\<close>: the watcher and the threads that follow items as interleaved steps, pictures,
    menus; what the bar shows once it has settled, and which menu entries can be activated. \<open>Bar\<close>,
    \<open>BarProofs\<close>: what the bar says, the layout of its chips, its clicks and panels, composed with
    \<open>desktop_command\<close>. \<open>Wallpaper\<close>: the player of a video wallpaper.

  \<^bold>\<open>How code corresponds to definitions.\<close> A definition has the name of the function or type it
  translates, or of a part of it when a function is long (the arms of \<open>desktop_command\<close>, the phases of
  \<open>maintain_desktop\<close>). State is an explicit record, returned changed; a field is prefixed with letters of
  its record. What the source gets from outside (the file system, processes, clocks, Wayland clients,
  fonts, parsers of other crates) is an argument, often a record whose fields are functions. Effects
  that leave the process are lists in the order in which they happen.

  \<^bold>\<open>Bounds and termination.\<close> No definition uses fuel. Loops of the source are structural recursion on
  what they consume, or functions with a measure (the bytes, rows or attempts left); loops that wait
  for the outside are one definition per turn, and the properties quantify over the sequence of turns.
  Machine integers are words where the source uses their bits or may wrap; \<open>u64\<close> values of the timeline
  are natural numbers with the saturation written out; \<open>i32\<close> geometry is \<open>int\<close> with \<open>wrap32\<close>. Where
  the source would panic in a debug build on overflow, the model has the value of a release build.

  \<^bold>\<open>What the properties rest on.\<close> \<open>Space\<close> of Smithay: mapping an element moves it to the top of its z-order,
  unmapping removes it, as its documentation says. \<open>serde_json\<close>: parsing a value it printed gives the
  value back (a named hypothesis where it is used). The hypotheses of a property are discharged on a concrete input by
  its witness.

  \<^bold>\<open>Not modelled.\<close>
  \<^item> \<open>compositor/src/udev.rs\<close>, \<open>winit.rs\<close>, \<open>x11.rs\<close>, \<open>main.rs\<close>: devices, DRM/KMS and event loops; they call
    Smithay, GBM and libinput and decide little by themselves.
  \<^item> \<open>compositor/src/state.rs\<close> except the capture boost, \<open>shell/\<close>, \<open>input_handler.rs\<close>, \<open>libei.rs\<close>,
    \<open>capture.rs\<close>, \<open>screencopy.rs\<close>: handlers of Smithay's protocol traits.
  \<^item> \<open>render.rs\<close>, \<open>drawing.rs\<close>, \<open>effects.rs\<close>, \<open>cursor.rs\<close>, and the drawing of \<open>shell-sctk\<close>: pixels and shaders.
  \<^item> \<open>shell\<close>: GTK widgets and D-Bus proxies. \<open>src/native\<close>, \<open>tools\<close>, \<open>packaging\<close>: not Rust.
  \<^item> In modelled crates: the text of the GStreamer pipeline and the GBM allocation of \<open>recorder\<close>; the
    installation of event sources and the pointer's refocus in \<open>policy.rs\<close>; fonts, still wallpapers and
    the life of layer surfaces in \<open>shell-sctk\<close>.
\<close>

end
